(* ===== verification/Prelude.thy ===== *)
theory Prelude
  imports Main "HOL-Library.Word" "HOL-Library.Sublist"
begin

text \<open>
  Shared vocabulary of the development: the type synonyms that name the identifiers and
  machine integers of the Rust sources, results with an error side, saturating arithmetic,
  the string operations of the standard library the sources use, JSON values as
  \<^verbatim>\<open>serde_json::Value\<close> presents them, and generic lemmas on lists, maps and options.

  A Rust \<^verbatim>\<open>String\<close> is a list of UTF-8 bytes, so \<^const>\<open>length\<close> is
  \<^verbatim>\<open>str::len\<close> and \<open>char_count\<close> below is \<^verbatim>\<open>chars().count()\<close>.
  Identifiers are UUIDs, which the sources only generate, compare and print: a natural
  number stands for one. An operation that draws a fresh identifier or reads the clock takes
  the drawn value as an argument.
\<close>

named_theorems lane_simps \<open>unfoldings of the runtime lane operations\<close>
named_theorems step_simps \<open>unfoldings of the step machine operations\<close>
named_theorems sat_simps \<open>values of saturating operations under unat\<close>

section \<open>Identifiers, words, results\<close>

type_synonym uuid = nat
type_synonym u8 = "8 word"
type_synonym u32 = "32 word"
type_synonym u64 = "64 word"
type_synonym timestamp = int
type_synonym ('a, 'e) result = "'e + 'a"

primrec is_ok :: "('a, 'e) result \<Rightarrow> bool" where
  "is_ok (Inl e) = False"
| "is_ok (Inr a) = True"

lemma is_ok_iff: "is_ok r \<longleftrightarrow> (\<exists>a. r = Inr a)"
  by (cases r) simp_all

lemma not_is_ok_iff: "\<not> is_ok r \<longleftrightarrow> (\<exists>e. r = Inl e)"
  by (cases r) simp_all

text \<open>
  \<open>and_then r f\<close> is the early return of Rust's \<^verbatim>\<open>?\<close>: the error of \<open>r\<close> where there is
  one, else \<open>f\<close> of its value.
\<close>

primrec and_then :: "('a, 'e) result \<Rightarrow> ('a \<Rightarrow> ('b, 'e) result) \<Rightarrow> ('b, 'e) result" where
  "and_then (Inl e) f = Inl e"
| "and_then (Inr a) f = f a"

lemma and_then_Inr_iff [simp]:
  "and_then r f = Inr b \<longleftrightarrow> (\<exists>a. r = Inr a \<and> f a = Inr b)"
  by (cases r) simp_all

lemma and_then_Inl_iff:
  "and_then r f = Inl e \<longleftrightarrow> r = Inl e \<or> (\<exists>a. r = Inr a \<and> f a = Inl e)"
  by (cases r) simp_all

lemma and_then_cong [fundef_cong]:
  "r = r' \<Longrightarrow> (\<And>a. r' = Inr a \<Longrightarrow> f a = g a) \<Longrightarrow> and_then r f = and_then r' g"
  by (cases r') simp_all

section \<open>Saturating arithmetic\<close>

definition sat_add :: "'a::len word \<Rightarrow> 'a word \<Rightarrow> 'a word" where
  "sat_add a b = (if unat a + unat b < 2 ^ LENGTH('a) then a + b else - 1)"

definition sat_sub :: "'a::len word \<Rightarrow> 'a word \<Rightarrow> 'a word" where
  "sat_sub a b = (if b \<le> a then a - b else 0)"

definition sat_mul :: "'a::len word \<Rightarrow> 'a word \<Rightarrow> 'a word" where
  "sat_mul a b = (if unat a * unat b < 2 ^ LENGTH('a) then a * b else - 1)"

lemma unat_max_word: "unat (- 1 :: 'a::len word) = 2 ^ LENGTH('a) - 1"
  by (simp add: unsigned_minus_1_eq_mask mask_eq_exp_minus_1)

lemma unat_sat_add [sat_simps]:
  "unat (sat_add a b :: 'a::len word) = min (unat a + unat b) (2 ^ LENGTH('a) - 1)"
  by (auto simp: sat_add_def unat_max_word unat_word_ariths min_def)

lemma unat_sat_sub [sat_simps]: "unat (sat_sub a b :: 'a::len word) = unat a - unat b"
  by (auto simp: sat_sub_def unat_sub word_le_nat_alt)

lemma unat_sat_mul [sat_simps]:
  "unat (sat_mul a b :: 'a::len word) = min (unat a * unat b) (2 ^ LENGTH('a) - 1)"
proof (cases "unat a * unat b < 2 ^ LENGTH('a)")
  case True
  then show ?thesis by (simp add: sat_mul_def unat_word_ariths)
next
  case False
  then have "2 ^ LENGTH('a) - 1 \<le> unat a * unat b" by simp
  with False show ?thesis by (simp only: sat_mul_def if_False unat_max_word min.absorb2)
qed

text \<open>Equations that evaluate without the bound \<open>2 ^ LENGTH('a)\<close>: an overflow shows in the words.\<close>

lemma sat_add_wraps [code]: "sat_add a b = (let c = a + b in if c < a then - 1 else c :: 'a::len word)"
proof -
  have b: "unat a < 2 ^ LENGTH('a)" "unat b < 2 ^ LENGTH('a)" by simp_all
  have "a + b < a \<longleftrightarrow> \<not> unat a + unat b < 2 ^ LENGTH('a)"
  proof (cases "unat a + unat b < 2 ^ LENGTH('a)")
    case False
    with b have "(unat a + unat b) mod 2 ^ LENGTH('a) = unat a + unat b - 2 ^ LENGTH('a)"
      by (subst le_mod_geq) (linarith, rule mod_less, linarith)
    then have "unat (a + b) = unat a + unat b - 2 ^ LENGTH('a)" by (simp only: unat_word_ariths)
    then show ?thesis unfolding word_less_nat_alt using b False by linarith
  qed (simp add: word_less_nat_alt unat_word_ariths)
  then show ?thesis by (simp add: sat_add_def Let_def)
qed

lemma sat_mul_wraps [code]:
  "sat_mul a b = (if a \<noteq> 0 \<and> - 1 div a < b then - 1 else a * b :: 'a::len word)"
proof (cases "a = 0")
  case False
  then have a: "0 < unat a" by (simp add: word_unat_eq_iff)
  have "- 1 div a < b \<longleftrightarrow> \<not> unat b \<le> (2 ^ LENGTH('a) - 1) div unat a"
    by (simp add: word_less_nat_alt unat_div unat_max_word not_le)
  also have "\<dots> \<longleftrightarrow> \<not> unat a * unat b < 2 ^ LENGTH('a)"
  proof -
    have "0 < (2 :: nat) ^ LENGTH('a)" by simp
    then show ?thesis
      unfolding less_eq_div_iff_mult_less_eq [OF a] mult.commute [of "unat b"] by linarith
  qed
  finally show ?thesis using False by (simp add: sat_mul_def)
qed (simp add: sat_mul_def)

lemma sat_add_ge: "(a :: 'a::len word) \<le> sat_add a b"
proof -
  have "unat a < 2 ^ LENGTH('a)" by simp
  then have "unat a \<le> 2 ^ LENGTH('a) - 1" by linarith
  then show ?thesis by (simp add: word_le_nat_alt unat_sat_add)
qed

lemma sat_sub_le: "sat_sub a b \<le> (a :: 'a::len word)"
  by (simp add: word_le_nat_alt unat_sat_sub)

lemma sat_add_commute: "sat_add a b = sat_add b (a :: 'a::len word)"
  by (rule word_unat_eq_iff [THEN iffD2]) (simp add: unat_sat_add add.commute)

lemma sat_add_assoc: "sat_add (sat_add a b) c = sat_add a (sat_add b (c :: 'a::len word))"
proof -
  have "min (min (x + y) m + z) m = min (x + min (y + z) m) m" for x y z m :: nat
    by linarith
  then show ?thesis by (simp only: word_unat_eq_iff unat_sat_add)
qed

lemma sat_add_0 [simp]: "sat_add a 0 = a" "sat_add 0 a = (a :: 'a::len word)"
  by (simp_all add: sat_add_def)

section \<open>Strings\<close>

text \<open>\<^verbatim>\<open>to_ascii_lowercase\<close> changes the bytes of \<open>A\<close> to \<open>Z\<close> only.\<close>

definition ascii_lower_char :: "char \<Rightarrow> char" where
  "ascii_lower_char c =
     (let n = (of_char c :: nat) in if 65 \<le> n \<and> n \<le> 90 then char_of (n + 32) else c)"

definition to_ascii_lowercase :: "string \<Rightarrow> string" where
  "to_ascii_lowercase = map ascii_lower_char"

text \<open>A UTF-8 continuation byte has the form \<open>10xxxxxx\<close>; every other byte starts a character.\<close>

definition is_continuation :: "char \<Rightarrow> bool" where
  "is_continuation c = (let n = (of_char c :: nat) in 128 \<le> n \<and> n < 192)"

lemma is_continuation_bits [code]:
  "is_continuation (Char b0 b1 b2 b3 b4 b5 b6 b7) \<longleftrightarrow> b7 \<and> \<not> b6"
proof -
  have "of_bool b0 + 2 * of_bool b1 + 4 * of_bool b2 + 8 * of_bool b3 + 16 * of_bool b4 + 32 * of_bool b5
      < (64 :: nat)"
    by (cases b0; cases b1; cases b2; cases b3; cases b4; cases b5) simp_all
  then show ?thesis
    by (cases b6; cases b7) (simp_all add: is_continuation_def Let_def of_char_def algebra_simps)
qed

definition char_count :: "string \<Rightarrow> nat" where
  "char_count s = length (filter (\<lambda>c. \<not> is_continuation c) s)"

function utf8_chars :: "string \<Rightarrow> string list" where
  "utf8_chars [] = []"
| "utf8_chars (c # cs) =
     (c # takeWhile is_continuation cs) # utf8_chars (dropWhile is_continuation cs)"
  by pat_completeness auto
termination
  by (relation "measure length") (auto simp: le_imp_less_Suc length_dropWhile_le)

lemma concat_utf8_chars [simp]: "concat (utf8_chars s) = s"
  by (induction s rule: utf8_chars.induct) simp_all

text \<open>
  The encodings of the characters with the Unicode property White\_Space, which
  \<^verbatim>\<open>str::trim\<close> and \<^verbatim>\<open>split_whitespace\<close> use.
\<close>

definition whitespace_encodings :: "string list" where
  "whitespace_encodings =
     [[CHR 0x09], [CHR 0x0A], [CHR 0x0B],
      [CHR 0x0C], [CHR 0x0D], [CHR 0x20],
      [CHR 0xC2, CHR 0x85], [CHR 0xC2, CHR 0xA0], [CHR 0xE1, CHR 0x9A, CHR 0x80],
      [CHR 0xE2, CHR 0x80, CHR 0x80], [CHR 0xE2, CHR 0x80, CHR 0x81], [CHR 0xE2, CHR 0x80, CHR 0x82],
      [CHR 0xE2, CHR 0x80, CHR 0x83], [CHR 0xE2, CHR 0x80, CHR 0x84], [CHR 0xE2, CHR 0x80, CHR 0x85],
      [CHR 0xE2, CHR 0x80, CHR 0x86], [CHR 0xE2, CHR 0x80, CHR 0x87], [CHR 0xE2, CHR 0x80, CHR 0x88],
      [CHR 0xE2, CHR 0x80, CHR 0x89], [CHR 0xE2, CHR 0x80, CHR 0x8A], [CHR 0xE2, CHR 0x80, CHR 0xA8],
      [CHR 0xE2, CHR 0x80, CHR 0xA9], [CHR 0xE2, CHR 0x80, CHR 0xAF], [CHR 0xE2, CHR 0x81, CHR 0x9F],
      [CHR 0xE3, CHR 0x80, CHR 0x80]]"

definition leading_whitespace :: "string \<Rightarrow> string option" where
  "leading_whitespace s = find (\<lambda>w. prefix w s) whitespace_encodings"

lemma whitespace_encodings_nonempty: "w \<in> set whitespace_encodings \<Longrightarrow> w \<noteq> []"
  by (auto simp: whitespace_encodings_def)

lemma leading_whitespace_nonempty:
  "leading_whitespace s = Some w \<Longrightarrow> w \<noteq> [] \<and> prefix w s"
  unfolding leading_whitespace_def
  by (auto simp: find_Some_iff dest: nth_mem whitespace_encodings_nonempty)

function trim_start :: "string \<Rightarrow> string" where
  "trim_start s =
     (case leading_whitespace s of None \<Rightarrow> s | Some w \<Rightarrow> trim_start (drop (length w) s))"
  by pat_completeness auto
termination
proof (relation "measure length")
  fix s w
  assume "leading_whitespace s = Some w"
  then have "w \<noteq> []" and "prefix w s" by (simp_all add: leading_whitespace_nonempty)
  then show "(drop (length w) s, s) \<in> measure length"
    by (cases s) auto
qed simp

declare trim_start.simps [simp del]

definition trailing_whitespace :: "string \<Rightarrow> string option" where
  "trailing_whitespace s = find (\<lambda>w. suffix w s) whitespace_encodings"

lemma trailing_whitespace_nonempty:
  "trailing_whitespace s = Some w \<Longrightarrow> w \<noteq> [] \<and> suffix w s"
  unfolding trailing_whitespace_def
  by (auto simp: find_Some_iff dest: nth_mem whitespace_encodings_nonempty)

function trim_end :: "string \<Rightarrow> string" where
  "trim_end s =
     (case trailing_whitespace s of
        None \<Rightarrow> s
      | Some w \<Rightarrow> trim_end (take (length s - length w) s))"
  by pat_completeness auto
termination
proof (relation "measure length")
  fix s w
  assume "trailing_whitespace s = Some w"
  then have "w \<noteq> []" and "suffix w s" by (simp_all add: trailing_whitespace_nonempty)
  then show "(take (length s - length w) s, s) \<in> measure length"
    by (cases s) (auto simp: suffix_def)
qed simp

declare trim_end.simps [simp del]

definition trim :: "string \<Rightarrow> string" where
  "trim s = trim_end (trim_start s)"

definition is_blank :: "string \<Rightarrow> bool" where
  "is_blank s \<longleftrightarrow> trim s = []"

text \<open>Rust argument order: \<^verbatim>\<open>s.starts_with(p)\<close>, \<^verbatim>\<open>s.contains(p)\<close>.\<close>

abbreviation starts_with :: "string \<Rightarrow> string \<Rightarrow> bool" where
  "starts_with s p \<equiv> prefix p s"

abbreviation ends_with :: "string \<Rightarrow> string \<Rightarrow> bool" where
  "ends_with s p \<equiv> suffix p s"

abbreviation contains :: "string \<Rightarrow> string \<Rightarrow> bool" where
  "contains s p \<equiv> sublist p s"

fun join :: "string \<Rightarrow> string list \<Rightarrow> string" where
  "join sep [] = []"
| "join sep [x] = x"
| "join sep (x # y # xs) = x @ sep @ join sep (y # xs)"

text \<open>\<^verbatim>\<open>split\<close> keeps empty pieces; \<^verbatim>\<open>n\<close> separators give \<open>n + 1\<close> pieces.\<close>

fun split_by :: "('a \<Rightarrow> bool) \<Rightarrow> 'a list \<Rightarrow> 'a list list" where
  "split_by p [] = [[]]"
| "split_by p (x # xs) =
     (if p x then [] # split_by p xs
      else (case split_by p xs of [] \<Rightarrow> [[x]] | piece # pieces \<Rightarrow> (x # piece) # pieces))"

text \<open>Decimal printing of an unsigned integer, as \<^verbatim>\<open>{}\<close> formats it.\<close>

fun show_nat :: "nat \<Rightarrow> string" where
  "show_nat n =
     (if n < 10 then [char_of (48 + n)] else show_nat (n div 10) @ [char_of (48 + n mod 10)])"

declare show_nat.simps [simp del]

lemma trim_Nil [simp]: "trim [] = []"
  by (simp add: trim_def trim_start.simps trim_end.simps leading_whitespace_def
      trailing_whitespace_def whitespace_encodings_def)

lemma is_blank_Nil [simp]: "is_blank []"
  by (simp add: is_blank_def)

section \<open>JSON values\<close>

text \<open>
  A \<^verbatim>\<open>serde_json::Value\<close>. Numbers that are not integers are kept as their text. Indexing with
  \<^verbatim>\<open>value[key]\<close> gives \<open>JNull\<close> where the key is missing or the value is no object;
  \<^verbatim>\<open>value.get(key)\<close> gives \<open>None\<close> there.
\<close>

datatype json =
    JNull
  | JBool bool
  | JInt int
  | JFloat string
  | JStr string
  | JArr "json list"
  | JObj "(string \<times> json) list"

primrec json_get :: "json \<Rightarrow> string \<Rightarrow> json option" where
  "json_get JNull k = None"
| "json_get (JBool b) k = None"
| "json_get (JInt i) k = None"
| "json_get (JFloat s) k = None"
| "json_get (JStr s) k = None"
| "json_get (JArr xs) k = None"
| "json_get (JObj kvs) k = map_of kvs k"

definition json_index :: "json \<Rightarrow> string \<Rightarrow> json" where
  "json_index v k = (case json_get v k of None \<Rightarrow> JNull | Some w \<Rightarrow> w)"

fun as_str :: "json \<Rightarrow> string option" where
  "as_str (JStr s) = Some s"
| "as_str _ = None"

fun as_i64 :: "json \<Rightarrow> int option" where
  "as_i64 (JInt i) = (if - (2 ^ 63) \<le> i \<and> i < 2 ^ 63 then Some i else None)"
| "as_i64 _ = None"

fun as_u64 :: "json \<Rightarrow> nat option" where
  "as_u64 (JInt i) = (if 0 \<le> i \<and> i < 2 ^ 64 then Some (nat i) else None)"
| "as_u64 _ = None"

section \<open>Lists, options, maps\<close>

lemma list_all_filter_iff: "list_all P (filter Q xs) \<longleftrightarrow> (\<forall>x \<in> set xs. Q x \<longrightarrow> P x)"
  by (auto simp: list_all_iff)

lemma list_ex_rev [simp]: "list_ex P (rev xs) \<longleftrightarrow> list_ex P xs"
  by (simp add: list_ex_iff)

lemma find_SomeD: "find P xs = Some x \<Longrightarrow> x \<in> set xs \<and> P x"
  by (auto simp: find_Some_iff)

lemma find_rev_SomeD: "find P (rev xs) = Some x \<Longrightarrow> x \<in> set xs \<and> P x"
  using find_SomeD [of P "rev xs" x] by simp

end
