(* ===== verification/Core_Types.thy ===== *)
theory Core_Types
  imports Prelude
begin

text \<open>
  The data model of \<^verbatim>\<open>golutra-agent-core\<close>: task statuses and runtime lanes
  (\<^verbatim>\<open>runtime.rs\<close>), tool contracts and results (\<^verbatim>\<open>tool.rs\<close>), policy evaluations
  (\<^verbatim>\<open>policy.rs\<close>), verification records, plans and assertions (\<^verbatim>\<open>verification.rs\<close>,
  \<^verbatim>\<open>governance.rs\<close>), loop decisions and turn states (\<^verbatim>\<open>loop_control.rs\<close>). Structs are
  records and enums are datatypes with the constructors of the source; constructors that
  several enums share are written with the type in front, as in Rust.
\<close>

section \<open>Runtime lanes and task statuses\<close>

datatype ActorKind = User | Api | Tui | Cli | Sdk | Web | Ide | Runtime

record Actor =
  actor_kind :: ActorKind
  actor_id :: string

datatype TaskStatus =
    Idle | Running | WaitingApproval | WaitingAuthentication | Pausing | Paused | Aborting
  | Completed | Partial | Failed | Blocked | Cancelled | Interrupted | Uncertain

fun is_active :: "TaskStatus \<Rightarrow> bool" where
  "is_active Running = True"
| "is_active WaitingApproval = True"
| "is_active WaitingAuthentication = True"
| "is_active Pausing = True"
| "is_active Paused = True"
| "is_active Aborting = True"
| "is_active _ = False"

fun is_terminal :: "TaskStatus \<Rightarrow> bool" where
  "is_terminal Completed = True"
| "is_terminal TaskStatus.Partial = True"
| "is_terminal Failed = True"
| "is_terminal TaskStatus.Blocked = True"
| "is_terminal Cancelled = True"
| "is_terminal Interrupted = True"
| "is_terminal Uncertain = True"
| "is_terminal _ = False"

fun requires_reconciliation :: "TaskStatus \<Rightarrow> bool" where
  "requires_reconciliation Uncertain = True"
| "requires_reconciliation _ = False"

datatype BusyPolicy = Append | Inject | Interrupt | Reject

record RuntimeLane =
  lane_id :: uuid
  lane_workspace_id :: uuid
  lane_session_id :: uuid
  lane_task_id :: uuid
  active_turn_id :: "uuid option"
  active_controller :: Actor
  lane_status :: TaskStatus
  pending_turns :: "uuid list"
  injected_inputs :: "uuid list"
  busy_policy_default :: BusyPolicy

record BusyPolicyDecision =
  bpd_decision_id :: uuid
  bpd_lane_id :: uuid
  bpd_command_id :: uuid
  requested_policy :: BusyPolicy
  applied_policy :: BusyPolicy
  bpd_reason :: string
  safe_to_inject :: bool
  affected_turn_id :: "uuid option"

lemma terminal_not_active: "is_terminal s \<Longrightarrow> \<not> is_active s"
  by (cases s) simp_all

lemma status_trichotomy: "s = Idle \<or> is_active s \<or> is_terminal s"
  by (cases s) simp_all

section \<open>Tools\<close>

datatype SideEffectType = NoSideEffect | File | Process | Network | ExternalSystem

datatype InterruptedToolAction = ReplaySafe | ReconcileBeforeRetry | ReplayForbidden

record ToolRecoveryPolicy =
  trp_side_effect_type :: SideEffectType
  trp_idempotency_key_policy :: string
  trp_retry_policy :: string
  trp_interrupted_action :: InterruptedToolAction

definition for_side_effect :: "SideEffectType \<Rightarrow> ToolRecoveryPolicy" where
  "for_side_effect t =
     (let (key_policy, action) =
        (case t of
           NoSideEffect \<Rightarrow> (''not_required'', ReplaySafe)
         | File \<Rightarrow> (''required_for_retry'', ReconcileBeforeRetry)
         | Process \<Rightarrow> (''required_for_retry'', ReconcileBeforeRetry)
         | Network \<Rightarrow> (''blocked'', ReplayForbidden)
         | ExternalSystem \<Rightarrow> (''blocked'', ReplayForbidden))
      in \<lparr>trp_side_effect_type = t,
          trp_idempotency_key_policy = key_policy,
          trp_retry_policy =
            (if t = NoSideEffect then ''retry_allowed'' else ''no_implicit_retry_for_side_effects''),
          trp_interrupted_action = action\<rparr>)"

definition side_effect_possible :: "ToolRecoveryPolicy \<Rightarrow> bool" where
  "side_effect_possible p \<longleftrightarrow> trp_side_effect_type p \<noteq> NoSideEffect"

definition default_recovery_policy :: ToolRecoveryPolicy where
  "default_recovery_policy = for_side_effect ExternalSystem"

datatype ToolResultStatus = Ok | Error | Blocked | Cancelled | Timeout

record ToolResultEnvelope =
  env_tool_call_id :: uuid
  env_tool_name :: string
  env_status :: ToolResultStatus
  env_summary :: string
  env_structured_facts :: json
  env_model_visible_excerpt :: "string option"
  env_raw_artifact_ref :: "uuid option"
  env_evidence_refs :: "uuid list"
  env_risk :: string
  env_verification_hint :: "string option"

section \<open>Policy\<close>

datatype PolicyDecision = Allow | Ask | Deny | Block

datatype PolicyBlockDisposition = Recoverable | Terminal

record PolicyEvaluation =
  policy_ref :: uuid
  pe_subject :: string
  pe_action :: string
  pe_resource :: string
  pe_decision :: PolicyDecision
  block_disposition :: "PolicyBlockDisposition option"
  pe_reason :: string
  pe_evidence_refs :: "uuid list"

definition effective_block_disposition :: "PolicyEvaluation \<Rightarrow> PolicyBlockDisposition option" where
  "effective_block_disposition p =
     (if pe_decision p = PolicyDecision.Block
      then Some (case block_disposition p of
                   None \<Rightarrow> PolicyBlockDisposition.Terminal | Some d \<Rightarrow> d)
      else None)"

section \<open>Verification records, plans and assertions\<close>

datatype VerificationResult = Pass | Fail | Partial | Unknown

datatype VerificationSource = Runtime | ExternalVerifier | Mixed

datatype VerificationIndependence = Unspecified | RuntimeEvidence | Independent

datatype VerificationCheckKind =
    ToolExecution | WorkspaceChange | ObjectiveValidation | AssistantResponse | Schema | Policy

record VerificationCheck =
  chk_kind :: VerificationCheckKind
  chk_name :: string
  chk_command :: "string option"
  chk_passed :: bool
  chk_evidence_refs :: "uuid list"
  chk_message :: string

definition infer_legacy_verification_check_kind :: "string \<Rightarrow> VerificationCheckKind" where
  "infer_legacy_verification_check_kind name =
     (if name = ''assistant_response'' then AssistantResponse
      else if starts_with name ''output_schema'' then Schema
      else if name = ''workspace_diff'' then WorkspaceChange
      else if starts_with name ''objective:'' then ObjectiveValidation
      else if starts_with name ''tool:'' then ToolExecution
      else if starts_with name ''policy:'' then Policy
      else ObjectiveValidation)"

datatype TaskClass = PlainConversation | ReadOnlyAnalysis | WorkspaceChange | CodeChange

datatype VerificationAssertionKind =
    FileState | Diff | CommandExit | Test | Diagnostic | Schema | Policy | Delivery
  | AssistantResponse

datatype VerificationAssertionStatus = Pending | Pass | Fail | Unknown | NotApplicable

record VerificationAssertion =
  va_assertion_id :: uuid
  va_criterion_id :: string
  va_kind :: VerificationAssertionKind
  va_subject :: string
  va_expected :: string
  va_verifier_id :: string
  va_required_evidence_strength :: string
  va_blocking :: bool
  va_status :: VerificationAssertionStatus
  va_evidence_refs :: "uuid list"
  va_message :: string

datatype VerificationDimensionStatus = Pass | Fail | Partial | Unknown

record VerificationDimensions =
  evidence_status :: VerificationDimensionStatus
  objective_status :: VerificationDimensionStatus
  policy_dim_status :: VerificationDimensionStatus

record VerificationPlan =
  vp_plan_id :: uuid
  vp_task_id :: uuid
  vp_task_class :: TaskClass
  vp_criteria :: "string list"
  vp_assertions :: "VerificationAssertion list"
  vp_policy_assertions :: "VerificationAssertion list"
  vp_required_artifact_types :: "string list"
  vp_generated_by :: string
  vp_verifier_versions :: "string list"
  vp_dimensions :: VerificationDimensions
  vp_revision :: u32
  vp_created_at :: timestamp

record VerificationRecord =
  vr_verification_id :: uuid
  vr_task_id :: uuid
  vr_objective :: string
  vr_completion_criteria :: "string list"
  vr_checks :: "VerificationCheck list"
  vr_evidence_refs :: "uuid list"
  vr_result :: VerificationResult
  vr_policy_status :: string
  vr_residual_risks :: "string list"
  vr_plan_id :: "uuid option"
  vr_assertions :: "VerificationAssertion list"
  vr_source :: VerificationSource
  vr_independence :: VerificationIndependence
  vr_environment_digest :: "string option"

section \<open>Loop decisions and turn states\<close>

datatype LoopAction =
    Continue | Compact | Retry | Fallback | AskUser | Verify | StopSuccess | StopPartial
  | StopFailed | Blocked

datatype LoopGuardTrigger =
    RepeatedToolFailure | EmptyResponse | ContextOverflow | MaxIteration | NoProgress
  | RuntimeDeadline | RetryCostExceeded | OversizedToolOutput

record BudgetState =
  bs_planned_input_tokens :: "u64 option"
  bs_actual_input_tokens :: "u64 option"
  bs_output_tokens :: "u64 option"
  bs_total_tokens :: "u64 option"
  bs_estimated_cost :: "string option"
  bs_budget_remaining :: "u64 option"
  bs_compact_recommended :: bool
  bs_cost_risk :: string

record LoopDecision =
  ld_decision_id :: uuid
  ld_task_id :: uuid
  ld_turn_id :: uuid
  ld_action :: LoopAction
  ld_reason :: string
  ld_evidence_refs :: "uuid list"
  ld_verification_ref :: "uuid option"
  ld_policy_ref :: "uuid option"
  ld_budget_state :: BudgetState
  ld_tool_state :: string
  ld_model_state :: string
  ld_next_step :: "string option"

datatype ContinuationReason =
    VerificationFailed | MissingArtifact | ToolFailed | ProviderRetry | ContextCompaction
  | UserSteer | BudgetExhausted

datatype TurnPhase =
    Running | CandidateReady | VerificationReady | Verifying | Correcting | Terminal

record TurnState =
  ts_turn_id :: uuid
  ts_phase :: TurnPhase
  ts_correction_attempt :: u32
  ts_last_verification_id :: "uuid option"
  ts_continuation_reason :: "ContinuationReason option"

definition turn_state_new :: "uuid \<Rightarrow> TurnState" where
  "turn_state_new turn =
     \<lparr>ts_turn_id = turn, ts_phase = TurnPhase.Running, ts_correction_attempt = 0,
      ts_last_verification_id = None, ts_continuation_reason = None\<rparr>"

definition candidate_ready :: "TurnState \<Rightarrow> TurnState" where
  "candidate_ready t = t\<lparr>ts_phase := TurnPhase.CandidateReady, ts_continuation_reason := None\<rparr>"

definition candidate_complete :: "TurnState \<Rightarrow> TurnState" where
  "candidate_complete t = candidate_ready t"

definition verification_ready :: "TurnState \<Rightarrow> TurnState" where
  "verification_ready t = t\<lparr>ts_phase := TurnPhase.VerificationReady\<rparr>"

definition begin_verification :: "uuid \<Rightarrow> TurnState \<Rightarrow> TurnState" where
  "begin_verification vid t =
     t\<lparr>ts_phase := TurnPhase.Verifying, ts_last_verification_id := Some vid\<rparr>"

definition continue_after_steer :: "uuid \<Rightarrow> TurnState \<Rightarrow> TurnState" where
  "continue_after_steer turn t =
     t\<lparr>ts_turn_id := turn, ts_phase := TurnPhase.Running,
       ts_continuation_reason := Some UserSteer\<rparr>"

definition issue_correction :: "ContinuationReason \<Rightarrow> TurnState \<Rightarrow> TurnState" where
  "issue_correction reason t =
     t\<lparr>ts_correction_attempt := sat_add (ts_correction_attempt t) 1,
       ts_phase := TurnPhase.Correcting, ts_continuation_reason := Some reason\<rparr>"

definition terminal :: "TurnState \<Rightarrow> TurnState" where
  "terminal t = t\<lparr>ts_phase := TurnPhase.Terminal, ts_continuation_reason := None\<rparr>"

record CorrectionEnvelope =
  ce_verification_id :: uuid
  ce_attempt :: u32
  ce_remaining_attempts :: "u32 option"
  ce_failed_requirements :: "string list"
  ce_evidence_refs :: "uuid list"
  ce_requested_action :: string

definition as_model_instruction :: "CorrectionEnvelope \<Rightarrow> string" where
  "as_model_instruction c =
     (let requirements =
            (if ce_failed_requirements c = [] then ''the required verification evidence''
             else join ''; '' (ce_failed_requirements c));
          budget =
            (case ce_remaining_attempts c of
               None \<Rightarrow> []
             | Some r \<Rightarrow> '' Remaining correction attempts: '' @ show_nat (unat r) @ ''.'')
      in ''Runtime verification did not pass. Correct the following before claiming completion: ''
         @ requirements @ ''. Requested action: '' @ ce_requested_action c @ ''.'' @ budget)"

end
