(* ===== verification/Question.thy ===== *)
theory Question
  imports Core_Types "HOL-Library.Multiset"
begin

text \<open>
  Structured user questions (\<^verbatim>\<open>golutra-agent-core/src/question.rs\<close>): the request and
  resolution records and their validators. The validators stop at the first violated rule; an
  error value names the rule with the identifiers its message quotes. The two \<^verbatim>\<open>HashSet\<close>
  accumulators are the lists of identifiers met so far.
\<close>

section \<open>Requests, answers, validators\<close>

abbreviation MAX_QUESTIONS :: nat where
  "MAX_QUESTIONS \<equiv> 3"
abbreviation MAX_OPTIONS :: nat where
  "MAX_OPTIONS \<equiv> 8"
abbreviation MAX_TEXT_CHARS :: nat where
  "MAX_TEXT_CHARS \<equiv> 2048"

datatype UserQuestionMode = Single | Multiple

record UserQuestionOption =
  qo_id :: string
  qo_label :: string
  qo_description :: "string option"

record UserQuestionPrompt =
  qp_id :: string
  qp_header :: string
  qp_question :: string
  qp_mode :: UserQuestionMode
  qp_options :: "UserQuestionOption list"

record UserQuestionRequest =
  qr_question_id :: uuid
  qr_task_id :: uuid
  qr_turn_id :: uuid
  qr_tool_call_id :: uuid
  qr_questions :: "UserQuestionPrompt list"

record UserQuestionAnswer =
  qa_question_id :: string
  qa_selected_option_ids :: "string list"
  qa_free_text :: "string option"

record UserQuestionResolution =
  qres_question_id :: uuid
  qres_answers :: "UserQuestionAnswer list"
  qres_reason :: string

datatype QuestionError =
    QuestionCount
  | InvalidText string
  | DuplicateQuestionId string
  | OptionCount string
  | DuplicateOptionId string string
  | ResolutionMismatch
  | AnswerCount
  | Unanswered string
  | EmptyAnswer string
  | SeveralSelections string
  | RepeatedSelection string
  | UnknownOption string

definition text_ok :: "string \<Rightarrow> bool" where
  "text_ok v \<longleftrightarrow> \<not> is_blank v \<and> char_count v \<le> MAX_TEXT_CHARS"

definition validate_text :: "string \<Rightarrow> string \<Rightarrow> (unit, QuestionError) result" where
  "validate_text label v = (if text_ok v then Inr () else Inl (InvalidText label))"

fun validate_options ::
  "string \<Rightarrow> string list \<Rightarrow> UserQuestionOption list \<Rightarrow> (unit, QuestionError) result" where
  "validate_options qid seen [] = Inr ()"
| "validate_options qid seen (opt # rest) =
     and_then (validate_text ''option id'' (qo_id opt)) (\<lambda>_.
     and_then (validate_text ''option label'' (qo_label opt)) (\<lambda>_.
     and_then (case qo_description opt of
                 None \<Rightarrow> Inr () | Some d \<Rightarrow> validate_text ''option description'' d) (\<lambda>_.
       if qo_id opt \<in> set seen then Inl (DuplicateOptionId qid (qo_id opt))
       else validate_options qid (qo_id opt # seen) rest)))"

fun validate_questions ::
  "string list \<Rightarrow> UserQuestionPrompt list \<Rightarrow> (unit, QuestionError) result" where
  "validate_questions seen [] = Inr ()"
| "validate_questions seen (q # rest) =
     and_then (validate_text ''question id'' (qp_id q)) (\<lambda>_.
     and_then (validate_text ''question header'' (qp_header q)) (\<lambda>_.
     and_then (validate_text ''question text'' (qp_question q)) (\<lambda>_.
       if qp_id q \<in> set seen then Inl (DuplicateQuestionId (qp_id q))
       else if length (qp_options q) < 2 \<or> length (qp_options q) > MAX_OPTIONS
       then Inl (OptionCount (qp_id q))
       else and_then (validate_options (qp_id q) [] (qp_options q)) (\<lambda>_.
         validate_questions (qp_id q # seen) rest))))"

definition validate :: "UserQuestionRequest \<Rightarrow> (unit, QuestionError) result" where
  "validate r =
     (if qr_questions r = [] \<or> length (qr_questions r) > MAX_QUESTIONS then Inl QuestionCount
      else validate_questions [] (qr_questions r))"

definition validate_answer ::
  "UserQuestionPrompt \<Rightarrow> UserQuestionAnswer \<Rightarrow> (unit, QuestionError) result" where
  "validate_answer q a =
     (let selected = remdups (qa_selected_option_ids a) in
      and_then (case qa_free_text a of
                  None \<Rightarrow> Inr ()
                | Some t \<Rightarrow> validate_text (''question `'' @ qp_id q @ ''` free text'') t) (\<lambda>_.
        if selected = [] \<and> qa_free_text a = None then Inl (EmptyAnswer (qp_id q))
        else if qp_mode q = Single \<and> length selected > 1 then Inl (SeveralSelections (qp_id q))
        else if length selected \<noteq> length (qa_selected_option_ids a)
        then Inl (RepeatedSelection (qp_id q))
        else if list_ex (\<lambda>oid. oid \<notin> qo_id ` set (qp_options q)) selected
        then Inl (UnknownOption (qp_id q))
        else Inr ()))"

fun validate_answers ::
  "UserQuestionPrompt list \<Rightarrow> UserQuestionAnswer list \<Rightarrow> (unit, QuestionError) result" where
  "validate_answers [] answers = Inr ()"
| "validate_answers (q # rest) answers =
     (case find (\<lambda>a. qa_question_id a = qp_id q) answers of
        None \<Rightarrow> Inl (Unanswered (qp_id q))
      | Some a \<Rightarrow> and_then (validate_answer q a) (\<lambda>_. validate_answers rest answers))"

definition validate_resolution ::
  "UserQuestionRequest \<Rightarrow> UserQuestionResolution \<Rightarrow> (unit, QuestionError) result" where
  "validate_resolution r res =
     (if qres_question_id res \<noteq> qr_question_id r then Inl ResolutionMismatch
      else if length (qres_answers res) \<noteq> length (qr_questions r) then Inl AnswerCount
      else validate_answers (qr_questions r) (qres_answers res))"

section \<open>What a validated request and resolution guarantee\<close>

definition option_ok :: "UserQuestionOption \<Rightarrow> bool" where
  "option_ok opt \<longleftrightarrow> text_ok (qo_id opt) \<and> text_ok (qo_label opt) \<and>
     (\<forall>d \<in> set_option (qo_description opt). text_ok d)"

definition prompt_ok :: "UserQuestionPrompt \<Rightarrow> bool" where
  "prompt_ok q \<longleftrightarrow> text_ok (qp_id q) \<and> text_ok (qp_header q) \<and> text_ok (qp_question q) \<and>
     2 \<le> length (qp_options q) \<and> length (qp_options q) \<le> MAX_OPTIONS \<and>
     list_all option_ok (qp_options q) \<and> distinct (map qo_id (qp_options q))"

definition request_ok :: "UserQuestionRequest \<Rightarrow> bool" where
  "request_ok r \<longleftrightarrow> 1 \<le> length (qr_questions r) \<and> length (qr_questions r) \<le> MAX_QUESTIONS \<and>
     list_all prompt_ok (qr_questions r) \<and> distinct (map qp_id (qr_questions r))"

definition answer_ok :: "UserQuestionPrompt \<Rightarrow> UserQuestionAnswer \<Rightarrow> bool" where
  "answer_ok q a \<longleftrightarrow>
     (\<forall>t \<in> set_option (qa_free_text a). text_ok t) \<and>
     (qa_selected_option_ids a \<noteq> [] \<or> qa_free_text a \<noteq> None) \<and>
     (qp_mode q = Single \<longrightarrow> length (qa_selected_option_ids a) \<le> 1) \<and>
     distinct (qa_selected_option_ids a) \<and>
     set (qa_selected_option_ids a) \<subseteq> qo_id ` set (qp_options q)"

lemma validate_text_ok [simp]: "validate_text label v = Inr u \<longleftrightarrow> text_ok v"
  by (simp add: validate_text_def)

lemma validate_optional_text_ok [simp]:
  "(case d of None \<Rightarrow> Inr () | Some t \<Rightarrow> validate_text label t) = Inr u \<longleftrightarrow>
     (\<forall>t \<in> set_option d. text_ok t)"
  by (cases d) simp_all

lemma validate_options_ok:
  "validate_options qid seen opts = Inr u \<longleftrightarrow>
     list_all option_ok opts \<and> distinct (map qo_id opts) \<and> set (map qo_id opts) \<inter> set seen = {}"
  by (induction qid seen opts rule: validate_options.induct) (auto simp: option_ok_def)

lemma validate_questions_ok:
  "validate_questions seen qs = Inr u \<longleftrightarrow>
     list_all prompt_ok qs \<and> distinct (map qp_id qs) \<and> set (map qp_id qs) \<inter> set seen = {}"
  by (induction seen qs rule: validate_questions.induct)
    (auto simp: prompt_ok_def validate_options_ok not_less)

lemma length_remdups_iff: "length (remdups xs) = length xs \<longleftrightarrow> distinct xs"
  by (metis distinct_remdups_id length_remdups_eq remdups_id_iff_distinct)

lemma validate_answer_ok: "validate_answer q a = Inr u \<longleftrightarrow> answer_ok q a"
proof (cases "distinct (qa_selected_option_ids a)")
  case True
  then show ?thesis
    by (auto simp: validate_answer_def answer_ok_def Let_def list_ex_iff distinct_remdups_id not_less)
next
  case False
  then have "length (remdups (qa_selected_option_ids a)) \<noteq> length (qa_selected_option_ids a)"
    by (simp add: length_remdups_iff)
  with False show ?thesis
    by (simp add: validate_answer_def answer_ok_def Let_def)
qed

lemma validate_answers_ok:
  "validate_answers qs answers = Inr u \<longleftrightarrow>
     (\<forall>q \<in> set qs. \<exists>a. find (\<lambda>a. qa_question_id a = qp_id q) answers = Some a \<and> answer_ok q a)"
  by (induction qs answers rule: validate_answers.induct)
    (auto simp: validate_answer_ok split: option.splits)

lemma validate_iff_request_ok_aux: "validate r = Inr () \<longleftrightarrow> request_ok r"
  by (auto simp: validate_def request_ok_def validate_questions_ok not_less Suc_le_eq)

text \<open>
  The validator of a question request accepts exactly the well-formed requests:
  one to three questions with distinct identifiers, two to eight options each with distinct
  identifiers, and every text neither blank nor longer than 2048 characters.
\<close>

theorem validate_iff_request_ok: "validate r = Inr () \<longleftrightarrow> request_ok r"
  by (rule validate_iff_request_ok_aux)

lemma distinct_cover_same_length:
  assumes "distinct xs" and "set xs \<subseteq> set ys" and "length ys = length xs"
  shows "mset ys = mset xs"
proof -
  have "card (set ys) \<le> card (set xs)"
    using assms(1,3) by (metis card_length distinct_card)
  then have eq: "set xs = set ys"
    using assms(2) by (simp add: card_seteq)
  then have "distinct ys"
    using assms(1,3) by (metis card_distinct distinct_card)
  then show ?thesis
    using assms(1) eq by (metis set_eq_iff_mset_eq_distinct)
qed

text \<open>
  A resolution accepted for a validated request answers every question exactly
  once and answers nothing else, and the answer to each question obeys the question: its
  selections are distinct declared options, at most one of them in single mode, and there is
  a selection or an admissible free text.
\<close>

theorem accepted_resolution_answers_all:
  assumes "validate r = Inr ()" and "validate_resolution r res = Inr ()"
  shows "mset (map qa_question_id (qres_answers res)) = mset (map qp_id (qr_questions r)) \<and>
    (\<forall>q \<in> set (qr_questions r). \<exists>a \<in> set (qres_answers res).
       qa_question_id a = qp_id q \<and> answer_ok q a)"
proof -
  from assms(1) have dist: "distinct (map qp_id (qr_questions r))"
    by (simp add: validate_iff_request_ok_aux request_ok_def)
  from assms(2) have len: "length (qres_answers res) = length (qr_questions r)"
    and found: "\<forall>q \<in> set (qr_questions r). \<exists>a.
      find (\<lambda>a. qa_question_id a = qp_id q) (qres_answers res) = Some a \<and> answer_ok q a"
    by (simp_all add: validate_resolution_def validate_answers_ok split: if_splits)
  then have each: "\<forall>q \<in> set (qr_questions r). \<exists>a \<in> set (qres_answers res).
      qa_question_id a = qp_id q \<and> answer_ok q a"
    by (blast dest: find_SomeD)
  then have "set (map qp_id (qr_questions r)) \<subseteq> set (map qa_question_id (qres_answers res))"
    by (force simp: image_iff)
  with dist len have "mset (map qa_question_id (qres_answers res)) = mset (map qp_id (qr_questions r))"
    by (intro distinct_cover_same_length) simp_all
  with each show ?thesis by blast
qed

definition example_request :: UserQuestionRequest where
  "example_request =
     \<lparr>qr_question_id = 1, qr_task_id = 2, qr_turn_id = 3, qr_tool_call_id = 4,
      qr_questions =
        [\<lparr>qp_id = ''format'', qp_header = ''Output'', qp_question = ''Which format?'',
          qp_mode = Single,
          qp_options =
            [\<lparr>qo_id = ''json'', qo_label = ''JSON'', qo_description = None\<rparr>,
             \<lparr>qo_id = ''text'', qo_label = ''Text'', qo_description = None\<rparr>]\<rparr>]\<rparr>"

definition example_resolution :: UserQuestionResolution where
  "example_resolution =
     \<lparr>qres_question_id = 1,
      qres_answers =
        [\<lparr>qa_question_id = ''format'', qa_selected_option_ids = [''json''], qa_free_text = None\<rparr>],
      qres_reason = ''answered''\<rparr>"

lemma example_request_valid: "validate example_request = Inr ()"
  by code_simp

lemma example_resolution_valid: "validate_resolution example_request example_resolution = Inr ()"
  by code_simp

theorem accepted_resolution_answers_all_witness:
  "mset (map qa_question_id (qres_answers example_resolution)) =
     mset (map qp_id (qr_questions example_request))"
  using accepted_resolution_answers_all [OF example_request_valid example_resolution_valid]
  by blast

end
