(* ===== verification/Protocol_Event.thy ===== *)
theory Protocol_Event
  imports Question
begin

text \<open>
  Runtime events of \<^verbatim>\<open>golutra-agent-protocol\<close> (\<^verbatim>\<open>event.rs\<close>): the event types with their
  routing class and projection predicates, the event record, and the reducer that finds the
  question still pending in a ledger.

  The enum of the 117 event types is written as the disjoint sum of its five routing classes,
  which is the table \<^verbatim>\<open>RuntimeEventType::class\<close> spells out arm by arm. A payload is a JSON
  object that the reducers read through a few keys; the record \<open>Payload\<close> holds what each of
  these reads decodes to. A field of type \<open>'a option option\<close> tells a missing key (\<open>None\<close>)
  from a value that does not decode (\<open>Some None\<close>), where the code distinguishes them.
\<close>

section \<open>Event types\<close>

datatype RuntimeEventSource =
    Runtime | Provider | Tool | Policy | Verifier | Memory | Evaluator | Governor | Evolution | User

datatype RuntimeEventClass = Control | Execution | Memory | Evaluation | Governance

datatype (plugins only: code size) ControlEvent =
    CommandReceived | CommandCompleted | CommandAccepted | CommandRejected | SessionCreated
    | ThreadForked | ThreadRebound | ThreadRenamed | ThreadArchived | ThreadDeleted
    | TaskCreated | TurnStarted | TurnQueued | TurnUpdated | TurnCancelled
    | BusyPolicyDecided | ControllerChanged | CheckpointCreated | TaskCompleted
    | TaskAbortRequested | TaskAborted | TaskInterrupted | TaskUncertain | TaskReconciled
    | TaskPaused | TaskResumed | ApprovalRequested | ApprovalResolved
    | UserQuestionRequested | UserQuestionResolved | ProviderAuthRequired
    | ProviderAuthSubmitted | ProviderAuthCancelled | ProviderConfigured
    | ProviderProbeStarted | ProviderProbeCompleted | ProviderAuthFailed
    | ProviderRateLimited | ProviderCredentialRefreshed | StorageMaintenanceCompleted

datatype (plugins only: code size) ExecutionEvent =
    StepStarted | StepCompleted | StepCheckpointed | ContextBuilt | ProviderStarted
    | ProviderStreamed | ProviderCompleted | ProviderFailed | TokenUsageRecorded
    | AssistantMessage | UserStep | ToolStarted | ToolProgress | ToolCompleted
    | ProcessUpdated | SubagentUpdated | PolicyEvaluated | VerificationCompleted
    | LoopDecided | RetryScheduled | ProviderFallback | ProviderTransportFallback
    | LoopGuardTriggered | CompactionStarted | CompactionCompleted | CompactionFailed
    | GovernorDecided | ContextSnapshotCreated | VerificationPlanned
    | VerificationAssertionCompleted | ContinuationDecided | CandidateReady
    | VerificationReady | ExternalVerificationRequested

datatype (plugins only: code size) MemoryEvent =
    MemoryRetrieved | MemoryPromoted | MemoryPromotionRejected | MemoryRolledBack
    | MemoryFeedbackRecorded | MemoryCandidateQuarantined | MemoryActivated
    | MemoryInvalidated

datatype (plugins only: code size) EvaluationEvent =
    PostTaskReviewed | EvaluationCompleted | BenchmarkRecorded | CounterfactualCompared
    | PostTaskJobQueued | PostTaskJobStarted | PostTaskJobCompleted | PostTaskJobFailed
    | PostTaskStageFailed | FailureDiagnosed | FailureEpisodeRecorded
    | DiagnosticSliceCreated | ReplayCapsuleCreated | ReplayExecuted
    | ExternalEvaluationIngested | ExternalEvaluationCompared | ExternalVerificationFeedback
    | RegressionCampaignStarted | RegressionExecutionCompleted

datatype (plugins only: code size) GovernanceEvent =
    ImprovementCandidateCreated | AutomationCandidateCreated | CandidatePatchFrozen
    | RegressionBlocked | RegressionCompleted | PromotionDecided | CandidateApplied
    | CandidateRolledBack | EvolutionPlanned | EvolutionTaskStarted | EvolutionTaskCompleted
    | EvolutionCompleted | SkillStaged | SkillReviewed | SkillInstalled | SkillRolledBack

datatype RuntimeEventType =
    ControlEv ControlEvent
  | ExecutionEv ExecutionEvent
  | MemoryEv MemoryEvent
  | EvaluationEv EvaluationEvent
  | GovernanceEv GovernanceEvent

fun event_class :: "RuntimeEventType \<Rightarrow> RuntimeEventClass" where
  "event_class (ControlEv _) = Control"
| "event_class (ExecutionEv _) = Execution"
| "event_class (MemoryEv _) = RuntimeEventClass.Memory"
| "event_class (EvaluationEv _) = Evaluation"
| "event_class (GovernanceEv _) = Governance"

fun is_model_history_fact :: "RuntimeEventType \<Rightarrow> bool" where
  "is_model_history_fact (ControlEv e) \<longleftrightarrow> e \<in> set
     [TaskCreated, TurnQueued, TurnUpdated, TaskCompleted, TaskAborted, TaskInterrupted
      , TaskUncertain]"
| "is_model_history_fact (ExecutionEv e) \<longleftrightarrow> e \<in> set
     [AssistantMessage, ToolCompleted, SubagentUpdated, ExecutionEvent.CandidateReady
      , ExecutionEvent.VerificationReady]"
| "is_model_history_fact _ \<longleftrightarrow> False"

fun is_user_projection_fact :: "RuntimeEventType \<Rightarrow> bool" where
  "is_user_projection_fact (ControlEv e) \<longleftrightarrow> e \<in> set
     [TaskCreated, TurnStarted, TurnQueued, TurnUpdated, TurnCancelled, TaskCompleted
      , TaskAbortRequested, TaskAborted, TaskInterrupted, TaskUncertain, TaskReconciled
      , TaskPaused, TaskResumed, ApprovalRequested, ApprovalResolved, UserQuestionRequested
      , UserQuestionResolved, ProviderAuthRequired, ProviderAuthSubmitted
      , ProviderAuthCancelled, ProviderRateLimited]"
| "is_user_projection_fact (ExecutionEv e) \<longleftrightarrow> e \<in> set
     [ProviderStarted, ProviderCompleted, ProviderFailed, ProviderFallback
      , ProviderTransportFallback, AssistantMessage, UserStep, ToolStarted, ToolProgress
      , ProcessUpdated, SubagentUpdated, ToolCompleted, VerificationCompleted, LoopDecided
      , RetryScheduled, CompactionStarted, CompactionCompleted, CompactionFailed
      , ContinuationDecided, ExecutionEvent.CandidateReady, ExecutionEvent.VerificationReady
      , ExternalVerificationRequested]"
| "is_user_projection_fact _ \<longleftrightarrow> False"

fun is_task_terminal :: "RuntimeEventType \<Rightarrow> bool" where
  "is_task_terminal (ControlEv e) \<longleftrightarrow> e \<in> set
     [TaskCompleted, TaskAborted, TaskInterrupted, TaskUncertain]"
| "is_task_terminal _ \<longleftrightarrow> False"

definition for_terminal_status :: "TaskStatus \<Rightarrow> RuntimeEventType" where
  "for_terminal_status s =
     (case s of
        TaskStatus.Cancelled \<Rightarrow> ControlEv TaskAborted
      | Interrupted \<Rightarrow> ControlEv TaskInterrupted
      | Uncertain \<Rightarrow> ControlEv TaskUncertain
      | _ \<Rightarrow> ControlEv TaskCompleted)"

section \<open>Events\<close>

datatype CausalRelation =
    Parent | TriggeredBy | RespondsTo | DerivedFrom | Verifies | Compares | Supersedes

record CausalLink =
  cl_event_id :: uuid
  cl_relation :: CausalRelation

type_synonym record_view = "VerificationRecord option \<times> LoopDecision option"

record Payload =
  p_summary :: "string option"
  p_status :: "TaskStatus option"
  p_lane_id :: "uuid option"
  p_previous_controller :: "Actor option"
  p_active_controller :: "Actor option"
  p_runtime_lane :: "RuntimeLane option option"
  p_nested_runtime_lane :: "RuntimeLane option option"
  p_approval_id :: "string option"
  p_content :: "string option"
  p_record :: "record_view option"
  p_whole :: record_view
  p_request :: "UserQuestionRequest option"
  p_question_id :: "uuid option"

definition empty_payload :: Payload where
  "empty_payload =
     \<lparr>p_summary = None, p_status = None, p_lane_id = None, p_previous_controller = None,
      p_active_controller = None, p_runtime_lane = None, p_nested_runtime_lane = None,
      p_approval_id = None, p_content = None, p_record = None, p_whole = (None, None),
      p_request = None, p_question_id = None\<rparr>"

abbreviation RUNTIME_EVENT_SCHEMA_VERSION :: u32 where
  "RUNTIME_EVENT_SCHEMA_VERSION \<equiv> 3"

record RuntimeEvent =
  evt_schema_version :: u32
  evt_id :: uuid
  sequence_no :: u64
  evt_session_id :: uuid
  evt_turn_id :: "uuid option"
  evt_task_id :: "uuid option"
  parent_event_id :: "uuid option"
  causal_links :: "CausalLink list"
  event_type :: RuntimeEventType
  evt_timestamp :: timestamp
  evt_source :: RuntimeEventSource
  payload :: Payload
  payload_ref :: "uuid option"
  durable :: bool

section \<open>The pending user question\<close>

definition closes_question :: "RuntimeEvent \<Rightarrow> UserQuestionRequest \<Rightarrow> RuntimeEvent \<Rightarrow> bool" where
  "closes_question req_event req e \<longleftrightarrow>
     sequence_no e > sequence_no req_event \<and>
     (evt_task_id e = Some (qr_task_id req) \<and> is_task_terminal (event_type e) \<or>
      event_type e = ControlEv UserQuestionResolved \<and>
      p_question_id (payload e) = Some (qr_question_id req))"

definition pending_user_question ::
  "RuntimeEvent list \<Rightarrow> uuid option \<Rightarrow> UserQuestionRequest option" where
  "pending_user_question events active_task =
     Option.bind
       (find (\<lambda>e. event_type e = ControlEv UserQuestionRequested \<and>
                  (active_task = None \<or> evt_task_id e = active_task)) (rev events))
       (\<lambda>req_event. Option.bind (p_request (payload req_event))
         (\<lambda>req. if evt_task_id req_event \<noteq> Some (qr_task_id req) then None
                else if list_ex (closes_question req_event req) events then None
                else Some req))"

lemma pending_user_question_SomeE:
  assumes "pending_user_question events active = Some req"
  obtains e where "find (\<lambda>e. event_type e = ControlEv UserQuestionRequested \<and>
      (active = None \<or> evt_task_id e = active)) (rev events) = Some e"
    and "e \<in> set events" and "p_request (payload e) = Some req"
    and "evt_task_id e = Some (qr_task_id req)" and "\<not> list_ex (closes_question e req) events"
  using assms
  by (auto simp: pending_user_question_def bind_eq_Some_conv dest: find_SomeD split: if_splits)

text \<open>
  A pending question stays pending until an event settles it: appending a newer
  event that is not itself a question closes the question exactly when the event ends the
  question's task or resolves this question, and otherwise leaves it pending.
\<close>

theorem pending_question_closed_exactly:
  assumes "pending_user_question events active = Some req"
    and "list_all (\<lambda>e. sequence_no e < sequence_no t) events"
    and "event_type t \<noteq> ControlEv UserQuestionRequested"
  shows "pending_user_question (events @ [t]) active =
    (if evt_task_id t = Some (qr_task_id req) \<and> is_task_terminal (event_type t) \<or>
        event_type t = ControlEv UserQuestionResolved \<and>
        p_question_id (payload t) = Some (qr_question_id req)
     then None else Some req)"
proof -
  from assms(1) obtain e where
    find: "find (\<lambda>e. event_type e = ControlEv UserQuestionRequested \<and>
      (active = None \<or> evt_task_id e = active)) (rev events) = Some e"
    and e: "e \<in> set events" "p_request (payload e) = Some req"
      "evt_task_id e = Some (qr_task_id req)" "\<not> list_ex (closes_question e req) events"
    by (rule pending_user_question_SomeE)
  have "find (\<lambda>e. event_type e = ControlEv UserQuestionRequested \<and>
      (active = None \<or> evt_task_id e = active)) (rev (events @ [t])) = Some e"
    using find assms(3) by simp
  moreover have "sequence_no e < sequence_no t"
    using e(1) assms(2) by (auto simp: list_all_iff)
  ultimately show ?thesis
    using e by (simp add: pending_user_question_def closes_question_def del: rev_append)
qed

definition example_question_event :: RuntimeEvent where
  "example_question_event =
     \<lparr>evt_schema_version = RUNTIME_EVENT_SCHEMA_VERSION, evt_id = 1, sequence_no = 4,
      evt_session_id = 7, evt_turn_id = Some 30, evt_task_id = Some (qr_task_id example_request),
      parent_event_id = None, causal_links = [], event_type = ControlEv UserQuestionRequested,
      evt_timestamp = 0, evt_source = RuntimeEventSource.Runtime,
      payload = empty_payload\<lparr>p_request := Some example_request\<rparr>,
      payload_ref = None, durable = True\<rparr>"

definition example_terminal_event :: RuntimeEvent where
  "example_terminal_event = example_question_event
     \<lparr>sequence_no := 5, event_type := ControlEv TaskAborted, payload := empty_payload\<rparr>"

theorem pending_question_closed_exactly_witness:
  "pending_user_question [example_question_event] None = Some example_request \<and>
   pending_user_question ([example_question_event] @ [example_terminal_event]) None = None"
proof -
  have pending: "pending_user_question [example_question_event] None = Some example_request"
    by (simp add: pending_user_question_def closes_question_def example_question_event_def)
  with pending_question_closed_exactly [OF pending, of example_terminal_event]
  show ?thesis by (simp add: example_terminal_event_def example_question_event_def)
qed

end
