(* ===== verification/Machines.thy ===== *)
theory Machines
  imports Prelude
begin

text \<open>
  The interfaces the stateful components share. A component is a partial operation
  \<open>run op s\<close> that either fails, leaving the state as it was, or yields an output and the
  next state. The locales state what a component promises of single operations; their lemmas
  carry the promise to whole interleavings, which are lists of operations.
\<close>

section \<open>Runs of an operation list\<close>

type_synonym ('op, 's, 'out, 'e) machine = "'op \<Rightarrow> 's \<Rightarrow> ('out \<times> 's, 'e) result"

definition next_state :: "('op, 's, 'out, 'e) machine \<Rightarrow> 'op \<Rightarrow> 's \<Rightarrow> 's" where
  "next_state run op s = (case run op s of Inl e \<Rightarrow> s | Inr (out, t) \<Rightarrow> t)"

fun exec :: "('op, 's, 'out, 'e) machine \<Rightarrow> 'op list \<Rightarrow> 's \<Rightarrow> 's" where
  "exec run [] s = s"
| "exec run (op # ops) s = exec run ops (next_state run op s)"

fun emitted :: "('op, 's, 'out, 'e) machine \<Rightarrow> 'op list \<Rightarrow> 's \<Rightarrow> 'out list" where
  "emitted run [] s = []"
| "emitted run (op # ops) s =
     (case run op s of Inl e \<Rightarrow> [] | Inr (out, t) \<Rightarrow> [out]) @ emitted run ops (next_state run op s)"

lemma exec_append: "exec run (xs @ ys) s = exec run ys (exec run xs s)"
  by (induction xs arbitrary: s) simp_all

lemma next_state_Inl [simp]: "run op s = Inl e \<Longrightarrow> next_state run op s = s"
  by (simp add: next_state_def)

lemma next_state_Inr [simp]: "run op s = Inr (out, t) \<Longrightarrow> next_state run op s = t"
  by (simp add: next_state_def)

section \<open>Predicates that admissible operations keep\<close>

locale stable_machine =
  fixes run :: "('op, 's, 'out, 'e) machine"
    and allowed :: "'op \<Rightarrow> bool"
    and holds :: "'s \<Rightarrow> bool"
  assumes step_stable: "holds s \<Longrightarrow> allowed op \<Longrightarrow> run op s = Inr (out, t) \<Longrightarrow> holds t"
begin

lemma next_state_stable: "holds s \<Longrightarrow> allowed op \<Longrightarrow> holds (next_state run op s)"
  by (cases "run op s") (auto intro: step_stable)

lemma exec_stable: "holds s \<Longrightarrow> list_all allowed ops \<Longrightarrow> holds (exec run ops s)"
  by (induction ops arbitrary: s) (simp_all add: next_state_stable)

end

text \<open>An invariant is a predicate that every operation keeps.\<close>

locale invariant_machine =
  fixes run :: "('op, 's, 'out, 'e) machine"
    and inv :: "'s \<Rightarrow> bool"
  assumes step_inv: "inv s \<Longrightarrow> run op s = Inr (out, t) \<Longrightarrow> inv t"

sublocale invariant_machine \<subseteq> stable_machine run "\<lambda>_. True" inv
  by unfold_locales (rule step_inv)

context invariant_machine
begin

lemma exec_inv: "inv s \<Longrightarrow> inv (exec run ops s)"
  by (rule exec_stable) (simp_all add: list_all_iff)

end

section \<open>Read models built from the emitted outputs\<close>

text \<open>
  A read model is kept in step with the machine when reducing the output of each successful
  operation keeps the synchronisation relation; then it is in step after every run.
\<close>

locale sourced_machine =
  fixes run :: "('op, 's, 'out, 'e) machine"
    and reduce :: "'out \<Rightarrow> 'p \<Rightarrow> 'p"
    and in_sync :: "'s \<Rightarrow> 'p \<Rightarrow> bool"
  assumes step_sync:
    "in_sync s p \<Longrightarrow> run op s = Inr (out, t) \<Longrightarrow> in_sync t (reduce out p)"
begin

lemma exec_sync: "in_sync s p \<Longrightarrow> in_sync (exec run ops s) (fold reduce (emitted run ops s) p)"
proof (induction ops arbitrary: s p)
  case Nil
  then show ?case by simp
next
  case (Cons op ops)
  show ?case
  proof (cases "run op s")
    case (Inl e)
    with Cons show ?thesis by simp
  next
    case (Inr r)
    obtain out t where r: "r = (out, t)" by (cases r)
    from Cons.prems Inr r have "in_sync t (reduce out p)" by (auto intro: step_sync)
    with Cons.IH Inr r show ?thesis by simp
  qed
qed

end

section \<open>Machines that implement an abstract one\<close>

text \<open>
  The abstract machine \<open>spec\<close> is a total function of the operation. A failing operation of the
  concrete machine has to be one the abstract machine ignores.
\<close>

locale simulated_machine =
  fixes run :: "('op, 's, 'out, 'e) machine"
    and spec :: "'op \<Rightarrow> 'a \<Rightarrow> 'a"
    and sim :: "'s \<Rightarrow> 'a \<Rightarrow> bool"
  assumes step_sim: "sim s a \<Longrightarrow> sim (next_state run op s) (spec op a)"
begin

lemma exec_sim: "sim s a \<Longrightarrow> sim (exec run ops s) (fold spec ops a)"
  by (induction ops arbitrary: s a) (simp_all add: step_sim)

end

section \<open>Outputs with a guaranteed property\<close>

locale guarded_machine = invariant_machine run inv
  for run :: "('op, 's, 'out, 'e) machine" and inv :: "'s \<Rightarrow> bool" +
  fixes good :: "'out \<Rightarrow> bool"
  assumes output_good: "inv s \<Longrightarrow> run op s = Inr (out, t) \<Longrightarrow> good out"
begin

lemma emitted_good: "inv s \<Longrightarrow> list_all good (emitted run ops s)"
proof (induction ops arbitrary: s)
  case Nil
  then show ?case by simp
next
  case (Cons op ops)
  then show ?case
    by (cases "run op s") (auto dest: output_good step_inv)
qed

end

end
