(* ===== verification/Lane.thy ===== *)
theory Lane
  imports Protocol_Event Machines
begin

text \<open>
  The runtime lane manager (\<^verbatim>\<open>golutra-agent-runtime/src/lane.rs\<close>): at most one lane per
  session, its status machine, the queue of pending turns and the two-phase start of a queued
  turn. The hash map is a partial map from session identifiers; a failed operation returns an
  error and leaves the map as it was. \<open>Fresh\<close> holds the identifiers and the clock reading an
  operation draws.
\<close>

section \<open>The lane manager\<close>

datatype RuntimeLaneError =
  ActiveTaskExists | LaneNotFound | QueuedTurnNotPending | NonActiveController

record RuntimeTransition =
  tr_lane :: RuntimeLane
  tr_event :: RuntimeEvent

type_synonym RuntimeLaneManager = "uuid \<rightharpoonup> RuntimeLane"

record Fresh =
  fresh_lane :: uuid
  fresh_turn :: uuid
  fresh_event :: uuid
  fresh_decision :: uuid
  now :: timestamp

definition lane_event ::
  "Fresh \<Rightarrow> RuntimeLane \<Rightarrow> uuid \<Rightarrow> u64 \<Rightarrow> RuntimeEventType \<Rightarrow> string \<Rightarrow> RuntimeEvent" where
  "lane_event fr lane turn seq ty summary =
     \<lparr>evt_schema_version = RUNTIME_EVENT_SCHEMA_VERSION, evt_id = fresh_event fr,
      sequence_no = seq, evt_session_id = lane_session_id lane, evt_turn_id = Some turn,
      evt_task_id = Some (lane_task_id lane), parent_event_id = None, causal_links = [],
      event_type = ty, evt_timestamp = now fr, evt_source = RuntimeEventSource.Runtime,
      payload = empty_payload\<lparr>p_summary := Some summary, p_lane_id := Some (lane_id lane),
        p_status := Some (lane_status lane),
        p_active_controller := Some (active_controller lane),
        p_runtime_lane := Some (Some lane)\<rparr>,
      payload_ref = None, durable = True\<rparr>"

definition lane_new ::
  "Fresh \<Rightarrow> uuid \<Rightarrow> uuid \<Rightarrow> uuid \<Rightarrow> uuid \<Rightarrow> Actor \<Rightarrow> RuntimeLane" where
  "lane_new fr workspace session task turn controller =
     \<lparr>lane_id = fresh_lane fr, lane_workspace_id = workspace, lane_session_id = session,
      lane_task_id = task, active_turn_id = Some turn, active_controller = controller,
      lane_status = TaskStatus.Running, pending_turns = [], injected_inputs = [],
      busy_policy_default = Append\<rparr>"

definition has_lane_with :: "RuntimeLaneManager \<Rightarrow> uuid \<Rightarrow> (TaskStatus \<Rightarrow> bool) \<Rightarrow> bool" where
  "has_lane_with m session p \<longleftrightarrow>
     (case m session of None \<Rightarrow> False | Some lane \<Rightarrow> p (lane_status lane))"

definition start_task ::
  "Fresh \<Rightarrow> uuid \<Rightarrow> uuid \<Rightarrow> uuid \<Rightarrow> uuid \<Rightarrow> Actor \<Rightarrow> u64 \<Rightarrow> RuntimeLaneManager
     \<Rightarrow> (RuntimeTransition \<times> RuntimeLaneManager, RuntimeLaneError) result" where
  "start_task fr workspace session task turn controller seq m =
     (if has_lane_with m session is_active then Inl ActiveTaskExists
      else let lane = lane_new fr workspace session task turn controller in
        Inr (\<lparr>tr_lane = lane,
              tr_event = lane_event fr lane turn seq (ControlEv TaskCreated)
                ''runtime lane started task''\<rparr>,
             m(session \<mapsto> lane)))"

definition decide_busy_policy ::
  "Fresh \<Rightarrow> uuid \<Rightarrow> uuid \<Rightarrow> Actor \<Rightarrow> BusyPolicy \<Rightarrow> RuntimeLaneManager
     \<Rightarrow> (BusyPolicyDecision, RuntimeLaneError) result" where
  "decide_busy_policy fr session command actor requested m =
     (case m session of
        None \<Rightarrow> Inl LaneNotFound
      | Some lane \<Rightarrow>
          (let (applied, reason) =
             (if lane_status lane = Aborting
              then (Reject, ''active task is aborting and no longer accepts input'')
              else if active_controller lane = actor
              then (Append, ''active controller input is appended to the runtime lane'')
              else (Reject, ''non-active controller cannot drive the active task''))
           in Inr \<lparr>bpd_decision_id = fresh_decision fr, bpd_lane_id = lane_id lane,
                   bpd_command_id = command, requested_policy = requested,
                   applied_policy = applied, bpd_reason = reason, safe_to_inject = False,
                   affected_turn_id = active_turn_id lane\<rparr>))"

definition turn_or_default :: "Fresh \<Rightarrow> RuntimeLane \<Rightarrow> uuid" where
  "turn_or_default fr lane = (case active_turn_id lane of None \<Rightarrow> fresh_turn fr | Some t \<Rightarrow> t)"

definition takeover ::
  "Fresh \<Rightarrow> uuid \<Rightarrow> Actor \<Rightarrow> u64 \<Rightarrow> RuntimeLaneManager
     \<Rightarrow> (RuntimeTransition \<times> RuntimeLaneManager, RuntimeLaneError) result" where
  "takeover fr session controller seq m =
     (case m session of
        None \<Rightarrow> Inl LaneNotFound
      | Some lane \<Rightarrow>
          if \<not> is_active (lane_status lane) then Inl LaneNotFound
          else let lane' = lane\<lparr>active_controller := controller\<rparr>;
                   event = lane_event fr lane' (turn_or_default fr lane') seq
                     (ControlEv ControllerChanged) ''active runtime controller changed'';
                   event' = event\<lparr>payload := (payload event)
                     \<lparr>p_previous_controller := Some (active_controller lane),
                      p_active_controller := Some (active_controller lane')\<rparr>\<rparr>
               in Inr (\<lparr>tr_lane = lane', tr_event = event'\<rparr>, m(session \<mapsto> lane')))"

definition queue_turn ::
  "Fresh \<Rightarrow> uuid \<Rightarrow> uuid \<Rightarrow> u64 \<Rightarrow> RuntimeLaneManager
     \<Rightarrow> (RuntimeTransition \<times> RuntimeLaneManager, RuntimeLaneError) result" where
  "queue_turn fr session turn seq m =
     (case m session of
        None \<Rightarrow> Inl LaneNotFound
      | Some lane \<Rightarrow>
          let lane' = lane\<lparr>pending_turns := pending_turns lane @ [turn]\<rparr> in
            Inr (\<lparr>tr_lane = lane',
                  tr_event = lane_event fr lane' turn seq (ControlEv TurnQueued)
                    ''user turn queued on active runtime lane''\<rparr>,
                 m(session \<mapsto> lane')))"

definition prepare_queued_turn_start ::
  "uuid \<Rightarrow> uuid \<Rightarrow> RuntimeLaneManager \<Rightarrow> (uuid, RuntimeLaneError) result" where
  "prepare_queued_turn_start session turn m =
     (case m session of
        None \<Rightarrow> Inl LaneNotFound
      | Some lane \<Rightarrow>
          if turn \<notin> set (pending_turns lane) then Inl QueuedTurnNotPending
          else Inr (lane_id lane))"

text \<open>\<^verbatim>\<open>position\<close> and \<^verbatim>\<open>Vec::remove\<close> together drop the first occurrence.\<close>

definition commit_queued_turn_start ::
  "uuid \<Rightarrow> uuid \<Rightarrow> uuid \<Rightarrow> RuntimeLaneManager
     \<Rightarrow> (unit \<times> RuntimeLaneManager, RuntimeLaneError) result" where
  "commit_queued_turn_start session lid turn m =
     (case m session of
        None \<Rightarrow> Inl LaneNotFound
      | Some lane \<Rightarrow>
          if lane_id lane \<noteq> lid then Inl LaneNotFound
          else if turn \<notin> set (pending_turns lane) then Inl QueuedTurnNotPending
          else Inr ((), m(session \<mapsto> lane\<lparr>pending_turns := remove1 turn (pending_turns lane),
                                          active_turn_id := Some turn\<rparr>)))"

definition start_queued_turn ::
  "uuid \<Rightarrow> uuid \<Rightarrow> RuntimeLaneManager \<Rightarrow> (unit \<times> RuntimeLaneManager, RuntimeLaneError) result"
where
  "start_queued_turn session turn m =
     and_then (prepare_queued_turn_start session turn m)
       (\<lambda>lid. commit_queued_turn_start session lid turn m)"

definition discard_queued_turn ::
  "uuid \<Rightarrow> uuid \<Rightarrow> RuntimeLaneManager \<Rightarrow> (unit \<times> RuntimeLaneManager, RuntimeLaneError) result"
where
  "discard_queued_turn session turn m =
     (case m session of
        None \<Rightarrow> Inl LaneNotFound
      | Some lane \<Rightarrow>
          Inr ((), m(session \<mapsto> lane\<lparr>pending_turns := removeAll turn (pending_turns lane)\<rparr>)))"

definition set_status ::
  "Fresh \<Rightarrow> uuid \<Rightarrow> TaskStatus \<Rightarrow> u64 \<Rightarrow> RuntimeEventType \<Rightarrow> RuntimeLaneManager
     \<Rightarrow> (RuntimeTransition \<times> RuntimeLaneManager, RuntimeLaneError) result" where
  "set_status fr session status seq ty m =
     (case m session of
        None \<Rightarrow> Inl LaneNotFound
      | Some lane \<Rightarrow>
          let lane' = lane\<lparr>lane_status := status\<rparr> in
            Inr (\<lparr>tr_lane = lane',
                  tr_event = lane_event fr lane' (turn_or_default fr lane') seq ty
                    ''runtime lane status changed''\<rparr>,
                 m(session \<mapsto> lane')))"

definition abort ::
  "Fresh \<Rightarrow> uuid \<Rightarrow> u64 \<Rightarrow> RuntimeLaneManager
     \<Rightarrow> (RuntimeTransition \<times> RuntimeLaneManager, RuntimeLaneError) result" where
  "abort fr session seq m =
     (if \<not> has_lane_with m session is_active then Inl LaneNotFound
      else set_status fr session Aborting seq (ControlEv TaskAbortRequested) m)"

definition pause ::
  "Fresh \<Rightarrow> uuid \<Rightarrow> u64 \<Rightarrow> RuntimeLaneManager
     \<Rightarrow> (RuntimeTransition \<times> RuntimeLaneManager, RuntimeLaneError) result" where
  "pause fr session seq m =
     (if \<not> has_lane_with m session
           (\<lambda>s. s \<in> {TaskStatus.Running, WaitingApproval, WaitingAuthentication, Pausing})
      then Inl LaneNotFound
      else set_status fr session Paused seq (ControlEv TaskPaused) m)"

definition resume ::
  "Fresh \<Rightarrow> uuid \<Rightarrow> u64 \<Rightarrow> RuntimeLaneManager
     \<Rightarrow> (RuntimeTransition \<times> RuntimeLaneManager, RuntimeLaneError) result" where
  "resume fr session seq m =
     (if \<not> has_lane_with m session (\<lambda>s. s \<in> {Pausing, Paused}) then Inl LaneNotFound
      else set_status fr session TaskStatus.Running seq (ControlEv TaskResumed) m)"

definition finish_task ::
  "Fresh \<Rightarrow> uuid \<Rightarrow> TaskStatus \<Rightarrow> u64 \<Rightarrow> RuntimeLaneManager
     \<Rightarrow> (RuntimeTransition \<times> RuntimeLaneManager, RuntimeLaneError) result" where
  "finish_task fr session status seq m =
     (if \<not> has_lane_with m session is_active then Inl LaneNotFound
      else set_status fr session status seq (for_terminal_status status) m)"

definition wait_for_authentication ::
  "Fresh \<Rightarrow> uuid \<Rightarrow> u64 \<Rightarrow> RuntimeLaneManager
     \<Rightarrow> (RuntimeTransition \<times> RuntimeLaneManager, RuntimeLaneError) result" where
  "wait_for_authentication fr session seq m =
     set_status fr session WaitingAuthentication seq (ControlEv ProviderAuthRequired) m"

definition authentication_resolved ::
  "Fresh \<Rightarrow> uuid \<Rightarrow> u64 \<Rightarrow> RuntimeLaneManager
     \<Rightarrow> (RuntimeTransition \<times> RuntimeLaneManager, RuntimeLaneError) result" where
  "authentication_resolved fr session seq m =
     (if \<not> has_lane_with m session (\<lambda>s. s = WaitingAuthentication) then Inl LaneNotFound
      else set_status fr session TaskStatus.Running seq (ControlEv ProviderAuthSubmitted) m)"

section \<open>The manager as a machine\<close>

datatype LaneOp =
    StartTask Fresh uuid uuid uuid uuid Actor u64
  | Takeover Fresh uuid Actor u64
  | QueueTurn Fresh uuid uuid u64
  | CommitQueuedTurn uuid uuid uuid
  | StartQueuedTurn uuid uuid
  | DiscardQueuedTurn uuid uuid
  | Abort Fresh uuid u64
  | Pause Fresh uuid u64
  | Resume Fresh uuid u64
  | FinishTask Fresh uuid TaskStatus u64
  | WaitForAuthentication Fresh uuid u64
  | AuthenticationResolved Fresh uuid u64

definition emits ::
  "('t \<times> RuntimeLaneManager, RuntimeLaneError) result
     \<Rightarrow> ('t option \<times> RuntimeLaneManager, RuntimeLaneError) result" where
  "emits r = and_then r (\<lambda>(t, m). Inr (Some t, m))"

definition silent ::
  "(unit \<times> RuntimeLaneManager, RuntimeLaneError) result
     \<Rightarrow> ('t option \<times> RuntimeLaneManager, RuntimeLaneError) result" where
  "silent r = and_then r (\<lambda>(u, m). Inr (None, m))"

fun lane_run ::
  "(LaneOp, RuntimeLaneManager, RuntimeTransition option, RuntimeLaneError) machine" where
  "lane_run (StartTask fr w s t u c n) m = emits (start_task fr w s t u c n m)"
| "lane_run (Takeover fr s c n) m = emits (takeover fr s c n m)"
| "lane_run (QueueTurn fr s u n) m = emits (queue_turn fr s u n m)"
| "lane_run (CommitQueuedTurn s l u) m = silent (commit_queued_turn_start s l u m)"
| "lane_run (StartQueuedTurn s u) m = silent (start_queued_turn s u m)"
| "lane_run (DiscardQueuedTurn s u) m = silent (discard_queued_turn s u m)"
| "lane_run (Abort fr s n) m = emits (abort fr s n m)"
| "lane_run (Pause fr s n) m = emits (pause fr s n m)"
| "lane_run (Resume fr s n) m = emits (resume fr s n m)"
| "lane_run (FinishTask fr s st n) m = emits (finish_task fr s st n m)"
| "lane_run (WaitForAuthentication fr s n) m = emits (wait_for_authentication fr s n m)"
| "lane_run (AuthenticationResolved fr s n) m = emits (authentication_resolved fr s n m)"

primrec op_session :: "LaneOp \<Rightarrow> uuid" where
  "op_session (StartTask fr w s t u c n) = s"
| "op_session (Takeover fr s c n) = s"
| "op_session (QueueTurn fr s u n) = s"
| "op_session (CommitQueuedTurn s l u) = s"
| "op_session (StartQueuedTurn s u) = s"
| "op_session (DiscardQueuedTurn s u) = s"
| "op_session (Abort fr s n) = s"
| "op_session (Pause fr s n) = s"
| "op_session (Resume fr s n) = s"
| "op_session (FinishTask fr s st n) = s"
| "op_session (WaitForAuthentication fr s n) = s"
| "op_session (AuthenticationResolved fr s n) = s"

primrec is_start_task :: "LaneOp \<Rightarrow> bool" where
  "is_start_task (StartTask fr w s t u c n) = True"
| "is_start_task (Takeover fr s c n) = False"
| "is_start_task (QueueTurn fr s u n) = False"
| "is_start_task (CommitQueuedTurn s l u) = False"
| "is_start_task (StartQueuedTurn s u) = False"
| "is_start_task (DiscardQueuedTurn s u) = False"
| "is_start_task (Abort fr s n) = False"
| "is_start_task (Pause fr s n) = False"
| "is_start_task (Resume fr s n) = False"
| "is_start_task (FinishTask fr s st n) = False"
| "is_start_task (WaitForAuthentication fr s n) = False"
| "is_start_task (AuthenticationResolved fr s n) = False"

lemmas lane_op_defs =
  start_task_def takeover_def queue_turn_def commit_queued_turn_start_def
  start_queued_turn_def prepare_queued_turn_start_def discard_queued_turn_def
  set_status_def abort_def pause_def resume_def finish_task_def
  wait_for_authentication_def authentication_resolved_def has_lane_with_def

lemma emits_Inr [simp]: "emits r = Inr (out, m) \<longleftrightarrow> (\<exists>t. r = Inr (t, m) \<and> out = Some t)"
  by (auto simp: emits_def)

lemma silent_Inr [simp]: "silent r = Inr (out, m) \<longleftrightarrow> r = Inr ((), m) \<and> out = None"
  by (auto simp: silent_def)

text \<open>
  Every successful operation replaces the lane of its own session and nothing else. Only
  \<open>StartTask\<close> creates a lane; every other operation keeps the identity of the one it finds.
\<close>

definition same_lane_identity :: "RuntimeLane \<Rightarrow> RuntimeLane \<Rightarrow> bool" where
  "same_lane_identity a b \<longleftrightarrow>
     lane_id a = lane_id b \<and> lane_task_id a = lane_task_id b \<and>
     lane_session_id a = lane_session_id b \<and> lane_workspace_id a = lane_workspace_id b"

lemma start_task_success:
  assumes "start_task fr w s t u c n m = Inr (tr, m')"
  shows "\<not> has_lane_with m s is_active" and "m' = m(s \<mapsto> lane_new fr w s t u c)"
  using assms by (auto simp: start_task_def Let_def split: if_splits)

lemma other_op_success:
  assumes "lane_run op m = Inr (out, m')" and "\<not> is_start_task op"
  obtains lane lane' where "m (op_session op) = Some lane" and "m' = m(op_session op \<mapsto> lane')"
    and "same_lane_identity lane' lane"
    and "active_turn_id lane \<noteq> None \<longrightarrow> active_turn_id lane' \<noteq> None"
  using assms
  by (cases op)
    (auto simp: lane_op_defs Let_def same_lane_identity_def split: if_splits option.splits)

lemma lane_run_frame:
  assumes run: "lane_run op m = Inr (out, m')" and "op_session op \<noteq> s"
  shows "m' s = m s"
proof (cases "is_start_task op")
  case True
  with assms show ?thesis by (cases op) (auto dest: start_task_success(2))
next
  case False
  from run False obtain lane' where "m' = m(op_session op \<mapsto> lane')" by (rule other_op_success)
  with assms(2) show ?thesis by simp
qed

section \<open>Well-formed managers\<close>

definition lane_wf :: "RuntimeLaneManager \<Rightarrow> bool" where
  "lane_wf m \<longleftrightarrow>
     (\<forall>s lane. m s = Some lane \<longrightarrow> lane_session_id lane = s \<and> active_turn_id lane \<noteq> None)"

lemma lane_wf_update:
  "lane_wf m \<Longrightarrow> lane_session_id lane = s \<Longrightarrow> active_turn_id lane \<noteq> None \<Longrightarrow>
     lane_wf (m(s \<mapsto> lane))"
  by (auto simp: lane_wf_def)

lemma lane_run_wf:
  assumes wf: "lane_wf m" and run: "lane_run op m = Inr (out, m')"
  shows "lane_wf m'"
proof (cases "is_start_task op")
  case True
  then obtain fr w s t u c n where "op = StartTask fr w s t u c n" by (cases op) simp_all
  with run have "m' = m(s \<mapsto> lane_new fr w s t u c)" by (auto dest: start_task_success(2))
  with wf show ?thesis by (simp add: lane_wf_update lane_new_def)
next
  case False
  from run False obtain lane lane' where "m (op_session op) = Some lane"
    "m' = m(op_session op \<mapsto> lane')" "same_lane_identity lane' lane"
    "active_turn_id lane \<noteq> None \<longrightarrow> active_turn_id lane' \<noteq> None"
    by (rule other_op_success)
  with wf show ?thesis by (simp add: lane_wf_update lane_wf_def same_lane_identity_def)
qed

interpretation lane_inv: invariant_machine lane_run lane_wf
  by unfold_locales (rule lane_run_wf)

text \<open>
  Property C18. Starting from the empty manager, whatever operations clients interleave, every
  lane is stored under its own session and has an active turn, so the fallback to a freshly
  drawn turn identifier in the emitted events is never taken.
\<close>

theorem lanes_always_well_formed:
  "lane_wf (exec lane_run ops Map.empty) \<and>
   (exec lane_run ops Map.empty s = Some lane \<longrightarrow>
      active_turn_id lane = Some (turn_or_default fr lane))"
proof -
  have "lane_wf Map.empty" by (simp add: lane_wf_def)
  then have wf: "lane_wf (exec lane_run ops Map.empty)" by (rule lane_inv.exec_inv)
  have "active_turn_id lane \<noteq> None" if "exec lane_run ops Map.empty s = Some lane"
    using wf that by (simp add: lane_wf_def)
  with wf show ?thesis by (auto simp: turn_or_default_def)
qed

section \<open>One task at a time\<close>

definition runs_task :: "uuid \<Rightarrow> uuid \<Rightarrow> uuid \<Rightarrow> RuntimeLaneManager \<Rightarrow> bool" where
  "runs_task s lid task m \<longleftrightarrow>
     (\<exists>lane. m s = Some lane \<and> is_active (lane_status lane) \<and> lane_id lane = lid \<and>
             lane_task_id lane = task)"

fun finishes :: "uuid \<Rightarrow> LaneOp \<Rightarrow> bool" where
  "finishes s (FinishTask fr s' st n) \<longleftrightarrow> s' = s"
| "finishes s _ \<longleftrightarrow> False"

lemma active_stays_active:
  assumes "lane_run op m = Inr (out, m')" and "m s = Some lane" and "is_active (lane_status lane)"
    and "\<not> finishes s op"
  shows "\<exists>lane'. m' s = Some lane' \<and> is_active (lane_status lane') \<and> same_lane_identity lane' lane"
proof (cases "op_session op = s")
  case True
  with assms show ?thesis
    by (cases op)
      (auto simp: lane_op_defs Let_def same_lane_identity_def split: if_splits option.splits)
next
  case False
  with assms show ?thesis by (simp add: lane_run_frame same_lane_identity_def)
qed

interpretation one_task: stable_machine lane_run "\<lambda>op. \<not> finishes s op" "runs_task s lid task"
  for s lid task
proof unfold_locales
  fix m op out m'
  assume holds: "runs_task s lid task m" and op: "\<not> finishes s op"
    and run: "lane_run op m = Inr (out, m')"
  from holds obtain lane where "m s = Some lane" "is_active (lane_status lane)"
    "lane_id lane = lid" "lane_task_id lane = task"
    by (auto simp: runs_task_def)
  moreover from this obtain lane' where "m' s = Some lane'" "is_active (lane_status lane')"
    "same_lane_identity lane' lane"
    using active_stays_active [OF run _ _ op] by blast
  ultimately show "runs_task s lid task m'"
    by (simp add: runs_task_def same_lane_identity_def)
qed

text \<open>
  Property C15. A session runs one task at a time: while no \<open>finish_task\<close> for the session is
  among the interleaved operations, the lane of an active task stays active with the same
  lane and task identity, and a further \<open>start_task\<close> is refused without changing anything.
\<close>

theorem active_task_is_exclusive:
  assumes "m s = Some lane" and "is_active (lane_status lane)"
    and "list_all (\<lambda>op. \<not> finishes s op) ops"
  shows "runs_task s (lane_id lane) (lane_task_id lane) (exec lane_run ops m) \<and>
    start_task fr w s t u c n (exec lane_run ops m) = Inl ActiveTaskExists"
proof -
  from assms(1,2) have "runs_task s (lane_id lane) (lane_task_id lane) m"
    by (simp add: runs_task_def)
  then have "runs_task s (lane_id lane) (lane_task_id lane) (exec lane_run ops m)"
    using assms(3) by (rule one_task.exec_stable)
  moreover from this have "has_lane_with (exec lane_run ops m) s is_active"
    by (auto simp: runs_task_def has_lane_with_def)
  ultimately show ?thesis by (simp add: start_task_def)
qed

section \<open>The two-phase start of a queued turn\<close>

definition turn_reserved :: "uuid \<Rightarrow> uuid \<Rightarrow> uuid \<Rightarrow> RuntimeLaneManager \<Rightarrow> bool" where
  "turn_reserved s lid turn m \<longleftrightarrow>
     (\<exists>lane. m s = Some lane \<and> (lane_id lane = lid \<longrightarrow> turn \<in> set (pending_turns lane)))"

text \<open>
  Operations that may run between the two phases: anything but another removal of the same
  turn; a task started meanwhile draws a lane identifier of its own.
\<close>

fun leaves_turn :: "uuid \<Rightarrow> uuid \<Rightarrow> uuid \<Rightarrow> LaneOp \<Rightarrow> bool" where
  "leaves_turn s lid turn (StartTask fr w s' t u c n) \<longleftrightarrow> fresh_lane fr \<noteq> lid"
| "leaves_turn s lid turn (CommitQueuedTurn s' l u) \<longleftrightarrow> s' \<noteq> s \<or> u \<noteq> turn"
| "leaves_turn s lid turn (StartQueuedTurn s' u) \<longleftrightarrow> s' \<noteq> s \<or> u \<noteq> turn"
| "leaves_turn s lid turn (DiscardQueuedTurn s' u) \<longleftrightarrow> s' \<noteq> s \<or> u \<noteq> turn"
| "leaves_turn s lid turn _ \<longleftrightarrow> True"

lemma turn_stays_reserved:
  assumes "turn_reserved s lid turn m" and "leaves_turn s lid turn op"
    and "lane_run op m = Inr (out, m')"
  shows "turn_reserved s lid turn m'"
proof (cases "op_session op = s")
  case True
  with assms show ?thesis
    by (cases op)
      (auto simp: lane_op_defs turn_reserved_def lane_new_def Let_def
        split: if_splits option.splits)
next
  case False
  with assms(1,3) show ?thesis by (simp add: lane_run_frame turn_reserved_def)
qed

interpretation reserved: stable_machine lane_run "leaves_turn s lid turn" "turn_reserved s lid turn"
  for s lid turn
  by unfold_locales (rule turn_stays_reserved)

text \<open>
  Property C16. The two-phase start of a queued turn is safe against interleaving: once
  \<open>prepare_queued_turn_start\<close> has returned a lane identity, and whatever other operations run
  before the commit as long as none takes the same turn, the commit makes the turn active and
  takes one occurrence of it off the queue; if the lane was replaced by a new task meanwhile,
  the commit fails with \<open>LaneNotFound\<close> instead of touching the new task.
\<close>

theorem prepared_turn_commits:
  assumes "prepare_queued_turn_start s turn m = Inr lid"
    and "list_all (leaves_turn s lid turn) ops"
  shows "\<exists>lane. exec lane_run ops m s = Some lane \<and>
    commit_queued_turn_start s lid turn (exec lane_run ops m) =
      (if lane_id lane = lid
       then Inr ((), (exec lane_run ops m)(s \<mapsto> lane
              \<lparr>pending_turns := remove1 turn (pending_turns lane), active_turn_id := Some turn\<rparr>))
       else Inl LaneNotFound)"
proof -
  from assms(1) have "turn_reserved s lid turn m"
    by (auto simp: prepare_queued_turn_start_def turn_reserved_def split: option.splits if_splits)
  then have "turn_reserved s lid turn (exec lane_run ops m)"
    using assms(2) by (rule reserved.exec_stable)
  then obtain lane where "exec lane_run ops m s = Some lane"
    "lane_id lane = lid \<longrightarrow> turn \<in> set (pending_turns lane)"
    unfolding turn_reserved_def by blast
  then show ?thesis
    by (intro exI [of _ lane]) (simp add: commit_queued_turn_start_def)
qed

section \<open>Finished lanes\<close>

fun reopens :: "uuid \<Rightarrow> LaneOp \<Rightarrow> bool" where
  "reopens s (StartTask fr w s' t u c n) \<longleftrightarrow> s' = s"
| "reopens s (WaitForAuthentication fr s' n) \<longleftrightarrow> s' = s"
| "reopens s _ \<longleftrightarrow> False"

definition settled :: "uuid \<Rightarrow> RuntimeLane \<Rightarrow> RuntimeLaneManager \<Rightarrow> bool" where
  "settled s lane m \<longleftrightarrow> \<not> is_active (lane_status lane) \<and>
     (\<exists>lane'. m s = Some lane' \<and> same_lane_identity lane' lane \<and>
        lane_status lane' = lane_status lane \<and> active_controller lane' = active_controller lane)"

lemma settled_step:
  assumes "settled s lane m" and "\<not> reopens s op" and "lane_run op m = Inr (out, m')"
  shows "settled s lane m'"
proof (cases "op_session op = s")
  case True
  with assms show ?thesis
    by (cases op)
      (auto simp: lane_op_defs settled_def same_lane_identity_def Let_def
        split: if_splits option.splits)
next
  case False
  with assms(1,3) show ?thesis by (simp add: lane_run_frame settled_def)
qed

interpretation settled: stable_machine lane_run "\<lambda>op. \<not> reopens s op" "settled s lane" for s lane
  by unfold_locales (rule settled_step)

lemma inactive_lane_refuses:
  assumes "m s = Some lane" and "\<not> is_active (lane_status lane)"
  shows "abort fr s n m = Inl LaneNotFound" and "pause fr s n m = Inl LaneNotFound"
    and "resume fr s n m = Inl LaneNotFound" and "finish_task fr s st n m = Inl LaneNotFound"
    and "takeover fr s c n m = Inl LaneNotFound"
    and "authentication_resolved fr s n m = Inl LaneNotFound"
  using assms
  by (cases "lane_status lane"; simp add: abort_def pause_def resume_def finish_task_def
      takeover_def authentication_resolved_def has_lane_with_def)+

text \<open>
  Property C17. A finished task stays finished: once a lane has a terminal status, no
  interleaving of operations other than starting a new task or waiting for authentication
  changes its status, controller or identity, and every control operation on it is answered
  with \<open>LaneNotFound\<close>.
\<close>

theorem finished_lane_is_final:
  assumes "m s = Some lane" and "is_terminal (lane_status lane)"
    and "list_all (\<lambda>op. \<not> reopens s op) ops"
  shows "settled s lane (exec lane_run ops m) \<and>
    abort fr s n (exec lane_run ops m) = Inl LaneNotFound \<and>
    pause fr s n (exec lane_run ops m) = Inl LaneNotFound \<and>
    resume fr s n (exec lane_run ops m) = Inl LaneNotFound \<and>
    finish_task fr s st n (exec lane_run ops m) = Inl LaneNotFound \<and>
    takeover fr s c n (exec lane_run ops m) = Inl LaneNotFound \<and>
    authentication_resolved fr s n (exec lane_run ops m) = Inl LaneNotFound"
proof -
  let ?m = "exec lane_run ops m"
  have "settled s lane m"
    using assms(1,2) by (simp add: settled_def same_lane_identity_def terminal_not_active)
  then have fin: "settled s lane ?m" using assms(3) by (rule settled.exec_stable)
  then obtain lane' where "?m s = Some lane'" "\<not> is_active (lane_status lane')"
    by (auto simp: settled_def)
  with fin show ?thesis by (simp add: inactive_lane_refuses)
qed


section \<open>Busy policy\<close>


section \<open>Witnesses\<close>

definition ex_fresh :: "nat \<Rightarrow> Fresh" where
  "ex_fresh k = \<lparr>fresh_lane = k, fresh_turn = k + 1, fresh_event = k + 2, fresh_decision = k + 3,
     now = 0\<rparr>"

definition ex_actor :: Actor where
  "ex_actor = \<lparr>actor_kind = Cli, actor_id = ''cli''\<rparr>"

abbreviation ex_start :: LaneOp where
  "ex_start \<equiv> StartTask (ex_fresh 100) 1 7 20 30 ex_actor 1"

definition ex_manager :: RuntimeLaneManager where
  "ex_manager = exec lane_run [ex_start, QueueTurn (ex_fresh 200) 7 31 2] Map.empty"

definition ex_lane :: RuntimeLane where
  "ex_lane = (lane_new (ex_fresh 100) 1 7 20 30 ex_actor)\<lparr>pending_turns := [31]\<rparr>"

lemma ex_manager_lane: "ex_manager = [7 \<mapsto> ex_lane]"
  by (simp add: ex_manager_def ex_lane_def next_state_def emits_def lane_op_defs Let_def lane_new_def)

theorem active_task_is_exclusive_witness:
  "runs_task 7 100 20 (exec lane_run [Pause (ex_fresh 300) 7 3, Abort (ex_fresh 400) 7 4] ex_manager) \<and>
   start_task (ex_fresh 500) 1 7 21 40 ex_actor 5
     (exec lane_run [Pause (ex_fresh 300) 7 3, Abort (ex_fresh 400) 7 4] ex_manager)
     = Inl ActiveTaskExists"
proof -
  have "ex_manager 7 = Some ex_lane" by (simp add: ex_manager_lane)
  moreover have "is_active (lane_status ex_lane)" by (simp add: ex_lane_def lane_new_def)
  moreover have "lane_id ex_lane = 100" "lane_task_id ex_lane = 20"
    by (simp_all add: ex_lane_def lane_new_def ex_fresh_def)
  ultimately show ?thesis
    using active_task_is_exclusive [of ex_manager 7 ex_lane
        "[Pause (ex_fresh 300) 7 3, Abort (ex_fresh 400) 7 4]" "ex_fresh 500" 1 21 40 ex_actor 5]
    by simp
qed

theorem prepared_turn_commits_witness:
  "\<exists>lane. exec lane_run [QueueTurn (ex_fresh 300) 7 32 3, Abort (ex_fresh 400) 7 4] ex_manager 7 =
     Some lane \<and>
    is_ok (commit_queued_turn_start 7 100 31
      (exec lane_run [QueueTurn (ex_fresh 300) 7 32 3, Abort (ex_fresh 400) 7 4] ex_manager)) =
    (lane_id lane = 100)"
proof -
  have "prepare_queued_turn_start 7 31 ex_manager = Inr 100"
    by (simp add: ex_manager_lane prepare_queued_turn_start_def ex_lane_def lane_new_def ex_fresh_def)
  from prepared_turn_commits [OF this,
      of "[QueueTurn (ex_fresh 300) 7 32 3, Abort (ex_fresh 400) 7 4]"]
  show ?thesis by auto
qed

theorem finished_lane_is_final_witness:
  "abort (ex_fresh 600) 7 6
     (exec lane_run [QueueTurn (ex_fresh 300) 7 32 3]
       (exec lane_run [FinishTask (ex_fresh 500) 7 Failed 5] ex_manager)) = Inl LaneNotFound"
proof -
  let ?m = "exec lane_run [FinishTask (ex_fresh 500) 7 Failed 5] ex_manager"
  have "?m 7 = Some (ex_lane\<lparr>lane_status := Failed\<rparr>)"
    by (simp add: ex_manager_lane ex_lane_def lane_new_def next_state_def emits_def lane_op_defs Let_def)
  then show ?thesis
    using finished_lane_is_final [of ?m 7 "ex_lane\<lparr>lane_status := Failed\<rparr>"
        "[QueueTurn (ex_fresh 300) 7 32 3]" "ex_fresh 600" 6]
    by simp
qed



theorem lanes_always_well_formed_witness:
  "lane_wf ex_manager \<and> active_turn_id ex_lane = Some (turn_or_default (ex_fresh 300) ex_lane)"
proof -
  have "ex_manager 7 = Some ex_lane" by (simp add: ex_manager_lane)
  then show ?thesis
    using lanes_always_well_formed [of "[ex_start, QueueTurn (ex_fresh 200) 7 31 2]" 7 ex_lane]
    unfolding ex_manager_def [symmetric] by blast
qed

end
