(* ===== verification/Projection.thy ===== *)
theory Projection
  imports Lane
begin

text \<open>
  The read model of a session: the reducer from runtime events to \<^verbatim>\<open>StateProjection\<close>
  (\<^verbatim>\<open>golutra-agent-store/src/projection.rs\<close>) and the status reducer it shares with clients
  (\<^verbatim>\<open>golutra-agent-protocol/src/projection.rs\<close>). A visible step keeps the event type and the
  status themselves where the source stores their debug names.

  The refinement at the end says that the reducer, fed with the events the lane manager of
  theory \<open>Lane\<close> emits, reproduces the manager's own view of the session.
\<close>

section \<open>The reducer\<close>

record VisibleStep =
  vs_label :: RuntimeEventType
  vs_status :: TaskStatus
  vs_summary :: string

record StateProjection =
  sp_session_id :: uuid
  sp_active_task_id :: "uuid option"
  sp_task_status :: TaskStatus
  sp_runtime_lane :: "RuntimeLane option"
  sp_last_sequence_no :: u64
  sp_visible_steps :: "VisibleStep list"
  sp_pending_approval :: "string option"
  sp_final_message :: "string option"
  sp_last_loop_decision :: "LoopDecision option"
  sp_last_verification :: "VerificationRecord option"

definition MAX_PROJECTION_VISIBLE_STEPS :: nat where
  "MAX_PROJECTION_VISIBLE_STEPS = 512"

definition initial_projection :: "uuid \<Rightarrow> StateProjection" where
  "initial_projection session =
     \<lparr>sp_session_id = session, sp_active_task_id = None, sp_task_status = Idle,
      sp_runtime_lane = None, sp_last_sequence_no = 0, sp_visible_steps = [],
      sp_pending_approval = None, sp_final_message = None, sp_last_loop_decision = None,
      sp_last_verification = None\<rparr>"

definition unwrap_or :: "'a option \<Rightarrow> 'a \<Rightarrow> 'a" where
  "unwrap_or v d = (case v of None \<Rightarrow> d | Some x \<Rightarrow> x)"

definition task_status_after_event :: "TaskStatus \<Rightarrow> RuntimeEvent \<Rightarrow> TaskStatus" where
  "task_status_after_event current e =
     (case event_type e of
        ControlEv TaskCreated \<Rightarrow> TaskStatus.Running
      | ControlEv TurnStarted \<Rightarrow> TaskStatus.Running
      | ControlEv TaskResumed \<Rightarrow> TaskStatus.Running
      | ControlEv TaskCompleted \<Rightarrow> unwrap_or (p_status (payload e)) Completed
      | ControlEv TaskAbortRequested \<Rightarrow> Aborting
      | ControlEv TaskAborted \<Rightarrow> unwrap_or (p_status (payload e)) TaskStatus.Cancelled
      | ControlEv TaskInterrupted \<Rightarrow> Interrupted
      | ControlEv TaskUncertain \<Rightarrow> Uncertain
      | ControlEv TaskReconciled \<Rightarrow> unwrap_or (p_status (payload e)) Interrupted
      | ControlEv TaskPaused \<Rightarrow> Paused
      | ControlEv ApprovalRequested \<Rightarrow> WaitingApproval
      | ControlEv ApprovalResolved \<Rightarrow>
          if current = WaitingApproval then TaskStatus.Running else current
      | ControlEv ProviderAuthRequired \<Rightarrow> WaitingAuthentication
      | ControlEv ProviderAuthSubmitted \<Rightarrow>
          if current = WaitingAuthentication then TaskStatus.Running else current
      | ControlEv ProviderAuthCancelled \<Rightarrow> TaskStatus.Blocked
      | _ \<Rightarrow> current)"

definition runtime_lane_from_event :: "RuntimeEvent \<Rightarrow> RuntimeLane option" where
  "runtime_lane_from_event e =
     (case p_runtime_lane (payload e) of
        Some decoded \<Rightarrow> decoded
      | None \<Rightarrow>
          (case p_nested_runtime_lane (payload e) of Some decoded \<Rightarrow> decoded | None \<Rightarrow> None))"

definition verification_from_event :: "RuntimeEvent \<Rightarrow> VerificationRecord option" where
  "verification_from_event e =
     fst (case p_record (payload e) of Some v \<Rightarrow> v | None \<Rightarrow> p_whole (payload e))"

definition loop_decision_from_event :: "RuntimeEvent \<Rightarrow> LoopDecision option" where
  "loop_decision_from_event e =
     snd (case p_record (payload e) of Some v \<Rightarrow> v | None \<Rightarrow> p_whole (payload e))"

definition reduce_fields :: "RuntimeEvent \<Rightarrow> StateProjection \<Rightarrow> StateProjection" where
  "reduce_fields e p =
     (case event_type e of
        ControlEv TaskCreated \<Rightarrow>
          p\<lparr>sp_pending_approval := None, sp_final_message := None,
            sp_last_loop_decision := None, sp_last_verification := None\<rparr>
      | ControlEv TurnStarted \<Rightarrow> p\<lparr>sp_pending_approval := None, sp_final_message := None\<rparr>
      | ControlEv TaskCompleted \<Rightarrow> p\<lparr>sp_pending_approval := None\<rparr>
      | ControlEv TaskAborted \<Rightarrow> p\<lparr>sp_pending_approval := None\<rparr>
      | ControlEv TaskInterrupted \<Rightarrow> p\<lparr>sp_pending_approval := None\<rparr>
      | ControlEv TaskUncertain \<Rightarrow> p\<lparr>sp_pending_approval := None\<rparr>
      | ControlEv TaskReconciled \<Rightarrow> p\<lparr>sp_pending_approval := None\<rparr>
      | ControlEv ApprovalRequested \<Rightarrow> p\<lparr>sp_pending_approval := p_approval_id (payload e)\<rparr>
      | ControlEv ApprovalResolved \<Rightarrow> p\<lparr>sp_pending_approval := None\<rparr>
      | ExecutionEv VerificationCompleted \<Rightarrow>
          p\<lparr>sp_last_verification := verification_from_event e\<rparr>
      | ExecutionEv LoopDecided \<Rightarrow> p\<lparr>sp_last_loop_decision := loop_decision_from_event e\<rparr>
      | ExecutionEv AssistantMessage \<Rightarrow> p\<lparr>sp_final_message := p_content (payload e)\<rparr>
      | _ \<Rightarrow> p)"

definition project_lane :: "RuntimeEvent \<Rightarrow> StateProjection \<Rightarrow> StateProjection" where
  "project_lane e p = p\<lparr>sp_runtime_lane := map_option (\<lambda>lane.
     let lane' = lane\<lparr>lane_status := sp_task_status p\<rparr> in
     if event_type e = ControlEv TurnStarted then lane'\<lparr>active_turn_id := evt_turn_id e\<rparr>
     else lane') (sp_runtime_lane p)\<rparr>"

text \<open>Keeps the last \<open>limit\<close> entries, as draining the overflow from the front does.\<close>

definition keep_last :: "nat \<Rightarrow> 'a list \<Rightarrow> 'a list" where
  "keep_last limit xs = drop (length xs - limit) xs"

definition record_visible_step :: "RuntimeEvent \<Rightarrow> StateProjection \<Rightarrow> StateProjection" where
  "record_visible_step e p =
     (let steps =
        (if is_user_projection_fact (event_type e)
         then sp_visible_steps p @
           [\<lparr>vs_label = event_type e, vs_status = sp_task_status p,
             vs_summary = unwrap_or (p_summary (payload e)) ''runtime event recorded''\<rparr>]
         else sp_visible_steps p)
      in p\<lparr>sp_visible_steps := keep_last MAX_PROJECTION_VISIBLE_STEPS steps\<rparr>)"

definition apply_event_to_projection :: "RuntimeEvent \<Rightarrow> StateProjection \<Rightarrow> StateProjection" where
  "apply_event_to_projection e p =
     (let p1 = (case runtime_lane_from_event e of
                  None \<Rightarrow> p | Some lane \<Rightarrow> p\<lparr>sp_runtime_lane := Some lane\<rparr>);
          p2 = p1\<lparr>sp_task_status := task_status_after_event (sp_task_status p1) e\<rparr>
      in record_visible_step e (project_lane e (reduce_fields e p2)))"

definition switches_task :: "RuntimeEventType \<Rightarrow> bool" where
  "switches_task ty \<longleftrightarrow>
     ty \<in> {ControlEv TaskCreated, ControlEv TaskResumed, ControlEv TurnStarted}"

definition adopt_task :: "uuid \<Rightarrow> StateProjection \<Rightarrow> StateProjection" where
  "adopt_task task p =
     (if sp_active_task_id p \<noteq> Some task
      then p\<lparr>sp_runtime_lane := None, sp_pending_approval := None, sp_final_message := None,
             sp_last_loop_decision := None, sp_last_verification := None,
             sp_active_task_id := Some task\<rparr>
      else p\<lparr>sp_active_task_id := Some task\<rparr>)"

definition apply_event_to_state :: "RuntimeEvent \<Rightarrow> StateProjection \<Rightarrow> StateProjection" where
  "apply_event_to_state e p =
     (let p1 = p\<lparr>sp_last_sequence_no := max (sp_last_sequence_no p) (sequence_no e)\<rparr> in
      case evt_task_id e of
        None \<Rightarrow> apply_event_to_projection e p1
      | Some task \<Rightarrow>
          (let p2 = (if sp_active_task_id p1 = None \<or> switches_task (event_type e)
                     then adopt_task task p1 else p1)
           in if sp_active_task_id p2 \<noteq> Some task then p2
              else apply_event_to_projection e p2))"

section \<open>General properties of the reducer\<close>

lemma length_keep_last [simp]: "length (keep_last n xs) = min n (length xs)"
  by (simp add: keep_last_def)

lemma reduce_fields_frame [simp]:
  "sp_session_id (reduce_fields e p) = sp_session_id p"
  "sp_active_task_id (reduce_fields e p) = sp_active_task_id p"
  "sp_task_status (reduce_fields e p) = sp_task_status p"
  "sp_runtime_lane (reduce_fields e p) = sp_runtime_lane p"
  "sp_last_sequence_no (reduce_fields e p) = sp_last_sequence_no p"
  "sp_visible_steps (reduce_fields e p) = sp_visible_steps p"
  by (simp_all add: reduce_fields_def
      split: RuntimeEventType.split ControlEvent.split ExecutionEvent.split)

lemma project_lane_frame [simp]:
  "sp_session_id (project_lane e p) = sp_session_id p"
  "sp_active_task_id (project_lane e p) = sp_active_task_id p"
  "sp_task_status (project_lane e p) = sp_task_status p"
  "sp_last_sequence_no (project_lane e p) = sp_last_sequence_no p"
  "sp_visible_steps (project_lane e p) = sp_visible_steps p"
  by (simp_all add: project_lane_def)

lemma record_visible_step_frame [simp]:
  "sp_session_id (record_visible_step e p) = sp_session_id p"
  "sp_active_task_id (record_visible_step e p) = sp_active_task_id p"
  "sp_task_status (record_visible_step e p) = sp_task_status p"
  "sp_runtime_lane (record_visible_step e p) = sp_runtime_lane p"
  "sp_last_sequence_no (record_visible_step e p) = sp_last_sequence_no p"
  by (simp_all add: record_visible_step_def Let_def)

lemma record_visible_step_bounded:
  "length (sp_visible_steps (record_visible_step e p)) \<le> MAX_PROJECTION_VISIBLE_STEPS"
  by (simp add: record_visible_step_def Let_def)

lemma project_lane_lane [simp]:
  "sp_runtime_lane (project_lane e p) = map_option (\<lambda>lane.
     let lane' = lane\<lparr>lane_status := sp_task_status p\<rparr> in
     if event_type e = ControlEv TurnStarted then lane'\<lparr>active_turn_id := evt_turn_id e\<rparr>
     else lane') (sp_runtime_lane p)"
  by (simp add: project_lane_def)

lemma apply_event_to_projection_frame [simp]:
  "sp_session_id (apply_event_to_projection e p) = sp_session_id p"
  "sp_active_task_id (apply_event_to_projection e p) = sp_active_task_id p"
  "sp_last_sequence_no (apply_event_to_projection e p) = sp_last_sequence_no p"
  "sp_task_status (apply_event_to_projection e p) = task_status_after_event (sp_task_status p) e"
  by (simp_all add: apply_event_to_projection_def Let_def split: option.split)

lemma apply_event_to_projection_lane:
  "sp_runtime_lane (apply_event_to_projection e p) = map_option (\<lambda>lane.
     let lane' = lane\<lparr>lane_status := task_status_after_event (sp_task_status p) e\<rparr> in
     if event_type e = ControlEv TurnStarted then lane'\<lparr>active_turn_id := evt_turn_id e\<rparr>
     else lane')
     (case runtime_lane_from_event e of None \<Rightarrow> sp_runtime_lane p | Some lane \<Rightarrow> Some lane)"
  by (simp add: apply_event_to_projection_def Let_def split: option.split)

lemma adopt_task_frame [simp]:
  "sp_session_id (adopt_task t p) = sp_session_id p"
  "sp_active_task_id (adopt_task t p) = Some t"
  "sp_last_sequence_no (adopt_task t p) = sp_last_sequence_no p"
  "sp_task_status (adopt_task t p) = sp_task_status p"
  "sp_visible_steps (adopt_task t p) = sp_visible_steps p"
  by (simp_all add: adopt_task_def)

lemma apply_event_to_state_frame [simp]:
  "sp_session_id (apply_event_to_state e p) = sp_session_id p"
  "sp_last_sequence_no (apply_event_to_state e p) = max (sp_last_sequence_no p) (sequence_no e)"
  by (simp_all add: apply_event_to_state_def Let_def split: option.split)

lemma apply_event_to_projection_bounded:
  "length (sp_visible_steps (apply_event_to_projection e p)) \<le> MAX_PROJECTION_VISIBLE_STEPS"
  by (simp add: apply_event_to_projection_def Let_def record_visible_step_bounded)

lemma apply_event_to_state_bounded:
  assumes "length (sp_visible_steps p) \<le> MAX_PROJECTION_VISIBLE_STEPS"
  shows "length (sp_visible_steps (apply_event_to_state e p)) \<le> MAX_PROJECTION_VISIBLE_STEPS"
  using assms
  by (simp add: apply_event_to_state_def Let_def apply_event_to_projection_bounded
      split: option.split)

text \<open>An event of the task in view, or one that makes its task the one in view, is applied.\<close>

lemma apply_event_of_active_task:
  assumes "evt_task_id e = Some t" and "sp_active_task_id p = Some t \<or> switches_task (event_type e)"
  shows "sp_active_task_id (apply_event_to_state e p) = Some t"
    and "sp_task_status (apply_event_to_state e p) = task_status_after_event (sp_task_status p) e"
    and "runtime_lane_from_event e = Some lane \<Longrightarrow> event_type e \<noteq> ControlEv TurnStarted \<Longrightarrow>
      sp_runtime_lane (apply_event_to_state e p)
        = Some (lane\<lparr>lane_status := task_status_after_event (sp_task_status p) e\<rparr>)"
  using assms
  by (auto simp: apply_event_to_state_def Let_def apply_event_to_projection_lane)

section \<open>The projection follows the lane manager\<close>

definition project_transition :: "RuntimeTransition option \<Rightarrow> StateProjection \<Rightarrow> StateProjection"
where
  "project_transition out p =
     (case out of
        None \<Rightarrow> p
      | Some tr \<Rightarrow>
          if evt_session_id (tr_event tr) = sp_session_id p then apply_event_to_state (tr_event tr) p
          else p)"

text \<open>
  What the projection shows of a lane: everything but the queue and the running turn, which the
  silent operations change without an event of the manager.
\<close>

definition settled_part :: "RuntimeLane \<Rightarrow> RuntimeLane" where
  "settled_part lane = lane\<lparr>active_turn_id := None, pending_turns := []\<rparr>"

definition shows_lane :: "StateProjection \<Rightarrow> RuntimeLane \<Rightarrow> bool" where
  "shows_lane p lane \<longleftrightarrow>
     sp_active_task_id p = Some (lane_task_id lane) \<and> sp_task_status p = lane_status lane \<and>
     (case sp_runtime_lane p of
        None \<Rightarrow> False
      | Some shown \<Rightarrow> settled_part shown = settled_part lane)"

definition in_sync :: "RuntimeLaneManager \<Rightarrow> StateProjection \<Rightarrow> bool" where
  "in_sync m p \<longleftrightarrow> lane_wf m \<and>
     (case m (sp_session_id p) of None \<Rightarrow> True | Some lane \<Rightarrow> shows_lane p lane)"

lemma settled_part_update [simp]:
  "settled_part (lane\<lparr>pending_turns := ts\<rparr>) = settled_part lane"
  "settled_part (lane\<lparr>active_turn_id := t\<rparr>) = settled_part lane"
  by (simp_all add: settled_part_def)

lemma lane_event_fields [simp]:
  "evt_session_id (lane_event fr lane u n ty txt) = lane_session_id lane"
  "evt_task_id (lane_event fr lane u n ty txt) = Some (lane_task_id lane)"
  "event_type (lane_event fr lane u n ty txt) = ty"
  "runtime_lane_from_event (lane_event fr lane u n ty txt) = Some lane"
  "p_status (payload (lane_event fr lane u n ty txt)) = Some (lane_status lane)"
  "p_runtime_lane (payload (lane_event fr lane u n ty txt)) = Some (Some lane)"
  by (simp_all add: lane_event_def runtime_lane_from_event_def empty_payload_def)

lemma runtime_lane_from_updated_payload [simp]:
  "p_runtime_lane P = Some (Some lane) \<Longrightarrow>
     runtime_lane_from_event (e\<lparr>payload := P\<rparr>) = Some lane"
  by (simp add: runtime_lane_from_event_def)

lemma lane_run_transition:
  assumes "lane_run op m = Inr (Some tr, m')" and "lane_wf m"
  shows "m' = m(op_session op \<mapsto> tr_lane tr) \<and> lane_session_id (tr_lane tr) = op_session op \<and>
    evt_session_id (tr_event tr) = op_session op \<and>
    evt_task_id (tr_event tr) = Some (lane_task_id (tr_lane tr)) \<and>
    runtime_lane_from_event (tr_event tr) = Some (tr_lane tr) \<and>
    event_type (tr_event tr) \<noteq> ControlEv TurnStarted"
  using assms
  by (cases op)
    (auto simp: lane_op_defs Let_def lane_wf_def lane_new_def for_terminal_status_def
      split: if_splits option.splits TaskStatus.splits)

text \<open>The status reducer recomputes the status the manager assigned.\<close>

lemma lane_run_status:
  assumes "lane_run op m = Inr (Some tr, m')"
    and "is_start_task op \<or> (\<exists>lane. m (op_session op) = Some lane \<and> lane_status lane = current)"
  shows "task_status_after_event current (tr_event tr) = lane_status (tr_lane tr)"
  using assms
  by (cases op)
    (auto simp: lane_op_defs Let_def lane_new_def for_terminal_status_def
      task_status_after_event_def unwrap_or_def
      split: if_splits option.splits TaskStatus.splits)

lemma start_task_switches:
  "lane_run op m = Inr (Some tr, m') \<Longrightarrow> is_start_task op \<Longrightarrow> switches_task (event_type (tr_event tr))"
  by (cases op) (auto simp: start_task_def Let_def switches_task_def split: if_splits)

lemma silent_keeps_shown:
  assumes "lane_run op m = Inr (None, m')" and "m s = Some lane" and "shows_lane p lane"
  shows "\<exists>lane'. m' s = Some lane' \<and> shows_lane p lane'"
  using assms
  by (cases op; cases "op_session op = s")
    (auto simp: lane_op_defs Let_def shows_lane_def split: if_splits option.splits)

lemma silent_creates_nothing:
  "lane_run op m = Inr (None, m') \<Longrightarrow> m s = None \<Longrightarrow> m' s = None"
  by (cases op; cases "op_session op = s")
    (auto simp: lane_op_defs Let_def split: if_splits option.splits)

lemma project_transition_session [simp]:
  "sp_session_id (project_transition out p) = sp_session_id p"
  by (simp add: project_transition_def split: option.split)

lemma transition_shown:
  assumes run: "lane_run op m = Inr (Some tr, m')" and wf: "lane_wf m"
    and sync: "case m (sp_session_id p) of None \<Rightarrow> True | Some lane \<Rightarrow> shows_lane p lane"
    and session: "op_session op = sp_session_id p"
  shows "m' (sp_session_id p) = Some (tr_lane tr)"
    and "sp_runtime_lane (project_transition (Some tr) p) = Some (tr_lane tr)"
    and "shows_lane (project_transition (Some tr) p) (tr_lane tr)"
proof -
  note tr = lane_run_transition [OF run wf]
  show m': "m' (sp_session_id p) = Some (tr_lane tr)" using tr session by simp
  have old: "\<exists>lane. m (op_session op) = Some lane \<and> lane_status lane = sp_task_status p \<and>
      lane_task_id lane = lane_task_id (tr_lane tr) \<and>
      sp_active_task_id p = Some (lane_task_id lane)" if "\<not> is_start_task op"
  proof -
    from run that obtain lane lane' where "m (op_session op) = Some lane"
      "m' = m(op_session op \<mapsto> lane')" "same_lane_identity lane' lane"
      by (rule other_op_success)
    with sync session m' show ?thesis by (auto simp: shows_lane_def same_lane_identity_def)
  qed
  have status: "task_status_after_event (sp_task_status p) (tr_event tr) = lane_status (tr_lane tr)"
    using lane_run_status [OF run] old by blast
  have "sp_active_task_id p = Some (lane_task_id (tr_lane tr)) \<or>
      switches_task (event_type (tr_event tr))"
    using start_task_switches [OF run] old by fastforce
  note applied = apply_event_of_active_task [of "tr_event tr", OF _ this]
  from tr session status applied
  show lane: "sp_runtime_lane (project_transition (Some tr) p) = Some (tr_lane tr)"
    by (simp add: project_transition_def)
  from tr session status applied lane
  show "shows_lane (project_transition (Some tr) p) (tr_lane tr)"
    by (simp add: shows_lane_def project_transition_def)
qed

lemma lane_run_in_sync:
  assumes sync: "in_sync m p" and run: "lane_run op m = Inr (out, m')"
  shows "in_sync m' (project_transition out p)"
proof -
  from sync have wf: "lane_wf m"
    and shown: "case m (sp_session_id p) of None \<Rightarrow> True | Some lane \<Rightarrow> shows_lane p lane"
    by (simp_all add: in_sync_def)
  from wf run have wf': "lane_wf m'" by (rule lane_run_wf)
  show ?thesis
  proof (cases out)
    case None
    with run shown wf' show ?thesis
      by (auto simp: in_sync_def project_transition_def split: option.splits
          dest: silent_creates_nothing silent_keeps_shown)
  next
    case (Some tr)
    show ?thesis
    proof (cases "op_session op = sp_session_id p")
      case True
      with run Some wf shown wf' show ?thesis by (simp add: in_sync_def transition_shown)
    next
      case False
      with run Some wf have "project_transition out p = p" "m' (sp_session_id p) = m (sp_session_id p)"
        by (simp_all add: project_transition_def lane_run_transition lane_run_frame)
      with shown wf' show ?thesis by (simp add: in_sync_def)
    qed
  qed
qed

interpretation projected: sourced_machine lane_run project_transition in_sync
  by unfold_locales (rule lane_run_in_sync)

lemma initial_in_sync: "in_sync Map.empty (initial_projection s)"
  by (simp add: in_sync_def lane_wf_def)

text \<open>
  Property C4. The durable projection refines the lane manager: after any interleaving of lane
  operations, reducing the events they emitted from the initial projection of a session gives
  the task, the status, the controller and every other settled field of the lane the manager
  holds for that session.
\<close>

theorem projection_refines_lanes:
  "case exec lane_run ops Map.empty s of
     None \<Rightarrow> True
   | Some lane \<Rightarrow>
       shows_lane (fold project_transition (emitted lane_run ops Map.empty) (initial_projection s)) lane"
proof -
  define p where "p = fold project_transition (emitted lane_run ops Map.empty) (initial_projection s)"
  have session: "sp_session_id (fold project_transition outs p0) = sp_session_id p0" for outs p0
    by (induction outs arbitrary: p0) simp_all
  have "in_sync (exec lane_run ops Map.empty) p"
    unfolding p_def by (rule projected.exec_sync [OF initial_in_sync])
  moreover have "sp_session_id p = s" by (simp add: p_def session initial_projection_def)
  ultimately show ?thesis by (simp add: in_sync_def p_def)
qed

text \<open>
  The start of a queued turn keeps the two views together: when the host records
  the \<open>TurnStarted\<close> event of a running lane and then commits the turn, the projection is in
  step with the new manager state and shows the committed turn as the running one.
\<close>

theorem queued_turn_start_projected:
  assumes "in_sync m p" and "m (sp_session_id p) = Some lane"
    and "lane_status lane = TaskStatus.Running"
    and "commit_queued_turn_start (sp_session_id p) lid turn m = Inr ((), m')"
    and "event_type e = ControlEv TurnStarted" and "evt_task_id e = Some (lane_task_id lane)"
    and "evt_turn_id e = Some turn" and "runtime_lane_from_event e = None"
  shows "in_sync m' (apply_event_to_state e p) \<and>
    map_option active_turn_id (sp_runtime_lane (apply_event_to_state e p))
      = map_option active_turn_id (m' (sp_session_id p))"
proof -
  have run: "lane_run (CommitQueuedTurn (sp_session_id p) lid turn) m = Inr (None, m')"
    using assms(4) by simp
  from assms(1) have "lane_wf m" by (simp add: in_sync_def)
  then have wf: "lane_wf m'" using run by (rule lane_run_wf)
  from assms(1,2) have shown: "shows_lane p lane" by (simp add: in_sync_def)
  then obtain l where l: "sp_runtime_lane p = Some l" "settled_part l = settled_part lane"
    by (auto simp: shows_lane_def split: option.splits)
  define l' where "l' = l\<lparr>lane_status := TaskStatus.Running, active_turn_id := Some turn\<rparr>"
  have p': "sp_runtime_lane (apply_event_to_state e p) = Some l'"
    "sp_active_task_id (apply_event_to_state e p) = Some (lane_task_id lane)"
    "sp_task_status (apply_event_to_state e p) = TaskStatus.Running"
    using assms(5-8) shown l(1)
    by (simp_all add: l'_def shows_lane_def apply_event_to_state_def Let_def switches_task_def
        adopt_task_def apply_event_to_projection_lane task_status_after_event_def)
  have m': "m' (sp_session_id p) = Some (lane\<lparr>pending_turns := remove1 turn (pending_turns lane),
      active_turn_id := Some turn\<rparr>)"
    using assms(2,4) by (auto simp: commit_queued_turn_start_def split: if_splits)
  have "settled_part l' = settled_part lane"
    using l(2) assms(3) by (cases l; cases lane) (simp add: settled_part_def l'_def)
  with p' m' wf assms(3) show ?thesis by (simp add: in_sync_def shows_lane_def l'_def)
qed

text \<open>
  Diagnostics of a task that is no longer in view cannot disturb the view: an event
  of another task that does not itself start, resume or continue a task advances the sequence
  number and changes nothing else.
\<close>

theorem stale_task_event_ignored:
  assumes "sp_active_task_id p = Some t" and "evt_task_id e = Some t'" and "t' \<noteq> t"
    and "\<not> switches_task (event_type e)"
  shows "apply_event_to_state e p
    = p\<lparr>sp_last_sequence_no := max (sp_last_sequence_no p) (sequence_no e)\<rparr>"
  using assms by (simp add: apply_event_to_state_def Let_def)

section \<open>The bounded timeline\<close>

lemma keep_last_append: "keep_last n (keep_last n xs @ ys) = keep_last n (xs @ ys)"
proof (cases "length xs \<le> n")
  case True
  then show ?thesis by (simp add: keep_last_def)
next
  case False
  have "keep_last n xs @ ys = drop (length xs - n) (xs @ ys)" by (simp add: keep_last_def)
  moreover have "length (xs @ ys) - (length xs - n) - n + (length xs - n) = length (xs @ ys) - n"
    using False by simp
  ultimately show ?thesis by (simp add: keep_last_def)
qed

lemma map_keep_last: "map f (keep_last n xs) = keep_last n (map f xs)"
  by (simp add: keep_last_def drop_map)

lemma apply_event_to_projection_labels:
  "map vs_label (sp_visible_steps (apply_event_to_projection e p))
     = keep_last MAX_PROJECTION_VISIBLE_STEPS
         (map vs_label (sp_visible_steps p) @ filter is_user_projection_fact [event_type e])"
  by (simp add: apply_event_to_projection_def record_visible_step_def Let_def map_keep_last
      split: option.split)

lemma apply_event_to_state_labels:
  assumes "evt_task_id e = Some t" and "sp_active_task_id p \<in> {None, Some t}"
  shows "map vs_label (sp_visible_steps (apply_event_to_state e p))
     = keep_last MAX_PROJECTION_VISIBLE_STEPS
         (map vs_label (sp_visible_steps p) @ filter is_user_projection_fact [event_type e])"
    and "sp_active_task_id (apply_event_to_state e p) = Some t"
  using assms
  by (auto simp: apply_event_to_state_def Let_def apply_event_to_projection_labels)

lemma timeline_of_task:
  assumes "list_all (\<lambda>e. evt_task_id e = Some t) es" and "sp_active_task_id p \<in> {None, Some t}"
    and "length (sp_visible_steps p) \<le> MAX_PROJECTION_VISIBLE_STEPS"
  shows "map vs_label (sp_visible_steps (fold apply_event_to_state es p))
     = keep_last MAX_PROJECTION_VISIBLE_STEPS
         (map vs_label (sp_visible_steps p) @ filter is_user_projection_fact (map event_type es))"
  using assms
proof (induction es arbitrary: p)
  case Nil
  then show ?case by (simp add: keep_last_def)
next
  case (Cons e es)
  let ?p = "apply_event_to_state e p"
  have "map vs_label (sp_visible_steps (fold apply_event_to_state es ?p))
      = keep_last MAX_PROJECTION_VISIBLE_STEPS
          (map vs_label (sp_visible_steps ?p) @ filter is_user_projection_fact (map event_type es))"
    using Cons.prems by (intro Cons.IH) (simp_all add: apply_event_to_state_labels(2)
        apply_event_to_state_bounded)
  also have "\<dots> = keep_last MAX_PROJECTION_VISIBLE_STEPS
      (map vs_label (sp_visible_steps p) @ filter is_user_projection_fact (map event_type (e # es)))"
    using apply_event_to_state_labels(1) [of e t p] Cons.prems
    by (simp add: keep_last_append)
  finally show ?case by simp
qed

text \<open>
  Property C22. The visible timeline of a session whose events belong to one task consists of the
  user-facing events among them, in order, cut to the most recent 512; internal evaluation and
  governance events never enter it.
\<close>

theorem timeline_shows_recent_user_facts:
  assumes "list_all (\<lambda>e. evt_task_id e = Some t) es"
  shows "map vs_label (sp_visible_steps (fold apply_event_to_state es (initial_projection s)))
     = keep_last 512 (filter is_user_projection_fact (map event_type es))"
  using timeline_of_task [OF assms, of "initial_projection s"]
  by (simp add: initial_projection_def MAX_PROJECTION_VISIBLE_STEPS_def)

section \<open>Witnesses\<close>

definition ex_projection :: StateProjection where
  "ex_projection = (initial_projection 7)\<lparr>sp_active_task_id := Some 20,
     sp_task_status := TaskStatus.Running, sp_runtime_lane := Some ex_lane\<rparr>"

definition ex_event :: "uuid \<Rightarrow> RuntimeEventType \<Rightarrow> RuntimeEvent" where
  "ex_event task ty = (lane_event (ex_fresh 900) ex_lane 31 9 ty ''example'')
     \<lparr>evt_task_id := Some task, payload := empty_payload\<rparr>"

lemma ex_in_sync: "in_sync [7 \<mapsto> ex_lane] ex_projection"
  by (simp add: in_sync_def ex_projection_def initial_projection_def lane_wf_def shows_lane_def
      ex_lane_def lane_new_def)

theorem queued_turn_start_projected_witness:
  "\<exists>m'. commit_queued_turn_start 7 100 31 [7 \<mapsto> ex_lane] = Inr ((), m') \<and>
     in_sync m' (apply_event_to_state (ex_event 20 (ControlEv TurnStarted)) ex_projection)"
proof -
  obtain m' where m': "commit_queued_turn_start 7 100 31 [7 \<mapsto> ex_lane] = Inr ((), m')"
    by (simp add: commit_queued_turn_start_def ex_lane_def lane_new_def ex_fresh_def)
  have "in_sync m' (apply_event_to_state (ex_event 20 (ControlEv TurnStarted)) ex_projection)"
    using queued_turn_start_projected [OF ex_in_sync, of ex_lane 100 31 m'
        "ex_event 20 (ControlEv TurnStarted)"] m'
    by (simp add: ex_projection_def initial_projection_def ex_lane_def lane_new_def ex_event_def
        lane_event_def runtime_lane_from_event_def empty_payload_def)
  with m' show ?thesis by blast
qed

theorem stale_task_event_ignored_witness:
  "apply_event_to_state (ex_event 19 (ControlEv TaskCompleted)) ex_projection
     = ex_projection\<lparr>sp_last_sequence_no := 9\<rparr>"
  using stale_task_event_ignored [of ex_projection 20 "ex_event 19 (ControlEv TaskCompleted)" 19]
  by (simp add: ex_projection_def initial_projection_def ex_event_def lane_event_def switches_task_def)

theorem timeline_shows_recent_user_facts_witness:
  "map vs_label (sp_visible_steps (fold apply_event_to_state
     [ex_event 20 (ControlEv TaskCreated), ex_event 20 (GovernanceEv PromotionDecided),
      ex_event 20 (ControlEv TaskCompleted)] (initial_projection 7)))
   = [ControlEv TaskCreated, ControlEv TaskCompleted]"
  using timeline_shows_recent_user_facts [of 20
      "[ex_event 20 (ControlEv TaskCreated), ex_event 20 (GovernanceEv PromotionDecided),
        ex_event 20 (ControlEv TaskCompleted)]" 7]
  by (simp add: ex_event_def lane_event_def keep_last_def)

end
