(* ===== verification/Step_Machine.thy ===== *)
theory Step_Machine
  imports Machines
begin

text \<open>
  The step bookkeeping of long-running turns (\<^verbatim>\<open>golutra-agent-runtime/src/step_machine.rs\<close>):
  detection of semantically repeated steps and the no-progress window of a verification
  correction. Counters are machine words that saturate, as in the source.

  The specification is a monitor over unbounded naturals that keeps the whole history of
  completed steps. The simulation shows that the word-sized counters decide as the monitor does.
\<close>

unbundle bit_operations_syntax

section \<open>The step machine\<close>

abbreviation DEFAULT_NO_PROGRESS_ADVISORY_LIMIT :: u32 where
  "DEFAULT_NO_PROGRESS_ADVISORY_LIMIT \<equiv> 3"

definition DEFAULT_NO_PROGRESS_LIMIT :: u32 where
  "DEFAULT_NO_PROGRESS_LIMIT = 0"

record CorrectionProgressLimits =
  step_limit :: u32
  elapsed_ms_limit :: u64

record StepSnapshot =
  step_no :: u32
  snapshot_turn_id :: uuid

record StepCheckpoint =
  ck_next_step_no :: u32
  ck_last_fingerprint :: "string option"
  ck_repeated_no_progress :: u32
  ck_no_progress_advisory_limit :: u32
  ck_no_progress_limit :: u32
  ck_correction_active :: bool
  ck_correction_no_progress_steps :: u32
  ck_correction_no_progress_elapsed_ms :: u64
  ck_correction_no_progress_step_limit :: u32
  ck_correction_no_progress_elapsed_ms_limit :: u64

record StepCompletion =
  sc_snapshot :: StepSnapshot
  sc_fingerprint :: string
  sc_made_progress :: bool
  sc_made_material_progress :: bool
  sc_repeated_no_progress :: u32
  sc_correction_no_progress_steps :: u32
  sc_correction_no_progress_elapsed_ms :: u64
  sc_advisory :: "string option"
  sc_should_stop :: bool
  sc_stop_reason :: "string option"

record StepMachine =
  next_step_no :: u32
  last_fingerprint :: "string option"
  repeated_no_progress :: u32
  no_progress_advisory_limit :: u32
  no_progress_limit :: u32
  correction_limits :: CorrectionProgressLimits
  correction_active :: bool
  correction_no_progress_steps :: u32
  correction_last_material_progress_ms :: u64
  correction_no_progress_elapsed_ms :: u64
  correction_advisory_emitted :: bool

definition limit_reached :: "'a :: len word \<Rightarrow> 'a word \<Rightarrow> bool" where
  "limit_reached v limit \<longleftrightarrow> limit \<noteq> 0 \<and> v \<ge> limit"

definition advisory_limit :: "'a :: len word \<Rightarrow> 'a word" where
  "advisory_limit limit = (if limit = 0 then limit else limit div 2)"

definition with_limits :: "u32 \<Rightarrow> u32 \<Rightarrow> CorrectionProgressLimits \<Rightarrow> StepMachine" where
  "with_limits advisory stop limits =
     \<lparr>next_step_no = 0, last_fingerprint = None, repeated_no_progress = 0,
      no_progress_advisory_limit =
        (if stop = 0 then max advisory 1 else min (max advisory 1) stop),
      no_progress_limit = stop, correction_limits = limits, correction_active = False,
      correction_no_progress_steps = 0, correction_last_material_progress_ms = 0,
      correction_no_progress_elapsed_ms = 0, correction_advisory_emitted = False\<rparr>"

definition step_machine_default :: StepMachine where
  "step_machine_default =
     with_limits DEFAULT_NO_PROGRESS_ADVISORY_LIMIT DEFAULT_NO_PROGRESS_LIMIT
       \<lparr>step_limit = 0, elapsed_ms_limit = 0\<rparr>"

definition begin_correction :: "u64 \<Rightarrow> StepMachine \<Rightarrow> StepMachine" where
  "begin_correction elapsed_ms m =
     (if correction_active m then m
      else m\<lparr>correction_active := True, correction_no_progress_steps := 0,
             correction_last_material_progress_ms := elapsed_ms,
             correction_no_progress_elapsed_ms := 0, correction_advisory_emitted := False\<rparr>)"

definition end_correction :: "StepMachine \<Rightarrow> StepMachine" where
  "end_correction m =
     m\<lparr>correction_active := False, correction_no_progress_steps := 0,
       correction_no_progress_elapsed_ms := 0, correction_advisory_emitted := False\<rparr>"

definition exclude_recovery_wait :: "u64 \<Rightarrow> StepMachine \<Rightarrow> StepMachine" where
  "exclude_recovery_wait elapsed_ms m =
     (if correction_active m
      then m\<lparr>correction_last_material_progress_ms :=
               sat_add (correction_last_material_progress_ms m) elapsed_ms\<rparr>
      else m)"

definition begin_step :: "uuid \<Rightarrow> StepMachine \<Rightarrow> StepSnapshot \<times> StepMachine" where
  "begin_step turn m =
     (\<lparr>step_no = next_step_no m, snapshot_turn_id = turn\<rparr>,
      m\<lparr>next_step_no := sat_add (next_step_no m) 1\<rparr>)"

definition count_repetition :: "string \<Rightarrow> bool \<Rightarrow> StepMachine \<Rightarrow> StepMachine" where
  "count_repetition fingerprint made_progress m =
     m\<lparr>repeated_no_progress :=
         (if made_progress then 0
          else if last_fingerprint m \<noteq> Some fingerprint then 1
          else sat_add (repeated_no_progress m) 1),
       last_fingerprint := Some fingerprint\<rparr>"

definition count_correction :: "bool \<Rightarrow> u64 \<Rightarrow> StepMachine \<Rightarrow> StepMachine" where
  "count_correction made_material_progress elapsed_ms m =
     (if made_material_progress
      then m\<lparr>correction_no_progress_steps := 0,
             correction_last_material_progress_ms := elapsed_ms,
             correction_no_progress_elapsed_ms := 0, correction_advisory_emitted := False\<rparr>
      else m\<lparr>correction_no_progress_steps := sat_add (correction_no_progress_steps m) 1,
             correction_no_progress_elapsed_ms :=
               sat_sub elapsed_ms (correction_last_material_progress_ms m)\<rparr>)"

definition correction_stop :: "StepMachine \<Rightarrow> bool" where
  "correction_stop m \<longleftrightarrow>
     limit_reached (correction_no_progress_steps m) (step_limit (correction_limits m)) \<or>
     limit_reached (correction_no_progress_elapsed_ms m) (elapsed_ms_limit (correction_limits m))"

definition correction_advisory_reached :: "StepMachine \<Rightarrow> bool" where
  "correction_advisory_reached m \<longleftrightarrow>
     limit_reached (correction_no_progress_steps m)
       (advisory_limit (step_limit (correction_limits m))) \<or>
     limit_reached (correction_no_progress_elapsed_ms m)
       (advisory_limit (elapsed_ms_limit (correction_limits m)))"

definition show_word :: "'a :: len word \<Rightarrow> string" where
  "show_word w = show_nat (unat w)"

definition semantic_advisory_text :: "u32 \<Rightarrow> string" where
  "semantic_advisory_text repeats =
     ''runtime has made no observable progress for '' @ show_word repeats @
     '' semantically equivalent steps; inspect the results and reconsider the approach''"

definition correction_advisory_text :: "u32 \<Rightarrow> u64 \<Rightarrow> string" where
  "correction_advisory_text steps ms =
     ''verification correction has made no material progress for '' @ show_word steps @
     '' steps ('' @ show_word ms @
     '' ms); finish verification or change the workspace before the correction budget is exhausted''"

definition correction_stop_text :: "u32 \<Rightarrow> u64 \<Rightarrow> string" where
  "correction_stop_text steps ms =
     ''verification correction made no material progress for '' @ show_word steps @
     '' steps ('' @ show_word ms @ '' ms)''"

definition semantic_stop_text :: "u32 \<Rightarrow> string" where
  "semantic_stop_text repeats =
     ''runtime made no observable progress for '' @ show_word repeats @
     '' semantically equivalent steps''"

text \<open>
  Completing a step first updates the counters; the advisories and the decision are read off
  the updated counters.
\<close>

definition advance_counters :: "string \<Rightarrow> bool \<Rightarrow> bool \<Rightarrow> u64 \<Rightarrow> StepMachine \<Rightarrow> StepMachine" where
  "advance_counters fingerprint made_progress made_material_progress elapsed_ms m =
     (let m1 = count_repetition fingerprint made_progress m
      in if correction_active m1 then count_correction made_material_progress elapsed_ms m1
         else m1)"

definition advises_correction :: "StepMachine \<Rightarrow> bool" where
  "advises_correction m \<longleftrightarrow>
     correction_active m \<and> correction_advisory_reached m \<and> \<not> correction_stop m \<and>
     \<not> correction_advisory_emitted m"

definition completion_report ::
  "StepSnapshot \<Rightarrow> string \<Rightarrow> bool \<Rightarrow> bool \<Rightarrow> StepMachine \<Rightarrow> StepCompletion" where
  "completion_report snapshot fingerprint made_progress made_material_progress m =
     (let repeats = repeated_no_progress m;
          steps = correction_no_progress_steps m;
          ms = correction_no_progress_elapsed_ms m;
          c_stop = (correction_active m \<and> correction_stop m);
          s_stop = limit_reached repeats (no_progress_limit m)
      in \<lparr>sc_snapshot = snapshot, sc_fingerprint = fingerprint,
          sc_made_progress = made_progress, sc_made_material_progress = made_material_progress,
          sc_repeated_no_progress = repeats, sc_correction_no_progress_steps = steps,
          sc_correction_no_progress_elapsed_ms = ms,
          sc_advisory =
            (if advises_correction m then Some (correction_advisory_text steps ms)
             else if repeats = no_progress_advisory_limit m
             then Some (semantic_advisory_text repeats)
             else None),
          sc_should_stop = (c_stop \<or> s_stop),
          sc_stop_reason =
            (if c_stop then Some (correction_stop_text steps ms)
             else if s_stop then Some (semantic_stop_text repeats)
             else None)\<rparr>)"

definition complete_at_with_material_progress ::
  "StepSnapshot \<Rightarrow> string \<Rightarrow> bool \<Rightarrow> bool \<Rightarrow> u64 \<Rightarrow> StepMachine \<Rightarrow> StepCompletion \<times> StepMachine"
where
  "complete_at_with_material_progress snapshot fingerprint made_progress made_material_progress
       elapsed_ms m =
     (let m' = advance_counters fingerprint made_progress made_material_progress elapsed_ms m
      in (completion_report snapshot fingerprint made_progress made_material_progress m',
          if advises_correction m' then m'\<lparr>correction_advisory_emitted := True\<rparr> else m'))"

definition checkpoint :: "StepMachine \<Rightarrow> StepCheckpoint" where
  "checkpoint m =
     \<lparr>ck_next_step_no = next_step_no m, ck_last_fingerprint = last_fingerprint m,
      ck_repeated_no_progress = repeated_no_progress m,
      ck_no_progress_advisory_limit = no_progress_advisory_limit m,
      ck_no_progress_limit = no_progress_limit m,
      ck_correction_active = correction_active m,
      ck_correction_no_progress_steps = correction_no_progress_steps m,
      ck_correction_no_progress_elapsed_ms = correction_no_progress_elapsed_ms m,
      ck_correction_no_progress_step_limit = step_limit (correction_limits m),
      ck_correction_no_progress_elapsed_ms_limit = elapsed_ms_limit (correction_limits m)\<rparr>"

section \<open>The machine's operations and the reference monitor\<close>

datatype StepOp =
    Begin uuid
  | Complete StepSnapshot string bool bool u64
  | BeginCorrection u64
  | EndCorrection
  | ExcludeRecoveryWait u64

fun step_run :: "(StepOp, StepMachine, StepCompletion option, unit) machine" where
  "step_run (Begin turn) m = Inr (None, snd (begin_step turn m))"
| "step_run (Complete snap fp prog mat ms) m =
     (let (c, m') = complete_at_with_material_progress snap fp prog mat ms m in Inr (Some c, m'))"
| "step_run (BeginCorrection ms) m = Inr (None, begin_correction ms m)"
| "step_run EndCorrection m = Inr (None, end_correction m)"
| "step_run (ExcludeRecoveryWait ms) m = Inr (None, exclude_recovery_wait ms m)"

text \<open>
  The monitor keeps the completed steps, newest first, and for an open correction the number of
  steps without material progress and the time of the last one, moved by the time spent waiting.
\<close>

record StepMonitor =
  mon_history :: "(string \<times> bool) list"
  mon_window :: "(nat \<times> nat) option"

definition monitor_init :: StepMonitor where
  "monitor_init = \<lparr>mon_history = [], mon_window = None\<rparr>"

fun monitor_step :: "StepOp \<Rightarrow> StepMonitor \<Rightarrow> StepMonitor" where
  "monitor_step (Begin turn) a = a"
| "monitor_step (Complete snap fp prog mat ms) a =
     a\<lparr>mon_history := (fp, prog) # mon_history a,
       mon_window := map_option (\<lambda>(n, b). if mat then (0, unat ms) else (Suc n, b)) (mon_window a)\<rparr>"
| "monitor_step (BeginCorrection ms) a =
     a\<lparr>mon_window := (case mon_window a of None \<Rightarrow> Some (0, unat ms) | Some w \<Rightarrow> Some w)\<rparr>"
| "monitor_step EndCorrection a = a\<lparr>mon_window := None\<rparr>"
| "monitor_step (ExcludeRecoveryWait ms) a =
     a\<lparr>mon_window := map_option (\<lambda>(n, b). (n, b + unat ms)) (mon_window a)\<rparr>"

text \<open>How often the latest action was repeated without progress, ending at the latest step.\<close>

fun trailing_repeats :: "(string \<times> bool) list \<Rightarrow> nat" where
  "trailing_repeats [] = 0"
| "trailing_repeats ((f, p) # h) = length (takeWhile (\<lambda>(g, q). g = f \<and> \<not> q) ((f, p) # h))"

definition over_limit :: "nat \<Rightarrow> 'a :: len word \<Rightarrow> bool" where
  "over_limit n limit \<longleftrightarrow> limit \<noteq> 0 \<and> unat limit \<le> n"

definition monitor_stops ::
  "u32 \<Rightarrow> CorrectionProgressLimits \<Rightarrow> u64 \<Rightarrow> StepMonitor \<Rightarrow> bool" where
  "monitor_stops stop limits now_ms a \<longleftrightarrow>
     over_limit (trailing_repeats (mon_history a)) stop \<or>
     (case mon_window a of
        None \<Rightarrow> False
      | Some (n, b) \<Rightarrow>
          over_limit n (step_limit limits) \<or> over_limit (unat now_ms - b) (elapsed_ms_limit limits))"

lemma trailing_repeats_Cons:
  "trailing_repeats ((f, p) # h) =
     (if p then 0 else if map_option fst (find (\<lambda>_. True) h) \<noteq> Some f then 1
      else Suc (trailing_repeats h))"
  by (cases h) auto

lemma unat_u64_le: "unat (w :: u64) \<le> 2 ^ 64 - 1"
proof -
  have "unat w < 2 ^ LENGTH(64)" by (rule unsigned_less)
  then show ?thesis by simp
qed

section \<open>The counters simulate the monitor\<close>

definition step_sim :: "u32 \<Rightarrow> CorrectionProgressLimits \<Rightarrow> StepMachine \<Rightarrow> StepMonitor \<Rightarrow> bool" where
  "step_sim stop limits m a \<longleftrightarrow>
     no_progress_limit m = stop \<and> correction_limits m = limits \<and>
     unat (repeated_no_progress m) = min (trailing_repeats (mon_history a)) (2 ^ 32 - 1) \<and>
     last_fingerprint m = map_option fst (find (\<lambda>_. True) (mon_history a)) \<and>
     (case mon_window a of
        None \<Rightarrow> \<not> correction_active m
      | Some (n, b) \<Rightarrow> correction_active m \<and>
          unat (correction_no_progress_steps m) = min n (2 ^ 32 - 1) \<and>
          unat (correction_last_material_progress_ms m) = min b (2 ^ 64 - 1))"

lemma complete_decision:
  "sc_should_stop (fst (complete_at_with_material_progress snap fp prog mat ms m)) =
     (let m' = snd (complete_at_with_material_progress snap fp prog mat ms m)
      in limit_reached (repeated_no_progress m') (no_progress_limit m') \<or>
         (correction_active m' \<and> correction_stop m'))"
  "sc_stop_reason (fst (complete_at_with_material_progress snap fp prog mat ms m)) \<noteq> None \<longleftrightarrow>
     sc_should_stop (fst (complete_at_with_material_progress snap fp prog mat ms m))"
  by (auto simp: complete_at_with_material_progress_def Let_def completion_report_def
      correction_stop_def)

lemma count_repetition_active [simp]:
  "correction_active (count_repetition fp prog m) = correction_active m"
  by (simp add: count_repetition_def)

lemma advisory_flag_frame:
  "step_sim stop limits (m\<lparr>correction_advisory_emitted := b\<rparr>) a \<longleftrightarrow> step_sim stop limits m a"
  by (auto simp: step_sim_def split: option.splits)

lemma count_repetition_sim:
  assumes "step_sim stop limits m a"
  shows "step_sim stop limits (count_repetition fp prog m)
    (a\<lparr>mon_history := (fp, prog) # mon_history a\<rparr>)"
  using assms
  by (auto simp: step_sim_def count_repetition_def trailing_repeats_Cons sat_simps
      simp del: trailing_repeats.simps(2) split: option.splits)

lemma count_correction_sim:
  assumes "step_sim stop limits m a" and "mon_window a = Some (n, b)"
  shows "step_sim stop limits (count_correction mat ms m)
    (a\<lparr>mon_window := Some (if mat then (0, unat ms) else (Suc n, b))\<rparr>)"
proof -
  have "unat ms \<le> 2 ^ 64 - 1" by (rule unat_u64_le)
  with assms show ?thesis by (auto simp: step_sim_def count_correction_def sat_simps)
qed

lemma complete_sim:
  assumes "step_sim stop limits m a"
  shows "step_sim stop limits (snd (complete_at_with_material_progress snap fp prog mat ms m))
    (monitor_step (Complete snap fp prog mat ms) a)"
proof -
  let ?m1 = "count_repetition fp prog m" and ?a1 = "a\<lparr>mon_history := (fp, prog) # mon_history a\<rparr>"
  note sim1 = count_repetition_sim [OF assms]
  have active: "correction_active m \<longleftrightarrow> mon_window a \<noteq> None"
    using assms by (auto simp: step_sim_def split: option.splits)
  have "step_sim stop limits (if correction_active m then count_correction mat ms ?m1 else ?m1)
    (monitor_step (Complete snap fp prog mat ms) a)"
  proof (cases "mon_window a")
    case None
    then have "monitor_step (Complete snap fp prog mat ms) a = ?a1" by simp
    with None active sim1 show ?thesis by (simp del: monitor_step.simps)
  next
    case (Some w)
    obtain n b where w: "w = (n, b)" by (cases w)
    have "monitor_step (Complete snap fp prog mat ms) a
        = ?a1\<lparr>mon_window := Some (if mat then (0, unat ms) else (Suc n, b))\<rparr>"
      using Some w by simp
    moreover have "step_sim stop limits (count_correction mat ms ?m1)
        (?a1\<lparr>mon_window := Some (if mat then (0, unat ms) else (Suc n, b))\<rparr>)"
      by (rule count_correction_sim [OF sim1]) (simp add: Some w)
    ultimately show ?thesis using active Some by simp
  qed
  then show ?thesis by (simp add: complete_at_with_material_progress_def advance_counters_def Let_def
        advisory_flag_frame)
qed

lemma step_run_sim:
  assumes "step_sim stop limits m a"
  shows "step_sim stop limits (next_state step_run op m) (monitor_step op a)"
proof (cases op)
  case (Complete snap fp prog mat ms)
  then have "next_state step_run op m
      = snd (complete_at_with_material_progress snap fp prog mat ms m)"
    by (simp add: next_state_def split: prod.split)
  with complete_sim [OF assms] Complete show ?thesis by simp
next
  case (BeginCorrection ms)
  have "unat ms \<le> 2 ^ 64 - 1" by (rule unat_u64_le)
  with assms BeginCorrection show ?thesis
    by (auto simp: next_state_def begin_correction_def step_sim_def split: option.splits)
qed (use assms in \<open>auto simp: next_state_def begin_step_def end_correction_def
    exclude_recovery_wait_def step_sim_def sat_simps split: option.splits\<close>)

interpretation monitored: simulated_machine step_run monitor_step "step_sim stop limits"
  for stop limits
  by unfold_locales (rule step_run_sim)

lemma with_limits_sim: "step_sim stop limits (with_limits advisory stop limits) monitor_init"
  by (simp add: step_sim_def with_limits_def monitor_init_def)

lemma min_limit:
  "unat (limit :: 'a :: len word) \<le> min n (2 ^ LENGTH('a) - 1) \<longleftrightarrow> unat limit \<le> n"
proof -
  have "unat limit < 2 ^ LENGTH('a)" by (rule unsigned_less)
  then have "unat limit \<le> 2 ^ LENGTH('a) - 1" by linarith
  then show ?thesis by (simp only: min.bounded_iff simp_thms)
qed

lemma limit_reached_min:
  "unat v = min n (2 ^ LENGTH('a) - 1) \<Longrightarrow>
     limit_reached v (limit :: 'a :: len word) \<longleftrightarrow> over_limit n limit"
  by (simp only: limit_reached_def over_limit_def word_le_nat_alt min_limit)

lemma sim_decision:
  assumes sim: "step_sim stop limits m a"
    and elapsed: "\<And>n b. mon_window a = Some (n, b) \<Longrightarrow>
      unat (correction_no_progress_elapsed_ms m) = unat now_ms - b"
  shows "(limit_reached (repeated_no_progress m) (no_progress_limit m) \<or>
      (correction_active m \<and> correction_stop m)) = monitor_stops stop limits now_ms a"
proof -
  have repeats: "limit_reached (repeated_no_progress m) stop
      \<longleftrightarrow> over_limit (trailing_repeats (mon_history a)) stop"
    using sim by (intro limit_reached_min) (simp add: step_sim_def)
  show ?thesis
  proof (cases "mon_window a")
    case None
    with sim repeats show ?thesis by (simp add: step_sim_def monitor_stops_def)
  next
    case (Some w)
    obtain n b where w: "w = (n, b)" by (cases w)
    have steps: "limit_reached (correction_no_progress_steps m) (step_limit limits)
        \<longleftrightarrow> over_limit n (step_limit limits)"
      using sim Some w by (intro limit_reached_min) (simp add: step_sim_def)
    have "limit_reached (correction_no_progress_elapsed_ms m) (elapsed_ms_limit limits)
        \<longleftrightarrow> over_limit (unat now_ms - b) (elapsed_ms_limit limits)"
      using elapsed Some w by (simp add: limit_reached_def over_limit_def word_le_nat_alt)
    with sim Some w repeats steps show ?thesis
      by (simp add: step_sim_def monitor_stops_def correction_stop_def)
  qed
qed

lemma complete_elapsed:
  assumes "step_sim stop limits m a"
    and "mon_window (monitor_step (Complete snap fp prog mat ms) a) = Some (n, b)"
  shows "unat (correction_no_progress_elapsed_ms
      (snd (complete_at_with_material_progress snap fp prog mat ms m))) = unat ms - b"
  using assms unat_u64_le [of ms]
  by (auto simp: complete_at_with_material_progress_def advance_counters_def Let_def step_sim_def
      count_repetition_def count_correction_def sat_simps min_def split: if_splits)

text \<open>
  Property C14. The step machine implements its specification over unbounded counters and a full
  history. After any sequence of operations, a completed step is stopped exactly when the
  latest action has been repeated without progress as often as the limit says, or an open
  correction has gone that many steps or milliseconds (waiting excluded) without material
  progress; a limit of zero disables its guard, saturation never changes a decision, and a
  reason is recorded exactly for the stops.
\<close>

theorem step_machine_refines_monitor:
  "let m = exec step_run ops (with_limits advisory stop limits);
       c = fst (complete_at_with_material_progress snap fp prog mat ms m)
   in sc_should_stop c = monitor_stops stop limits ms
        (fold monitor_step (ops @ [Complete snap fp prog mat ms]) monitor_init) \<and>
      (sc_stop_reason c \<noteq> None) = sc_should_stop c"
proof -
  have "step_sim stop limits (exec step_run ops (with_limits advisory stop limits))
      (fold monitor_step ops monitor_init)"
    by (rule monitored.exec_sim [OF with_limits_sim])
  note complete_sim [OF this] complete_elapsed [OF this]
  note sim_decision [OF this]
  then show ?thesis by (simp only: Let_def complete_decision fold_append fold.simps o_def id_def)
qed

section \<open>Configurations and waiting\<close>

definition advisory_only :: "StepMachine \<Rightarrow> bool" where
  "advisory_only m \<longleftrightarrow> no_progress_limit m = 0 \<and> step_limit (correction_limits m) = 0 \<and>
     elapsed_ms_limit (correction_limits m) = 0"

lemma advance_advisory_only [simp]:
  "advisory_only (advance_counters fp prog mat ms m) = advisory_only m"
  "advisory_only (m\<lparr>correction_advisory_emitted := b\<rparr>) = advisory_only m"
  by (simp_all add: advisory_only_def advance_counters_def Let_def count_repetition_def
      count_correction_def)

lemma advisory_only_report:
  "advisory_only m \<Longrightarrow> \<not> sc_should_stop (completion_report snap fp prog mat m)"
  by (simp add: advisory_only_def completion_report_def Let_def correction_stop_def
      limit_reached_def)

lemma step_run_advisory_only:
  assumes "advisory_only m" and "step_run op m = Inr (out, m')"
  shows "advisory_only m' \<and> (case out of None \<Rightarrow> True | Some c \<Rightarrow> \<not> sc_should_stop c)"
proof (cases op)
  case Complete
  with assms show ?thesis
    by (auto simp: complete_at_with_material_progress_def Let_def advisory_only_report)
qed (use assms in \<open>auto simp: advisory_only_def begin_step_def begin_correction_def
    end_correction_def exclude_recovery_wait_def\<close>)

interpretation advisory: guarded_machine step_run advisory_only
  "\<lambda>out. case out of None \<Rightarrow> True | Some c \<Rightarrow> \<not> sc_should_stop c"
  by unfold_locales (simp_all add: step_run_advisory_only)

text \<open>
  The default configuration only advises: no sequence of operations makes a step of
  the default machine stop.
\<close>

theorem default_machine_never_stops:
  "list_all (\<lambda>out. case out of None \<Rightarrow> True | Some c \<Rightarrow> \<not> sc_should_stop c)
     (emitted step_run ops step_machine_default)"
  by (rule advisory.emitted_good)
    (simp add: advisory_only_def step_machine_default_def with_limits_def
      DEFAULT_NO_PROGRESS_LIMIT_def)

lemma base_is_not_reported [simp]:
  "correction_stop (m\<lparr>correction_last_material_progress_ms := b\<rparr>) = correction_stop m"
  "advises_correction (m\<lparr>correction_last_material_progress_ms := b\<rparr>) = advises_correction m"
  by (simp_all add: advises_correction_def correction_stop_def correction_advisory_reached_def)

lemma completion_report_base [simp]:
  "completion_report snap fp prog mat (m\<lparr>correction_last_material_progress_ms := b\<rparr>)
     = completion_report snap fp prog mat m"
  by (simp add: completion_report_def Let_def)

text \<open>
  Time spent waiting for a provider to recover does not count against a
  correction: excluding the wait and completing the step that much later yields the same
  completion record, advisories and stop decision included, as completing it without the wait.
\<close>

theorem recovery_wait_is_not_charged:
  assumes "correction_active m"
    and "unat (correction_last_material_progress_ms m) + unat wait_ms < 2 ^ 64"
    and "unat ms + unat wait_ms < 2 ^ 64"
  shows "fst (complete_at_with_material_progress snap fp prog mat (ms + wait_ms)
      (exclude_recovery_wait wait_ms m)) = fst (complete_at_with_material_progress snap fp prog mat ms m)"
proof -
  have "unat (sat_sub (ms + wait_ms) (sat_add (correction_last_material_progress_ms m) wait_ms))
      = unat (sat_sub ms (correction_last_material_progress_ms m))"
    using assms(2,3) by (simp add: sat_simps unat_word_ariths)
  then have same: "sat_sub (ms + wait_ms) (sat_add (correction_last_material_progress_ms m) wait_ms)
      = sat_sub ms (correction_last_material_progress_ms m)"
    by (simp only: unsigned_word_eqI)
  have "\<exists>b. advance_counters fp prog mat (ms + wait_ms) (exclude_recovery_wait wait_ms m)
      = (advance_counters fp prog mat ms m)\<lparr>correction_last_material_progress_ms := b\<rparr>"
    using assms(1) same
    by (cases m) (simp add: exclude_recovery_wait_def advance_counters_def Let_def
        count_repetition_def count_correction_def)
  then show ?thesis by (auto simp: complete_at_with_material_progress_def Let_def)
qed

definition ex_correcting :: StepMachine where
  "ex_correcting = begin_correction 100
     (with_limits 8 10 \<lparr>step_limit = 16, elapsed_ms_limit = 300000\<rparr>)"

theorem recovery_wait_is_not_charged_witness:
  "sc_correction_no_progress_elapsed_ms (fst (complete_at_with_material_progress
     \<lparr>step_no = 0, snapshot_turn_id = 1\<rparr> ''read'' False False 600200
     (exclude_recovery_wait 600000 ex_correcting))) = 100"
  using recovery_wait_is_not_charged [of ex_correcting 600000 200
      "\<lparr>step_no = 0, snapshot_turn_id = 1\<rparr>" "''read''" False False]
  by (simp add: ex_correcting_def begin_correction_def with_limits_def advance_counters_def
      complete_at_with_material_progress_def completion_report_def Let_def count_repetition_def
      count_correction_def sat_sub_def)

end
