(* ===== verification/Governor.thy ===== *)
theory Governor
  imports Core_Types
begin

text \<open>
  The runtime governor (\<^verbatim>\<open>golutra-agent-governor/src/lib.rs\<close>): the hard boundaries of a run
  and the advisory goal alignment. A limit of zero is no limit. The Unicode tables behind
  \<^verbatim>\<open>char::is_alphanumeric\<close> and \<^verbatim>\<open>str::to_lowercase\<close> are the argument \<open>uc\<close>; a character is
  its UTF-8 encoding.
\<close>

section \<open>The governor\<close>

record GoalLedger =
  gl_task_id :: uuid
  original_objective :: string
  success_criteria :: "string list"
  current_plan :: "string list"
  completed_steps :: "string list"
  open_risks :: "string list"

record GoalAlignmentCheck =
  ga_task_id :: uuid
  ga_aligned :: bool
  alignment_score :: u8
  drift_type :: "string option"
  ga_reason :: string
  ga_evidence_refs :: "uuid list"

datatype GovernorAction = Allow | Warn | AskUser | Block

datatype GovernorPhase = Provider | Tool | ToolResult | Completion

record GovernorAdvisory =
  adv_code :: string
  adv_reason :: string

record GovernorLimits =
  max_iterations :: u32
  max_tool_calls :: u32
  max_failed_tool_calls :: u32
  max_planned_input_tokens :: u64
  max_elapsed_ms :: u64
  max_estimated_cost_microusd :: u64
  max_correction_no_progress_steps :: u32
  max_correction_no_progress_ms :: u64

record GovernorObservation =
  go_phase :: GovernorPhase
  go_iteration :: u32
  go_tool_calls :: u32
  go_failed_tool_calls :: u32
  go_consecutive_failed_tool_calls :: u32
  go_planned_input_tokens :: u64
  go_elapsed_ms :: u64
  go_latest_action :: string
  go_estimated_cost_microusd :: "u64 option"
  go_policy_decision :: "PolicyDecision option"
  go_policy_block_disposition :: "PolicyBlockDisposition option"
  go_security_risk :: string

record RuntimeGovernorDecision =
  gd_task_id :: uuid
  gd_phase :: GovernorPhase
  gd_action :: GovernorAction
  gd_reason :: string
  gd_budget_risk :: string
  gd_security_risk :: string
  gd_iteration :: u32
  gd_tool_calls :: u32
  gd_failed_tool_calls :: u32
  gd_consecutive_failed_tool_calls :: u32
  gd_alignment :: GoalAlignmentCheck
  gd_advisories :: "GovernorAdvisory list"

definition permits_execution :: "RuntimeGovernorDecision \<Rightarrow> bool" where
  "permits_execution d \<longleftrightarrow> gd_action d \<in> {Allow, Warn}"

record unicode =
  is_alphanumeric :: "string \<Rightarrow> bool"
  to_lowercase :: "string \<Rightarrow> string"

abbreviation STOP_WORDS :: "string list" where
  "STOP_WORDS \<equiv> [''a'', ''an'', ''and'', ''for'', ''in'', ''of'', ''on'', ''or'', ''the'', ''to'',
     ''with'', ''use'', ''using'']"

abbreviation separates_terms :: "unicode \<Rightarrow> string \<Rightarrow> bool" where
  "separates_terms uc c \<equiv> \<not> is_alphanumeric uc c \<and> c \<noteq> ''_'' \<and> c \<noteq> ''-''"

definition terms :: "unicode \<Rightarrow> string list \<Rightarrow> string set" where
  "terms uc values = set (filter (\<lambda>t. t \<notin> set STOP_WORDS) (filter (\<lambda>t. char_count t \<ge> 2)
     (concat (map (\<lambda>v. map (\<lambda>piece. to_lowercase uc (concat piece))
       (split_by (separates_terms uc) (utf8_chars v))) values))))"

text \<open>\<^verbatim>\<open>u8::try_from\<close> falls back to 100; counts are \<^verbatim>\<open>usize\<close> values.\<close>

definition check_goal_alignment :: "unicode \<Rightarrow> GoalLedger \<Rightarrow> string \<Rightarrow> GoalAlignmentCheck" where
  "check_goal_alignment uc ledger latest_action =
     (let goal_terms = terms uc (original_objective ledger # success_criteria ledger
            @ current_plan ledger);
          action_terms = terms uc [latest_action];
          matching_terms = card (goal_terms \<inter> action_terms);
          denominator = max (min (card goal_terms) (card action_terms)) 1;
          quotient = min (matching_terms * 100) (2 ^ 64 - 1) div denominator;
          score = (if quotient < 256 then of_nat quotient else 100);
          aligned = (\<not> is_blank latest_action \<and> (goal_terms = {} \<or> score \<ge> 20))
      in \<lparr>ga_task_id = gl_task_id ledger, ga_aligned = aligned, alignment_score = score,
          drift_type = (if aligned then None else Some ''weak_goal_alignment''),
          ga_reason =
            (if aligned then ''latest action shares meaningful terms with the objective or plan''
             else ''latest action has no meaningful lexical overlap with the objective or plan''),
          ga_evidence_refs = []\<rparr>)"

text \<open>The comparison is made in 128-bit arithmetic with saturating products.\<close>

definition at_or_above_percent :: "nat \<Rightarrow> nat \<Rightarrow> nat \<Rightarrow> bool" where
  "at_or_above_percent v limit percent \<longleftrightarrow>
     limit > 0 \<and> min (v * 100) (2 ^ 128 - 1) \<ge> min (limit * percent) (2 ^ 128 - 1)"

definition approaching_budget :: "GovernorLimits \<Rightarrow> GovernorObservation \<Rightarrow> bool" where
  "approaching_budget limits obs \<longleftrightarrow>
     (max_iterations limits > 0 \<and>
      at_or_above_percent (unat (go_iteration obs)) (unat (max_iterations limits)) 80) \<or>
     at_or_above_percent (unat (go_tool_calls obs)) (unat (max_tool_calls limits)) 80 \<or>
     (case go_estimated_cost_microusd obs of
        None \<Rightarrow> False
      | Some cost \<Rightarrow>
          at_or_above_percent (unat cost) (unat (max_estimated_cost_microusd limits)) 80)"

definition advisories ::
  "GovernorLimits \<Rightarrow> GovernorObservation \<Rightarrow> GoalAlignmentCheck \<Rightarrow> GovernorAdvisory list" where
  "advisories limits obs alignment =
     (if go_policy_decision obs = Some Deny \<or>
         (go_policy_decision obs = Some PolicyDecision.Block \<and>
          go_policy_block_disposition obs = Some Recoverable)
      then [\<lparr>adv_code = ''recoverable_policy_block'', adv_reason =
        ''policy rejected the current tool call; the loop may recover with a safer action''\<rparr>]
      else []) @
     (if \<not> ga_aligned alignment \<and> go_phase obs \<in> {Tool, Completion}
      then [\<lparr>adv_code = ''weak_goal_alignment'', adv_reason =
        ''action has weak lexical alignment with the goal; this signal is advisory''\<rparr>]
      else []) @
     (if approaching_budget limits obs
      then [\<lparr>adv_code = ''approaching_budget'', adv_reason =
        ''runtime consumption has reached at least 80% of a configured hard limit''\<rparr>]
      else [])"

definition normalized_security_risk :: "GovernorObservation \<Rightarrow> string" where
  "normalized_security_risk obs = to_ascii_lowercase (trim (go_security_risk obs))"

definition decide ::
  "GovernorLimits \<Rightarrow> GoalLedger \<Rightarrow> GovernorObservation \<Rightarrow> GovernorAction \<times> string \<times> string" where
  "decide limits ledger obs =
     (if is_blank (original_objective ledger)
      then (Block, ''runtime objective is empty'', ''low'')
      else if normalized_security_risk obs = ''critical'' \<or>
        (go_policy_decision obs = Some PolicyDecision.Block \<and>
         go_policy_block_disposition obs \<noteq> Some Recoverable)
      then (Block, ''runtime security or policy boundary rejected the action'', ''low'')
      else if normalized_security_risk obs = ''high''
      then (AskUser, ''runtime action has high security risk and requires explicit review'', ''low'')
      else if (case go_estimated_cost_microusd obs of
                 None \<Rightarrow> False
               | Some cost \<Rightarrow> max_estimated_cost_microusd limits > 0 \<and>
                   cost > max_estimated_cost_microusd limits)
      then (AskUser, ''runtime estimated cost exceeds the configured budget'', ''exceeded'')
      else if max_iterations limits > 0 \<and> go_iteration obs > max_iterations limits
      then (Block, ''runtime iteration budget exceeded'', ''exceeded'')
      else if max_tool_calls limits > 0 \<and> go_tool_calls obs > max_tool_calls limits
      then (Block, ''runtime tool-call budget exceeded'', ''exceeded'')
      else if max_failed_tool_calls limits > 0 \<and>
        go_consecutive_failed_tool_calls obs \<ge> max_failed_tool_calls limits \<and>
        go_phase obs = ToolResult
      then (Block, ''runtime consecutive failed-tool budget reached'', ''exceeded'')
      else if max_planned_input_tokens limits > 0 \<and>
        go_planned_input_tokens obs > max_planned_input_tokens limits
      then (AskUser, ''planned provider input exceeds the runtime token budget'', ''exceeded'')
      else if max_elapsed_ms limits > 0 \<and> go_elapsed_ms obs \<ge> max_elapsed_ms limits
      then (AskUser, ''runtime wall-clock budget exceeded'', ''exceeded'')
      else (Allow, ''runtime action is within hard policy and budget boundaries'', ''low''))"

definition evaluate ::
  "unicode \<Rightarrow> GovernorLimits \<Rightarrow> GoalLedger \<Rightarrow> GovernorObservation \<Rightarrow> RuntimeGovernorDecision" where
  "evaluate uc limits ledger obs =
     (let alignment = check_goal_alignment uc ledger (go_latest_action obs);
          (action, reason, risk) = decide limits ledger obs
      in \<lparr>gd_task_id = gl_task_id ledger, gd_phase = go_phase obs, gd_action = action,
          gd_reason = reason,
          gd_budget_risk =
            (if risk = ''low'' \<and> approaching_budget limits obs then ''high'' else risk),
          gd_security_risk =
            (if normalized_security_risk obs = [] then ''unknown''
             else normalized_security_risk obs),
          gd_iteration = go_iteration obs, gd_tool_calls = go_tool_calls obs,
          gd_failed_tool_calls = go_failed_tool_calls obs,
          gd_consecutive_failed_tool_calls = go_consecutive_failed_tool_calls obs,
          gd_alignment = alignment, gd_advisories = advisories limits obs alignment\<rparr>)"

section \<open>The hard boundaries\<close>

definition within :: "'a :: len word \<Rightarrow> 'a word \<Rightarrow> bool" where
  "within v limit \<longleftrightarrow> limit = 0 \<or> v \<le> limit"

definition below :: "'a :: len word \<Rightarrow> 'a word \<Rightarrow> bool" where
  "below v limit \<longleftrightarrow> limit = 0 \<or> v < limit"

definition within_budgets :: "GovernorLimits \<Rightarrow> GovernorObservation \<Rightarrow> bool" where
  "within_budgets limits obs \<longleftrightarrow>
     (case go_estimated_cost_microusd obs of
        None \<Rightarrow> True | Some cost \<Rightarrow> within cost (max_estimated_cost_microusd limits)) \<and>
     within (go_iteration obs) (max_iterations limits) \<and>
     within (go_tool_calls obs) (max_tool_calls limits) \<and>
     (go_phase obs = ToolResult \<longrightarrow>
        below (go_consecutive_failed_tool_calls obs) (max_failed_tool_calls limits)) \<and>
     within (go_planned_input_tokens obs) (max_planned_input_tokens limits) \<and>
     below (go_elapsed_ms obs) (max_elapsed_ms limits)"

definition policy_permits :: "GovernorObservation \<Rightarrow> bool" where
  "policy_permits obs \<longleftrightarrow>
     normalized_security_risk obs \<notin> {''critical'', ''high''} \<and>
     \<not> (go_policy_decision obs = Some PolicyDecision.Block \<and>
        go_policy_block_disposition obs \<noteq> Some Recoverable)"

lemma decide_permits:
  "fst (decide limits ledger obs) \<in> {Allow, Warn} \<longleftrightarrow>
     \<not> is_blank (original_objective ledger) \<and> policy_permits obs \<and> within_budgets limits obs"
  by (cases "go_estimated_cost_microusd obs")
    (auto simp: decide_def policy_permits_def within_budgets_def within_def below_def
      word_gt_0 not_less not_le)

lemma evaluate_action [simp]: "gd_action (evaluate uc limits ledger obs) = fst (decide limits ledger obs)"
  by (simp add: evaluate_def Let_def split: prod.split)

text \<open>
  Property C25. The governor permits an action exactly when the objective is not blank, neither
  the security risk nor a terminal policy block forbids it, and every configured budget is kept;
  a limit of zero never blocks.
\<close>

theorem governor_permits_iff:
  "permits_execution (evaluate uc limits ledger obs) \<longleftrightarrow>
     \<not> is_blank (original_objective ledger) \<and> policy_permits obs \<and> within_budgets limits obs"
  using decide_permits by (simp add: permits_execution_def)

definition consumes_more :: "GovernorObservation \<Rightarrow> GovernorObservation \<Rightarrow> bool" where
  "consumes_more obs obs' \<longleftrightarrow>
     go_iteration obs \<le> go_iteration obs' \<and> go_tool_calls obs \<le> go_tool_calls obs' \<and>
     go_consecutive_failed_tool_calls obs \<le> go_consecutive_failed_tool_calls obs' \<and>
     go_planned_input_tokens obs \<le> go_planned_input_tokens obs' \<and>
     go_elapsed_ms obs \<le> go_elapsed_ms obs' \<and>
     (case go_estimated_cost_microusd obs of
        None \<Rightarrow> True
      | Some cost \<Rightarrow> (case go_estimated_cost_microusd obs' of None \<Rightarrow> False | Some c \<Rightarrow> cost \<le> c))"

lemma within_budgets_antimono:
  assumes "within_budgets limits obs'" and "consumes_more obs obs'" and "go_phase obs = go_phase obs'"
  shows "within_budgets limits obs"
  using assms
  by (auto simp: within_budgets_def consumes_more_def within_def below_def
      split: option.splits intro: order_trans le_less_trans)

text \<open>
  Spending more never buys permission: an observation that the governor permits is
  still permitted with smaller counters, costs and times in the same phase under the same policy
  verdict, whatever the goal ledger's plan says.
\<close>

theorem governor_is_antimonotone:
  assumes "permits_execution (evaluate uc limits ledger obs')"
    and "consumes_more obs obs'" and "go_phase obs = go_phase obs'"
    and "go_policy_decision obs = go_policy_decision obs'"
    and "go_policy_block_disposition obs = go_policy_block_disposition obs'"
    and "go_security_risk obs = go_security_risk obs'"
  shows "permits_execution (evaluate uc limits ledger obs)"
proof -
  from assms(1) have ok: "\<not> is_blank (original_objective ledger)" "policy_permits obs'"
    "within_budgets limits obs'"
    using decide_permits by (simp_all add: permits_execution_def)
  from ok(2) assms(4-6) have "policy_permits obs"
    by (simp add: policy_permits_def normalized_security_risk_def)
  with ok within_budgets_antimono [OF ok(3) assms(2,3)] show ?thesis
    using decide_permits by (simp add: permits_execution_def)
qed

section \<open>The advisory signals\<close>

lemma quotient_le_100: "a \<le> b \<Longrightarrow> min (a * 100) N div max b 1 \<le> (100 :: nat)"
proof -
  assume "a \<le> b"
  then have "min (a * 100) N \<le> 100 * max b 1" by simp
  then show ?thesis by (metis div_le_mono nonzero_mult_div_cancel_right max.cobounded2 not_one_le_zero)
qed

lemma finite_terms [simp]: "finite (terms uc vs)"
  by (simp add: terms_def)

lemma alignment_quotient:
  "min (card (A \<inter> B) * 100) N div max (min (card A) (card B)) 1 \<le> (100 :: nat)"
  if "finite A" "finite B"
  using that by (intro quotient_le_100) (simp add: card_mono)

lemma evaluate_alignment [simp]:
  "gd_alignment (evaluate uc limits ledger obs) = check_goal_alignment uc ledger (go_latest_action obs)"
  by (simp add: evaluate_def Let_def split: prod.split)

lemma drift_iff_unaligned:
  "drift_type (check_goal_alignment uc ledger act) = None \<longleftrightarrow>
     ga_aligned (check_goal_alignment uc ledger act)"
  by (simp add: check_goal_alignment_def Let_def)

lemma percent_as_u8: "(if q < 256 then of_nat q else 100 :: u8) \<le> 100" if "q \<le> 100" for q :: nat
  using that by (simp add: word_le_nat_alt unat_of_nat)

lemma alignment_score_le_100: "alignment_score (check_goal_alignment uc ledger act) \<le> 100"
proof -
  let ?G = "terms uc (original_objective ledger # success_criteria ledger @ current_plan ledger)"
  let ?A = "terms uc [act]"
  have "min (card (?G \<inter> ?A) * 100) (2 ^ 64 - 1) div max (min (card ?G) (card ?A)) 1 \<le> 100"
    by (rule alignment_quotient) (rule finite_terms)+
  then show ?thesis
    unfolding check_goal_alignment_def Let_def GoalAlignmentCheck.simps by (rule percent_as_u8)
qed

lemma decide_ignores_plan:
  "decide limits (ledger\<lparr>success_criteria := sc, current_plan := cp\<rparr>)
     (obs\<lparr>go_latest_action := act\<rparr>) = decide limits ledger obs"
  by (simp add: decide_def normalized_security_risk_def)

text \<open>
  Goal alignment is a percentage and only advises: the score is at most 100, so the
  fallback for an unrepresentable score is never taken, a drift is named exactly when the action
  is not aligned, and the action the governor takes does not depend on it.
\<close>

theorem alignment_is_advisory:
  "let check = gd_alignment (evaluate uc limits ledger obs) in
     alignment_score check \<le> 100 \<and> (drift_type check = None) = ga_aligned check \<and>
     gd_action (evaluate uc limits ledger obs) =
       gd_action (evaluate uc' limits
         (ledger\<lparr>success_criteria := sc, current_plan := cp\<rparr>) (obs\<lparr>go_latest_action := act\<rparr>))"
  by (simp only: Let_def evaluate_alignment evaluate_action alignment_score_le_100
      drift_iff_unaligned decide_ignores_plan simp_thms)

section \<open>Witnesses\<close>

definition ex_limits :: GovernorLimits where
  "ex_limits = \<lparr>max_iterations = 0, max_tool_calls = 10, max_failed_tool_calls = 3,
     max_planned_input_tokens = 1000, max_elapsed_ms = 60000, max_estimated_cost_microusd = 500,
     max_correction_no_progress_steps = 0, max_correction_no_progress_ms = 0\<rparr>"

definition ex_observation :: "u32 \<Rightarrow> GovernorObservation" where
  "ex_observation calls = \<lparr>go_phase = Tool, go_iteration = 40, go_tool_calls = calls,
     go_failed_tool_calls = 2, go_consecutive_failed_tool_calls = 1,
     go_planned_input_tokens = 900, go_elapsed_ms = 1000, go_latest_action = ''edit lane'',
     go_estimated_cost_microusd = Some 400, go_policy_decision = Some PolicyDecision.Allow,
     go_policy_block_disposition = None, go_security_risk = ''low''\<rparr>"

definition ex_ledger :: GoalLedger where
  "ex_ledger = \<lparr>gl_task_id = 20, original_objective = ''fix lane'', success_criteria = [],
     current_plan = [], completed_steps = [], open_risks = []\<rparr>"

text \<open>The tables restricted to ASCII.\<close>

definition ascii_unicode :: unicode where
  "ascii_unicode =
     \<lparr>is_alphanumeric = (\<lambda>c. case c of
        [b] \<Rightarrow> (let n = (of_char b :: nat) in
          48 \<le> n \<and> n \<le> 57 \<or> 65 \<le> n \<and> n \<le> 90 \<or> 97 \<le> n \<and> n \<le> 122)
      | _ \<Rightarrow> False),
      to_lowercase = to_ascii_lowercase\<rparr>"

lemma ex_permitted: "fst (decide ex_limits ex_ledger (ex_observation 9)) = Allow"
  by code_simp

theorem governor_is_antimonotone_witness:
  "permits_execution (evaluate ascii_unicode ex_limits ex_ledger (ex_observation 4))"
proof -
  have "permits_execution (evaluate ascii_unicode ex_limits ex_ledger (ex_observation 9))"
    by (simp add: permits_execution_def ex_permitted)
  then show ?thesis
    by (rule governor_is_antimonotone) (simp_all add: ex_observation_def consumes_more_def)
qed

end
