(* ===== verification/Provider_Session.thy ===== *)
theory Provider_Session
  imports Prelude
begin

text \<open>
  Recovery from provider failures: the error type of \<^verbatim>\<open>golutra-agent-llm/src/lib.rs\<close>, the
  retry classification and delays (\<^verbatim>\<open>provider_retry.rs\<close>), the retry state of one logical
  request (\<^verbatim>\<open>provider_recovery.rs\<close>) and the retry loops over the two transports
  (\<^verbatim>\<open>provider_session.rs\<close>), all of \<^verbatim>\<open>golutra-agent-runtime/src\<close>.

  A provider is the list of the results its attempts will have; a list that ends before the
  session does leaves the session running, which is the result \<open>None\<close>. An attempt also says
  how long it took and how long the wait after it lasted, \<open>None\<close> when the wait was cancelled.
  Durations are nanoseconds. Redaction and token estimation are parameters.
\<close>

section \<open>Provider errors\<close>

type_synonym u16 = "16 word"
type_synonym Duration = nat

definition from_millis :: "nat \<Rightarrow> Duration" where
  "from_millis ms = ms * 1000000"

definition as_millis :: "Duration \<Rightarrow> nat" where
  "as_millis d = d div 1000000"

definition duration_ms :: "Duration \<Rightarrow> nat" where
  "duration_ms d = min (as_millis d) (2 ^ 64 - 1)"

record ProviderAttemptError =
  pae_attempt :: u32
  pae_transport :: string
  pae_elapsed_ms :: nat
  pae_message :: string
  pae_response_http_status :: "u16 option"
  pae_http_status :: "u16 option"
  pae_error_type :: "string option"
  pae_request_id :: "string option"
  pae_upstream_response_id :: "string option"

record ProviderErrorMetadata =
  em_response_http_status :: "u16 option"
  em_http_status :: "u16 option"
  em_provider_code :: "string option"
  em_error_type :: "string option"
  em_error_detail :: "string option"
  em_stream_interrupted :: bool
  em_retry_after :: "Duration option"
  em_request_id :: "string option"
  em_upstream_response_id :: "string option"
  em_attempts :: "ProviderAttemptError list"

definition default_metadata :: ProviderErrorMetadata where
  "default_metadata =
     \<lparr>em_response_http_status = None, em_http_status = None, em_provider_code = None,
      em_error_type = None, em_error_detail = None, em_stream_interrupted = False,
      em_retry_after = None, em_request_id = None, em_upstream_response_id = None,
      em_attempts = []\<rparr>"

definition metadata_is_empty :: "ProviderErrorMetadata \<Rightarrow> bool" where
  "metadata_is_empty m \<longleftrightarrow>
     em_response_http_status m = None \<and> em_http_status m = None \<and> em_provider_code m = None \<and>
     em_error_type m = None \<and> em_error_detail m = None \<and> \<not> em_stream_interrupted m \<and>
     em_attempts m = [] \<and> em_retry_after m = None \<and> em_request_id m = None \<and>
     em_upstream_response_id m = None"

datatype ProviderError =
    ConnectionFailed string
  | Failed string
  | Unavailable string
  | RateLimited string
  | NotConfigured string
  | Malformed string
  | Timeout string
  | Cancelled
  | WithMetadata ProviderError ProviderErrorMetadata

fun error_text :: "ProviderError \<Rightarrow> string" where
  "error_text (ConnectionFailed m) = ''provider connection failed: '' @ m"
| "error_text (Failed m) = ''provider failed: '' @ m"
| "error_text (Unavailable m) = ''provider is temporarily unavailable: '' @ m"
| "error_text (RateLimited m) = ''provider rate limited: '' @ m"
| "error_text (NotConfigured m) = ''provider is not configured: '' @ m"
| "error_text (Malformed m) = ''provider response is malformed: '' @ m"
| "error_text (Timeout m) = ''provider request timed out: '' @ m"
| "error_text Cancelled = ''provider request was cancelled''"
| "error_text (WithMetadata e m) = error_text e"

fun metadata :: "ProviderError \<Rightarrow> ProviderErrorMetadata option" where
  "metadata (WithMetadata e m) = Some m"
| "metadata _ = None"

definition with_metadata :: "ProviderErrorMetadata \<Rightarrow> ProviderError \<Rightarrow> ProviderError" where
  "with_metadata m e =
     (if metadata_is_empty m then e
      else (case e of WithMetadata e' m' \<Rightarrow> WithMetadata e' m | _ \<Rightarrow> WithMetadata e m))"

definition metadata_or_default :: "ProviderError \<Rightarrow> ProviderErrorMetadata" where
  "metadata_or_default e = (case metadata e of None \<Rightarrow> default_metadata | Some m \<Rightarrow> m)"

definition retry_after :: "ProviderError \<Rightarrow> Duration option" where
  "retry_after e = Option.bind (metadata e) em_retry_after"

definition http_status :: "ProviderError \<Rightarrow> u16 option" where
  "http_status e = Option.bind (metadata e) em_http_status"

fun is_rate_limited :: "ProviderError \<Rightarrow> bool" where
  "is_rate_limited (RateLimited m) = True"
| "is_rate_limited (WithMetadata e m) = is_rate_limited e"
| "is_rate_limited _ = False"

section \<open>Classification and delays\<close>

abbreviation BASE_BACKOFF_MS :: nat where "BASE_BACKOFF_MS \<equiv> 250"

abbreviation MAX_BACKOFF_MS :: nat where "MAX_BACKOFF_MS \<equiv> 30000"

definition client_error :: "ProviderError \<Rightarrow> bool" where
  "client_error e =
     (case http_status e of None \<Rightarrow> False | Some s \<Rightarrow> 400 \<le> s \<and> s < 500 \<and> s \<noteq> 429)"

fun is_retryable :: "ProviderError \<Rightarrow> bool" where
  "is_retryable (WithMetadata e m) = (\<not> client_error (WithMetadata e m) \<and> is_retryable e)"
| "is_retryable (ConnectionFailed m) = True"
| "is_retryable (Unavailable m) = True"
| "is_retryable (RateLimited m) = True"
| "is_retryable (Timeout m) = True"
| "is_retryable (Failed m) = False"
| "is_retryable Cancelled = False"
| "is_retryable (NotConfigured m) = False"
| "is_retryable (Malformed m) = False"

fun fallback_eligible :: "ProviderError \<Rightarrow> bool" where
  "fallback_eligible (WithMetadata e m) = (\<not> client_error (WithMetadata e m) \<and> fallback_eligible e)"
| "fallback_eligible (ConnectionFailed m) = True"
| "fallback_eligible (Failed m) = True"
| "fallback_eligible (Unavailable m) = True"
| "fallback_eligible (RateLimited m) = True"
| "fallback_eligible (Timeout m) = True"
| "fallback_eligible Cancelled = False"
| "fallback_eligible (NotConfigured m) = False"
| "fallback_eligible (Malformed m) = False"

definition transport_fallback_eligible :: "ProviderError \<Rightarrow> bool" where
  "transport_fallback_eligible e \<longleftrightarrow>
     is_retryable e \<and> (case metadata e of None \<Rightarrow> False | Some m \<Rightarrow> em_stream_interrupted m)"

fun is_connection_failure :: "ProviderError \<Rightarrow> bool" where
  "is_connection_failure (ConnectionFailed m) = True"
| "is_connection_failure (WithMetadata e m) =
     (http_status (WithMetadata e m) = None \<and> is_connection_failure e)"
| "is_connection_failure _ = False"

definition backoff :: "u32 \<Rightarrow> Duration" where
  "backoff attempt =
     from_millis (min (min (BASE_BACKOFF_MS * 2 ^ min (unat attempt - 1) 5) (2 ^ 64 - 1)) MAX_BACKOFF_MS)"

definition retry_delay :: "ProviderError \<Rightarrow> u32 \<Rightarrow> u64 \<Rightarrow> Duration" where
  "retry_delay e attempt request_seed =
     (case retry_after e of
        Some server_delay \<Rightarrow> server_delay
      | None \<Rightarrow>
          (let base = as_millis (backoff attempt);
               bucket = unat ((request_seed + ucast attempt * 0x9E3779B9) mod 21);
               multiplier = 90 + bucket
           in from_millis (min (base * multiplier) (2 ^ 64 - 1) div 100)))"

section \<open>The retry state\<close>

datatype ProviderTransport = Streaming | Buffered

primrec label :: "ProviderTransport \<Rightarrow> string" where
  "label Streaming = ''streaming''"
| "label Buffered = ''buffered''"

datatype RecoveryPhase = Waiting | Retrying

record ProviderRecovery =
  rec_phase :: RecoveryPhase
  rec_attempt :: u32
  rec_delay_ms :: nat
  rec_waited_ms :: nat
  rec_network :: bool
  rec_reset_stream :: bool
  rec_reason :: string
  rec_transport :: ProviderTransport
  rec_error_metadata :: "ProviderErrorMetadata option"

record RetryState =
  ordinary_retries :: u32
  connection_retries :: u32
  rs_attempts :: u32
  waited :: Duration
  rs_transport :: ProviderTransport
  failures :: "ProviderAttemptError list"
  failed_attempts :: u32

definition retry_state_default :: RetryState where
  "retry_state_default =
     \<lparr>ordinary_retries = 0, connection_retries = 0, rs_attempts = 0, waited = 0,
      rs_transport = Streaming, failures = [], failed_attempts = 0\<rparr>"

definition switch_to_buffered :: "RetryState \<Rightarrow> RetryState" where
  "switch_to_buffered st = st\<lparr>rs_transport := Buffered\<rparr>"

text \<open>\<^verbatim>\<open>Vec::remove(1)\<close> on a full list, then \<^verbatim>\<open>push\<close>.\<close>

definition push_failure :: "'a list \<Rightarrow> 'a \<Rightarrow> 'a list" where
  "push_failure fs f = (if length fs = 8 then take 1 fs @ drop 2 fs else fs) @ [f]"

definition attempt_error ::
  "(string \<Rightarrow> string) \<Rightarrow> u32 \<Rightarrow> ProviderTransport \<Rightarrow> ProviderError \<Rightarrow> Duration \<Rightarrow> ProviderAttemptError"
where
  "attempt_error redact n transport e elapsed =
     (let m = metadata_or_default e in
      \<lparr>pae_attempt = n, pae_transport = label transport, pae_elapsed_ms = duration_ms elapsed,
       pae_message = concat (take 512 (utf8_chars (redact (error_text e)))),
       pae_response_http_status = em_response_http_status m, pae_http_status = em_http_status m,
       pae_error_type = em_error_type m, pae_request_id = em_request_id m,
       pae_upstream_response_id = em_upstream_response_id m\<rparr>)"

definition record_failure ::
  "(string \<Rightarrow> string) \<Rightarrow> ProviderError \<Rightarrow> Duration \<Rightarrow> RetryState \<Rightarrow> RetryState" where
  "record_failure redact e elapsed st =
     (let n = sat_add (failed_attempts st) 1
      in st\<lparr>failed_attempts := n,
            failures := push_failure (failures st)
              (attempt_error redact n (rs_transport st) e elapsed)\<rparr>)"

definition with_failures :: "RetryState \<Rightarrow> ProviderError \<Rightarrow> ProviderError" where
  "with_failures st e = with_metadata ((metadata_or_default e)\<lparr>em_attempts := failures st\<rparr>) e"

definition connection_delay :: "u32 \<Rightarrow> u64 \<Rightarrow> Duration" where
  "connection_delay retries seed =
     (let seconds = min (5 * 2 ^ min (unat retries - 1) 4) 60;
          jitter = 90 + unat ((seed + ucast retries) mod 11)
      in from_millis (seconds * 1000 * jitter div 100))"

definition schedule ::
  "ProviderError \<Rightarrow> u32 \<Rightarrow> bool \<Rightarrow> u64 \<Rightarrow> bool \<Rightarrow> RetryState
     \<Rightarrow> (Duration \<times> ProviderRecovery \<times> RetryState) option" where
  "schedule e max_retries allow_connection_wait seed reset_stream st =
     (if \<not> is_retryable e then None
      else let network = (allow_connection_wait \<and> is_connection_failure e) in
        if \<not> network \<and> ordinary_retries st \<ge> max_retries then None
        else let st1 = (if network then st\<lparr>connection_retries := sat_add (connection_retries st) 1\<rparr>
                        else st\<lparr>ordinary_retries := ordinary_retries st + 1\<rparr>);
                 delay = (if network then connection_delay (connection_retries st1) seed
                          else retry_delay e (ordinary_retries st1) seed);
                 st2 = st1\<lparr>rs_attempts := sat_add (rs_attempts st1) 1\<rparr>
             in Some (delay,
                  \<lparr>rec_phase = Waiting, rec_attempt = rs_attempts st2,
                   rec_delay_ms = duration_ms delay, rec_waited_ms = duration_ms (waited st2),
                   rec_network = network, rec_reset_stream = reset_stream,
                   rec_reason = error_text e, rec_transport = rs_transport st2,
                   rec_error_metadata = metadata e\<rparr>,
                  st2))"

section \<open>The session loops\<close>

datatype ProviderRole = System | User | Assistant | Tool

record ProviderToolCall =
  ptc_tool_call_id :: string
  ptc_tool_name :: string
  ptc_arguments :: json

record ProviderMessage =
  pm_role :: ProviderRole
  pm_content :: string
  pm_tool_call_id :: "string option"
  pm_tool_name :: "string option"
  pm_tool_calls :: "ProviderToolCall list"
  pm_metadata :: "json list"

datatype ProviderFinishReason =
  Stop | Continue | ToolCalls | Length | ContentFilter | Error | Unknown

record ProviderResponse =
  pr_response_id :: uuid
  pr_message :: "ProviderMessage option"
  pr_tool_calls :: "ProviderToolCall list"
  pr_finish_reason :: ProviderFinishReason

record ProviderSessionPolicy =
  max_stream_retries :: u32
  max_request_retries :: u32
  stream_idle_timeout :: Duration
  request_timeout :: Duration
  enable_transport_fallback :: bool

definition default_policy :: ProviderSessionPolicy where
  "default_policy =
     \<lparr>max_stream_retries = 2, max_request_retries = 2, stream_idle_timeout = from_millis 300000,
      request_timeout = from_millis 300000, enable_transport_fallback = True\<rparr>"

definition bounded :: "ProviderSessionPolicy \<Rightarrow> ProviderSessionPolicy" where
  "bounded p =
     p\<lparr>max_stream_retries := min (max_stream_retries p) 8,
       max_request_retries := min (max_request_retries p) 8,
       stream_idle_timeout := max (stream_idle_timeout p) (from_millis 1),
       request_timeout := max (request_timeout p) (from_millis 1)\<rparr>"

datatype ProviderSessionEvent =
    Recovery ProviderRecovery
  | TransportFallback ProviderTransport ProviderTransport string
  | ProviderFallback string string string

text \<open>
  What a session knows: its policy and flags, the transports of the provider, the low half of
  the request identifier, the input budget and the estimated tokens of messages and tools.
\<close>

record Session =
  s_policy :: ProviderSessionPolicy
  s_supports_buffered :: bool
  s_allow_connection_wait :: bool
  s_seed :: u64
  s_input_budget :: u64
  s_message_tokens :: "ProviderMessage list \<Rightarrow> u64"
  s_tool_tokens :: u64
  s_redact :: "string \<Rightarrow> string"

record Attempt =
  att_result :: "(ProviderResponse, ProviderError) result"
  att_preview_seen :: bool
  att_elapsed :: Duration
  att_wait :: "Duration option"

abbreviation REMINDER :: string where
  "REMINDER \<equiv> ''Runtime recovery: this request waited at least 60 seconds. Continue the existing task using completed tool results. Before changing files or external state, recheck only the facts that may have changed during the wait. Do not repeat completed side effects.''"

definition reminder_message :: ProviderMessage where
  "reminder_message = \<lparr>pm_role = User, pm_content = REMINDER, pm_tool_call_id = None,
     pm_tool_name = None, pm_tool_calls = [], pm_metadata = []\<rparr>"

definition add_recovery_reminder ::
  "Session \<Rightarrow> Duration \<Rightarrow> ProviderMessage list \<Rightarrow> ProviderMessage list" where
  "add_recovery_reminder s wait messages =
     (if wait < from_millis 60000 \<or> list_ex (\<lambda>m. pm_content m = REMINDER) messages then messages
      else if sat_add (sat_add (s_message_tokens s messages) (s_tool_tokens s))
                (s_message_tokens s [reminder_message]) \<le> s_input_budget s
      then messages @ [reminder_message] else messages)"

definition remind ::
  "Session \<Rightarrow> RetryState \<Rightarrow> ProviderMessage list \<Rightarrow> ProviderMessage list" where
  "remind s st messages =
     (if s_allow_connection_wait s then add_recovery_reminder s (waited st) messages else messages)"

definition total_retries :: "Session \<Rightarrow> u32" where
  "total_retries s = max (max_stream_retries (s_policy s)) (max_request_retries (s_policy s))"

definition can_fallback :: "Session \<Rightarrow> ProviderError \<Rightarrow> bool" where
  "can_fallback s e \<longleftrightarrow> enable_transport_fallback (s_policy s) \<and> s_supports_buffered s \<and>
     transport_fallback_eligible e"

definition stream_retries :: "Session \<Rightarrow> ProviderError \<Rightarrow> u32" where
  "stream_retries s e =
     (if can_fallback s e
      then min (max_stream_retries (s_policy s)) (sat_sub (total_retries s) 1)
      else max_stream_retries (s_policy s))"

text \<open>\<open>None\<close> is a wait that was cancelled.\<close>

definition wait_for_recovery ::
  "ProviderRecovery \<Rightarrow> Duration option \<Rightarrow> RetryState
     \<Rightarrow> RetryState option \<times> ProviderSessionEvent list" where
  "wait_for_recovery r wait st =
     (case wait of
        None \<Rightarrow> (None, [Recovery r])
      | Some d \<Rightarrow>
          (let st' = st\<lparr>waited := waited st + d\<rparr> in
           (Some st', [Recovery r, Recovery (r\<lparr>rec_phase := Retrying,
              rec_waited_ms := duration_ms (waited st'), rec_reset_stream := False\<rparr>)])))"

text \<open>
  How the streaming loop ends: it returns, or it gives up on an error. \<open>run_messages\<close> is the
  request as it stands then, \<open>run_rest\<close> the attempts that were not made.
\<close>

datatype StreamEnd = Returned "(ProviderResponse, ProviderError) result" | GaveUp ProviderError "Duration option"

record 'a Run =
  run_end :: 'a
  run_state :: RetryState
  run_messages :: "ProviderMessage list"
  run_events :: "ProviderSessionEvent list"
  run_rest :: "Attempt list"

definition ends ::
  "'a \<Rightarrow> RetryState \<Rightarrow> ProviderMessage list \<Rightarrow> ProviderSessionEvent list \<Rightarrow> Attempt list \<Rightarrow> 'a Run option"
where
  "ends e st messages events rest =
     Some \<lparr>run_end = e, run_state = st, run_messages = messages, run_events = events,
           run_rest = rest\<rparr>"

definition after :: "ProviderSessionEvent list \<Rightarrow> 'a Run option \<Rightarrow> 'a Run option" where
  "after events r = map_option (\<lambda>x. x\<lparr>run_events := events @ run_events x\<rparr>) r"

text \<open>
  What a failed attempt leads to: the failure is recorded and a retry scheduled within the
  limit, or not; a scheduled retry is waited for, or the wait is cancelled.
\<close>

datatype FailureStep =
    NoRetry RetryState ProviderError
  | WaitCancelled RetryState "ProviderSessionEvent list"
  | RetryWith RetryState "ProviderSessionEvent list"

definition failed_attempt ::
  "Session \<Rightarrow> (ProviderError \<Rightarrow> u32) \<Rightarrow> bool \<Rightarrow> Attempt \<Rightarrow> ProviderError \<Rightarrow> RetryState \<Rightarrow> FailureStep"
where
  "failed_attempt s limit reset_stream a e st =
     (let st1 = record_failure (s_redact s) e (att_elapsed a) st;
          e1 = with_failures st1 e
      in case schedule e1 (limit e1) (s_allow_connection_wait s) (s_seed s) reset_stream st1 of
           None \<Rightarrow> NoRetry st1 e1
         | Some (delay, r, st2) \<Rightarrow>
             (case wait_for_recovery r (att_wait a) st2 of
                (None, events) \<Rightarrow> WaitCancelled st2 events
              | (Some st3, events) \<Rightarrow> RetryWith st3 events))"

text \<open>
  The two loops differ in their retry limit, in whether a retry resets the preview of the
  stream, and in what they do with the error they give up on.
\<close>

fun retry_loop ::
  "Session \<Rightarrow> (ProviderError \<Rightarrow> u32) \<Rightarrow> (Attempt \<Rightarrow> bool)
     \<Rightarrow> ((ProviderResponse, ProviderError) result \<Rightarrow> 'a) \<Rightarrow> (Attempt \<Rightarrow> RetryState \<Rightarrow> ProviderError \<Rightarrow> 'a)
     \<Rightarrow> RetryState \<Rightarrow> ProviderMessage list \<Rightarrow> Attempt list \<Rightarrow> 'a Run option" where
  "retry_loop s limit reset_stream returned gave_up st messages [] = None"
| "retry_loop s limit reset_stream returned gave_up st messages (a # rest) =
     (let messages' = remind s st messages in
      case att_result a of
        Inr response \<Rightarrow> ends (returned (Inr response)) st messages' [] rest
      | Inl e \<Rightarrow>
          if e = Cancelled then ends (returned (Inl Cancelled)) st messages' [] rest
          else (case failed_attempt s limit (reset_stream a) a e st of
                  NoRetry st1 e1 \<Rightarrow> ends (gave_up a st1 e1) st1 messages' [] rest
                | WaitCancelled st2 events \<Rightarrow> ends (returned (Inl Cancelled)) st2 messages' events rest
                | RetryWith st3 events \<Rightarrow>
                    after events
                      (retry_loop s limit reset_stream returned gave_up st3 messages' rest)))"

definition stream_loop ::
  "Session \<Rightarrow> RetryState \<Rightarrow> ProviderMessage list \<Rightarrow> Attempt list \<Rightarrow> StreamEnd Run option" where
  "stream_loop s =
     retry_loop s (stream_retries s) att_preview_seen Returned (\<lambda>a st e. GaveUp e (att_wait a))"

definition buffered_loop ::
  "Session \<Rightarrow> RetryState \<Rightarrow> ProviderMessage list \<Rightarrow> Attempt list
     \<Rightarrow> (ProviderResponse, ProviderError) result Run option" where
  "buffered_loop s =
     retry_loop s (\<lambda>e. total_retries s) (\<lambda>a. False) (\<lambda>r. r) (\<lambda>a st e. Inl (with_failures st e))"

definition retry_reason :: "ProviderError \<Rightarrow> string" where
  "retry_reason e =
     (case metadata e of
        None \<Rightarrow> error_text e
      | Some m \<Rightarrow>
          (let reason = (case em_http_status m of
                 None \<Rightarrow> error_text e
               | Some status \<Rightarrow> ''HTTP '' @ show_nat (unat status) @ '': '' @ error_text e)
           in case em_provider_code m of None \<Rightarrow> reason | Some code \<Rightarrow> code @ '': '' @ reason))"

definition fall_back ::
  "Session \<Rightarrow> ProviderError \<Rightarrow> Duration option \<Rightarrow> StreamEnd Run
     \<Rightarrow> (ProviderResponse, ProviderError) result Run option" where
  "fall_back s e wait run =
     (let st = run_state run; messages = run_messages run; evs = run_events run; rest = run_rest run in
      if can_fallback s e
      then let st1 = switch_to_buffered st in
        case schedule e (total_retries s) False (s_seed s) True st1 of
          None \<Rightarrow> ends (Inl (with_failures st1 e)) st1 messages evs rest
        | Some (delay, r, st2) \<Rightarrow>
            (case wait_for_recovery r wait st2 of
               (None, events) \<Rightarrow> ends (Inl Cancelled) st2 messages (evs @ events) rest
             | (Some st3, events) \<Rightarrow>
                 after (evs @ events @ [TransportFallback Streaming Buffered (retry_reason e)])
                   (buffered_loop s st3 messages rest))
      else ends (Inl (with_failures st e)) st messages evs rest)"

definition complete_provider ::
  "Session \<Rightarrow> ProviderMessage list \<Rightarrow> Attempt list
     \<Rightarrow> (ProviderResponse, ProviderError) result Run option" where
  "complete_provider s messages attempts =
     Option.bind (stream_loop s retry_state_default messages attempts)
       (\<lambda>run. case run_end run of
          Returned r \<Rightarrow> ends r (run_state run) (run_messages run) (run_events run) (run_rest run)
        | GaveUp e wait \<Rightarrow> fall_back s e wait run)"

text \<open>
  The fallback provider, when there is one, with its identifiers and attempts. It continues
  with the request as the primary provider left it.
\<close>

record Fallback =
  fb_session :: Session
  fb_provider_id :: string
  fb_attempts :: "Attempt list"

definition complete_without_deadline ::
  "Session \<Rightarrow> string \<Rightarrow> Fallback option \<Rightarrow> ProviderMessage list \<Rightarrow> Attempt list
     \<Rightarrow> (ProviderResponse, ProviderError) result Run option" where
  "complete_without_deadline s primary_id fallback messages attempts =
     (case complete_provider s messages attempts of
        None \<Rightarrow> None
      | Some run \<Rightarrow>
          (case run_end run of
             Inr response \<Rightarrow> Some run
           | Inl e \<Rightarrow>
               (case fallback of
                  None \<Rightarrow> Some run
                | Some fb \<Rightarrow>
                    if \<not> fallback_eligible e then Some run
                    else after (run_events run @
                      [Recovery \<lparr>rec_phase = Retrying, rec_attempt = 0, rec_delay_ms = 0,
                         rec_waited_ms = 0, rec_network = False, rec_reset_stream = True,
                         rec_reason = ''switching provider'', rec_transport = Streaming,
                         rec_error_metadata = metadata e\<rparr>,
                       ProviderFallback primary_id (fb_provider_id fb) (retry_reason e)])
                      (complete_provider (fb_session fb) (run_messages run) (fb_attempts fb)))))"

section \<open>Recording a failure does not reclassify it\<close>

lemma record_failure_frame [simp]:
  "ordinary_retries (record_failure redact e d st) = ordinary_retries st"
  "connection_retries (record_failure redact e d st) = connection_retries st"
  "waited (record_failure redact e d st) = waited st"
  "rs_transport (record_failure redact e d st) = rs_transport st"
  by (simp_all add: record_failure_def Let_def)

lemma with_metadata_plain:
  "metadata e = None \<Longrightarrow> \<not> metadata_is_empty m \<Longrightarrow> with_metadata m e = WithMetadata e m"
  by (cases e) (simp_all add: with_metadata_def)

lemma metadata_SomeE:
  assumes "metadata e = Some m"
  obtains e' where "e = WithMetadata e' m"
  using assms by (cases e) simp_all

lemma with_failures_cases:
  obtains (same) "with_failures st e = e"
  | (plain) "with_failures st e = WithMetadata e (default_metadata\<lparr>em_attempts := failures st\<rparr>)"
    and "metadata e = None"
  | (wrapped) e' m where "e = WithMetadata e' m"
    and "with_failures st e = WithMetadata e' (m\<lparr>em_attempts := failures st\<rparr>)"
proof (cases "metadata_is_empty ((metadata_or_default e)\<lparr>em_attempts := failures st\<rparr>)")
  case True
  then show thesis by (intro same) (simp add: with_failures_def with_metadata_def)
next
  case False
  show thesis
  proof (cases "metadata e")
    case None
    with False show thesis
      by (intro plain) (simp_all add: with_failures_def with_metadata_plain metadata_or_default_def)
  next
    case (Some m)
    then obtain e' where e: "e = WithMetadata e' m" by (rule metadata_SomeE)
    with False show thesis
      by (intro wrapped [OF e])
        (simp add: with_failures_def with_metadata_def metadata_or_default_def)
  qed
qed

lemma with_failures_class [simp]:
  "is_retryable (with_failures st e) = is_retryable e"
  "is_connection_failure (with_failures st e) = is_connection_failure e"
  "client_error (with_failures st e) = client_error e"
  "http_status (with_failures st e) = http_status e"
  "retry_after (with_failures st e) = retry_after e"
  by (rule with_failures_cases [of st e];
      simp add: client_error_def http_status_def retry_after_def default_metadata_def)+

lemma schedule_Some:
  assumes "schedule e limit allow seed reset st = Some (delay, r, st')"
  shows "is_retryable e" and "failures st' = failures st" and "waited st' = waited st"
    and "if allow \<and> is_connection_failure e then ordinary_retries st' = ordinary_retries st
         else ordinary_retries st < limit \<and>
              unat (ordinary_retries st') = unat (ordinary_retries st) + 1"
proof -
  have step: "unat (ordinary_retries st + 1) = unat (ordinary_retries st) + 1"
    if "ordinary_retries st < limit"
  proof -
    have "unat (ordinary_retries st) < unat limit" using that by (simp add: word_less_nat_alt)
    moreover have "unat limit < 2 ^ LENGTH(32)" by (rule unsigned_less)
    ultimately show ?thesis by (simp add: unat_word_ariths)
  qed
  show "is_retryable e" "failures st' = failures st" "waited st' = waited st"
    using assms by (auto simp: schedule_def Let_def split: if_splits)
  show "if allow \<and> is_connection_failure e then ordinary_retries st' = ordinary_retries st
         else ordinary_retries st < limit \<and>
              unat (ordinary_retries st') = unat (ordinary_retries st) + 1"
    using assms step by (auto simp: schedule_def Let_def not_le split: if_splits)
qed

lemma schedule_None:
  "schedule e limit allow seed reset st = None \<longleftrightarrow>
     \<not> is_retryable e \<or> (\<not> (allow \<and> is_connection_failure e) \<and> limit \<le> ordinary_retries st)"
  by (simp add: schedule_def Let_def)

lemma connection_failure_is_retryable: "is_connection_failure e \<Longrightarrow> is_retryable e"
  by (induction e rule: is_connection_failure.induct) (simp_all add: client_error_def)

section \<open>The number of attempts\<close>

definition waits_for_connection :: "Session \<Rightarrow> Attempt \<Rightarrow> bool" where
  "waits_for_connection s a \<longleftrightarrow> s_allow_connection_wait s \<and>
     (case att_result a of Inl e \<Rightarrow> is_connection_failure e | Inr r \<Rightarrow> False)"

definition connection_failures :: "Session \<Rightarrow> Attempt list \<Rightarrow> nat" where
  "connection_failures s as = length (filter (waits_for_connection s) as)"

lemma connection_failures_simps [simp]:
  "connection_failures s [] = 0"
  "connection_failures s (a # as) = (if waits_for_connection s a then 1 else 0) + connection_failures s as"
  "connection_failures s (as @ bs) = connection_failures s as + connection_failures s bs"
  by (simp_all add: connection_failures_def)

text \<open>
  An account of the attempts a loop made: each of them but the last was followed by a scheduled
  retry, which is either a wait for the connection or uses up the shared budget.
\<close>

definition accounted :: "Session \<Rightarrow> RetryState \<Rightarrow> Attempt list \<Rightarrow> 'a Run \<Rightarrow> bool" where
  "accounted s st as run \<longleftrightarrow>
     (\<exists>used. as = used @ run_rest run \<and>
        length used + unat (ordinary_retries st)
          \<le> 1 + unat (ordinary_retries (run_state run)) + connection_failures s used \<and>
        ordinary_retries (run_state run) \<le> max (ordinary_retries st) (total_retries s))"

lemma stream_retries_le: "stream_retries s e \<le> total_retries s"
  by (auto simp: stream_retries_def total_retries_def sat_sub_le min_def intro: order_trans)

lemma wait_for_recovery_state:
  "fst (wait_for_recovery r w st) = Some st' \<Longrightarrow> ordinary_retries st' = ordinary_retries st"
  by (auto simp: wait_for_recovery_def Let_def split: option.splits)

lemma scheduled_budget:
  assumes "schedule (with_failures st1 e) limit (s_allow_connection_wait s) seed reset st1 = Some (d, r, st2)"
    and "att_result a = Inl e" and "limit \<le> total_retries s"
  shows "1 + unat (ordinary_retries st1)
      = unat (ordinary_retries st2) + (if waits_for_connection s a then 1 else 0)"
    and "ordinary_retries st2 \<le> max (ordinary_retries st1) (total_retries s)"
proof -
  note st2 = schedule_Some(4) [OF assms(1), unfolded with_failures_class]
  show "1 + unat (ordinary_retries st1)
      = unat (ordinary_retries st2) + (if waits_for_connection s a then 1 else 0)"
    using st2 assms(2) by (simp add: waits_for_connection_def split: if_splits)
  have "ordinary_retries st2 \<le> ordinary_retries st1 \<or> ordinary_retries st2 \<le> total_retries s"
    using st2 assms(3) by (auto simp: word_le_nat_alt word_less_nat_alt split: if_splits)
  then show "ordinary_retries st2 \<le> max (ordinary_retries st1) (total_retries s)"
    by (simp only: le_max_iff_disj)
qed

lemma failed_attempt_budget:
  assumes "att_result a = Inl e" and "\<And>e. limit e \<le> total_retries s"
  shows "case failed_attempt s limit reset a e st of
      NoRetry st' e' \<Rightarrow> ordinary_retries st' = ordinary_retries st
    | WaitCancelled st' evs \<Rightarrow> 1 + unat (ordinary_retries st)
        = unat (ordinary_retries st') + (if waits_for_connection s a then 1 else 0) \<and>
        ordinary_retries st' \<le> max (ordinary_retries st) (total_retries s)
    | RetryWith st' evs \<Rightarrow> 1 + unat (ordinary_retries st)
        = unat (ordinary_retries st') + (if waits_for_connection s a then 1 else 0) \<and>
        ordinary_retries st' \<le> max (ordinary_retries st) (total_retries s)"
proof -
  define st1 where "st1 = record_failure (s_redact s) e (att_elapsed a) st"
  define e1 where "e1 = with_failures st1 e"
  have st1: "ordinary_retries st1 = ordinary_retries st" by (simp add: st1_def)
  show ?thesis
  proof (cases "schedule e1 (limit e1) (s_allow_connection_wait s) (s_seed s) reset st1")
    case None
    then show ?thesis by (simp add: failed_attempt_def Let_def st1_def e1_def)
  next
    case (Some x)
    obtain d r st2 where x: "x = (d, r, st2)" by (cases x)
    note budget = scheduled_budget [OF Some [unfolded x e1_def] assms(1) assms(2)]
    obtain o' evs where w: "wait_for_recovery r (att_wait a) st2 = (o', evs)"
      by (cases "wait_for_recovery r (att_wait a) st2")
    have step: "failed_attempt s limit reset a e st =
        (case o' of None \<Rightarrow> WaitCancelled st2 evs | Some st3 \<Rightarrow> RetryWith st3 evs)"
      using Some x w by (simp add: failed_attempt_def Let_def st1_def e1_def split: option.split)
    show ?thesis
    proof (cases o')
      case None
      with step budget st1 show ?thesis by simp
    next
      case (Some st3)
      with w have "ordinary_retries st3 = ordinary_retries st2"
        by (intro wait_for_recovery_state [of r "att_wait a"]) simp
      with Some step budget st1 show ?thesis by simp
    qed
  qed
qed

lemma accounted_last:
  "accounted s st (a # rest) \<lparr>run_end = x, run_state = st', run_messages = ms, run_events = evs,
     run_rest = rest\<rparr>"
  if "ordinary_retries st' = ordinary_retries st"
  unfolding accounted_def using that by (intro exI [of _ "[a]"]) simp

lemma accounted_scheduled:
  assumes "unat (ordinary_retries st) \<le> unat (ordinary_retries st')"
    and "ordinary_retries st' \<le> max (ordinary_retries st) (total_retries s)"
  shows "accounted s st (a # rest) \<lparr>run_end = x, run_state = st', run_messages = ms,
    run_events = evs, run_rest = rest\<rparr>"
  unfolding accounted_def using assms by (intro exI [of _ "[a]"]) simp

lemma accounted_next:
  assumes "accounted s st3 rest run"
    and "1 + unat (ordinary_retries st)
      = unat (ordinary_retries st3) + (if waits_for_connection s a then 1 else 0)"
    and "ordinary_retries st3 \<le> max (ordinary_retries st) (total_retries s)"
  shows "accounted s st (a # rest) run"
proof -
  from assms(1) obtain used where used: "rest = used @ run_rest run"
    "length used + unat (ordinary_retries st3)
       \<le> 1 + unat (ordinary_retries (run_state run)) + connection_failures s used"
    "ordinary_retries (run_state run) \<le> max (ordinary_retries st3) (total_retries s)"
    by (auto simp: accounted_def)
  from used(2) assms(2) have "length (a # used) + unat (ordinary_retries st)
      \<le> 1 + unat (ordinary_retries (run_state run)) + connection_failures s (a # used)"
    by (simp split: if_splits)
  moreover from used(3) assms(3)
  have "ordinary_retries (run_state run) \<le> max (ordinary_retries st) (total_retries s)"
    by (meson max.bounded_iff max.cobounded2 order_trans)
  ultimately show ?thesis unfolding accounted_def using used(1)
    by (intro exI [of _ "a # used"]) simp
qed

lemma accounted_events [simp]: "accounted s st as (run\<lparr>run_events := evs\<rparr>) = accounted s st as run"
  by (simp add: accounted_def)

lemma accounted_cancelled:
  assumes "1 + unat (ordinary_retries st)
      = unat (ordinary_retries st') + (if waits_for_connection s a then 1 else 0)"
    and "ordinary_retries st' \<le> max (ordinary_retries st) (total_retries s)"
  shows "accounted s st (a # rest) \<lparr>run_end = x, run_state = st', run_messages = ms,
    run_events = evs, run_rest = rest\<rparr>"
  using assms by (intro accounted_scheduled) (simp_all split: if_splits)

lemma retry_loop_accounted:
  assumes limit: "\<And>e. limit e \<le> total_retries s"
  shows "retry_loop s limit reset returned gave_up st messages as = Some run \<Longrightarrow>
    accounted s st as run"
proof (induction as arbitrary: st messages run)
  case (Cons a rest)
  show ?case
  proof (cases "att_result a")
    case (Inr r)
    with Cons.prems show ?thesis by (auto simp: Let_def ends_def accounted_last)
  next
    case (Inl e)
    note budget = failed_attempt_budget [where limit = limit, OF Inl limit,
        where st = st and reset = "reset a"]
    show ?thesis
    proof (cases "e = Cancelled")
      case True
      with Inl Cons.prems show ?thesis by (auto simp: Let_def ends_def accounted_last)
    next
      case False
      show ?thesis
      proof (cases "failed_attempt s limit (reset a) a e st")
        case (RetryWith st3 evs)
        with Inl False Cons.prems obtain z where
          "retry_loop s limit reset returned gave_up st3 (remind s st messages) rest = Some z"
          and run: "run = z\<lparr>run_events := evs @ run_events z\<rparr>"
          by (auto simp: Let_def after_def)
        then have "accounted s st3 rest z" by (intro Cons.IH)
        then have "accounted s st (a # rest) z"
          using budget unfolding RetryWith FailureStep.case by (blast intro: accounted_next)
        with run show ?thesis by simp
      qed (use Inl False Cons.prems budget in \<open>auto simp: Let_def ends_def accounted_last
          intro: accounted_cancelled split: if_splits\<close>)
    qed
  qed
qed simp

text \<open>A loop that is still running has scheduled a retry after every attempt.\<close>

lemma retry_loop_running:
  assumes limit: "\<And>e. limit e \<le> total_retries s"
  shows "retry_loop s limit reset returned gave_up st messages as = None \<Longrightarrow>
     length as + unat (ordinary_retries st)
       \<le> unat (max (ordinary_retries st) (total_retries s)) + connection_failures s as"
proof (induction as arbitrary: st messages)
  case Nil
  then show ?case by (simp add: max_def word_le_nat_alt)
next
  case (Cons a rest)
  then obtain e where e: "att_result a = Inl e"
    by (cases "att_result a") (auto simp: Let_def ends_def)
  note budget = failed_attempt_budget [where limit = limit, OF e limit,
      where st = st and reset = "reset a"]
  from Cons.prems e obtain st3 evs where
    step: "failed_attempt s limit (reset a) a e st = RetryWith st3 evs"
    and rest: "retry_loop s limit reset returned gave_up st3 (remind s st messages) rest = None"
    by (auto simp: Let_def ends_def after_def split: if_splits FailureStep.splits)
  have "max (ordinary_retries st3) (total_retries s) \<le> max (ordinary_retries st) (total_retries s)"
    using budget step by simp
  then have "unat (max (ordinary_retries st3) (total_retries s))
      \<le> unat (max (ordinary_retries st) (total_retries s))"
    by (simp add: word_le_nat_alt)
  with Cons.IH [OF rest] budget step show ?case by (simp split: if_splits)
qed

lemma stream_loop_accounted: "stream_loop s st messages as = Some run \<Longrightarrow> accounted s st as run"
  unfolding stream_loop_def by (rule retry_loop_accounted) (rule stream_retries_le)

lemma buffered_loop_accounted:
  "buffered_loop s st messages as = Some run \<Longrightarrow> accounted s st as run"
  unfolding buffered_loop_def by (rule retry_loop_accounted) (rule order_refl)

lemma accounted_append:
  assumes "accounted s st as run1" and "accounted s st' (run_rest run1) run2"
    and "unat (ordinary_retries st') = unat (ordinary_retries (run_state run1)) + 1"
    and "ordinary_retries st' \<le> total_retries s"
  shows "accounted s st as run2"
proof -
  from assms(1,2) obtain used1 used2 where
    used: "as = used1 @ run_rest run1" "run_rest run1 = used2 @ run_rest run2"
    and n1: "length used1 + unat (ordinary_retries st)
       \<le> 1 + unat (ordinary_retries (run_state run1)) + connection_failures s used1"
    and n2: "length used2 + unat (ordinary_retries st')
       \<le> 1 + unat (ordinary_retries (run_state run2)) + connection_failures s used2"
    and m: "ordinary_retries (run_state run2) \<le> max (ordinary_retries st') (total_retries s)"
    unfolding accounted_def by blast
  from m assms(4) have "ordinary_retries (run_state run2) \<le> max (ordinary_retries st) (total_retries s)"
    by (simp only: max.absorb2 max.coboundedI2)
  with used n1 n2 assms(3) show ?thesis
    unfolding accounted_def by (intro exI [of _ "used1 @ used2"]) simp
qed

text \<open>Switching the transport is a retry of the shared budget.\<close>

lemma fallback_budget:
  assumes "schedule e (total_retries s) False seed reset (switch_to_buffered st) = Some (d, r, st2)"
    and "fst (wait_for_recovery r w st2) = Some st3"
  shows "unat (ordinary_retries st3) = unat (ordinary_retries st) + 1"
    and "ordinary_retries st3 \<le> total_retries s"
proof -
  have "ordinary_retries st < total_retries s"
    "unat (ordinary_retries st2) = unat (ordinary_retries st) + 1"
    using schedule_Some(4) [OF assms(1)] by (simp_all add: switch_to_buffered_def)
  moreover have "ordinary_retries st3 = ordinary_retries st2"
    by (rule wait_for_recovery_state [OF assms(2)])
  ultimately show "unat (ordinary_retries st3) = unat (ordinary_retries st) + 1"
    "ordinary_retries st3 \<le> total_retries s"
    by (simp_all add: word_le_nat_alt word_less_nat_alt)
qed

lemma accounted_same:
  "accounted s st as run \<Longrightarrow> run_rest run' = run_rest run \<Longrightarrow>
     unat (ordinary_retries (run_state run)) \<le> unat (ordinary_retries (run_state run')) \<Longrightarrow>
     ordinary_retries (run_state run') \<le> max (ordinary_retries st) (total_retries s) \<Longrightarrow>
     accounted s st as run'"
  unfolding accounted_def by fastforce

lemma fall_back_cases:
  obtains
    (ended) run where "fall_back s e w run1 = Some run" and "run_rest run = run_rest run1"
      and "run_state run = run_state run1 \<or> run_state run = switch_to_buffered (run_state run1)"
  | (cancelled) d r st2 run where "fall_back s e w run1 = Some run"
      and "schedule e (total_retries s) False (s_seed s) True
        (switch_to_buffered (run_state run1)) = Some (d, r, st2)"
      and "run_state run = st2" and "run_rest run = run_rest run1"
  | (buffered) st3 evs where "unat (ordinary_retries st3)
        = unat (ordinary_retries (run_state run1)) + 1"
      and "ordinary_retries st3 \<le> total_retries s"
      and "fall_back s e w run1
        = after evs (buffered_loop s st3 (run_messages run1) (run_rest run1))"
proof (cases "can_fallback s e")
  case False
  then have "fall_back s e w run1 = ends (Inl (with_failures (run_state run1) e)) (run_state run1)
      (run_messages run1) (run_events run1) (run_rest run1)"
    by (simp add: fall_back_def Let_def)
  from ended [OF this [unfolded ends_def]] show thesis by simp
next
  case fallback: True
  let ?st = "switch_to_buffered (run_state run1)"
  show thesis
  proof (cases "schedule e (total_retries s) False (s_seed s) True ?st")
    case None
    with fallback have "fall_back s e w run1
        = ends (Inl (with_failures ?st e)) ?st (run_messages run1) (run_events run1) (run_rest run1)"
      by (simp add: fall_back_def Let_def)
    from ended [OF this [unfolded ends_def]] show thesis by simp
  next
    case (Some x)
    obtain d r st2 where x: "x = (d, r, st2)" by (cases x)
    obtain o' evs where w: "wait_for_recovery r w st2 = (o', evs)"
      by (cases "wait_for_recovery r w st2")
    show thesis
    proof (cases o')
      case None
      with fallback Some x w have "fall_back s e w run1
          = ends (Inl Cancelled) st2 (run_messages run1) (run_events run1 @ evs) (run_rest run1)"
        by (simp add: fall_back_def Let_def)
      from cancelled [OF this [unfolded ends_def]] Some x show thesis by simp
    next
      case (Some st3)
      with w have "fst (wait_for_recovery r w st2) = Some st3" by simp
      note fallback_budget [OF \<open>schedule _ _ _ _ _ _ = Some x\<close> [unfolded x] this]
      then show thesis
        using fallback \<open>schedule _ _ _ _ _ _ = Some x\<close> x w Some
        by (intro buffered) (simp_all add: fall_back_def Let_def)
    qed
  qed
qed

lemma switch_to_buffered_frame [simp]:
  "ordinary_retries (switch_to_buffered st) = ordinary_retries st"
  by (simp add: switch_to_buffered_def)

lemma fall_back_accounted:
  assumes "accounted s st as run1"
  shows "fall_back s e w run1 = Some run \<Longrightarrow> accounted s st as run"
proof (rule fall_back_cases [of s e w run1])
  from assms have m: "ordinary_retries (run_state run1) \<le> max (ordinary_retries st) (total_retries s)"
    by (auto simp: accounted_def)
  fix run'
  assume "fall_back s e w run1 = Some run" "fall_back s e w run1 = Some run'"
    "run_rest run' = run_rest run1"
    "run_state run' = run_state run1 \<or> run_state run' = switch_to_buffered (run_state run1)"
  with m show ?thesis by (intro accounted_same [OF assms]) auto
next
  fix d r st2 run'
  assume *: "fall_back s e w run1 = Some run" "fall_back s e w run1 = Some run'"
    "run_state run' = st2" "run_rest run' = run_rest run1"
    and sch: "schedule e (total_retries s) False (s_seed s) True
        (switch_to_buffered (run_state run1)) = Some (d, r, st2)"
  have "unat (ordinary_retries st2) = unat (ordinary_retries (run_state run1)) + 1"
    "ordinary_retries st2 \<le> total_retries s"
    using schedule_Some(4) [OF sch] by (simp_all add: word_le_nat_alt word_less_nat_alt)
  with * show ?thesis by (intro accounted_same [OF assms]) (auto simp: max.coboundedI2)
next
  fix st3 evs
  assume "fall_back s e w run1 = Some run"
    and b: "unat (ordinary_retries st3) = unat (ordinary_retries (run_state run1)) + 1"
      "ordinary_retries st3 \<le> total_retries s"
    and "fall_back s e w run1 = after evs (buffered_loop s st3 (run_messages run1) (run_rest run1))"
  then obtain run2 where "buffered_loop s st3 (run_messages run1) (run_rest run1) = Some run2"
    and run: "run = run2\<lparr>run_events := evs @ run_events run2\<rparr>"
    by (auto simp: after_def)
  then have "accounted s st3 (run_rest run1) run2" by (intro buffered_loop_accounted)
  then have "accounted s st as run2" using b by (rule accounted_append [OF assms])
  with run show ?thesis by simp
qed

lemma complete_provider_accounted:
  assumes "complete_provider s messages as = Some run"
  shows "accounted s retry_state_default as run"
proof -
  from assms obtain run1 where run1: "stream_loop s retry_state_default messages as = Some run1"
    by (auto simp: complete_provider_def bind_eq_Some_conv)
  note acc = stream_loop_accounted [OF run1]
  show ?thesis
  proof (cases "run_end run1")
    case (Returned r)
    with assms run1 have "run_state run = run_state run1" "run_rest run = run_rest run1"
      by (auto simp: complete_provider_def ends_def)
    with acc show ?thesis by (simp add: accounted_def)
  next
    case (GaveUp e w)
    with assms run1 have "fall_back s e w run1 = Some run" by (simp add: complete_provider_def)
    with acc show ?thesis by (rule fall_back_accounted)
  qed
qed

lemma complete_provider_running:
  assumes "complete_provider s messages as = None"
  shows "length as \<le> unat (total_retries s) + connection_failures s as"
proof (cases "stream_loop s retry_state_default messages as")
  case None
  then have "length as + unat (ordinary_retries retry_state_default)
      \<le> unat (max (ordinary_retries retry_state_default) (total_retries s)) + connection_failures s as"
    unfolding stream_loop_def by (intro retry_loop_running) (rule stream_retries_le)
  then show ?thesis by (simp add: retry_state_default_def)
next
  case (Some run1)
  with assms obtain e w where none: "fall_back s e w run1 = None"
    by (auto simp: complete_provider_def ends_def split: StreamEnd.splits)
  from stream_loop_accounted [OF Some] obtain used where used: "as = used @ run_rest run1"
    "length used \<le> 1 + unat (ordinary_retries (run_state run1)) + connection_failures s used"
    by (auto simp: accounted_def retry_state_default_def)
  have "\<exists>st3. unat (ordinary_retries st3) = unat (ordinary_retries (run_state run1)) + 1 \<and>
      ordinary_retries st3 \<le> total_retries s \<and>
      buffered_loop s st3 (run_messages run1) (run_rest run1) = None"
    by (rule fall_back_cases [of s e w run1]) (use none in \<open>auto simp: after_def\<close>)
  then obtain st3 where
    st3: "unat (ordinary_retries st3) = unat (ordinary_retries (run_state run1)) + 1"
      "ordinary_retries st3 \<le> total_retries s"
    and "buffered_loop s st3 (run_messages run1) (run_rest run1) = None"
    by blast
  then have "length (run_rest run1) + unat (ordinary_retries st3)
      \<le> unat (max (ordinary_retries st3) (total_retries s)) + connection_failures s (run_rest run1)"
    unfolding buffered_loop_def by (intro retry_loop_running) (rule order_refl)
  with st3 used show ?thesis by (simp add: max.absorb2)
qed

text \<open>
  Property C23. A logical request ends: the streaming and the buffered transport share one retry
  budget, the larger of the two configured limits and at most 8, and the transport switch is
  paid from it. Whatever the provider answers, at most one attempt more than this budget is made
  beyond the attempts that failed to connect, and with that many answers the session returns.
\<close>

theorem provider_attempts_bounded:
  assumes "s_policy s = bounded p"
    and "unat (total_retries s) + connection_failures s attempts < length attempts"
  shows "unat (total_retries s) \<le> 8 \<and>
    (\<exists>run used. complete_provider s messages attempts = Some run \<and> attempts = used @ run_rest run \<and>
       length used \<le> 1 + unat (total_retries s) + connection_failures s used)"
proof
  have "total_retries s \<le> 8" using assms(1) by (simp add: total_retries_def bounded_def)
  then show "unat (total_retries s) \<le> 8" by (simp add: word_le_nat_alt)
  from assms(2) complete_provider_running obtain run where
    run: "complete_provider s messages attempts = Some run"
    by (cases "complete_provider s messages attempts") fastforce+
  from complete_provider_accounted [OF run] obtain used where
    "attempts = used @ run_rest run" and
    "length used \<le> 1 + unat (ordinary_retries (run_state run)) + connection_failures s used" and
    "ordinary_retries (run_state run) \<le> total_retries s"
    by (auto simp: accounted_def retry_state_default_def max_def split: if_splits)
  with run show "\<exists>run used. complete_provider s messages attempts = Some run \<and>
      attempts = used @ run_rest run \<and>
      length used \<le> 1 + unat (total_retries s) + connection_failures s used"
    by (intro exI [of _ run] exI [of _ used]) (simp add: word_le_nat_alt)
qed

section \<open>The failure record, the delays and hard errors\<close>

definition keep_first_and_latest :: "'a list \<Rightarrow> 'a list" where
  "keep_first_and_latest xs = (if length xs \<le> 8 then xs else hd xs # drop (length xs - 7) xs)"

lemma push_failure_keeps:
  "push_failure (keep_first_and_latest xs) x = keep_first_and_latest (xs @ [x])"
proof (cases "length xs \<le> 7")
  case True
  then show ?thesis by (simp add: push_failure_def keep_first_and_latest_def)
next
  case False
  then obtain y ys where xs: "xs = y # ys" by (cases xs) auto
  show ?thesis
  proof (cases "length xs = 8")
    case True
    then obtain z zs where "ys = z # zs" using xs by (cases ys) auto
    with True xs show ?thesis by (simp add: push_failure_def keep_first_and_latest_def)
  next
    case longer: False
    have "Suc (length xs - 7) = length xs - 6" using False by arith
    moreover have "xs \<noteq> []" using xs by simp
    ultimately show ?thesis
      using False longer by (simp add: push_failure_def keep_first_and_latest_def)
  qed
qed

text \<open>Every failure of a request, without the bound on their number.\<close>

fun failure_log ::
  "(string \<Rightarrow> string) \<Rightarrow> u32 \<Rightarrow> ProviderTransport \<Rightarrow> (ProviderError \<times> Duration) list
     \<Rightarrow> ProviderAttemptError list" where
  "failure_log redact n transport [] = []"
| "failure_log redact n transport ((e, d) # fs) =
     attempt_error redact (sat_add n 1) transport e d # failure_log redact (sat_add n 1) transport fs"

lemma record_failures:
  assumes "failures st = keep_first_and_latest xs"
  shows "failures (fold (\<lambda>(e, d). record_failure redact e d) fs st)
    = keep_first_and_latest (xs @ failure_log redact (failed_attempts st) (rs_transport st) fs)"
  using assms
proof (induction fs arbitrary: st xs)
  case (Cons f fs)
  obtain e d where f: "f = (e, d)" by (cases f)
  let ?st = "record_failure redact e d st"
  have "failures ?st = keep_first_and_latest (xs @ [attempt_error redact
      (sat_add (failed_attempts st) 1) (rs_transport st) e d])"
    using Cons.prems by (simp add: record_failure_def Let_def push_failure_keeps)
  from Cons.IH [OF this] f show ?case
    by (simp add: record_failure_def Let_def)
qed simp

text \<open>
  Property C24. The failure chain a request reports is bounded and keeps its cause: however many
  attempts fail, it holds the first failure and the latest seven of the full log, in order.
\<close>

theorem failure_chain_keeps_cause:
  "failures (fold (\<lambda>(e, d). record_failure redact e d) fs retry_state_default)
     = keep_first_and_latest (failure_log redact 0 Streaming fs) \<and>
   length (failures (fold (\<lambda>(e, d). record_failure redact e d) fs retry_state_default)) \<le> 8"
  using record_failures [of retry_state_default "[]" redact fs]
  by (simp add: retry_state_default_def keep_first_and_latest_def)

lemma jitter_bounds:
  "a \<le> s \<Longrightarrow> s \<le> b \<Longrightarrow> lo \<le> j \<Longrightarrow> j \<le> hi \<Longrightarrow>
     a * lo div 100 \<le> s * j div (100 :: nat) \<and> s * j div 100 \<le> b * hi div 100"
  by (simp add: div_le_mono mult_le_mono)

lemma connection_delay_bounds:
  "from_millis 4500 \<le> connection_delay n seed \<and> connection_delay n seed \<le> from_millis 60000"
proof -
  let ?k = "min (unat n - 1) 4" and ?j = "unat ((seed + ucast n) mod 11)"
  have "?k \<in> {0, 1, 2, 3, 4}" by auto
  then have "5 \<le> min (5 * 2 ^ ?k) (60 :: nat)" by auto
  then have "5000 \<le> min (5 * 2 ^ ?k) (60 :: nat) * 1000"
    "min (5 * 2 ^ ?k) (60 :: nat) * 1000 \<le> 60000" by simp_all
  moreover have "(seed + ucast n) mod 11 < 11" by (rule word_mod_less_divisor) simp
  then have "90 + ?j \<le> 100" by (simp add: word_less_nat_alt)
  ultimately have "5000 * 90 div 100 \<le> min (5 * 2 ^ ?k) 60 * 1000 * (90 + ?j) div 100 \<and>
      min (5 * 2 ^ ?k) 60 * 1000 * (90 + ?j) div 100 \<le> 60000 * 100 div 100"
    by (intro jitter_bounds) simp_all
  then show ?thesis by (simp add: connection_delay_def Let_def from_millis_def)
qed

lemma backoff_bounds: "250 \<le> as_millis (backoff n) \<and> as_millis (backoff n) \<le> 8000"
proof -
  let ?k = "min (unat n - 1) 5"
  have "?k \<in> {0, 1, 2, 3, 4, 5}" by auto
  then have "250 \<le> (250 :: nat) * 2 ^ ?k \<and> 250 * 2 ^ ?k \<le> (8000 :: nat)" by auto
  then show ?thesis
    by (simp add: backoff_def as_millis_def from_millis_def)
qed

lemma retry_delay_bounds:
  assumes "retry_after e = None"
  shows "from_millis 225 \<le> retry_delay e n seed \<and> retry_delay e n seed \<le> from_millis 8800"
proof -
  let ?b = "as_millis (backoff n)"
  let ?j = "90 + unat ((seed + ucast n * 0x9E3779B9) mod 21)"
  have "(seed + ucast n * 0x9E3779B9) mod 21 < 21" by (rule word_mod_less_divisor) simp
  then have j: "90 \<le> ?j" "?j \<le> 110" by (simp_all add: word_less_nat_alt)
  have "?b * ?j \<le> 8000 * 110" using backoff_bounds j(2) by (intro mult_le_mono) simp_all
  then have "min (?b * ?j) (2 ^ 64 - 1) = ?b * ?j" by simp
  moreover have "250 * 90 div 100 \<le> ?b * ?j div 100 \<and> ?b * ?j div 100 \<le> 8000 * 110 div 100"
    using backoff_bounds j by (intro jitter_bounds) simp_all
  ultimately show ?thesis using assms by (simp add: retry_delay_def Let_def from_millis_def)
qed

text \<open>
  Every scheduled delay is bounded or the server's own: waiting for a connection
  takes between 4.5 and 60 seconds, a server's retry advice is followed exactly, and any other
  retry is delayed by 225 to 8800 milliseconds.
\<close>

theorem scheduled_delay_bounds:
  assumes "schedule e limit allow seed reset st = Some (delay, r, st')"
  shows "if allow \<and> is_connection_failure e
    then from_millis 4500 \<le> delay \<and> delay \<le> from_millis 60000
    else case retry_after e of
      Some advice \<Rightarrow> delay = advice
    | None \<Rightarrow> from_millis 225 \<le> delay \<and> delay \<le> from_millis 8800"
proof (cases "allow \<and> is_connection_failure e")
  case True
  with assms have "delay = connection_delay (sat_add (connection_retries st) 1) seed"
    by (auto simp: schedule_def Let_def split: if_splits)
  with True connection_delay_bounds show ?thesis by simp
next
  case False
  with assms have delay: "delay = retry_delay e (ordinary_retries st + 1) seed"
    by (auto simp: schedule_def Let_def split: if_splits)
  show ?thesis
  proof (cases "retry_after e")
    case None
    with delay retry_delay_bounds [OF None] False show ?thesis by auto
  next
    case (Some advice)
    with delay False show ?thesis by (auto simp: retry_delay_def)
  qed
qed

lemma client_error_classes:
  assumes "client_error e"
  shows "\<not> is_retryable e" and "\<not> fallback_eligible e" and "e \<noteq> Cancelled"
  using assms by (cases e; simp add: client_error_def http_status_def)+

lemma with_failures_text [simp]: "error_text (with_failures st e) = error_text e"
  by (rule with_failures_cases [of st e]) simp_all

text \<open>
  An explicit client error other than 429 ends the session at once: no retry is
  scheduled, no transport or provider is switched, no event is emitted, and the error returned
  is the one received.
\<close>

theorem client_error_ends_session:
  assumes "att_result a = Inl e" and "client_error e"
  shows "\<exists>run err. complete_without_deadline s primary fallback messages (a # rest) = Some run \<and>
    run_rest run = rest \<and> run_events run = [] \<and> run_end run = Inl err \<and>
    client_error err \<and> error_text err = error_text e"
proof -
  define st1 where "st1 = record_failure (s_redact s) e (att_elapsed a) retry_state_default"
  define err where "err = with_failures st1 (with_failures st1 e)"
  note hard = client_error_classes [OF assms(2)]
  have "failed_attempt s (stream_retries s) (att_preview_seen a) a e retry_state_default
      = NoRetry st1 (with_failures st1 e)"
    using hard schedule_None [of "with_failures st1 e"]
    by (simp add: failed_attempt_def Let_def st1_def [symmetric])
  then have "complete_provider s messages (a # rest)
      = ends (Inl err) st1 (remind s retry_state_default messages) [] rest"
    using assms(1) hard
    by (simp add: complete_provider_def stream_loop_def ends_def fall_back_def Let_def
        can_fallback_def transport_fallback_eligible_def err_def)
  moreover have err: "client_error err" "error_text err = error_text e"
    using assms(2) by (simp_all add: err_def)
  moreover have "\<not> fallback_eligible err" using err(1) by (rule client_error_classes)
  ultimately show ?thesis
    by (simp add: complete_without_deadline_def ends_def split: option.split)
qed

section \<open>Witnesses\<close>

definition ex_session :: Session where
  "ex_session = \<lparr>s_policy = bounded default_policy, s_supports_buffered = True,
     s_allow_connection_wait = True, s_seed = 7, s_input_budget = 1000,
     s_message_tokens = (\<lambda>ms. of_nat (length ms)), s_tool_tokens = 0, s_redact = (\<lambda>t. t)\<rparr>"

definition ex_failure :: "ProviderError \<Rightarrow> Attempt" where
  "ex_failure e = \<lparr>att_result = Inl e, att_preview_seen = False, att_elapsed = 5,
     att_wait = Some (from_millis 300)\<rparr>"

definition ex_bad_request :: ProviderError where
  "ex_bad_request = WithMetadata (Failed ''stream'') (default_metadata\<lparr>em_http_status := Some 400\<rparr>)"

lemma ex_total_retries: "total_retries ex_session = 2"
  by (simp add: total_retries_def ex_session_def bounded_def default_policy_def)

theorem provider_attempts_bounded_witness:
  "\<exists>run used. complete_provider ex_session [] (replicate 3 (ex_failure (Unavailable ''busy'')))
     = Some run \<and> replicate 3 (ex_failure (Unavailable ''busy'')) = used @ run_rest run \<and>
     length used \<le> 3"
proof -
  let ?as = "replicate 3 (ex_failure (Unavailable ''busy''))"
  have none: "connection_failures ex_session as = 0" if "set as \<subseteq> set ?as" for as
    using that by (auto simp: connection_failures_def waits_for_connection_def ex_failure_def
        filter_empty_conv)
  have "s_policy ex_session = bounded default_policy" by (simp add: ex_session_def)
  from provider_attempts_bounded [OF this, of ?as "[]"] none [of ?as]
  obtain run used where run: "complete_provider ex_session [] ?as = Some run"
    "?as = used @ run_rest run" "length used \<le> 3 + connection_failures ex_session used"
    by (auto simp: ex_total_retries)
  have "set used \<subseteq> set ?as" unfolding run(2) by simp
  with none run show ?thesis by (metis add.right_neutral)
qed

theorem scheduled_delay_bounds_witness:
  "\<exists>delay r st. schedule (ConnectionFailed ''refused'') 2 True 7 False retry_state_default
     = Some (delay, r, st) \<and> from_millis 4500 \<le> delay \<and> delay \<le> from_millis 60000"
proof -
  have "schedule (ConnectionFailed ''refused'') 2 True 7 False retry_state_default \<noteq> None"
    by (simp add: schedule_None)
  then obtain delay r st where
    "schedule (ConnectionFailed ''refused'') 2 True 7 False retry_state_default = Some (delay, r, st)"
    by auto
  with scheduled_delay_bounds [OF this] show ?thesis by simp
qed

theorem client_error_ends_session_witness:
  "\<exists>run. complete_without_deadline ex_session ''primary'' None [] [ex_failure ex_bad_request]
     = Some run \<and> run_events run = []"
proof -
  have "client_error ex_bad_request"
    by (simp add: client_error_def http_status_def ex_bad_request_def)
  with client_error_ends_session [of "ex_failure ex_bad_request" ex_bad_request ex_session
      "''primary''" None "[]" "[]"]
  show ?thesis by (auto simp: ex_failure_def)
qed

end
