(* ===== verification/Response_Control.thy ===== *)
theory Response_Control
  imports Provider_Session Core_Types Machines
begin

text \<open>
  What the runtime does with a provider response before any of it takes effect
  (\<^verbatim>\<open>golutra-agent-runtime/src/response_control.rs\<close>), and the ledger that notices an operation
  failing again and again in an unchanged environment (\<^verbatim>\<open>failure_guard.rs\<close>).
\<close>

section \<open>Responses\<close>

definition MAX_SILENT_CONTINUATIONS :: u32 where
  "MAX_SILENT_CONTINUATIONS = 8"

record ResponseControl =
  empty_finals :: u32
  silent_continuations :: u32

definition response_control_default :: ResponseControl where
  "response_control_default = \<lparr>empty_finals = 0, silent_continuations = 0\<rparr>"

datatype ResponseFault =
  SilentContinuations | MissingToolCalls | TruncatedToolCalls | Filtered | Unsuccessful
  | UnknownFinish

definition has_content :: "ProviderResponse \<Rightarrow> bool" where
  "has_content r \<longleftrightarrow> pr_tool_calls r \<noteq> [] \<or>
     (case pr_message r of None \<Rightarrow> False | Some m \<Rightarrow> \<not> is_blank (pm_content m))"

definition is_continuation_reason :: "ProviderFinishReason \<Rightarrow> bool" where
  "is_continuation_reason f \<longleftrightarrow> f \<in> {ProviderFinishReason.Continue, Length}"

text \<open>The verdict on the finish reason alone.\<close>

fun finish_verdict :: "ProviderFinishReason \<Rightarrow> bool \<Rightarrow> (bool, ResponseFault) result" where
  "finish_verdict Stop has_tools = Inr False"
| "finish_verdict ToolCalls has_tools = (if has_tools then Inr False else Inl MissingToolCalls)"
| "finish_verdict ProviderFinishReason.Continue has_tools = (if has_tools then Inr False else Inr True)"
| "finish_verdict Length has_tools = (if has_tools then Inl TruncatedToolCalls else Inr True)"
| "finish_verdict ContentFilter has_tools = Inl Filtered"
| "finish_verdict ProviderFinishReason.Error has_tools = Inl Unsuccessful"
| "finish_verdict ProviderFinishReason.Unknown has_tools = Inl UnknownFinish"

text \<open>
  The counters are updated before the verdict, also when the verdict is an error. The result
  \<open>True\<close> asks for a continuation.
\<close>

definition observe ::
  "ProviderResponse \<Rightarrow> ResponseControl \<Rightarrow> (bool, ResponseFault) result \<times> ResponseControl" where
  "observe r c =
     (let reason = pr_finish_reason r;
          continuation = is_continuation_reason reason;
          c1 = (if has_content r \<or> continuation then c\<lparr>empty_finals := 0\<rparr> else c);
          silent = (continuation \<and> \<not> has_content r);
          c2 = c1\<lparr>silent_continuations :=
                   (if silent then sat_add (silent_continuations c1) 1 else 0)\<rparr>
      in if silent \<and> silent_continuations c2 > MAX_SILENT_CONTINUATIONS
         then (Inl SilentContinuations, c2)
         else (finish_verdict reason (pr_tool_calls r \<noteq> []), c2))"

definition record_empty_final :: "ResponseControl \<Rightarrow> u32 \<times> ResponseControl" where
  "record_empty_final c =
     (let n = sat_add (empty_finals c) 1 in (n, c\<lparr>empty_finals := n\<rparr>))"

text \<open>The responses of one turn, observed until one of them is refused.\<close>

fun observe_all ::
  "ProviderResponse list \<Rightarrow> ResponseControl \<Rightarrow> (bool list, ResponseFault) result" where
  "observe_all [] c = Inr []"
| "observe_all (r # rs) c =
     (let (verdict, c') = observe r c
      in and_then verdict (\<lambda>v. and_then (observe_all rs c') (\<lambda>vs. Inr (v # vs))))"

definition silent_response :: "ProviderResponse \<Rightarrow> bool" where
  "silent_response r \<longleftrightarrow> is_continuation_reason (pr_finish_reason r) \<and> \<not> has_content r"

lemma observe_silent:
  assumes "silent_response r" and "unat (silent_continuations c) \<le> 8"
  shows "fst (observe r c) =
      (if unat (silent_continuations c) < 8 then Inr True else Inl SilentContinuations)"
    and "unat (silent_continuations (snd (observe r c))) = unat (silent_continuations c) + 1"
proof -
  have n: "unat (sat_add (silent_continuations c) 1) = unat (silent_continuations c) + 1"
    using assms(2) by (simp add: sat_simps)
  have "sat_add (silent_continuations c) 1 > 8 \<longleftrightarrow> \<not> unat (silent_continuations c) < 8"
    using n by (auto simp: word_less_nat_alt)
  with assms n show "fst (observe r c) =
      (if unat (silent_continuations c) < 8 then Inr True else Inl SilentContinuations)"
    "unat (silent_continuations (snd (observe r c))) = unat (silent_continuations c) + 1"
    by (auto simp: observe_def Let_def silent_response_def has_content_def
        MAX_SILENT_CONTINUATIONS_def is_continuation_reason_def)
qed

lemma observe_audible:
  "\<not> silent_response r \<Longrightarrow> silent_continuations (snd (observe r c)) = 0"
  by (auto simp: observe_def Let_def silent_response_def)

text \<open>
  Property C27. A tool call is executed only from a response the provider finished: a response
  that is accepted with tool calls did not stop at its length limit, by a filter, with an error
  or for an unknown reason, and a response after which the turn continues carries none.
\<close>

theorem accepted_tool_calls_are_complete:
  assumes "fst (observe r c) = Inr continues"
  shows "pr_finish_reason r \<in> {Stop, ProviderFinishReason.Continue, ToolCalls, Length} \<and>
    (pr_tool_calls r = [] \<or> pr_finish_reason r \<in> {Stop, ProviderFinishReason.Continue, ToolCalls}) \<and>
    continues = (pr_tool_calls r = [] \<and> pr_finish_reason r \<in> {ProviderFinishReason.Continue, Length})"
  using assms
  by (cases "pr_finish_reason r") (auto simp: observe_def Let_def split: if_splits)

lemma observe_accepted_counter:
  assumes "fst (observe r c) = Inr v" and "unat (silent_continuations c) \<le> 8"
  shows "unat (silent_continuations (snd (observe r c))) \<le> 8"
  using assms observe_silent [of r c] observe_audible [of r c]
  by (cases "silent_response r") (auto split: if_splits)

lemma accepted_suffix:
  assumes "observe_all (pre @ rs) c = Inr vs" and "unat (silent_continuations c) \<le> 8"
  shows "\<exists>c' vs'. observe_all rs c' = Inr vs' \<and> unat (silent_continuations c') \<le> 8"
  using assms
proof (induction pre arbitrary: c vs)
  case (Cons r pre)
  then obtain v vs' where "fst (observe r c) = Inr v"
    "observe_all (pre @ rs) (snd (observe r c)) = Inr vs'"
    by (auto simp: split_beta)
  with Cons observe_accepted_counter show ?case by blast
qed auto

lemma accepted_silent_run:
  assumes "observe_all (mid @ post) c = Inr vs" and "list_all silent_response mid"
    and "unat (silent_continuations c) \<le> 8"
  shows "length mid + unat (silent_continuations c) \<le> 8"
  using assms
proof (induction mid arbitrary: c vs)
  case (Cons r mid)
  then obtain v vs' where ok: "fst (observe r c) = Inr v"
    "observe_all (mid @ post) (snd (observe r c)) = Inr vs'"
    by (auto simp: split_beta)
  note step = observe_silent [of r c]
  from ok(1) Cons.prems step have "unat (silent_continuations c) < 8"
    by (auto split: if_splits)
  with Cons.IH [OF ok(2)] Cons.prems step show ?case by simp
qed simp

text \<open>
  Property C28. A provider that only asks to continue cannot keep a turn alive: among the
  responses of a turn that were all accepted there are never more than eight in a row that ask
  for a continuation without text or tool calls.
\<close>

theorem silent_continuations_bounded:
  assumes "observe_all (pre @ mid @ post) response_control_default = Inr verdicts"
    and "list_all silent_response mid"
  shows "length mid \<le> 8"
proof -
  from accepted_suffix [OF assms(1)] obtain c vs where
    "observe_all (mid @ post) c = Inr vs" "unat (silent_continuations c) \<le> 8"
    by (auto simp: response_control_default_def)
  with accepted_silent_run [OF this(1) assms(2)] show ?thesis by simp
qed

section \<open>Repeated failures\<close>

type_synonym FailureFamilyLedger = "string \<times> string \<rightharpoonup> u32"

definition ledger_failures :: "FailureFamilyLedger \<Rightarrow> string \<Rightarrow> string \<Rightarrow> u32" where
  "ledger_failures l family signature = (case l (family, signature) of None \<Rightarrow> 0 | Some n \<Rightarrow> n)"

definition observe_result ::
  "string \<Rightarrow> string \<Rightarrow> ToolResultStatus \<Rightarrow> FailureFamilyLedger \<Rightarrow> FailureFamilyLedger" where
  "observe_result family signature status l =
     (if status = ToolResultStatus.Ok then l((family, signature) := None)
      else l((family, signature) \<mapsto> sat_add (ledger_failures l family signature) 1))"

definition workspace_changed :: "FailureFamilyLedger \<Rightarrow> FailureFamilyLedger" where
  "workspace_changed l = Map.empty"

datatype LedgerOp = ObserveResult string string ToolResultStatus | WorkspaceChanged

fun ledger_run :: "(LedgerOp, FailureFamilyLedger, unit, unit) machine" where
  "ledger_run (ObserveResult f s st) l = Inr ((), observe_result f s st l)"
| "ledger_run WorkspaceChanged l = Inr ((), workspace_changed l)"

text \<open>
  The reference keeps the operations, newest first, and counts the failures of one operation
  back to its last success or to the last change of the workspace.
\<close>

fun failures_since :: "string \<Rightarrow> string \<Rightarrow> LedgerOp list \<Rightarrow> nat" where
  "failures_since f s [] = 0"
| "failures_since f s (WorkspaceChanged # ops) = 0"
| "failures_since f s (ObserveResult f' s' st # ops) =
     (if (f', s') \<noteq> (f, s) then failures_since f s ops
      else if st = ToolResultStatus.Ok then 0 else Suc (failures_since f s ops))"

definition ledger_sim :: "FailureFamilyLedger \<Rightarrow> LedgerOp list \<Rightarrow> bool" where
  "ledger_sim l history \<longleftrightarrow>
     (\<forall>f s. unat (ledger_failures l f s) = min (failures_since f s history) (2 ^ 32 - 1))"

lemma ledger_run_sim:
  assumes "ledger_sim l history"
  shows "ledger_sim (next_state ledger_run op l) (op # history)"
  using assms
  by (cases op)
    (auto simp: ledger_sim_def next_state_def observe_result_def ledger_failures_def
      workspace_changed_def sat_simps)

interpretation ledger: simulated_machine ledger_run Cons ledger_sim
  by unfold_locales (rule ledger_run_sim)

text \<open>
  Property C29. The failure ledger counts exactly the failures of the same operation since it
  last succeeded or the workspace last changed: failures of other operations, and of the same
  operation in another environment, are not held against it. The count saturates.
\<close>

theorem failure_ledger_counts_since_change:
  "unat (ledger_failures (exec ledger_run ops Map.empty) f s)
     = min (failures_since f s (rev ops)) (2 ^ 32 - 1)"
proof -
  have "ledger_sim Map.empty []" by (simp add: ledger_sim_def ledger_failures_def)
  then have "ledger_sim (exec ledger_run ops Map.empty) (fold Cons ops [])" by (rule ledger.exec_sim)
  then show ?thesis by (simp add: ledger_sim_def fold_Cons_rev)
qed

section \<open>Witnesses\<close>

definition ex_response :: "ProviderFinishReason \<Rightarrow> ProviderResponse" where
  "ex_response f = \<lparr>pr_response_id = 1, pr_message = None, pr_tool_calls = [], pr_finish_reason = f\<rparr>"

theorem accepted_tool_calls_are_complete_witness:
  "fst (observe (ex_response Length) response_control_default) = Inr True"
proof -
  have "\<exists>v. fst (observe (ex_response Length) response_control_default) = Inr v"
    by (auto simp: observe_def Let_def ex_response_def response_control_default_def
        is_continuation_reason_def has_content_def sat_add_def MAX_SILENT_CONTINUATIONS_def)
  then obtain v where v: "fst (observe (ex_response Length) response_control_default) = Inr v" ..
  with accepted_tool_calls_are_complete [OF v] show ?thesis by (simp add: ex_response_def)
qed

theorem silent_continuations_bounded_witness:
  "length [ex_response ProviderFinishReason.Continue, ex_response Length] \<le> 8"
proof -
  have "\<exists>vs. observe_all ([] @ [ex_response ProviderFinishReason.Continue, ex_response Length] @ [ex_response Stop])
      response_control_default = Inr vs"
    by (simp add: observe_def Let_def ex_response_def response_control_default_def
        is_continuation_reason_def has_content_def sat_add_def MAX_SILENT_CONTINUATIONS_def)
  then obtain vs where "observe_all ([] @ [ex_response ProviderFinishReason.Continue, ex_response Length] @
      [ex_response Stop]) response_control_default = Inr vs" ..
  then show ?thesis
    by (rule silent_continuations_bounded)
      (simp add: silent_response_def ex_response_def is_continuation_reason_def has_content_def)
qed

end
