(* ===== verification/Paths.thy ===== *)
theory Paths
  imports Prelude
begin

text \<open>
  Path strings as the components check them: \<^verbatim>\<open>std::path::Path::components\<close> on a Unix host and
  the resolution of a relative path against a directory, which the safety lemmas refer to.
\<close>

section \<open>Components of a path\<close>

datatype Component = Prefix string | RootDir | CurDir | ParentDir | Normal string

abbreviation split_char :: "char \<Rightarrow> string \<Rightarrow> string list" where
  "split_char c \<equiv> split_by (\<lambda>x. x = c)"

fun component_of :: "string \<Rightarrow> Component option" where
  "component_of p =
     (if p = [] \<or> p = ''.'' then None else if p = ''..'' then Some ParentDir else Some (Normal p))"

text \<open>A leading \<^verbatim>\<open>.\<close> of a relative path is the only one that is kept.\<close>

definition components :: "string \<Rightarrow> Component list" where
  "components path =
     (let pieces = split_char CHR ''/'' path in
      (if starts_with path ''/'' then [RootDir]
       else if hd pieces = ''.'' then [CurDir] else []) @
      List.map_filter component_of pieces)"

text \<open>\<^verbatim>\<open>str::replace\<close> of one character by another.\<close>

definition replace_char :: "char \<Rightarrow> char \<Rightarrow> string \<Rightarrow> string" where
  "replace_char a b s = map (\<lambda>c. if c = a then b else c) s"

section \<open>Resolution against a directory\<close>

text \<open>The directory a path names, read from the directory \<open>dir\<close>: both separators split.\<close>

fun resolve_pieces :: "string list \<Rightarrow> string list \<Rightarrow> string list" where
  "resolve_pieces dir [] = dir"
| "resolve_pieces dir (p # ps) =
     (if p = [] \<or> p = ''.'' then resolve_pieces dir ps
      else if p = ''..'' then resolve_pieces (butlast dir) ps
      else resolve_pieces (dir @ [p]) ps)"

definition resolve :: "string list \<Rightarrow> string \<Rightarrow> string list" where
  "resolve dir path = resolve_pieces dir (split_char CHR ''/'' (replace_char (CHR 0x5C) CHR ''/'' path))"

lemma split_by_nonempty [simp]: "split_by p xs \<noteq> []"
  by (induction xs) (auto split: list.split)

lemma resolve_pieces_inside:
  "''..'' \<notin> set ps \<Longrightarrow> prefix dir (resolve_pieces dir ps)"
proof (induction dir ps rule: resolve_pieces.induct)
  case (2 dir p ps)
  then show ?case by (auto intro: append_prefixD)
qed simp

lemma resolve_inside:
  "''..'' \<notin> set (split_char CHR ''/'' (replace_char (CHR 0x5C) CHR ''/'' path)) \<Longrightarrow>
     prefix dir (resolve dir path)"
  by (simp add: resolve_def resolve_pieces_inside)

end
