(* ===== verification/Text.thy ===== *)
theory Text
  imports Paths
begin

text \<open>
  The string operations of the standard library that the text-processing components use, on
  UTF-8 byte strings, and checked slices of vectors.
\<close>

section \<open>Splitting\<close>

definition strip_prefix :: "string \<Rightarrow> string \<Rightarrow> string option" where
  "strip_prefix p s = (if starts_with s p then Some (drop (length p) s) else None)"

definition strip_suffix :: "string \<Rightarrow> string \<Rightarrow> string option" where
  "strip_suffix p s = (if ends_with s p then Some (take (length s - length p) s) else None)"

fun split_once :: "string \<Rightarrow> string \<Rightarrow> (string \<times> string) option" where
  "split_once p [] = (if p = [] then Some ([], []) else None)"
| "split_once p (c # s) =
     (if starts_with (c # s) p then Some ([], drop (length p) (c # s))
      else map_option (\<lambda>(a, b). (c # a, b)) (split_once p s))"

text \<open>The first piece of \<^verbatim>\<open>split(p)\<close>.\<close>

definition before :: "string \<Rightarrow> string \<Rightarrow> string" where
  "before p s = (case split_once p s of None \<Rightarrow> s | Some (a, b) \<Rightarrow> a)"

definition is_whitespace :: "string \<Rightarrow> bool" where
  "is_whitespace c \<longleftrightarrow> c \<in> set whitespace_encodings"

definition split_whitespace :: "string \<Rightarrow> string list" where
  "split_whitespace s =
     filter (\<lambda>t. t \<noteq> []) (map concat (split_by is_whitespace (utf8_chars s)))"

definition trim_matches :: "(char \<Rightarrow> bool) \<Rightarrow> string \<Rightarrow> string" where
  "trim_matches p s = rev (dropWhile p (rev (dropWhile p s)))"

section \<open>Numbers\<close>

definition digit_value :: "char \<Rightarrow> nat option" where
  "digit_value c = (let n = of_char c in if 48 \<le> n \<and> n \<le> 57 then Some (n - 48) else None)"

fun digits_value :: "nat \<Rightarrow> string \<Rightarrow> nat option" where
  "digits_value acc [] = Some acc"
| "digits_value acc (c # s) =
     Option.bind (digit_value c) (\<lambda>d. digits_value (10 * acc + d) s)"

text \<open>\<^verbatim>\<open>str::parse::<usize>\<close>: an optional plus sign and digits whose value fits 64 bits.\<close>

definition parse_usize :: "string \<Rightarrow> nat option" where
  "parse_usize s =
     (let ds = (case strip_prefix ''+'' s of None \<Rightarrow> s | Some t \<Rightarrow> t) in
      if ds = [] then None
      else Option.bind (digits_value 0 ds) (\<lambda>n. if n < 2 ^ 64 then Some n else None))"

section \<open>Lines\<close>

lemma split_by_append_separator:
  "p x \<Longrightarrow> split_by p (xs @ x # ys) = split_by p xs @ split_by p ys"
  by (induction xs) (auto split: list.splits)

lemma split_by_snoc:
  "\<not> p x \<Longrightarrow> split_by p (xs @ [x]) = butlast (split_by p xs) @ [last (split_by p xs) @ [x]]"
proof (induction xs)
  case (Cons y xs)
  then show ?case by (cases "split_by p xs") (auto split: list.splits)
qed simp

lemma join_Cons_nonempty: "xs \<noteq> [] \<Longrightarrow> join sep (x # xs) = x @ sep @ join sep xs"
  by (cases xs) simp_all

lemma join_split_char: "join [c] (split_char c s) = s"
proof (induction s)
  case (Cons x s)
  obtain piece pieces where split: "split_char c s = piece # pieces"
    by (cases "split_char c s") auto
  show ?case
  proof (cases "x = c")
    case True
    with Cons.IH show ?thesis by (simp add: join_Cons_nonempty)
  next
    case False
    with Cons.IH split show ?thesis by (cases pieces) simp_all
  qed
qed simp

lemma split_char_no_separator: "piece \<in> set (split_char c s) \<Longrightarrow> c \<notin> set piece"
  by (induction s arbitrary: piece) (auto split: list.splits if_splits)

lemma last_split_char_ends:
  "ends_with s [c] \<longleftrightarrow> s \<noteq> [] \<and> last (split_char c s) = []"
proof (cases s rule: rev_cases)
  case (snoc t x)
  then show ?thesis
    by (cases "x = c") (auto simp: split_by_append_separator split_by_snoc suffix_def)
qed simp

section \<open>Well-formed UTF-8\<close>

text \<open>
  \<^verbatim>\<open>std::str::from_utf8\<close>: a lead byte fixes the ranges of the bytes that follow it
  (no overlong forms, no surrogates, nothing above U+10FFFF).
\<close>

definition in_range :: "nat \<Rightarrow> nat \<Rightarrow> char \<Rightarrow> bool" where
  "in_range lo hi c \<longleftrightarrow> lo \<le> of_char c \<and> of_char c \<le> hi"

definition is_ascii_alphabetic :: "char \<Rightarrow> bool" where
  "is_ascii_alphabetic c \<longleftrightarrow> in_range 65 90 c \<or> in_range 97 122 c"

definition is_ascii_alphanumeric :: "char \<Rightarrow> bool" where
  "is_ascii_alphanumeric c \<longleftrightarrow> in_range 48 57 c \<or> is_ascii_alphabetic c"

definition utf8_lead :: "char \<Rightarrow> (nat \<times> nat) list option" where
  "utf8_lead c =
     (if in_range 0 127 c then Some []
      else if in_range 194 223 c then Some [(128, 191)]
      else if in_range 224 224 c then Some [(160, 191), (128, 191)]
      else if in_range 237 237 c then Some [(128, 159), (128, 191)]
      else if in_range 225 239 c then Some [(128, 191), (128, 191)]
      else if in_range 240 240 c then Some [(144, 191), (128, 191), (128, 191)]
      else if in_range 241 243 c then Some [(128, 191), (128, 191), (128, 191)]
      else if in_range 244 244 c then Some [(128, 143), (128, 191), (128, 191)]
      else None)"

fun utf8_from :: "(nat \<times> nat) list \<Rightarrow> string \<Rightarrow> bool" where
  "utf8_from [] [] = True"
| "utf8_from (r # rs) [] = False"
| "utf8_from [] (c # s) = (case utf8_lead c of None \<Rightarrow> False | Some rs \<Rightarrow> utf8_from rs s)"
| "utf8_from ((lo, hi) # rs) (c # s) = (in_range lo hi c \<and> utf8_from rs s)"

abbreviation valid_utf8 :: "string \<Rightarrow> bool" where
  "valid_utf8 \<equiv> utf8_from []"

section \<open>Checked slices\<close>

text \<open>\<^verbatim>\<open>&xs[a..b]\<close> panics unless \<open>a \<le> b \<le> len\<close>, which is \<open>None\<close>.\<close>

definition slice :: "'a list \<Rightarrow> nat \<Rightarrow> nat \<Rightarrow> 'a list option" where
  "slice xs a b = (if a \<le> b \<and> b \<le> length xs then Some (take (b - a) (drop a xs)) else None)"

lemma slice_Some:
  "slice xs a b = Some ys \<longleftrightarrow>
     a \<le> b \<and> b \<le> length xs \<and> xs = take a xs @ ys @ drop b xs \<and> length ys = b - a"
proof
  assume "slice xs a b = Some ys"
  then have ab: "a \<le> b" "b \<le> length xs" and ys: "ys = take (b - a) (drop a xs)"
    by (auto simp: slice_def split: if_splits)
  have "drop a xs = ys @ drop b xs"
    using ab append_take_drop_id [of "b - a" "drop a xs"] by (simp add: ys)
  then have "xs = take a xs @ ys @ drop b xs" by (metis append_take_drop_id)
  with ab ys show "a \<le> b \<and> b \<le> length xs \<and> xs = take a xs @ ys @ drop b xs \<and> length ys = b - a"
    by simp
next
  assume *: "a \<le> b \<and> b \<le> length xs \<and> xs = take a xs @ ys @ drop b xs \<and> length ys = b - a"
  then have "drop a xs = ys @ drop b xs" by (metis append_take_drop_id same_append_eq)
  with * show "slice xs a b = Some ys" by (simp add: slice_def)
qed

lemma slice_drop: "slice xs a b = Some ys \<Longrightarrow> drop a xs = ys @ drop b xs"
  by (metis slice_Some append_take_drop_id same_append_eq)

lemma slice_bounds: "slice xs a b = Some ys \<Longrightarrow> a \<le> b \<and> b \<le> length xs"
  by (simp add: slice_def split: if_splits)

end
