(* ===== verification/Model_Patch.thy ===== *)
theory Model_Patch
  imports Text
begin

text \<open>
  Application of the patch format models write (\<^verbatim>\<open>golutra-agent-tools/src/model_patch.rs\<close>):
  hunks are located in the lines of a file and replaced, and the edited file is rendered as a
  unified diff. Errors are constructors of
  \<open>PatchError\<close>, without their message texts; \<open>Panic\<close> is an out-of-range slice. The diff library
  is the parameter \<open>unified_diff\<close>.
\<close>

section \<open>Patches\<close>

record ModelPatchHunk =
  hunk_header :: string
  hunk_context_line :: "string option"
  hunk_lines :: "string list"
  end_of_file :: bool
  new_no_newline :: bool

datatype ModelPatchFileKind =
    Update "ModelPatchHunk list"
  | Add "string list" bool
  | Replace "string list" bool
  | Delete

record ModelPatchFile =
  mpf_path :: string
  move_path :: "string option"
  mpf_kind :: ModelPatchFileKind

type_synonym ModelPatch = "ModelPatchFile list"

datatype PatchError =
    EmptyHunkLine
  | HunkLineNotUtf8
  | InvalidHunkLine string
  | ContextDoesNotMatch
  | ContextIsAmbiguous
  | AnchorDoesNotMatch string
  | AnchorIsAmbiguous string
  | InsertionPointOutside
  | TargetMissing string
  | TargetNotUtf8 string
  | MoveToItself
  | MoveDestinationExists string
  | AddTargetExists string
  | NoFileChange string
  | NoChange
  | Panic

abbreviation NO_NEWLINE_MARKER :: string where
  "NO_NEWLINE_MARKER \<equiv> CHR 0x5C # '' No newline at end of file''"

definition is_no_newline_marker :: "string \<Rightarrow> bool" where
  "is_no_newline_marker line \<longleftrightarrow> trim line = NO_NEWLINE_MARKER"

section \<open>Lines of a file\<close>

abbreviation newline :: char where
  "newline \<equiv> CHR 0x0A"

definition split_lines :: "string \<Rightarrow> string list \<times> bool" where
  "split_lines s =
     (let final_newline = ends_with s [newline];
          lines = split_char newline s
      in (if final_newline then butlast lines else lines, final_newline))"

definition join_lines :: "string list \<Rightarrow> bool \<Rightarrow> string" where
  "join_lines lines final_newline =
     (let s = join [newline] lines in if final_newline \<and> s \<noteq> [] then s @ [newline] else s)"

section \<open>Locating a hunk\<close>

text \<open>
  The loop of \<^verbatim>\<open>hunk_changes\<close>: lines kept and removed are old, lines kept and added are new;
  the accumulator holds them, the kind of the previous line and the newline flag.
\<close>

fun hunk_changes_loop ::
  "string list \<Rightarrow> string list \<Rightarrow> string list \<Rightarrow> char option \<Rightarrow> bool
     \<Rightarrow> (string list \<times> string list \<times> bool, PatchError) result" where
  "hunk_changes_loop [] old new prev no_newline = Inr (old, new, no_newline)"
| "hunk_changes_loop (line # lines) old new prev no_newline =
     (if line = NO_NEWLINE_MARKER
      then hunk_changes_loop lines old new prev (if prev \<noteq> Some CHR ''-'' then True else no_newline)
      else case line of
        [] \<Rightarrow> Inl EmptyHunkLine
      | kind # text \<Rightarrow>
          if text \<noteq> [] \<and> is_continuation (hd text) then Inl HunkLineNotUtf8
          else if kind = CHR '' ''
          then hunk_changes_loop lines (old @ [text]) (new @ [text]) (Some kind) no_newline
          else if kind = CHR ''-''
          then hunk_changes_loop lines (old @ [text]) new (Some kind) no_newline
          else if kind = CHR ''+''
          then hunk_changes_loop lines old (new @ [text]) (Some kind) no_newline
          else Inl (InvalidHunkLine line))"

definition hunk_changes ::
  "ModelPatchHunk \<Rightarrow> (string list \<times> string list \<times> bool, PatchError) result" where
  "hunk_changes h = hunk_changes_loop (hunk_lines h) [] [] None (new_no_newline h)"

definition hunk_old_start :: "string \<Rightarrow> nat option" where
  "hunk_old_start header =
     Option.bind (strip_prefix ''@@'' header) (\<lambda>rest.
       (case List.map_filter (\<lambda>token. Option.bind (strip_prefix ''-'' token)
                (\<lambda>v. parse_usize (before '','' v))) (split_whitespace (before ''@@'' rest)) of
          [] \<Rightarrow> None | n # ns \<Rightarrow> Some n))"

text \<open>
  The search from \<open>cursor\<close> collects at most two places; reading a slice that does not fit
  panics.
\<close>

fun scan_matches ::
  "string list \<Rightarrow> string list \<Rightarrow> bool \<Rightarrow> nat list \<Rightarrow> nat list \<Rightarrow> (nat list, PatchError) result" where
  "scan_matches original needle eof [] found = Inr found"
| "scan_matches original needle eof (start # starts) found =
     (if eof \<and> start + length needle \<noteq> length original
      then scan_matches original needle eof starts found
      else case slice original start (start + length needle) of
        None \<Rightarrow> Inl Panic
      | Some part \<Rightarrow>
          if part = needle
          then (if length (found @ [start]) > 1 then Inr (found @ [start])
                else scan_matches original needle eof starts (found @ [start]))
          else scan_matches original needle eof starts found)"

definition hint_matches ::
  "string list \<Rightarrow> string list \<Rightarrow> nat \<Rightarrow> bool \<Rightarrow> nat \<Rightarrow> bool" where
  "hint_matches original needle cursor eof start \<longleftrightarrow>
     start \<ge> cursor \<and> start + length needle \<le> length original \<and>
     (\<not> eof \<or> start + length needle = length original) \<and>
     slice original start (start + length needle) = Some needle"

definition locate_hunk ::
  "string list \<Rightarrow> string list \<Rightarrow> nat \<Rightarrow> nat option \<Rightarrow> bool \<Rightarrow> (nat, PatchError) result" where
  "locate_hunk original needle cursor hint eof =
     (if needle = []
      then let start = (case hint of None \<Rightarrow> cursor | Some line \<Rightarrow> line - 1) in
        if start < cursor \<or> start > length original then Inl InsertionPointOutside else Inr start
      else let searched =
        and_then (scan_matches original needle eof
                   [cursor ..< Suc (length original - length needle)] [])
          (\<lambda>found. case found of
              [start] \<Rightarrow> Inr start
            | [] \<Rightarrow> Inl ContextDoesNotMatch
            | _ \<Rightarrow> Inl ContextIsAmbiguous)
      in case hint of
           None \<Rightarrow> searched
         | Some line \<Rightarrow>
             if hint_matches original needle cursor eof (line - 1) then Inr (line - 1) else searched)"

definition normalize_context :: "string \<Rightarrow> string" where
  "normalize_context s = join '' '' (split_whitespace s)"

abbreviation anchors :: "string \<Rightarrow> string \<Rightarrow> bool" where
  "anchors line context \<equiv>
     line = context \<or> trim line = trim context \<or> normalize_context line = normalize_context context"

definition locate_context ::
  "string list \<Rightarrow> string \<Rightarrow> nat \<Rightarrow> bool \<Rightarrow> (nat, PatchError) result" where
  "locate_context original context cursor eof =
     (case filter (\<lambda>i. (eof \<longrightarrow> i + 1 = length original) \<and> anchors (original ! i) context)
             [cursor ..< length original] of
        [i] \<Rightarrow> Inr i
      | [] \<Rightarrow> Inl (AnchorDoesNotMatch context)
      | _ \<Rightarrow> Inl (AnchorIsAmbiguous context))"

definition insertion_point ::
  "nat \<Rightarrow> nat \<Rightarrow> nat \<Rightarrow> nat option \<Rightarrow> bool \<Rightarrow> (nat, PatchError) result" where
  "insertion_point file_len context_start cursor hint eof =
     (if eof then Inr file_len
      else if context_start > cursor then Inr (min context_start file_len)
      else case hint of
        Some line \<Rightarrow>
          (let start = line - 1 in
           if start \<ge> cursor \<and> start \<le> file_len then Inr start else Inl InsertionPointOutside)
      | None \<Rightarrow> Inr (max file_len cursor))"

section \<open>Applying the hunks\<close>

definition context_start ::
  "string list \<Rightarrow> ModelPatchHunk \<Rightarrow> nat \<Rightarrow> (nat, PatchError) result" where
  "context_start original h cursor =
     (case hunk_context_line h of
        None \<Rightarrow> Inr cursor
      | Some context \<Rightarrow>
          and_then (locate_context original context cursor (end_of_file h)) (\<lambda>i. Inr (i + 1)))"

definition hunk_start ::
  "string list \<Rightarrow> ModelPatchHunk \<Rightarrow> string list \<Rightarrow> nat \<Rightarrow> (nat, PatchError) result" where
  "hunk_start original h old cursor =
     and_then (context_start original h cursor) (\<lambda>cs.
       if old = []
       then insertion_point (length original) cs cursor (hunk_old_start (hunk_header h)) (end_of_file h)
       else locate_hunk original old cs (hunk_old_start (hunk_header h)) (end_of_file h))"

fun apply_hunks_loop ::
  "string list \<Rightarrow> ModelPatchHunk list \<Rightarrow> string list \<Rightarrow> nat \<Rightarrow> bool
     \<Rightarrow> (string list \<times> bool, PatchError) result" where
  "apply_hunks_loop original [] out cursor nl =
     (case slice original cursor (length original) of
        None \<Rightarrow> Inl Panic | Some rest \<Rightarrow> Inr (out @ rest, nl))"
| "apply_hunks_loop original (h # hs) out cursor nl =
     and_then (hunk_changes h) (\<lambda>(old, new, no_newline).
       and_then (hunk_start original h old cursor) (\<lambda>start.
         case slice original cursor start of
           None \<Rightarrow> Inl Panic
         | Some kept \<Rightarrow>
             apply_hunks_loop original hs (out @ kept @ new) (start + length old)
               (if no_newline then False else nl)))"

definition apply_hunks :: "string \<Rightarrow> ModelPatchHunk list \<Rightarrow> (string, PatchError) result" where
  "apply_hunks original hunks =
     (let (lines, nl) = split_lines original in
      and_then (apply_hunks_loop lines hunks [] 0 nl) (\<lambda>(out, nl'). Inr (join_lines out nl')))"

section \<open>Rendering a patch as a unified diff\<close>

text \<open>
  Identities of paths are lists of components; \<^verbatim>\<open>PathBuf\<close> compares by components. The path is
  read left to right, a \<^verbatim>\<open>..\<close> removes the last plain component.
\<close>

fun is_normal :: "Component \<Rightarrow> bool" where
  "is_normal (Normal p) = True"
| "is_normal c = False"

fun push_component :: "Component list \<Rightarrow> Component \<Rightarrow> Component list" where
  "push_component normalized (Prefix p) = normalized @ [Prefix p]"
| "push_component normalized RootDir = [RootDir]"
| "push_component normalized CurDir = normalized"
| "push_component normalized ParentDir =
     (if normalized \<noteq> [] \<and> is_normal (last normalized) then butlast normalized
      else if RootDir \<in> set normalized then normalized
      else normalized @ [ParentDir])"
| "push_component normalized (Normal p) = normalized @ [Normal p]"

definition lexical_path_identity :: "string \<Rightarrow> Component list" where
  "lexical_path_identity path =
     (let normalized = foldl push_component [] (components path) in
      if normalized = [] then [CurDir] else normalized)"

type_synonym originals = "(string \<times> string) list"

definition get_original :: "originals \<Rightarrow> string \<Rightarrow> string option" where
  "get_original originals path =
     map_option snd (find (\<lambda>(p, content). components p = components path) originals)"

definition original_identities :: "originals \<Rightarrow> Component list list" where
  "original_identities originals = map (lexical_path_identity \<circ> fst) originals"

text \<open>The text of an existing file, which has to be UTF-8.\<close>

definition original_text :: "originals \<Rightarrow> string \<Rightarrow> (string, PatchError) result" where
  "original_text originals path =
     (case get_original originals path of
        None \<Rightarrow> Inl (TargetMissing path)
      | Some bytes \<Rightarrow> if valid_utf8 bytes then Inr bytes else Inl (TargetNotUtf8 path))"

type_synonym unified_diff = "string \<Rightarrow> string \<Rightarrow> string \<Rightarrow> string \<Rightarrow> string"

abbreviation diff_name :: "bool \<Rightarrow> string \<Rightarrow> string \<Rightarrow> string" where
  "diff_name exists side path \<equiv> (if exists then side @ path else ''/dev/null'')"

definition append_diff ::
  "unified_diff \<Rightarrow> string \<Rightarrow> string \<Rightarrow> string \<Rightarrow> string \<Rightarrow> bool \<Rightarrow> bool \<Rightarrow> (string, PatchError) result" where
  "append_diff unified_diff out path original edited original_exists edited_exists =
     (let old_name = diff_name original_exists ''a/'' path;
          new_name = diff_name edited_exists ''b/'' path;
          body = unified_diff original edited old_name new_name
      in if body = [] \<and> original_exists = edited_exists then Inl (NoFileChange path)
         else Inr (out @ ''diff --git a/'' @ path @ '' b/'' @ path @ [newline] @
           (if \<not> original_exists then ''new file mode 100644'' @ [newline]
            else if \<not> edited_exists then ''deleted file mode 100644'' @ [newline] else []) @
           (if body = []
            then ''--- '' @ old_name @ [newline] @ ''+++ '' @ new_name @ [newline] else body)))"

fun render_file ::
  "unified_diff \<Rightarrow> originals \<Rightarrow> string \<Rightarrow> ModelPatchFile \<Rightarrow> (string, PatchError) result" where
  "render_file unified_diff originals out f =
     (case mpf_kind f of
        Update hunks \<Rightarrow>
          and_then (original_text originals (mpf_path f)) (\<lambda>original.
          and_then (apply_hunks original hunks) (\<lambda>edited.
            case move_path f of
              Some dest \<Rightarrow>
                if lexical_path_identity dest = lexical_path_identity (mpf_path f) then Inl MoveToItself
                else if lexical_path_identity dest \<in> set (original_identities originals)
                then Inl (MoveDestinationExists dest)
                else and_then (append_diff unified_diff out (mpf_path f) original [] True False)
                       (\<lambda>out. append_diff unified_diff out dest [] edited False True)
            | None \<Rightarrow> append_diff unified_diff out (mpf_path f) original edited True True))
      | Add lines no_newline \<Rightarrow>
          if lexical_path_identity (mpf_path f) \<in> set (original_identities originals)
          then Inl (AddTargetExists (mpf_path f))
          else append_diff unified_diff out (mpf_path f) [] (join_lines lines (\<not> no_newline)) False True
      | Replace lines no_newline \<Rightarrow>
          and_then (original_text originals (mpf_path f)) (\<lambda>original.
            append_diff unified_diff out (mpf_path f) original (join_lines lines (\<not> no_newline)) True True)
      | Delete \<Rightarrow>
          and_then (original_text originals (mpf_path f)) (\<lambda>original.
            append_diff unified_diff out (mpf_path f) original [] True False))"

fun render_files ::
  "unified_diff \<Rightarrow> originals \<Rightarrow> string \<Rightarrow> ModelPatch \<Rightarrow> (string, PatchError) result" where
  "render_files unified_diff originals out [] = Inr out"
| "render_files unified_diff originals out (f # fs) =
     and_then (render_file unified_diff originals out f)
       (\<lambda>out. render_files unified_diff originals out fs)"

definition render :: "unified_diff \<Rightarrow> ModelPatch \<Rightarrow> originals \<Rightarrow> (string, PatchError) result" where
  "render unified_diff patch originals =
     and_then (render_files unified_diff originals [] patch)
       (\<lambda>out. if out = [] then Inl NoChange else Inr out)"

section \<open>What a patch means\<close>

text \<open>
  The specification: the file is cut into untouched stretches and the old parts of the hunks,
  in order, and the result has the new parts in their places.
\<close>

inductive patched :: "'a list \<Rightarrow> ('a list \<times> 'a list) list \<Rightarrow> 'a list \<Rightarrow> bool" where
  untouched: "patched rest [] rest"
| hunk: "patched rest changes out \<Longrightarrow>
    patched (kept @ old @ rest) ((old, new) # changes) (kept @ new @ out)"

inductive_cases patched_NilE: "patched xs [] ys"

inductive_cases patched_ConsE: "patched xs (c # changes) ys"

lemma patched_reverse: "patched xs changes ys \<Longrightarrow> patched ys (map prod.swap changes) xs"
  by (induction rule: patched.induct) (auto intro: patched.intros)

lemma patched_length:
  "patched xs changes ys \<Longrightarrow>
     length ys + sum_list (map (length \<circ> fst) changes)
       = length xs + sum_list (map (length \<circ> snd) changes)"
  by (induction rule: patched.induct) simp_all

definition old_part :: "ModelPatchHunk \<Rightarrow> string list" where
  "old_part h = (case hunk_changes h of Inl e \<Rightarrow> [] | Inr (old, new, nl) \<Rightarrow> old)"

definition new_part :: "ModelPatchHunk \<Rightarrow> string list" where
  "new_part h = (case hunk_changes h of Inl e \<Rightarrow> [] | Inr (old, new, nl) \<Rightarrow> new)"

section \<open>Every place found is a place that matches\<close>

definition matches_at :: "string list \<Rightarrow> string list \<Rightarrow> bool \<Rightarrow> nat \<Rightarrow> bool" where
  "matches_at original needle eof start \<longleftrightarrow>
     (eof \<longrightarrow> start + length needle = length original) \<and>
     slice original start (start + length needle) = Some needle"

lemma scan_matches_sound:
  assumes "scan_matches original needle eof starts found = Inr places"
  shows "set places \<subseteq> set found \<union> {s \<in> set starts. matches_at original needle eof s}"
  using assms
  by (induction original needle eof starts found rule: scan_matches.induct)
    (auto simp: matches_at_def split: if_splits option.splits)

lemma scan_matches_take:
  assumes "\<And>s. s \<in> set starts \<Longrightarrow> s + length needle \<le> length original" and "length found \<le> 1"
  shows "scan_matches original needle eof starts found
    = Inr (take 2 (found @ filter (matches_at original needle eof) starts))"
  using assms
proof (induction original needle eof starts found rule: scan_matches.induct)
  case (2 original needle eof start starts found)
  have "start + length needle \<le> length original" using "2.prems"(1) by simp
  then obtain part where part: "slice original start (start + length needle) = Some part"
    by (simp add: slice_def)
  consider (skip) "eof" "start + length needle \<noteq> length original"
    | (other) "\<not> (eof \<and> start + length needle \<noteq> length original)" "part \<noteq> needle"
    | (match) "\<not> (eof \<and> start + length needle \<noteq> length original)" "part = needle"
    by blast
  then show ?case
  proof cases
    case skip
    with "2.IH"(1) "2.prems" show ?thesis by (simp add: matches_at_def)
  next
    case other
    with "2.IH"(3) [OF other(1) part other(2)] "2.prems" part show ?thesis by (auto simp: matches_at_def)
  next
    case match
    then have m: "matches_at original needle eof start" using part by (auto simp: matches_at_def)
    show ?thesis
    proof (cases found)
      case Nil
      with "2.IH"(2) [OF match(1) part match(2)] "2.prems" part match m show ?thesis by auto
    next
      case (Cons x xs)
      with "2.prems"(2) part match m show ?thesis by auto
    qed
  qed
qed simp

lemma only_place [simp]:
  "(case places of [start] \<Rightarrow> Inr start | [] \<Rightarrow> Inl e | _ \<Rightarrow> Inl e') = Inr s \<longleftrightarrow> places = [s]"
  by (auto split: list.splits)

lemma locate_hunk_sound:
  assumes "locate_hunk original needle cursor hint eof = Inr start" and "needle \<noteq> []"
  shows "cursor \<le> start" and "slice original start (start + length needle) = Some needle"
proof -
  have "cursor \<le> start \<and> matches_at original needle eof start"
  proof (cases "\<exists>line. hint = Some line \<and> hint_matches original needle cursor eof (line - 1)")
    case True
    with assms show ?thesis by (auto simp: locate_hunk_def hint_matches_def matches_at_def)
  next
    case False
    with assms obtain places where
      "scan_matches original needle eof [cursor ..< Suc (length original - length needle)] [] = Inr places"
      "places = [start]"
      by (auto simp: locate_hunk_def Let_def simp del: upt_Suc split: option.splits if_splits)
    from scan_matches_sound [OF this(1)] this(2) show ?thesis by auto
  qed
  then show "cursor \<le> start" "slice original start (start + length needle) = Some needle"
    by (simp_all add: matches_at_def)
qed

lemma context_start_sound:
  assumes "context_start original h cursor = Inr cs" and "cursor \<le> length original"
  shows "cursor \<le> cs" and "cs \<le> length original"
proof -
  have "cursor \<le> Suc i \<and> i < length original"
    if "locate_context original c cursor eof = Inr i" for c eof i
  proof -
    from that have "filter (\<lambda>i. (eof \<longrightarrow> i + 1 = length original) \<and> anchors (original ! i) c)
        [cursor ..< length original] = [i]"
      by (simp add: locate_context_def)
    then have "i \<in> set (filter (\<lambda>i. (eof \<longrightarrow> i + 1 = length original) \<and> anchors (original ! i) c)
        [cursor ..< length original])"
      by simp
    then show ?thesis by simp
  qed
  with assms show "cursor \<le> cs" "cs \<le> length original"
    by (auto simp: context_start_def Suc_le_eq split: option.splits)
qed

lemma hunk_start_sound:
  assumes "hunk_start original h old cursor = Inr start" and "cursor \<le> length original"
  shows "cursor \<le> start" and "slice original start (start + length old) = Some old"
proof -
  from assms obtain cs where cs: "context_start original h cursor = Inr cs"
    and place: "if old = []
       then insertion_point (length original) cs cursor (hunk_old_start (hunk_header h)) (end_of_file h) = Inr start
       else locate_hunk original old cs (hunk_old_start (hunk_header h)) (end_of_file h) = Inr start"
    by (auto simp: hunk_start_def split: if_splits)
  note bounds = context_start_sound [OF cs assms(2)]
  have "cursor \<le> start \<and> slice original start (start + length old) = Some old"
  proof (cases "old = []")
    case True
    with place bounds assms(2) show ?thesis
      by (auto simp: insertion_point_def slice_def Let_def split: if_splits option.splits)
  next
    case False
    with place bounds locate_hunk_sound show ?thesis by fastforce
  qed
  then show "cursor \<le> start" "slice original start (start + length old) = Some old" by simp_all
qed

lemma hunk_parts:
  assumes "hunk_changes h = Inr (old, new, nl)"
  shows "old_part h = old" and "new_part h = new"
  using assms by (simp_all add: old_part_def new_part_def)

lemma apply_hunks_loop_sound:
  assumes "apply_hunks_loop original hs out cursor nl = Inr (out', nl')"
    and "cursor \<le> length original"
  shows "\<exists>tail. out' = out @ tail \<and>
    patched (drop cursor original) (map (\<lambda>h. (old_part h, new_part h)) hs) tail"
  using assms
proof (induction original hs out cursor nl rule: apply_hunks_loop.induct)
  case (1 original out cursor nl)
  then show ?case by (auto simp: slice_def intro: untouched split: if_splits)
next
  case (2 original h hs out cursor nl)
  from "2.prems"(1) obtain old new no_newline start kept where
    changes: "hunk_changes h = Inr (old, new, no_newline)" and
    start: "hunk_start original h old cursor = Inr start" and
    kept: "slice original cursor start = Some kept" and
    rest: "apply_hunks_loop original hs (out @ kept @ new) (start + length old)
        (if no_newline then False else nl) = Inr (out', nl')"
    by (auto split: option.splits)
  note sound = hunk_start_sound [OF start "2.prems"(2)]
  from slice_bounds [OF sound(2)] have "start + length old \<le> length original" by simp
  from "2.IH" [OF changes refl refl start kept rest this] obtain tail where
    tail: "out' = (out @ kept @ new) @ tail"
      "patched (drop (start + length old) original) (map (\<lambda>h. (old_part h, new_part h)) hs) tail"
    by auto
  have "drop cursor original = kept @ old @ drop (start + length old) original"
    using slice_drop [OF kept] slice_drop [OF sound(2)] by simp
  moreover have "patched (kept @ old @ drop (start + length old) original)
      ((old, new) # map (\<lambda>h. (old_part h, new_part h)) hs) (kept @ new @ tail)"
    using tail(2) by (rule hunk)
  ultimately show ?case using tail(1) hunk_parts [OF changes] by simp
qed

lemma apply_hunks_loop_newline:
  "apply_hunks_loop original hs out cursor nl = Inr (out', nl') \<Longrightarrow> nl' \<Longrightarrow> nl"
  by (induction original hs out cursor nl rule: apply_hunks_loop.induct)
    (fastforce split: option.splits if_splits)+

lemma hunk_changes_no_panic: "hunk_changes h = Inl e \<Longrightarrow> e \<noteq> Panic"
proof -
  have "hunk_changes_loop lines old new prev nl = Inl e \<Longrightarrow> e \<noteq> Panic" for lines old new prev nl
    by (induction lines old new prev nl rule: hunk_changes_loop.induct)
      (auto split: if_splits list.splits)
  then show "hunk_changes h = Inl e \<Longrightarrow> e \<noteq> Panic" by (simp add: hunk_changes_def)
qed

lemma scan_oversized:
  assumes "length original < length needle"
  shows "scan_matches original needle eof [cursor ..< Suc 0] []
    = (if cursor = 0 \<and> \<not> eof then Inl Panic else Inr [])"
  using assms by (simp add: slice_def)

lemma locate_hunk_panics_iff:
  assumes "needle \<noteq> []"
  shows "locate_hunk original needle cursor hint eof = Inl Panic \<longleftrightarrow>
    cursor = 0 \<and> \<not> eof \<and> length original < length needle"
proof (cases "length original < length needle")
  case True
  then have "\<not> hint_matches original needle c eof' line" for c eof' line by (simp add: hint_matches_def)
  with True assms show ?thesis
    by (simp add: locate_hunk_def scan_oversized Let_def del: upt_Suc split: option.split)
next
  case False
  then have fits: "s + length needle \<le> length original"
    if "s \<in> set [cursor ..< Suc (length original - length needle)]" for s
    using that by auto
  have "(case places of [start] \<Rightarrow> Inr start | [] \<Rightarrow> Inl ContextDoesNotMatch
      | _ \<Rightarrow> Inl ContextIsAmbiguous) \<noteq> Inl Panic" for places :: "nat list"
    by (auto split: list.splits)
  with False assms scan_matches_take [of "[cursor ..< Suc (length original - length needle)]"
      needle original "[]" eof, OF fits] show ?thesis
    by (simp add: locate_hunk_def Let_def del: upt_Suc split: option.split)
qed

lemma hunk_start_panics_iff:
  "hunk_start original h old 0 = Inl Panic \<longleftrightarrow>
     hunk_context_line h = None \<and> \<not> end_of_file h \<and> length original < length old"
proof (cases "old = []")
  case True
  then show ?thesis
    by (auto simp: hunk_start_def context_start_def locate_context_def insertion_point_def and_then_Inl_iff
        Let_def split: option.splits list.splits if_splits)
next
  case False
  then show ?thesis
    by (auto simp: hunk_start_def context_start_def locate_context_def and_then_Inl_iff
        locate_hunk_panics_iff split: option.splits list.splits)
qed

lemma render_files_each:
  assumes "render_files unified_diff originals out patch = Inr diff" and "f \<in> set patch"
  shows "\<exists>before after. render_file unified_diff originals before f = Inr after"
  using assms
  by (induction patch arbitrary: out) (auto simp del: render_file.simps)

section \<open>Properties\<close>

lemma filter_upt_singleton:
  "filter P [a ..< b] = [s] \<longleftrightarrow> {i. a \<le> i \<and> i < b \<and> P i} = {s}"
proof
  assume "filter P [a ..< b] = [s]"
  then have "set (filter P [a ..< b]) = {s}" by simp
  then show "{i. a \<le> i \<and> i < b \<and> P i} = {s}" by auto
next
  assume "{i. a \<le> i \<and> i < b \<and> P i} = {s}"
  then have "set (filter P [a ..< b]) = {s}" by auto
  moreover have "distinct (filter P [a ..< b])" by simp
  ultimately show "filter P [a ..< b] = [s]"
    by (metis distinct_card card_1_singletonE length_0_conv length_Suc_conv list.simps(15) set_empty
        One_nat_def card.empty card.insert empty_iff finite.emptyI singleton_insert_inj_eq)
qed

lemma take_two_singleton: "take 2 xs = [s] \<longleftrightarrow> xs = [s]"
  by (cases xs rule: remdups_adj.cases) (auto simp: numeral_2_eq_2)

text \<open>
  Property C32. A hunk without a usable line number is placed exactly when one place from the
  cursor on matches it, at the end of the file where the hunk asks for that: neither no match
  nor an ambiguous one edits the file, and the only match is always found.
\<close>

theorem hunk_placed_iff_unique:
  assumes "needle \<noteq> []" and "length needle \<le> length original"
  shows "locate_hunk original needle cursor None eof = Inr start \<longleftrightarrow>
    {s. cursor \<le> s \<and> (eof \<longrightarrow> s + length needle = length original) \<and>
        slice original s (s + length needle) = Some needle} = {start}"
proof -
  let ?starts = "[cursor ..< Suc (length original - length needle)]"
  have in_range: "s + length needle \<le> length original" if "s \<in> set ?starts" for s
    using that assms(2) by auto
  have "locate_hunk original needle cursor None eof = Inr start
      \<longleftrightarrow> take 2 (filter (matches_at original needle eof) ?starts) = [start]"
    using assms(1) scan_matches_take [of ?starts needle original "[]" eof, OF in_range]
    by (simp add: locate_hunk_def del: upt_Suc)
  also have "\<dots> \<longleftrightarrow> {s. cursor \<le> s \<and> s < Suc (length original - length needle)
      \<and> matches_at original needle eof s} = {start}"
    unfolding take_two_singleton by (rule filter_upt_singleton)
  also have "{s. cursor \<le> s \<and> s < Suc (length original - length needle) \<and> matches_at original needle eof s}
      = {s. cursor \<le> s \<and> (eof \<longrightarrow> s + length needle = length original) \<and>
          slice original s (s + length needle) = Some needle}"
    by (auto simp: matches_at_def slice_def split: if_splits)
  finally show ?thesis .
qed

theorem hunk_placed_iff_unique_witness:
  "locate_hunk [''a'', ''b'', ''a''] [''b''] 0 None False = Inr 1 \<longleftrightarrow>
     {s. (0::nat) \<le> s \<and> (False \<longrightarrow> s + length [''b''] = length [''a'', ''b'', ''a'']) \<and>
        slice [''a'', ''b'', ''a''] s (s + length [''b'']) = Some [''b'']} = {1}"
  by (rule hunk_placed_iff_unique) simp_all

text \<open>
  Property C31. A successful edit follows the hunks: the lines of the file are cut into
  untouched stretches and the old parts of the hunks in order, the edited file has the new parts
  in their places, and exchanging old and new parts leads back. A missing final newline is never
  added.
\<close>

theorem apply_hunks_follows_hunks:
  assumes "apply_hunks original hunks = Inr edited"
  shows "\<exists>out final_newline. edited = join_lines out final_newline \<and>
    patched (fst (split_lines original)) (map (\<lambda>h. (old_part h, new_part h)) hunks) out \<and>
    patched out (map (\<lambda>h. (new_part h, old_part h)) hunks) (fst (split_lines original)) \<and>
    (final_newline \<longrightarrow> snd (split_lines original))"
proof -
  obtain lines nl where split: "split_lines original = (lines, nl)" by fastforce
  from assms split obtain out nl' where
    loop: "apply_hunks_loop lines hunks [] 0 nl = Inr (out, nl')" and edited: "edited = join_lines out nl'"
    by (auto simp: apply_hunks_def)
  from apply_hunks_loop_sound [OF loop] have
    "patched lines (map (\<lambda>h. (old_part h, new_part h)) hunks) out" by simp
  moreover from patched_reverse [OF this] have
    "patched out (map (\<lambda>h. (new_part h, old_part h)) hunks) lines" by (simp add: comp_def)
  moreover from apply_hunks_loop_newline [OF loop] have "nl' \<longrightarrow> nl" by simp
  ultimately show ?thesis using edited split by auto
qed

definition sample_hunk :: ModelPatchHunk where
  "sample_hunk = \<lparr>hunk_header = ''@@'', hunk_context_line = None, hunk_lines = [''-a'', ''+b'', '' c''],
     end_of_file = False, new_no_newline = False\<rparr>"

lemma sample_hunk_applies:
  "apply_hunks (''a'' @ [newline] @ ''c'' @ [newline]) [sample_hunk]
     = Inr (''b'' @ [newline] @ ''c'' @ [newline])"
  by code_simp

theorem apply_hunks_follows_hunks_witness:
  "\<exists>out final_newline. ''b'' @ [newline] @ ''c'' @ [newline] = join_lines out final_newline \<and>
    patched (fst (split_lines (''a'' @ [newline] @ ''c'' @ [newline])))
      (map (\<lambda>h. (old_part h, new_part h)) [sample_hunk]) out \<and>
    patched out (map (\<lambda>h. (new_part h, old_part h)) [sample_hunk])
      (fst (split_lines (''a'' @ [newline] @ ''c'' @ [newline]))) \<and>
    (final_newline \<longrightarrow> snd (split_lines (''a'' @ [newline] @ ''c'' @ [newline])))"
  by (rule apply_hunks_follows_hunks [OF sample_hunk_applies])

text \<open>
  Property C34. One hunk makes the edit panic exactly when it has no anchor, does not ask for the
  end of the file and has more old lines than the file has lines: the search then compares a
  slice that does not fit. In every other case the edit returns a result or an error.
\<close>

theorem single_hunk_panics_iff:
  "apply_hunks original [h] = Inl Panic \<longleftrightarrow>
     is_ok (hunk_changes h) \<and> hunk_context_line h = None \<and> \<not> end_of_file h \<and>
     length (fst (split_lines original)) < length (old_part h)"
proof (cases "hunk_changes h")
  case (Inl e)
  then have "e \<noteq> Panic" by (rule hunk_changes_no_panic)
  with Inl show ?thesis by (auto simp: apply_hunks_def split: prod.splits)
next
  case (Inr changes)
  obtain old new nl where changes: "hunk_changes h = Inr (old, new, nl)" using Inr by (cases changes) auto
  obtain lines final where split: "split_lines original = (lines, final)" by fastforce
  have "apply_hunks original [h] = Inl Panic \<longleftrightarrow> hunk_start lines h old 0 = Inl Panic"
  proof (cases "hunk_start lines h old 0")
    case (Inl e)
    then show ?thesis by (simp add: apply_hunks_def split changes)
  next
    case (Inr start)
    from hunk_start_sound [OF this] have "start + length old \<le> length lines"
      by (auto dest: slice_bounds)
    with Inr show ?thesis by (simp add: apply_hunks_def split changes slice_def)
  qed
  also have "\<dots> \<longleftrightarrow> hunk_context_line h = None \<and> \<not> end_of_file h \<and> length lines < length old"
    by (rule hunk_start_panics_iff)
  finally show ?thesis using hunk_parts(1) [OF changes] changes split by simp
qed

text \<open>
  Property C35. Splitting a file into lines and joining them again gives the file back, with one
  exception: a file that is a single newline comes back empty.
\<close>

theorem join_split_lines:
  "join_lines (fst (split_lines s)) (snd (split_lines s)) = (if s = [newline] then [] else s)"
proof (cases "ends_with s [newline]")
  case True
  then obtain t where s: "s = t @ [newline]" by (auto simp: suffix_def)
  have "split_char newline s = split_char newline t @ [[]]"
    unfolding s using split_by_append_separator [of "\<lambda>x. x = newline" newline t "[]"] by simp
  then show ?thesis using s by (simp add: split_lines_def join_lines_def join_split_char)
next
  case False
  then show ?thesis by (auto simp: split_lines_def join_lines_def join_split_char)
qed

text \<open>
  Property C33. A rendered patch respects the files it was rendered against: it updates, replaces
  and deletes only files that exist, every update applies to the text of its file, a new file
  never takes the identity of an existing one, and a move leads to a path that is neither its
  source nor an existing file.
\<close>

theorem rendered_patch_respects_originals:
  assumes "render unified_diff patch originals = Inr diff" and "f \<in> set patch"
  shows "case mpf_kind f of
      Add lines nl \<Rightarrow> lexical_path_identity (mpf_path f) \<notin> set (original_identities originals)
    | Update hunks \<Rightarrow>
        (\<exists>text. get_original originals (mpf_path f) = Some text \<and> valid_utf8 text \<and>
           is_ok (apply_hunks text hunks)) \<and>
        (case move_path f of None \<Rightarrow> True | Some dest \<Rightarrow>
           lexical_path_identity dest \<noteq> lexical_path_identity (mpf_path f) \<and>
           lexical_path_identity dest \<notin> set (original_identities originals))
    | Replace lines nl \<Rightarrow> get_original originals (mpf_path f) \<noteq> None
    | Delete \<Rightarrow> get_original originals (mpf_path f) \<noteq> None"
proof -
  obtain out where "render_files unified_diff originals [] patch = Inr out"
    using assms(1) by (auto simp: render_def)
  from render_files_each [OF this assms(2)] obtain before after where
    "render_file unified_diff originals before f = Inr after" by blast
  then show ?thesis
    by (auto simp: original_text_def is_ok_iff
        split: ModelPatchFileKind.splits option.splits if_splits)
qed

definition plain_diff :: unified_diff where
  "plain_diff original edited old_name new_name = old_name @ new_name"

definition sample_file :: ModelPatchFile where
  "sample_file = \<lparr>mpf_path = ''f'', move_path = Some ''g'', mpf_kind = Update [sample_hunk]\<rparr>"

definition sample_originals :: originals where
  "sample_originals = [(''f'', ''a'' @ [newline] @ ''c'' @ [newline])]"

lemma sample_render: "is_ok (render plain_diff [sample_file] sample_originals)"
  by code_simp

theorem rendered_patch_respects_originals_witness:
  "lexical_path_identity ''g'' \<notin> set (original_identities sample_originals)"
proof -
  from sample_render obtain diff where "render plain_diff [sample_file] sample_originals = Inr diff"
    by (auto simp: is_ok_iff)
  from rendered_patch_respects_originals [OF this, of sample_file] show ?thesis
    by (simp add: sample_file_def)
qed

end
