(* ===== verification/Model_Patch_Parser.thy ===== *)
theory Model_Patch_Parser
  imports Model_Patch
begin

text \<open>
  The parser of the patch format models write (\<^verbatim>\<open>golutra-agent-tools/src/model_patch.rs\<close>). The
  code walks an index over the lines; here the functions take the lines that remain and return
  those they leave. Errors are constructors of \<open>ParseError\<close>, without their message texts.
\<close>

section \<open>Lines of a patch\<close>

datatype ParseError =
    MissingBegin
  | MissingEnd
  | DataAfterEnd
  | NoFileEntries
  | UnsupportedControlLine string
  | DuplicateFile string
  | DuplicateDestination string
  | DeleteWithBody
  | HunkHeaderExpected string
  | InvalidHunkHeader string
  | InvalidBodyLine string
  | NoHunks
  | AddContentExpected string
  | InvalidPath

definition looks_like_model_patch :: "string \<Rightarrow> bool" where
  "looks_like_model_patch input \<longleftrightarrow> starts_with (trim_start input) ''*** Begin Patch''"

definition is_file_header :: "string \<Rightarrow> bool" where
  "is_file_header line \<longleftrightarrow>
     starts_with line ''*** Update File:'' \<or> starts_with line ''*** Add File:'' \<or>
     starts_with line ''*** Delete File:''"

definition is_end_marker :: "string \<Rightarrow> bool" where
  "is_end_marker line \<longleftrightarrow> trim line = ''*** End Patch''"

abbreviation is_end_of_file_marker :: "string \<Rightarrow> bool" where
  "is_end_of_file_marker line \<equiv> trim line = ''*** End of File''"

definition starts_hunk_line :: "string \<Rightarrow> bool" where
  "starts_hunk_line line \<longleftrightarrow>
     line \<noteq> [] \<and> (hd line = CHR '' '' \<or> hd line = CHR ''+'' \<or> hd line = CHR ''-'')"

definition is_hunk_line :: "string \<Rightarrow> bool" where
  "is_hunk_line line \<longleftrightarrow> line = [] \<or> starts_hunk_line line \<or> is_no_newline_marker line"

definition parse_path :: "string \<Rightarrow> (string, ParseError) result" where
  "parse_path s =
     (let path = trim s in
      if path = [] \<or> CHR 0x00 \<in> set path \<or> CHR 0x0A \<in> set path \<or> CHR 0x0D \<in> set path
      then Inl InvalidPath else Inr path)"

abbreviation signed_token :: "string \<Rightarrow> bool" where
  "signed_token t \<equiv> (starts_with t ''-'' \<or> starts_with t ''+'') \<and> length t > 1"

definition hunk_context :: "string \<Rightarrow> string option" where
  "hunk_context header =
     Option.bind (strip_prefix ''@@'' header) (\<lambda>rest.
       let body = trim rest;
           whole = (if \<not> (starts_with body ''-'' \<or> starts_with body ''+'') \<or>
                       list_ex is_whitespace (utf8_chars body)
                    then Some body else None)
       in if body = [] then None
          else case split_once ''@@'' body of
            Some (ranges, after) \<Rightarrow>
              if list_all signed_token (split_whitespace ranges)
              then (if trim after = [] then None else Some (trim after))
              else whole
          | None \<Rightarrow> whole)"

definition validate_hunk :: "string \<Rightarrow> string list \<Rightarrow> (unit, ParseError) result" where
  "validate_hunk header lines =
     (if header \<noteq> ''@@'' \<and> \<not> starts_with header ''@@ '' \<and> \<not> starts_with header ''@@-''
      then Inl (InvalidHunkHeader header)
      else case find (\<lambda>line. \<not> is_no_newline_marker line \<and> \<not> starts_hunk_line line) lines of
        Some line \<Rightarrow> Inl (InvalidBodyLine line)
      | None \<Rightarrow> Inr ())"

section \<open>Hunks\<close>

text \<open>The marker belongs to the last line of the body: after a removed line it says nothing.\<close>

abbreviation marker_is_new :: "string list \<Rightarrow> bool" where
  "marker_is_new body \<equiv>
     (case find (\<lambda>line. line \<noteq> []) (rev body) of None \<Rightarrow> False | Some line \<Rightarrow> hd line \<noteq> CHR ''-'')"

definition ends_hunk :: "string \<Rightarrow> bool" where
  "ends_hunk line \<longleftrightarrow> starts_with line ''@@'' \<or> is_file_header line \<or> is_end_marker line"

fun hunk_body ::
  "string list \<Rightarrow> string list \<Rightarrow> bool \<Rightarrow> (string list \<times> bool \<times> bool \<times> string list, ParseError) result" where
  "hunk_body [] body no_newline = Inr (body, False, no_newline, [])"
| "hunk_body (line # lines) body no_newline =
     (if ends_hunk line then Inr (body, False, no_newline, line # lines)
      else if is_end_of_file_marker line then Inr (body, True, no_newline, lines)
      else if is_no_newline_marker line then hunk_body lines body (marker_is_new body)
      else if line = [] then hunk_body lines (body @ ['' '']) no_newline
      else if starts_hunk_line line then hunk_body lines (body @ [line]) no_newline
      else Inl (InvalidBodyLine line))"

definition read_hunk ::
  "string \<Rightarrow> string option \<Rightarrow> string list \<Rightarrow> (ModelPatchHunk \<times> string list, ParseError) result" where
  "read_hunk header context lines =
     and_then (hunk_body lines [] False) (\<lambda>(body, eof, no_newline, rest).
       and_then (validate_hunk header body) (\<lambda>_.
         Inr (\<lparr>hunk_header = header, hunk_context_line = context, hunk_lines = body,
               end_of_file = eof, new_no_newline = no_newline\<rparr>, rest)))"

lemma hunk_body_shrinks:
  "hunk_body lines body nl = Inr (body', eof, nl', rest) \<Longrightarrow> length rest \<le> length lines"
proof (induction lines body nl rule: hunk_body.induct)
  case (2 line lines body nl)
  show ?case
    using "2.prems" "2.IH"(1) [OF _ _ _] "2.IH"(2) [OF _ _ _ _] "2.IH"(3) [OF _ _ _ _]
    by (auto split: if_split_asm)
qed simp

lemma hunk_body_consumes:
  assumes "hunk_body (line # lines) body nl = Inr (body', eof, nl', rest)" and "\<not> ends_hunk line"
  shows "length rest \<le> length lines"
  using assms hunk_body_shrinks [of lines] by (simp split: if_split_asm)

lemma read_hunk_body:
  assumes "read_hunk header context lines = Inr (h, rest)"
  obtains body eof nl where "hunk_body lines [] False = Inr (body, eof, nl, rest)"
    "validate_hunk header body = Inr ()"
    "h = \<lparr>hunk_header = header, hunk_context_line = context, hunk_lines = body,
       end_of_file = eof, new_no_newline = nl\<rparr>"
  using assms by (auto simp: read_hunk_def)

lemma read_hunk_shrinks:
  "read_hunk header context lines = Inr (h, rest) \<Longrightarrow> length rest \<le> length lines"
  by (elim read_hunk_body) (simp add: hunk_body_shrinks)

lemma read_hunk_consumes:
  "read_hunk header context (line # lines) = Inr (h, rest) \<Longrightarrow> \<not> ends_hunk line \<Longrightarrow>
     length rest \<le> length lines"
  by (elim read_hunk_body) (rule hunk_body_consumes)

function parse_update_hunks ::
  "string list \<Rightarrow> ModelPatchHunk list \<Rightarrow> (ModelPatchHunk list \<times> string list, ParseError) result" where
  "parse_update_hunks [] hunks = (if hunks = [] then Inl NoHunks else Inr (hunks, []))"
| "parse_update_hunks (line # lines) hunks =
     (if is_blank line then parse_update_hunks lines hunks
      else if is_file_header line \<or> is_end_marker line
      then (if hunks = [] then Inl NoHunks else Inr (hunks, line # lines))
      else if starts_with line ''@@''
      then and_then (read_hunk line (hunk_context line) lines)
             (\<lambda>(h, rest). parse_update_hunks rest (hunks @ [h]))
      else if is_hunk_line line
      then and_then (read_hunk ''@@'' None (line # lines))
             (\<lambda>(h, rest). parse_update_hunks rest (hunks @ [h]))
      else Inl (HunkHeaderExpected line))"
  by pat_completeness auto
termination
  by (relation "measure (length \<circ> fst)")
    (auto simp: ends_hunk_def less_Suc_eq_le intro: read_hunk_shrinks read_hunk_consumes)

fun parse_add_lines ::
  "string list \<Rightarrow> string list \<Rightarrow> bool \<Rightarrow> (string list \<times> bool \<times> string list, ParseError) result" where
  "parse_add_lines [] content no_newline = Inr (content, no_newline, [])"
| "parse_add_lines (line # lines) content no_newline =
     (if is_file_header line \<or> is_end_marker line then Inr (content, no_newline, line # lines)
      else if is_end_of_file_marker line then parse_add_lines lines content no_newline
      else if is_no_newline_marker line then parse_add_lines lines content True
      else case strip_prefix ''+'' line of
        Some value \<Rightarrow> parse_add_lines lines (content @ [value]) no_newline
      | None \<Rightarrow> Inl (AddContentExpected line))"

lemma parse_update_hunks_ConsE:
  assumes "parse_update_hunks (line # lines) hunks = Inr (hunks', rest)"
  obtains
      (blank) "is_blank line" "parse_update_hunks lines hunks = Inr (hunks', rest)"
    | (stop) "hunks' = hunks" "hunks \<noteq> []" "rest = line # lines"
    | (header) h rest' where "\<not> is_blank line" "\<not> (is_file_header line \<or> is_end_marker line)"
        "starts_with line ''@@''" "read_hunk line (hunk_context line) lines = Inr (h, rest')"
        "parse_update_hunks rest' (hunks @ [h]) = Inr (hunks', rest)"
    | (bare) h rest' where "\<not> is_blank line" "\<not> (is_file_header line \<or> is_end_marker line)"
        "\<not> starts_with line ''@@''" "is_hunk_line line" "read_hunk ''@@'' None (line # lines) = Inr (h, rest')"
        "parse_update_hunks rest' (hunks @ [h]) = Inr (hunks', rest)"
  using assms by (auto split: if_split_asm)

lemma parse_update_hunks_shrinks:
  "parse_update_hunks lines hunks = Inr (hunks', rest) \<Longrightarrow> length rest \<le> length lines"
proof (induction lines hunks rule: parse_update_hunks.induct)
  case (2 line lines hunks)
  from "2.prems" show ?case
  proof (cases rule: parse_update_hunks_ConsE)
    case blank
    with "2.IH"(1) show ?thesis by simp
  next
    case header
    from "2.IH"(2) [OF header(1-4) refl header(5)] read_hunk_shrinks [OF header(4)] show ?thesis by simp
  next
    case bare
    from "2.IH"(3) [OF bare(1-5) refl bare(6)] read_hunk_shrinks [OF bare(5)] show ?thesis by simp
  qed simp
qed (simp split: if_splits)

lemma parse_add_lines_shrinks:
  "parse_add_lines lines content nl = Inr (content', nl', rest) \<Longrightarrow> length rest \<le> length lines"
  by (induction lines content nl rule: parse_add_lines.induct)
    (auto split: if_split_asm option.split_asm)

section \<open>File entries\<close>

datatype EntryKind = UpdateEntry | AddEntry | DeleteEntry

definition parse_entry :: "string \<Rightarrow> (EntryKind \<times> string, ParseError) result" where
  "parse_entry line =
     (case strip_prefix ''*** Update File:'' line of
        Some path \<Rightarrow> and_then (parse_path path) (\<lambda>p. Inr (UpdateEntry, p))
      | None \<Rightarrow>
     (case strip_prefix ''*** Add File:'' line of
        Some path \<Rightarrow> and_then (parse_path path) (\<lambda>p. Inr (AddEntry, p))
      | None \<Rightarrow>
     (case strip_prefix ''*** Delete File:'' line of
        Some path \<Rightarrow> and_then (parse_path path) (\<lambda>p. Inr (DeleteEntry, p))
      | None \<Rightarrow> Inl (UnsupportedControlLine line))))"

text \<open>The position of the deleted file that an added file of the same path replaces.\<close>

fun deleted_position :: "string \<Rightarrow> ModelPatchFile list \<Rightarrow> nat option" where
  "deleted_position path [] = None"
| "deleted_position path (f # fs) =
     (if mpf_path f = path \<and> mpf_kind f = Delete then Some 0
      else map_option Suc (deleted_position path fs))"

definition replacement :: "EntryKind \<Rightarrow> string \<Rightarrow> ModelPatchFile list \<Rightarrow> nat option" where
  "replacement kind path files = (if kind = AddEntry then deleted_position path files else None)"

text \<open>The optional move line of an update entry.\<close>

definition parse_move :: "string list \<Rightarrow> (string option \<times> string list, ParseError) result" where
  "parse_move lines =
     (case lines of
        [] \<Rightarrow> Inr (None, lines)
      | line # rest \<Rightarrow>
          (case strip_prefix ''*** Move to:'' line of
             None \<Rightarrow> Inr (None, lines)
           | Some dest \<Rightarrow> and_then (parse_path dest) (\<lambda>p. Inr (Some p, rest))))"

text \<open>
  The body of an entry: the move destination, the file kind, the identities now seen and the
  lines that remain.
\<close>

type_synonym entry_body = "string option \<times> ModelPatchFileKind \<times> Component list list \<times> string list"

fun parse_entry_body ::
  "EntryKind \<Rightarrow> Component list list \<Rightarrow> string list \<Rightarrow> (entry_body, ParseError) result" where
  "parse_entry_body UpdateEntry seen lines =
     and_then (parse_move lines) (\<lambda>(dest, lines).
     and_then (parse_update_hunks lines []) (\<lambda>(hunks, rest).
       case dest of
         None \<Rightarrow> Inr (None, Update hunks, seen, rest)
       | Some d \<Rightarrow>
           if lexical_path_identity d \<in> set seen then Inl (DuplicateDestination d)
           else Inr (Some d, Update hunks, lexical_path_identity d # seen, rest)))"
| "parse_entry_body AddEntry seen lines =
     and_then (parse_add_lines lines [] False) (\<lambda>(content, no_newline, rest).
       Inr (None, Add content no_newline, seen, rest))"
| "parse_entry_body DeleteEntry seen lines =
     (if lines \<noteq> [] \<and> \<not> is_file_header (hd lines) \<and> \<not> is_end_marker (hd lines)
      then Inl DeleteWithBody else Inr (None, Delete, seen, lines))"

fun as_replacement :: "ModelPatchFileKind \<Rightarrow> ModelPatchFileKind" where
  "as_replacement (Add lines no_newline) = Replace lines no_newline"
| "as_replacement kind = kind"

definition record_file ::
  "nat option \<Rightarrow> string \<Rightarrow> string option \<Rightarrow> ModelPatchFileKind \<Rightarrow> ModelPatchFile list \<Rightarrow> ModelPatchFile list" where
  "record_file previous path dest kind files =
     (case previous of
        Some i \<Rightarrow> files[i := (files ! i)\<lparr>mpf_kind := as_replacement kind\<rparr>]
      | None \<Rightarrow> files @ [\<lparr>mpf_path = path, move_path = dest, mpf_kind = kind\<rparr>])"

definition finish_patch :: "ModelPatchFile list \<Rightarrow> string list \<Rightarrow> (ModelPatch, ParseError) result" where
  "finish_patch files rest =
     (if list_ex (\<lambda>line. line \<noteq> []) rest then Inl DataAfterEnd
      else if files = [] then Inl NoFileEntries else Inr files)"

lemma parse_move_shrinks: "parse_move lines = Inr (dest, rest) \<Longrightarrow> length rest \<le> length lines"
  by (auto simp: parse_move_def split: list.split_asm option.split_asm)

lemma parse_entry_body_shrinks:
  assumes "parse_entry_body kind seen lines = Inr (dest, k, seen', rest)"
  shows "length rest \<le> length lines"
proof (cases kind)
  case UpdateEntry
  with assms obtain dest' lines' hunks where
    "parse_move lines = Inr (dest', lines')" "parse_update_hunks lines' [] = Inr (hunks, rest)"
    by (auto split: option.split_asm if_split_asm)
  from parse_move_shrinks [OF this(1)] parse_update_hunks_shrinks [OF this(2)] show ?thesis by simp
next
  case AddEntry
  with assms show ?thesis by (auto dest: parse_add_lines_shrinks)
next
  case DeleteEntry
  with assms show ?thesis by (simp split: if_split_asm)
qed

function parse_files ::
  "string list \<Rightarrow> ModelPatchFile list \<Rightarrow> Component list list \<Rightarrow> (ModelPatch, ParseError) result" where
  "parse_files [] files seen = Inl MissingEnd"
| "parse_files (line # lines) files seen =
     (if is_end_marker line then finish_patch files lines
      else if is_blank line then parse_files lines files seen
      else if starts_with line ''*** Environment ID:'' then parse_files lines files seen
      else and_then (parse_entry line) (\<lambda>(kind, path).
        if lexical_path_identity path \<in> set seen \<and> replacement kind path files = None
        then Inl (DuplicateFile path)
        else and_then (parse_entry_body kind (List.insert (lexical_path_identity path) seen) lines)
          (\<lambda>(dest, file_kind, seen', rest).
            parse_files rest (record_file (replacement kind path files) path dest file_kind files) seen')))"
  by pat_completeness auto
termination
  by (relation "measure (length \<circ> fst)") (auto simp: less_Suc_eq_le intro: parse_entry_body_shrinks)

definition patch_lines :: "string \<Rightarrow> string list" where
  "patch_lines input =
     map (\<lambda>line. case strip_suffix [CHR 0x0D] line of None \<Rightarrow> line | Some l \<Rightarrow> l)
       (split_char newline input)"

abbreviation nonblank_span :: "string list \<Rightarrow> string list" where
  "nonblank_span lines \<equiv> rev (dropWhile is_blank (rev (dropWhile is_blank lines)))"

definition parse :: "string \<Rightarrow> (ModelPatch, ParseError) result" where
  "parse input =
     (case nonblank_span (patch_lines input) of
        [] \<Rightarrow> Inl MissingBegin
      | first # lines \<Rightarrow>
          if trim first = ''*** Begin Patch'' then parse_files lines [] [] else Inl MissingBegin)"

section \<open>Accepted patches\<close>

definition file_identities :: "ModelPatchFile \<Rightarrow> Component list list" where
  "file_identities f = lexical_path_identity (mpf_path f) #
     (case move_path f of None \<Rightarrow> [] | Some d \<Rightarrow> [lexical_path_identity d])"

definition wf_hunk :: "ModelPatchHunk \<Rightarrow> bool" where
  "wf_hunk h \<longleftrightarrow> list_all starts_hunk_line (hunk_lines h)"

definition wf_kind :: "ModelPatchFileKind \<Rightarrow> string option \<Rightarrow> bool" where
  "wf_kind kind dest =
     (case kind of Update hunks \<Rightarrow> hunks \<noteq> [] \<and> list_all wf_hunk hunks | _ \<Rightarrow> dest = None)"

definition parse_invariant :: "ModelPatchFile list \<Rightarrow> Component list list \<Rightarrow> bool" where
  "parse_invariant files seen \<longleftrightarrow>
     distinct (concat (map file_identities files)) \<and>
     set (concat (map file_identities files)) = set seen \<and>
     list_all (\<lambda>f. wf_kind (mpf_kind f) (move_path f)) files"

lemma hunk_body_wf:
  "hunk_body lines body nl = Inr (body', eof, nl', rest) \<Longrightarrow> list_all starts_hunk_line body \<Longrightarrow>
     list_all starts_hunk_line body'"
proof (induction lines body nl rule: hunk_body.induct)
  case (2 line lines body nl)
  have "starts_hunk_line '' ''" by (simp add: starts_hunk_line_def)
  with "2.prems" "2.IH" show ?case by (simp split: if_split_asm)
qed simp

lemma read_hunk_wf: "read_hunk header context lines = Inr (h, rest) \<Longrightarrow> wf_hunk h"
  by (elim read_hunk_body) (auto simp: wf_hunk_def dest: hunk_body_wf)

lemma parse_update_hunks_wf:
  "parse_update_hunks lines hunks = Inr (hunks', rest) \<Longrightarrow> list_all wf_hunk hunks \<Longrightarrow>
     hunks' \<noteq> [] \<and> list_all wf_hunk hunks'"
proof (induction lines hunks rule: parse_update_hunks.induct)
  case (2 line lines hunks)
  from "2.prems"(1) show ?case
  proof (cases rule: parse_update_hunks_ConsE)
    case blank
    with "2.IH"(1) "2.prems"(2) show ?thesis by simp
  next
    case stop
    with "2.prems"(2) show ?thesis by simp
  next
    case header
    from "2.IH"(2) [OF header(1-4) refl header(5)] read_hunk_wf [OF header(4)] "2.prems"(2)
    show ?thesis by simp
  next
    case bare
    from "2.IH"(3) [OF bare(1-5) refl bare(6)] read_hunk_wf [OF bare(5)] "2.prems"(2)
    show ?thesis by simp
  qed
qed (simp split: if_splits)

lemma parse_entry_body_invariant:
  assumes "parse_entry_body kind seen lines = Inr (dest, k, seen', rest)"
  shows "wf_kind k dest \<and> set seen' = set seen \<union> set_option (map_option lexical_path_identity dest) \<and>
    (\<forall>d. dest = Some d \<longrightarrow> lexical_path_identity d \<notin> set seen)"
proof (cases kind)
  case UpdateEntry
  with assms obtain lines' hunks where
    hunks: "parse_update_hunks lines' [] = Inr (hunks, rest)" and k: "k = Update hunks" and
    seen: "case dest of None \<Rightarrow> seen' = seen
      | Some d \<Rightarrow> lexical_path_identity d \<notin> set seen \<and> seen' = lexical_path_identity d # seen"
    by (auto split: option.split_asm if_split_asm)
  from parse_update_hunks_wf [OF hunks] have "wf_kind k dest" by (simp add: k wf_kind_def)
  with seen show ?thesis by (cases dest) auto
next
  case AddEntry
  with assms show ?thesis by (auto simp: wf_kind_def)
next
  case DeleteEntry
  with assms show ?thesis by (simp add: wf_kind_def split: if_split_asm)
qed

lemma deleted_position_Some:
  "deleted_position path files = Some i \<Longrightarrow>
     i < length files \<and> mpf_path (files ! i) = path \<and> mpf_kind (files ! i) = Delete"
  by (induction files arbitrary: i) (auto split: if_split_asm)

lemma replacement_keeps_identities:
  assumes "i < length files"
  shows "map file_identities (files[i := (files ! i)\<lparr>mpf_kind := k\<rparr>]) = map file_identities files"
  using assms by (simp add: map_update file_identities_def list_update_same_conv)

lemma record_file_invariant:
  assumes inv: "parse_invariant files seen"
    and fresh: "\<not> (lexical_path_identity path \<in> set seen \<and> replacement kind path files = None)"
    and body: "parse_entry_body kind (List.insert (lexical_path_identity path) seen) lines
      = Inr (dest, k, seen', rest)"
  shows "parse_invariant (record_file (replacement kind path files) path dest k files) seen'"
proof (cases "replacement kind path files")
  case None
  with fresh have "lexical_path_identity path \<notin> set seen" by simp
  with None inv parse_entry_body_invariant [OF body] show ?thesis
    by (cases dest) (auto simp: parse_invariant_def record_file_def file_identities_def)
next
  case (Some i)
  then have kind: "kind = AddEntry" and "deleted_position path files = Some i"
    by (auto simp: replacement_def split: if_split_asm)
  then have i: "i < length files" "mpf_path (files ! i) = path" "mpf_kind (files ! i) = Delete"
    using deleted_position_Some by blast+
  from i(1) have member: "files ! i \<in> set files" by simp
  with inv i have moves: "move_path (files ! i) = None"
    by (auto simp: parse_invariant_def list_all_iff wf_kind_def split: ModelPatchFileKind.splits)
  from member have "lexical_path_identity path \<in> set (concat (map file_identities files))"
    using i(2) by (force simp: file_identities_def)
  then have "set seen' = set seen" "wf_kind (as_replacement k) None"
    using body kind inv by (auto simp: parse_invariant_def wf_kind_def)
  then show ?thesis
    using Some inv moves i(1)
    by (auto simp: parse_invariant_def record_file_def replacement_keeps_identities list_all_iff
        dest!: set_update_subset_insert [THEN subsetD])
qed

lemma parse_files_invariant:
  "parse_files lines files seen = Inr patch \<Longrightarrow> parse_invariant files seen \<Longrightarrow>
     patch \<noteq> [] \<and> (\<exists>seen'. parse_invariant patch seen')"
proof (induction lines files seen rule: parse_files.induct)
  case (2 line lines files seen)
  consider (ended) "is_end_marker line" | (skip) "\<not> is_end_marker line" "is_blank line"
    | (environment) "\<not> is_end_marker line" "\<not> is_blank line" "starts_with line ''*** Environment ID:''"
    | (entry) "\<not> is_end_marker line" "\<not> is_blank line" "\<not> starts_with line ''*** Environment ID:''"
    by blast
  then show ?case
  proof cases
    case ended
    with "2.prems" show ?thesis by (auto simp: finish_patch_def split: if_split_asm)
  next
    case skip
    with "2.prems" "2.IH"(1) show ?thesis by simp
  next
    case environment
    with "2.prems" "2.IH"(2) show ?thesis by simp
  next
    case entry
    with "2.prems"(1) obtain kind path dest k seen' rest where
      head: "parse_entry line = Inr (kind, path)" and
      fresh: "\<not> (lexical_path_identity path \<in> set seen \<and> replacement kind path files = None)" and
      body: "parse_entry_body kind (List.insert (lexical_path_identity path) seen) lines
        = Inr (dest, k, seen', rest)" and
      more: "parse_files rest (record_file (replacement kind path files) path dest k files) seen' = Inr patch"
      by (auto split: if_split_asm)
    from "2.IH"(3) [OF entry head refl fresh body refl refl refl more]
      record_file_invariant [OF "2.prems"(2) fresh body] show ?thesis by simp
  qed
qed simp

text \<open>
  Property C30. An accepted patch names every file once: the lexical identities of all its paths
  and move destinations are pairwise distinct, even where the patch spells them differently. It
  has at least one entry, an update has at least one hunk and every line of a hunk is kept,
  added or removed, and only updates move a file.
\<close>

theorem parsed_patch_names_files_once:
  assumes "parse input = Inr patch"
  shows "patch \<noteq> [] \<and> distinct (concat (map file_identities patch)) \<and>
    list_all (\<lambda>f. wf_kind (mpf_kind f) (move_path f)) patch"
proof -
  from assms obtain lines where "parse_files lines [] [] = Inr patch"
    by (auto simp: parse_def split: list.split_asm if_split_asm)
  from parse_files_invariant [OF this] show ?thesis by (auto simp: parse_invariant_def)
qed

definition sample_patch :: string where
  "sample_patch = join [newline]
     [''*** Begin Patch'', ''*** Update File: f'', ''*** Move to: g'', ''@@'', ''-a'', ''+b'', '' c'',
      ''*** Delete File: h'', ''*** Add File: h'', ''+x'', ''*** End Patch'']"

lemma sample_patch_parses:
  "parse sample_patch = Inr [\<lparr>mpf_path = ''f'', move_path = Some ''g'', mpf_kind = Update [sample_hunk]\<rparr>,
     \<lparr>mpf_path = ''h'', move_path = None, mpf_kind = Replace [''x''] False\<rparr>]"
  by code_simp

theorem parsed_patch_names_files_once_witness:
  "\<exists>patch. parse sample_patch = Inr patch \<and> distinct (concat (map file_identities patch))"
  using sample_patch_parses parsed_patch_names_files_once [OF sample_patch_parses] by blast

end
