(* ===== verification/Shell_Words.thy ===== *)
theory Shell_Words
  imports Text
begin

text \<open>
  The argument analyses of the shell policy (\<^verbatim>\<open>golutra-agent-policy/src/lib.rs\<close>): what the
  command wrappers run, which arguments name sensitive paths, which removals hit the root, which
  characters a shell would interpret, and the allow-list of read-only commands. The index loops of
  the code recurse over the arguments that remain.
\<close>

section \<open>Words\<close>

abbreviation backslash :: char where
  "backslash \<equiv> CHR 0x5C"

text \<open>\<^verbatim>\<open>rsplit(['/', '\\']).next()\<close>, the last component of a program name.\<close>

definition base_name :: "string \<Rightarrow> string" where
  "base_name program = last (split_by (\<lambda>c. c = CHR ''/'' \<or> c = backslash) program)"

definition contains_any :: "char list \<Rightarrow> string \<Rightarrow> bool" where
  "contains_any cs s \<longleftrightarrow> list_ex (\<lambda>c. c \<in> set cs) s"

definition is_shell_program :: "string \<Rightarrow> bool" where
  "is_shell_program program \<longleftrightarrow> base_name program \<in> set [''bash'', ''sh'', ''zsh'']"

definition explicit_shell_script :: "string list \<Rightarrow> string option" where
  "explicit_shell_script parts =
     (case parts of
        [program, option, script] \<Rightarrow>
          if is_shell_program program \<and> (option = ''-c'' \<or> option = ''-lc'') then Some script else None
      | _ \<Rightarrow> None)"

definition is_shell_variable_assignment :: "string \<Rightarrow> bool" where
  "is_shell_variable_assignment value \<longleftrightarrow>
     (case split_once ''='' value of
        Some (c # cs, rest) \<Rightarrow>
          (c = CHR ''_'' \<or> is_ascii_alphabetic c) \<and>
          list_all (\<lambda>c. c = CHR ''_'' \<or> is_ascii_alphanumeric c) cs
      | _ \<Rightarrow> False)"

section \<open>Sensitive paths\<close>

abbreviation is_path_char :: "string \<Rightarrow> bool" where
  "is_path_char c \<equiv>
     (case c of [b] \<Rightarrow> is_ascii_alphanumeric b \<or> b \<in> set ''._-'' | _ \<Rightarrow> False)"

definition path_like_components :: "string \<Rightarrow> string list" where
  "path_like_components value =
     map concat (split_by (\<lambda>c. \<not> is_path_char c) (utf8_chars value))"

definition matches_sensitive_component :: "string \<Rightarrow> string \<Rightarrow> bool" where
  "matches_sensitive_component component fragment =
     (let c = to_ascii_lowercase component; f = to_ascii_lowercase fragment in
      c = f \<or> (case strip_prefix f c of
        Some (b # rest) \<Rightarrow> b \<in> set ''.-_'' | _ \<Rightarrow> False))"

abbreviation INTERNAL_COMPONENTS :: "string list" where
  "INTERNAL_COMPONENTS \<equiv> [''.git'', ''.golutra'', ''.golutra-agent'']"

definition references_sensitive_path :: "string list \<Rightarrow> string \<Rightarrow> bool" where
  "references_sensitive_path fragments value =
     list_ex (\<lambda>component. list_ex (matches_sensitive_component component) (INTERNAL_COMPONENTS @ fragments))
       (path_like_components value)"

text \<open>The first short option \<^verbatim>\<open>e\<close> or \<^verbatim>\<open>f\<close> that has its value attached.\<close>

fun attached_pattern :: "string \<Rightarrow> (char \<times> string) option" where
  "attached_pattern [] = None"
| "attached_pattern (c # cs) =
     (if (c = CHR ''e'' \<or> c = CHR ''f'') \<and> cs \<noteq> [] then Some (c, cs) else attached_pattern cs)"

definition grep_short_pattern_option :: "string \<Rightarrow> (char \<times> string) option" where
  "grep_short_pattern_option argument =
     (if \<not> starts_with argument ''-'' \<or> starts_with argument ''--'' then None
      else attached_pattern (drop 1 argument))"

text \<open>
  The scanners of \<^verbatim>\<open>grep\<close> and \<^verbatim>\<open>rg\<close> take the test for sensitive values, whether options are
  still read and whether a pattern has been given.
\<close>

abbreviation next_argument :: "(string \<Rightarrow> bool) \<Rightarrow> string list \<Rightarrow> bool" where
  "next_argument test rest \<equiv> (case rest of [] \<Rightarrow> False | value # _ \<Rightarrow> test value)"

definition is_option :: "string \<Rightarrow> bool" where
  "is_option argument \<longleftrightarrow> starts_with argument ''-'' \<and> argument \<noteq> ''-''"

datatype Scan = Reads | Skip nat bool | Operand

definition checked :: "bool \<Rightarrow> Scan \<Rightarrow> Scan" where
  "checked sensitive step = (if sensitive then Reads else step)"

text \<open>
  One option of \<^verbatim>\<open>grep\<close>: it reads a sensitive input, or it is skipped with the arguments it
  takes (and may supply the pattern), or it is an operand.
\<close>

definition grep_option :: "(string \<Rightarrow> bool) \<Rightarrow> string \<Rightarrow> string list \<Rightarrow> Scan" where
  "grep_option sensitive argument rest =
     (if argument = ''-e'' \<or> argument = ''--regexp'' then Skip 1 True
      else if starts_with argument ''--regexp='' then Skip 0 True
      else if argument = ''--exclude'' \<or> argument = ''--exclude-dir'' then Skip 1 False
      else if starts_with argument ''--exclude='' \<or> starts_with argument ''--exclude-dir=''
      then Skip 0 False
      else if argument \<in> set [''-f'', ''--file'', ''--exclude-from'']
      then checked (next_argument sensitive rest) (Skip 1 (argument \<noteq> ''--exclude-from''))
      else case strip_prefix ''--file='' argument of
        Some path \<Rightarrow> checked (sensitive path) (Skip 0 True)
      | None \<Rightarrow>
      (case strip_prefix ''--exclude-from='' argument of
        Some path \<Rightarrow> checked (sensitive path) (Skip 0 False)
      | None \<Rightarrow>
      (case grep_short_pattern_option argument of
        Some (option, value) \<Rightarrow> checked (option = CHR ''f'' \<and> sensitive value) (Skip 0 True)
      | None \<Rightarrow>
          if is_option argument then checked (sensitive argument) (Skip 0 False) else Operand)))"

definition rg_option :: "(string \<Rightarrow> bool) \<Rightarrow> string \<Rightarrow> string list \<Rightarrow> Scan" where
  "rg_option sensitive argument rest =
     (let reads_glob = (\<lambda>glob. \<not> starts_with glob ''!'' \<and> sensitive glob) in
      if argument = ''--pre'' \<or> starts_with argument ''--pre='' then Reads
      else if argument = ''-e'' \<or> argument = ''--regexp'' then Skip 1 True
      else if starts_with argument ''--regexp='' then Skip 0 True
      else if argument = ''--files'' then Skip 0 True
      else if argument = ''-f'' \<or> argument = ''--file''
      then checked (next_argument sensitive rest) (Skip 1 True)
      else case strip_prefix ''--file='' argument of
        Some path \<Rightarrow> checked (sensitive path) (Skip 0 True)
      | None \<Rightarrow>
      (case grep_short_pattern_option argument of
        Some (option, value) \<Rightarrow> checked (option = CHR ''f'' \<and> sensitive value) (Skip 0 True)
      | None \<Rightarrow>
          if argument = ''-g'' \<or> argument = ''--glob''
          then checked (next_argument reads_glob rest) (Skip 1 False)
          else case strip_prefix ''--glob='' argument of
            Some glob \<Rightarrow> checked (reads_glob glob) (Skip 0 False)
          | None \<Rightarrow>
              if starts_with argument ''-g'' \<and> drop 2 argument \<noteq> []
              then checked (reads_glob (drop 2 argument)) (Skip 0 False)
              else if argument = ''--ignore-file''
              then checked (next_argument sensitive rest) (Skip 1 False)
              else case strip_prefix ''--ignore-file='' argument of
                Some path \<Rightarrow> checked (sensitive path) (Skip 0 False)
              | None \<Rightarrow>
                  if is_option argument then checked (sensitive argument) (Skip 0 False)
                  else Operand))"

function scan_arguments ::
  "(string \<Rightarrow> string list \<Rightarrow> Scan) \<Rightarrow> (string \<Rightarrow> bool) \<Rightarrow> bool \<Rightarrow> bool \<Rightarrow> string list \<Rightarrow> bool" where
  "scan_arguments option sensitive options pattern [] = False"
| "scan_arguments option sensitive options pattern (argument # rest) =
     (if options \<and> argument = ''--'' then scan_arguments option sensitive False pattern rest
      else case (if options then option argument rest else Operand) of
        Reads \<Rightarrow> True
      | Skip n supplies \<Rightarrow>
          scan_arguments option sensitive options (pattern \<or> supplies) (drop n rest)
      | Operand \<Rightarrow>
          if pattern then sensitive argument \<or> scan_arguments option sensitive options True rest
          else scan_arguments option sensitive options True rest)"
  by pat_completeness auto
termination
  by (relation "measure (\<lambda>(option, sensitive, options, pattern, arguments). length arguments)") auto

definition grep_references_sensitive_input :: "(string \<Rightarrow> bool) \<Rightarrow> string list \<Rightarrow> bool" where
  "grep_references_sensitive_input sensitive =
     scan_arguments (grep_option sensitive) sensitive True False"

definition rg_references_sensitive_input :: "(string \<Rightarrow> bool) \<Rightarrow> string list \<Rightarrow> bool" where
  "rg_references_sensitive_input sensitive =
     scan_arguments (rg_option sensitive) sensitive True False"

section \<open>Removing the root\<close>

fun root_depth :: "nat \<Rightarrow> string list \<Rightarrow> nat" where
  "root_depth depth [] = depth"
| "root_depth depth (component # rest) =
     (if component = [] \<or> component = ''.'' then root_depth depth rest
      else if component = ''..'' then root_depth (depth - 1) rest
      else root_depth (depth + 1) rest)"

definition shell_path_resolves_to_root :: "string \<Rightarrow> bool" where
  "shell_path_resolves_to_root value \<longleftrightarrow>
     starts_with value ''/'' \<and> root_depth 0 (split_char CHR ''/'' value) = 0"

definition shell_path_is_dynamic :: "string \<Rightarrow> bool" where
  "shell_path_is_dynamic value = contains_any ''$`*?[]'' value"

record RmScan =
  rm_recursive :: bool
  rm_force :: bool
  rm_options :: bool
  rm_targets_root :: bool

definition rm_argument :: "string \<Rightarrow> RmScan \<Rightarrow> RmScan" where
  "rm_argument argument s =
     (if rm_options s \<and> argument = ''--'' then s\<lparr>rm_options := False\<rparr>
      else if rm_options s \<and> starts_with argument ''--''
      then s\<lparr>rm_recursive := rm_recursive s \<or> argument = ''--recursive'',
             rm_force := rm_force s \<or> argument = ''--force''\<rparr>
      else if rm_options s \<and> starts_with argument ''-'' \<and> length argument > 1
      then s\<lparr>rm_recursive := rm_recursive s \<or> contains_any ''rR'' (drop 1 argument),
             rm_force := rm_force s \<or> contains_any ''f'' (drop 1 argument)\<rparr>
      else s\<lparr>rm_targets_root := rm_targets_root s \<or>
               shell_path_resolves_to_root argument \<or> shell_path_is_dynamic argument\<rparr>)"

definition recursive_force_rm_targets_root :: "string list \<Rightarrow> bool" where
  "recursive_force_rm_targets_root arguments =
     (let s = fold rm_argument arguments
                \<lparr>rm_recursive = False, rm_force = False, rm_options = True, rm_targets_root = False\<rparr>
      in rm_recursive s \<and> rm_force s \<and> rm_targets_root s)"

section \<open>What a wrapper runs\<close>

definition nonempty :: "string list \<Rightarrow> string list option" where
  "nonempty parts = (if parts = [] then None else Some parts)"

fun command_builtin_target :: "string list \<Rightarrow> string list option" where
  "command_builtin_target [] = None"
| "command_builtin_target (argument # rest) =
     (if argument = ''--'' then nonempty rest
      else if \<not> is_option argument then Some (argument # rest)
      else if contains_any ''vV'' (drop 1 argument) then None
      else if \<not> list_all (\<lambda>c. c = CHR ''p'') (drop 1 argument) then None
      else command_builtin_target rest)"

definition ENV_VALUE_OPTIONS :: "string list" where
  "ENV_VALUE_OPTIONS = [''-u'', ''--unset'', ''-C'', ''--chdir'', ''-P'', ''-a'', ''--argv0'']"

definition ENV_FLAGS :: "string list" where
  "ENV_FLAGS = [''-i'', ''--ignore-environment'', ''-0'', ''--null'', ''--debug'', ''-v'']"

text \<open>The error of the option parsers is \<^verbatim>\<open>Err(())\<close>.\<close>

fun env_target :: "bool \<Rightarrow> string list \<Rightarrow> (string list option, unit) result" where
  "env_target options [] = Inr None"
| "env_target options (argument # rest) =
     (if options \<and> argument = ''--'' then env_target False rest
      else if options \<and> argument \<in> set ENV_VALUE_OPTIONS
      then (case rest of [] \<Rightarrow> Inl () | value # rest' \<Rightarrow> env_target options rest')
      else if options \<and> (starts_with argument ''--unset='' \<or> starts_with argument ''--chdir='' \<or>
                         starts_with argument ''--argv0='')
      then env_target options rest
      else if options \<and> is_option argument
      then (if argument \<in> set ENV_FLAGS then env_target options rest else Inl ())
      else if is_shell_variable_assignment argument then env_target options rest
      else Inr (Some (argument # rest)))"

definition env_command_target :: "string list \<Rightarrow> (string list option, unit) result" where
  "env_command_target arguments = env_target True arguments"

definition busybox_command_target :: "string list \<Rightarrow> string list option" where
  "busybox_command_target arguments =
     (case arguments of
        [] \<Rightarrow> None
      | target # rest \<Rightarrow>
          if \<not> starts_with target ''-'' \<and> target \<noteq> ''busybox'' then Some arguments else None)"

definition SUDO_FLAGS :: "string list" where
  "SUDO_FLAGS =
     [''--askpass'', ''--background'', ''--bell'', ''--edit'', ''--help'', ''--login'',
      ''--non-interactive'', ''--preserve-env'', ''--remove-timestamp'', ''--reset-timestamp'',
      ''--set-home'', ''--stdin'', ''--validate'', ''--version'']"

definition SUDO_VALUE_OPTIONS :: "string list" where
  "SUDO_VALUE_OPTIONS =
     [''--chdir'', ''--chroot'', ''--close-from'', ''--command-timeout'', ''--group'', ''--host'',
      ''--other-user'', ''--prompt'', ''--role'', ''--type'', ''--user'']"

definition SUDO_SHORT_VALUE_OPTIONS :: "char list" where
  "SUDO_SHORT_VALUE_OPTIONS = ''CDghpRrTtUu''"

definition SUDO_SHORT_FLAGS :: "char list" where
  "SUDO_SHORT_FLAGS = ''AbEeHKklnSsVv''"

text \<open>
  One option of \<^verbatim>\<open>sudo\<close>: the number of arguments it takes beside itself, or the error.
\<close>

definition sudo_option :: "string \<Rightarrow> (nat, unit) result" where
  "sudo_option argument =
     (case split_once ''='' argument of
        Some (option, value) \<Rightarrow>
          if option \<in> set SUDO_VALUE_OPTIONS \<or> option = ''--preserve-env'' then Inr 0 else Inl ()
      | None \<Rightarrow>
          if argument \<in> set SUDO_VALUE_OPTIONS then Inr 1
          else if argument \<in> set SUDO_FLAGS then Inr 0
          else case drop 1 argument of
            [] \<Rightarrow> Inl ()
          | first # others \<Rightarrow>
              if first \<in> set SUDO_SHORT_VALUE_OPTIONS then Inr (if others = [] then 1 else 0)
              else if list_all (\<lambda>c. c \<in> set SUDO_SHORT_FLAGS) (first # others) then Inr 0
              else Inl ())"

definition sudo_rest :: "string list \<Rightarrow> string list option" where
  "sudo_rest rest = nonempty (dropWhile is_shell_variable_assignment rest)"

function sudo_command_target :: "string list \<Rightarrow> (string list option, unit) result" where
  "sudo_command_target [] = Inr None"
| "sudo_command_target (argument # rest) =
     (if argument = ''--'' then Inr (sudo_rest rest)
      else if \<not> is_option argument then Inr (sudo_rest (argument # rest))
      else and_then (sudo_option argument) (\<lambda>n.
        if length rest < n then Inl () else sudo_command_target (drop n rest)))"
  by pat_completeness auto
termination
  by (relation "measure length") auto

definition shell_uses_unparsed_inline_script :: "string list \<Rightarrow> bool" where
  "shell_uses_unparsed_inline_script arguments =
     list_ex (\<lambda>argument. starts_with argument ''-'' \<and> \<not> starts_with argument ''--'' \<and>
       contains_any ''c'' (drop 1 argument)) arguments"

section \<open>Characters a shell interprets\<close>

datatype Quote = SingleQuote | DoubleQuote

text \<open>
  The scan over the characters of a command, with the open quote and whether the previous
  character escapes the next.
\<close>

fun metacharacter_from :: "Quote option \<Rightarrow> bool \<Rightarrow> string \<Rightarrow> bool" where
  "metacharacter_from quote escaped [] = False"
| "metacharacter_from quote escaped (c # cs) =
     (if c = CHR 0x0A \<and> quote = None then True
      else if escaped then metacharacter_from quote False cs
      else case quote of
        Some SingleQuote \<Rightarrow>
          metacharacter_from (if c = CHR 0x27 then None else quote) False cs
      | Some DoubleQuote \<Rightarrow>
          if c = CHR 0x22 then metacharacter_from None False cs
          else if c = backslash then metacharacter_from quote True cs
          else c \<in> set ''$`'' \<or> metacharacter_from quote False cs
      | None \<Rightarrow>
          if c = CHR 0x27 then metacharacter_from (Some SingleQuote) False cs
          else if c = CHR 0x22 then metacharacter_from (Some DoubleQuote) False cs
          else if c = backslash then metacharacter_from quote True cs
          else c \<in> set '';|&><$`'' \<or> metacharacter_from quote False cs)"

definition contains_shell_metacharacter :: "string \<Rightarrow> bool" where
  "contains_shell_metacharacter command = metacharacter_from None False command"

section \<open>Read-only commands\<close>

definition bare_program_name_is_safe :: "string \<Rightarrow> bool" where
  "bare_program_name_is_safe program \<longleftrightarrow>
     program \<noteq> [] \<and> CHR ''/'' \<notin> set program \<and> backslash \<notin> set program \<and>
     \<not> is_shell_variable_assignment program \<and>
     program \<notin> set [''bash'', ''sh'', ''zsh'', ''env'', ''command'', ''sudo'']"

definition sort_argument_writes :: "string \<Rightarrow> bool" where
  "sort_argument_writes argument \<longleftrightarrow>
     starts_with argument ''-o'' \<or>
     argument = ''--output'' \<or> starts_with argument ''--output='' \<or>
     argument = ''--compress-program'' \<or> starts_with argument ''--compress-program='' \<or>
     argument = ''--temporary-directory'' \<or> starts_with argument ''--temporary-directory=''"

definition simple_read_command_is_safe :: "string \<Rightarrow> string list \<Rightarrow> bool" where
  "simple_read_command_is_safe program arguments =
     (if program = ''sort'' then \<not> list_ex sort_argument_writes arguments else True)"

definition ripgrep_read_command_is_safe :: "string list \<Rightarrow> bool" where
  "ripgrep_read_command_is_safe arguments =
     (\<not> list_ex (\<lambda>argument. argument = ''--pre'' \<or> starts_with argument ''--pre='' \<or>
        argument = ''--pre-glob'' \<or> starts_with argument ''--pre-glob='') arguments)"

abbreviation FIND_ACTIONS :: "string list" where
  "FIND_ACTIONS \<equiv>
     [''-delete'', ''-exec'', ''-execdir'', ''-ok'', ''-okdir'', ''-fls'', ''-fprint'', ''-fprint0'',
      ''-fprintf'', ''-H'', ''-L'', ''-follow'']"

definition find_argument_can_write_or_follow_links :: "string \<Rightarrow> bool" where
  "find_argument_can_write_or_follow_links argument \<longleftrightarrow>
     argument \<in> set FIND_ACTIONS \<or> starts_with argument ''-exec'' \<or> starts_with argument ''-ok'' \<or>
     starts_with argument ''-fprint'' \<or> starts_with argument ''-fls''"

definition argument_contains_workspace_escape_hint :: "string \<Rightarrow> bool" where
  "argument_contains_workspace_escape_hint argument \<longleftrightarrow>
     starts_with argument ''/'' \<or> argument = ''~'' \<or> starts_with argument ''~/'' \<or>
     ''..'' \<in> set (split_char CHR ''/'' argument) \<or> contains_any ''$`'' argument"

definition find_read_command_is_safe :: "string list \<Rightarrow> bool" where
  "find_read_command_is_safe arguments =
     list_all (\<lambda>argument. \<not> find_argument_can_write_or_follow_links argument \<and>
       \<not> argument_contains_workspace_escape_hint argument) arguments"

abbreviation GIT_UNSAFE_OPTIONS :: "string list" where
  "GIT_UNSAFE_OPTIONS \<equiv>
     [''--ext-diff'', ''--textconv'', ''--no-index'', ''--paginate'', ''--pager'', ''--upload-pack'',
      ''--receive-pack'', ''--exec-path'', ''-c'', ''--config'', ''--config-env'']"

definition git_argument_can_execute_or_write :: "string \<Rightarrow> bool" where
  "git_argument_can_execute_or_write argument \<longleftrightarrow>
     argument \<in> set GIT_UNSAFE_OPTIONS \<or> starts_with argument ''--output='' \<or>
     starts_with argument ''--upload-pack='' \<or> starts_with argument ''--receive-pack='' \<or>
     starts_with argument ''--pager=''"

abbreviation GIT_READ_SUBCOMMANDS :: "string list" where
  "GIT_READ_SUBCOMMANDS \<equiv> [''branch'', ''diff'', ''log'', ''merge-base'', ''rev-parse'', ''show'']"

definition git_read_command_is_safe :: "string list \<Rightarrow> bool" where
  "git_read_command_is_safe arguments =
     (case arguments of
        [] \<Rightarrow> False
      | subcommand # rest \<Rightarrow>
          if subcommand \<notin> set GIT_READ_SUBCOMMANDS then False
          else if subcommand = ''branch'' then rest = [''--show-current'']
          else list_all (\<lambda>argument. \<not> git_argument_can_execute_or_write argument \<and>
                 \<not> starts_with argument ''-o'' \<and> argument \<noteq> ''--output'') rest)"

abbreviation SIMPLE_READ_COMMANDS :: "string list" where
  "SIMPLE_READ_COMMANDS \<equiv>
     [''cat'', ''cut'', ''du'', ''file'', ''grep'', ''head'', ''ls'', ''printf'', ''pwd'', ''readlink'',
      ''sort'', ''strings'', ''tail'', ''tr'', ''uniq'', ''wc'']"

definition read_only_program :: "string \<Rightarrow> string list \<Rightarrow> bool" where
  "read_only_program program arguments =
     (if program = ''date''
      then arguments = [] \<or> (length arguments = 1 \<and> starts_with (hd arguments) ''+'')
      else if program \<in> set SIMPLE_READ_COMMANDS then simple_read_command_is_safe program arguments
      else if program = ''rg'' then ripgrep_read_command_is_safe arguments
      else if program = ''find'' then find_read_command_is_safe arguments
      else if program = ''git'' then git_read_command_is_safe arguments
      else False)"

definition shell_command_is_strictly_read_only :: "string list \<Rightarrow> bool" where
  "shell_command_is_strictly_read_only parts =
     (case parts of
        [] \<Rightarrow> False
      | program # arguments \<Rightarrow>
          bare_program_name_is_safe program \<and> CHR 0x00 \<notin> set program \<and>
          list_all (\<lambda>argument. CHR 0x00 \<notin> set argument) arguments \<and>
          read_only_program program arguments)"

end
