(* ===== verification/Shell_Policy.thy ===== *)
theory Shell_Policy
  imports Shell_Words Core_Types
begin

text \<open>
  The verdict of the workspace policy on shell commands (\<^verbatim>\<open>golutra-agent-policy/src/lib.rs\<close>):
  parsing of the command field, the guard over nested scripts, the decision and the match of scoped
  approvals. The bash grammar (\<^verbatim>\<open>tree_sitter_bash\<close>) and the word splitter (\<^verbatim>\<open>shlex\<close>) are
  parameters. Nested scripts are checked with fuel; a slice out of range is \<open>Panics\<close>.
\<close>

section \<open>Syntax trees and words\<close>

text \<open>
  A node of the syntax tree as the code reads it: its kind, whether it is named and contains an
  error, its field in the parent, its byte range (inside the source) and its children.
\<close>

datatype SyntaxNode = SyntaxNode
  (node_kind: string) (node_named: bool) (node_error: bool) (node_field: "string option")
  (start_byte: nat) (end_byte: nat) (node_children: "SyntaxNode list")

record Shell_Env =
  bash_parse :: "string \<Rightarrow> SyntaxNode option"
  shlex :: "string \<Rightarrow> string list option"

definition node_text :: "string \<Rightarrow> SyntaxNode \<Rightarrow> string option" where
  "node_text source node =
     Option.bind (slice source (start_byte node) (end_byte node))
       (\<lambda>t. if valid_utf8 t then Some t else None)"

definition named_children :: "SyntaxNode \<Rightarrow> SyntaxNode list" where
  "named_children node = filter node_named (node_children node)"

definition child_by_field_name :: "SyntaxNode \<Rightarrow> string \<Rightarrow> SyntaxNode option" where
  "child_by_field_name node field = find (\<lambda>child. node_field child = Some field) (node_children node)"

section \<open>The guard\<close>

abbreviation env_splits_string :: "string \<Rightarrow> bool" where
  "env_splits_string argument \<equiv> starts_with argument ''-S'' \<or> argument = ''--split-string'' \<or>
     starts_with argument ''--split-string=''"

datatype Unwrapped = Runs "string list" | Verdict "bool option"

definition of_target :: "bool \<Rightarrow> string list option \<Rightarrow> Unwrapped" where
  "of_target otherwise target =
     (case target of None \<Rightarrow> Verdict (Some otherwise) | Some command \<Rightarrow> Runs command)"

definition of_parsed_target :: "(string list option, unit) result \<Rightarrow> Unwrapped" where
  "of_parsed_target parsed =
     (case parsed of Inl _ \<Rightarrow> Verdict (Some True) | Inr target \<Rightarrow> of_target False target)"

definition plain_verdict :: "(string \<Rightarrow> bool) \<Rightarrow> string \<Rightarrow> string list \<Rightarrow> bool" where
  "plain_verdict sensitive program arguments =
     (let sensitive_argument = list_ex sensitive arguments in
      if program = ''find''
      then sensitive_argument \<or>
           list_ex (\<lambda>a. a \<in> set [''-delete'', ''-exec'', ''-execdir'', ''-ok'', ''-okdir'']) arguments
      else if program = ''rg'' then rg_references_sensitive_input sensitive arguments
      else if program = ''grep'' then grep_references_sensitive_input sensitive arguments
      else if program = ''rm'' then sensitive_argument \<or> recursive_force_rm_targets_root arguments
      else if program \<in> set [''doas'', ''pkexec'', ''shutdown'', ''reboot''] then True
      else if program = ''mkfs'' \<or> starts_with program ''mkfs.'' then True
      else sensitive_argument)"

text \<open>
  One round of the loop: a wrapper names the command it runs, every other program has its
  verdict. \<open>script_blocked\<close> is the check of a nested script.
\<close>

definition unwrap ::
  "(string \<Rightarrow> bool option) \<Rightarrow> (string \<Rightarrow> bool) \<Rightarrow> string \<Rightarrow> string list \<Rightarrow> Unwrapped" where
  "unwrap script_blocked sensitive program arguments =
     (let name = base_name program; sensitive_argument = list_ex sensitive arguments in
      if name = ''command'' then of_target sensitive_argument (command_builtin_target arguments)
      else if name = ''env''
      then (if sensitive_argument then Verdict (Some True)
            else if list_ex env_splits_string arguments then Verdict (Some True)
            else of_parsed_target (env_command_target arguments))
      else if name = ''busybox'' then of_target sensitive_argument (busybox_command_target arguments)
      else if name = ''sudo''
      then (if sensitive_argument then Verdict (Some True)
            else of_parsed_target (sudo_command_target arguments))
      else if name \<in> set [''bash'', ''sh'', ''zsh'']
      then Verdict (case explicit_shell_script (program # arguments) of
             None \<Rightarrow> Some (sensitive_argument \<or> shell_uses_unparsed_inline_script arguments)
           | Some script \<Rightarrow> script_blocked script)
      else Verdict (Some (plain_verdict sensitive name arguments)))"

fun parts_blocked ::
  "nat \<Rightarrow> (string \<Rightarrow> bool option) \<Rightarrow> (string \<Rightarrow> bool) \<Rightarrow> string list \<Rightarrow> bool option" where
  "parts_blocked 0 script_blocked sensitive command = Some True"
| "parts_blocked (Suc n) script_blocked sensitive [] = Some True"
| "parts_blocked (Suc n) script_blocked sensitive (program # arguments) =
     (case unwrap script_blocked sensitive program arguments of
        Verdict v \<Rightarrow> v
      | Runs command \<Rightarrow> parts_blocked n script_blocked sensitive command)"

definition shell_command_parts_are_blocked ::
  "(string \<Rightarrow> bool option) \<Rightarrow> (string \<Rightarrow> bool) \<Rightarrow> string list \<Rightarrow> bool option" where
  "shell_command_parts_are_blocked = parts_blocked 8"

definition shell_script_command_parts_are_blocked ::
  "(string \<Rightarrow> bool option) \<Rightarrow> (string \<Rightarrow> bool) \<Rightarrow> string list \<Rightarrow> bool option" where
  "shell_script_command_parts_are_blocked script_blocked sensitive parts =
     shell_command_parts_are_blocked script_blocked sensitive
       (dropWhile is_shell_variable_assignment parts)"

definition or_else :: "bool option \<Rightarrow> bool option \<Rightarrow> bool option" where
  "or_else a b = (case a of None \<Rightarrow> None | Some True \<Rightarrow> Some True | Some False \<Rightarrow> b)"

text \<open>The verdict of one node without its children.\<close>

definition node_blocked ::
  "Shell_Env \<Rightarrow> (string \<Rightarrow> bool option) \<Rightarrow> (string \<Rightarrow> bool) \<Rightarrow> string \<Rightarrow> SyntaxNode \<Rightarrow> bool option" where
  "node_blocked env script_blocked sensitive source node =
     (if node_kind node = ''variable_assignment''
      then Some (case node_text source node of None \<Rightarrow> False | Some t \<Rightarrow> sensitive t)
      else if node_kind node = ''command''
      then (case Option.bind (node_text source node) (shlex env) of
              None \<Rightarrow> Some True
            | Some parts \<Rightarrow> shell_script_command_parts_are_blocked script_blocked sensitive parts)
      else Some False)"

fun shell_ast_is_blocked ::
    "Shell_Env \<Rightarrow> (string \<Rightarrow> bool option) \<Rightarrow> (string \<Rightarrow> bool) \<Rightarrow> string \<Rightarrow> SyntaxNode \<Rightarrow> bool option"
  and any_ast_blocked ::
    "Shell_Env \<Rightarrow> (string \<Rightarrow> bool option) \<Rightarrow> (string \<Rightarrow> bool) \<Rightarrow> string \<Rightarrow> SyntaxNode list \<Rightarrow> bool option" where
  "shell_ast_is_blocked env script_blocked sensitive source (SyntaxNode kind named err field start stop children) =
     or_else
       (node_blocked env script_blocked sensitive source (SyntaxNode kind named err field start stop children))
       (any_ast_blocked env script_blocked sensitive source children)"
| "any_ast_blocked env script_blocked sensitive source [] = Some False"
| "any_ast_blocked env script_blocked sensitive source (node # nodes) =
     (if node_named node
      then or_else (shell_ast_is_blocked env script_blocked sensitive source node)
             (any_ast_blocked env script_blocked sensitive source nodes)
      else any_ast_blocked env script_blocked sensitive source nodes)"

text \<open>Nested scripts are checked to a given depth; without fuel there is no verdict.\<close>

fun shell_script_is_blocked :: "Shell_Env \<Rightarrow> (string \<Rightarrow> bool) \<Rightarrow> nat \<Rightarrow> string \<Rightarrow> bool option" where
  "shell_script_is_blocked env sensitive 0 script = None"
| "shell_script_is_blocked env sensitive (Suc fuel) script =
     (case bash_parse env script of
        None \<Rightarrow> Some True
      | Some root \<Rightarrow>
          if node_error root then Some True
          else shell_ast_is_blocked env (shell_script_is_blocked env sensitive fuel) sensitive script root)"

definition shell_command_is_blocked ::
  "Shell_Env \<Rightarrow> (string \<Rightarrow> bool) \<Rightarrow> nat \<Rightarrow> string list \<Rightarrow> bool option" where
  "shell_command_is_blocked env sensitive fuel parts =
     (case explicit_shell_script parts of
        Some script \<Rightarrow> shell_script_is_blocked env sensitive fuel script
      | None \<Rightarrow> shell_command_parts_are_blocked (shell_script_is_blocked env sensitive fuel) sensitive parts)"

section \<open>Parsing the command field\<close>

record ParsedShellCommand =
  psc_parts :: "string list"
  psc_stdin :: "string option"

definition explicit_script_is_complete :: "Shell_Env \<Rightarrow> string \<Rightarrow> bool" where
  "explicit_script_is_complete env script \<longleftrightarrow>
     \<not> is_blank script \<and>
     (case bash_parse env script of None \<Rightarrow> False | Some root \<Rightarrow> \<not> node_error root)"

text \<open>
  \<^verbatim>\<open>find(char::is_whitespace)\<close> and the two slices around the place found.
\<close>

definition split_at_whitespace :: "string \<Rightarrow> (string \<times> string) option" where
  "split_at_whitespace s =
     (let cs = utf8_chars s;
          word = takeWhile (\<lambda>c. \<not> is_whitespace c) cs;
          rest = dropWhile (\<lambda>c. \<not> is_whitespace c) cs
      in if rest = [] then None else Some (concat word, concat rest))"

datatype Panic = SliceOutOfRange

text \<open>The quoted script: \<^verbatim>\<open>&script[1..len - 1]\<close>.\<close>

definition unquote_script :: "string \<Rightarrow> ((string \<times> char) option, Panic) result" where
  "unquote_script script =
     (case script of
        [] \<Rightarrow> Inr None
      | quote # rest \<Rightarrow>
          if (quote \<noteq> CHR 0x27 \<and> quote \<noteq> CHR 0x22) \<or> last script \<noteq> quote then Inr None
          else case slice script 1 (length script - 1) of
            None \<Rightarrow> Inl SliceOutOfRange
          | Some body \<Rightarrow> Inr (Some (body, quote)))"

text \<open>The program, option and remaining text of \<^verbatim>\<open>bash|sh|zsh -c|-lc <text>\<close>.\<close>

definition wrapper_words :: "string \<Rightarrow> (string \<times> string \<times> string) option" where
  "wrapper_words command =
     Option.bind (split_at_whitespace (trim command)) (\<lambda>(program, after_program).
       if \<not> is_shell_program program then None
       else Option.bind (split_at_whitespace (trim_start after_program)) (\<lambda>(option, after_option).
         if option \<noteq> ''-c'' \<and> option \<noteq> ''-lc'' then None
         else Some (program, option, trim_start after_option)))"

definition parse_explicit_wrapper_raw ::
  "string \<Rightarrow> ((string list \<times> char) option, Panic) result" where
  "parse_explicit_wrapper_raw command =
     (case wrapper_words command of
        None \<Rightarrow> Inr None
      | Some (program, option, script) \<Rightarrow>
          and_then (unquote_script script) (\<lambda>unquoted.
            Inr (map_option (\<lambda>(body, quote). ([program, option, body], quote)) unquoted)))"

section \<open>Python heredocs\<close>

fun contains_expansion :: "SyntaxNode \<Rightarrow> bool" and any_contains_expansion :: "SyntaxNode list \<Rightarrow> bool" where
  "contains_expansion (SyntaxNode kind named err field start stop children) \<longleftrightarrow>
     kind \<in> set [''command_substitution'', ''expansion'', ''simple_expansion''] \<or>
     any_contains_expansion children"
| "any_contains_expansion [] = False"
| "any_contains_expansion (node # nodes) \<longleftrightarrow>
     (node_named node \<and> contains_expansion node) \<or> any_contains_expansion nodes"

definition heredoc_delimiter :: "string \<Rightarrow> string option" where
  "heredoc_delimiter start_text =
     (case Option.bind (strip_prefix [CHR 0x27] start_text) (strip_suffix [CHR 0x27]) of
        Some delimiter \<Rightarrow> Some delimiter
      | None \<Rightarrow> Option.bind (strip_prefix [CHR 0x22] start_text) (strip_suffix [CHR 0x22]))"

definition valid_delimiter :: "string \<Rightarrow> bool" where
  "valid_delimiter delimiter \<longleftrightarrow>
     delimiter \<noteq> [] \<and> length delimiter \<le> 64 \<and>
     list_all (\<lambda>c. is_ascii_alphanumeric c \<or> c = CHR ''_'') delimiter"

text \<open>The redirected command and its only heredoc.\<close>

definition heredoc_statement :: "SyntaxNode \<Rightarrow> (SyntaxNode \<times> SyntaxNode) option" where
  "heredoc_statement root =
     (if node_error root then None
      else case named_children root of
        [statement] \<Rightarrow>
          if node_kind statement \<noteq> ''redirected_statement'' then None
          else Option.bind (child_by_field_name statement ''body'') (\<lambda>body.
            if node_kind body \<noteq> ''command'' then None
            else case filter (\<lambda>child. node_kind child = ''heredoc_redirect'') (named_children statement) of
              [redirect] \<Rightarrow>
                if list_ex (\<lambda>field. child_by_field_name redirect field \<noteq> None)
                     [''descriptor'', ''operator'', ''redirect'', ''right'']
                then None else Some (body, redirect)
            | _ \<Rightarrow> None)
      | _ \<Rightarrow> None)"

definition heredoc_parts :: "Shell_Env \<Rightarrow> string \<Rightarrow> SyntaxNode \<Rightarrow> SyntaxNode \<Rightarrow> string list option" where
  "heredoc_parts env source body redirect =
     Option.bind (node_text source body) (\<lambda>text.
     Option.bind (shlex env (trim text)) (\<lambda>parts.
     Option.bind (slice source (end_byte body) (start_byte redirect)) (\<lambda>gap.
     Option.bind (if valid_utf8 gap then shlex env (trim gap) else None) (\<lambda>more.
       case parts @ more of
         [program, dash] \<Rightarrow>
           if base_name program \<in> set [''python'', ''python3''] \<and> dash = ''-''
           then Some [program, dash] else None
       | _ \<Rightarrow> None))))"

definition heredoc_input :: "string \<Rightarrow> SyntaxNode \<Rightarrow> string option" where
  "heredoc_input source redirect =
     (let children = named_children redirect;
          child = (\<lambda>kind. find (\<lambda>c. node_kind c = kind) children) in
      Option.bind (child ''heredoc_start'') (\<lambda>start.
      Option.bind (child ''heredoc_body'') (\<lambda>body.
      Option.bind (child ''heredoc_end'') (\<lambda>end_node.
        if \<not> ends_with (take (start_byte start) source) ''<<'' then None
        else
      Option.bind (node_text source start) (\<lambda>start_text.
      Option.bind (heredoc_delimiter start_text) (\<lambda>delimiter.
        if valid_delimiter delimiter \<and> map_option trim (node_text source end_node) = Some delimiter \<and>
           \<not> contains_expansion body
        then node_text source body else None))))))"

definition parse_direct_quoted_python_heredoc :: "Shell_Env \<Rightarrow> string \<Rightarrow> ParsedShellCommand option" where
  "parse_direct_quoted_python_heredoc env command =
     (let source = trim command in
      Option.bind (bash_parse env source) (\<lambda>root.
      Option.bind (heredoc_statement root) (\<lambda>(body, redirect).
      Option.bind (heredoc_parts env source body redirect) (\<lambda>parts.
      Option.bind (heredoc_input source redirect) (\<lambda>input.
        Some \<lparr>psc_parts = parts, psc_stdin = Some input\<rparr>)))))"

section \<open>The parsed command\<close>

definition plain_command :: "string list \<Rightarrow> ParsedShellCommand" where
  "plain_command parts = \<lparr>psc_parts = parts, psc_stdin = None\<rparr>"

definition complete_script :: "Shell_Env \<Rightarrow> string list \<Rightarrow> bool" where
  "complete_script env parts =
     (case explicit_shell_script parts of
        None \<Rightarrow> False | Some script \<Rightarrow> explicit_script_is_complete env script)"

abbreviation QUOTE_DANCE :: string where
  "QUOTE_DANCE \<equiv> [CHR 0x27, CHR 0x22, CHR 0x27, CHR 0x22, CHR 0x27]"

definition decoded_command :: "Shell_Env \<Rightarrow> string list option \<Rightarrow> ParsedShellCommand option" where
  "decoded_command env decoded =
     (case decoded of
        None \<Rightarrow> None
      | Some parts \<Rightarrow> if complete_script env parts then Some (plain_command parts) else None)"

definition raw_command :: "Shell_Env \<Rightarrow> string list \<Rightarrow> string \<Rightarrow> ParsedShellCommand option" where
  "raw_command env raw_parts raw_script =
     (if explicit_script_is_complete env raw_script then Some (plain_command raw_parts) else None)"

definition parse_wrapper ::
  "Shell_Env \<Rightarrow> string list option \<Rightarrow> string list \<Rightarrow> char \<Rightarrow> ParsedShellCommand option" where
  "parse_wrapper env decoded raw_parts quote =
     (case explicit_shell_script raw_parts of
        None \<Rightarrow> None
      | Some raw_script \<Rightarrow>
          if quote = CHR 0x27
          then (if contains raw_script QUOTE_DANCE then decoded_command env decoded
                else raw_command env raw_parts raw_script)
          else (case decoded_command env decoded of
                  Some parsed \<Rightarrow> Some parsed
                | None \<Rightarrow> raw_command env raw_parts raw_script))"

definition parse_shell_command_with_input ::
  "Shell_Env \<Rightarrow> string \<Rightarrow> (ParsedShellCommand option, Panic) result" where
  "parse_shell_command_with_input env command =
     (case parse_direct_quoted_python_heredoc env command of
        Some parsed \<Rightarrow> Inr (Some parsed)
      | None \<Rightarrow>
          and_then (parse_explicit_wrapper_raw command) (\<lambda>wrapper.
            case wrapper of
              Some (raw_parts, quote) \<Rightarrow> Inr (parse_wrapper env (shlex env command) raw_parts quote)
            | None \<Rightarrow> Inr (map_option plain_command (shlex env command))))"

definition parse_shell_command :: "Shell_Env \<Rightarrow> string \<Rightarrow> (string list option, Panic) result" where
  "parse_shell_command env command =
     and_then (parse_shell_command_with_input env command) (\<lambda>parsed. Inr (map_option psc_parts parsed))"

section \<open>The decision\<close>

datatype WorkspacePolicyMode = Guarded | Unrestricted

datatype 'a Run = Returns 'a | Panics | Exhausted

definition shell_command_is_preapproved :: "string list \<Rightarrow> bool" where
  "shell_command_is_preapproved parts \<longleftrightarrow>
     parts = [''pwd''] \<or> parts = [''ls''] \<or> parts = [''ls'', ''-la'']"

abbreviation UNRESTRICTED_REASON :: string where
  "UNRESTRICTED_REASON \<equiv> ''unrestricted workspace policy enabled''"

abbreviation SYNTAX_REASON :: string where
  "SYNTAX_REASON \<equiv> ''shell command syntax is not permitted; submit one argv command, a quoted foreground Python heredoc, or explicitly invoke bash -lc with the complete script as one quoted argument''"

definition shell_reason :: "PolicyDecision \<Rightarrow> bool \<Rightarrow> string" where
  "shell_reason decision fatal =
     (case decision of
        PolicyDecision.Allow \<Rightarrow> ''inert workspace command is pre-approved''
      | PolicyDecision.Ask \<Rightarrow> ''process command requires explicit user approval''
      | PolicyDecision.Deny \<Rightarrow> ''shell command denied by policy''
      | PolicyDecision.Block \<Rightarrow>
          if fatal then ''shell command matched P0 deny-list or sensitive-path guard''
          else SYNTAX_REASON)"

definition shell_evaluation ::
  "uuid \<Rightarrow> string \<Rightarrow> PolicyDecision \<Rightarrow> PolicyBlockDisposition option \<Rightarrow> string \<Rightarrow> PolicyEvaluation" where
  "shell_evaluation policy_id command decision disposition reason =
     \<lparr>policy_ref = policy_id, pe_subject = ''tool'', pe_action = ''shell'', pe_resource = command,
      pe_decision = decision, block_disposition = disposition, pe_reason = reason,
      pe_evidence_refs = []\<rparr>"

definition terminal_violation ::
  "Shell_Env \<Rightarrow> (string \<Rightarrow> bool) \<Rightarrow> nat \<Rightarrow> ParsedShellCommand option \<Rightarrow> bool option" where
  "terminal_violation env sensitive fuel parsed =
     (case parsed of
        None \<Rightarrow> Some False
      | Some p \<Rightarrow>
          or_else (shell_command_is_blocked env sensitive fuel (psc_parts p))
            (Some (case psc_stdin p of None \<Rightarrow> False | Some input \<Rightarrow> sensitive input)))"

definition recoverable_violation :: "string \<Rightarrow> ParsedShellCommand option \<Rightarrow> bool" where
  "recoverable_violation command parsed =
     (let explicit_wrapper = (case parsed of None \<Rightarrow> False
            | Some p \<Rightarrow> explicit_shell_script (psc_parts p) \<noteq> None);
          direct_stdin = (case parsed of None \<Rightarrow> False | Some p \<Rightarrow> psc_stdin p \<noteq> None)
      in \<not> explicit_wrapper \<and> \<not> direct_stdin \<and>
         (contains_shell_metacharacter command \<or> parsed = None))"

definition shell_decision :: "bool \<Rightarrow> bool \<Rightarrow> ParsedShellCommand option \<Rightarrow> PolicyDecision" where
  "shell_decision fatal recoverable parsed =
     (if fatal \<or> recoverable then PolicyDecision.Block
      else case parsed of
        Some p \<Rightarrow>
          if psc_stdin p = None \<and> shell_command_is_preapproved (psc_parts p)
          then PolicyDecision.Allow else PolicyDecision.Ask
      | None \<Rightarrow> PolicyDecision.Ask)"

definition evaluate_shell ::
  "Shell_Env \<Rightarrow> nat \<Rightarrow> string list \<Rightarrow> WorkspacePolicyMode \<Rightarrow> uuid \<Rightarrow> string \<Rightarrow> PolicyEvaluation Run" where
  "evaluate_shell env fuel fragments mode policy_id command =
     (if mode = Unrestricted
      then Returns (shell_evaluation policy_id command PolicyDecision.Allow None UNRESTRICTED_REASON)
      else case parse_shell_command_with_input env command of
        Inl SliceOutOfRange \<Rightarrow> Panics
      | Inr parsed \<Rightarrow>
          (case terminal_violation env (references_sensitive_path fragments) fuel parsed of
             None \<Rightarrow> Exhausted
           | Some fatal \<Rightarrow>
               let decision = shell_decision fatal (recoverable_violation command parsed) parsed
               in Returns (shell_evaluation policy_id command decision
                    (if decision = PolicyDecision.Block
                     then Some (if fatal then PolicyBlockDisposition.Terminal
                                else PolicyBlockDisposition.Recoverable)
                     else None)
                    (shell_reason decision fatal))))"

section \<open>Scoped approvals\<close>

definition approval_resource_matches ::
  "Shell_Env \<Rightarrow> string \<Rightarrow> string \<Rightarrow> string \<Rightarrow> (bool, Panic) result" where
  "approval_resource_matches env tool_name approved_prefix requested_resource =
     (if approved_prefix = [] then Inr False
      else if tool_name \<noteq> ''shell'' then Inr (approved_prefix = requested_resource)
      else and_then (parse_shell_command_with_input env approved_prefix) (\<lambda>approved.
        case approved of
          None \<Rightarrow> Inr False
        | Some a \<Rightarrow>
            and_then (parse_shell_command_with_input env requested_resource) (\<lambda>requested.
              case requested of
                None \<Rightarrow> Inr False
              | Some r \<Rightarrow>
                  Inr (if psc_stdin a \<noteq> None \<or> psc_stdin r \<noteq> None then a = r
                       else psc_parts a \<noteq> [] \<and> prefix (psc_parts a) (psc_parts r)))))"

section \<open>Read-only scripts\<close>

definition read_only_command :: "Shell_Env \<Rightarrow> string \<Rightarrow> bool" where
  "read_only_command env command \<longleftrightarrow>
     \<not> contains_shell_metacharacter command \<and>
     (case shlex env command of None \<Rightarrow> False | Some parts \<Rightarrow> shell_command_is_strictly_read_only parts)"

fun read_only_shell_node :: "Shell_Env \<Rightarrow> string \<Rightarrow> nat \<Rightarrow> SyntaxNode \<Rightarrow> bool"
  and all_read_only :: "Shell_Env \<Rightarrow> string \<Rightarrow> nat \<Rightarrow> SyntaxNode list \<Rightarrow> bool" where
  "read_only_shell_node env source depth (SyntaxNode kind named err field start stop children) =
     (if depth > 32 then False
      else if kind \<in> set [''program'', ''list'', ''pipeline'']
      then all_read_only env source (depth + 1) children
      else if kind = ''command''
      then (case node_text source (SyntaxNode kind named err field start stop children) of
              None \<Rightarrow> False | Some command \<Rightarrow> read_only_command env command)
      else kind = ''comment'')"
| "all_read_only env source depth [] = True"
| "all_read_only env source depth (node # nodes) =
     ((if node_named node then read_only_shell_node env source depth node
       else node_kind node \<in> set ['';'', ''&&'', ''||'', ''|'']) \<and>
      all_read_only env source depth nodes)"

definition shell_script_is_strictly_read_only :: "Shell_Env \<Rightarrow> string \<Rightarrow> bool" where
  "shell_script_is_strictly_read_only env script \<longleftrightarrow>
     \<not> is_blank script \<and> length script \<le> 16 * 1024 \<and>
     (case bash_parse env script of
        None \<Rightarrow> False
      | Some root \<Rightarrow> \<not> node_error root \<and> read_only_shell_node env script 0 root)"

section \<open>Wrappers only shorten a command\<close>

abbreviation total_length :: "string list \<Rightarrow> nat" where
  "total_length parts \<equiv> sum_list (map length parts)"

lemma nonempty_Some [simp]: "nonempty parts = Some target \<longleftrightarrow> parts = target \<and> target \<noteq> []"
  by (auto simp: nonempty_def)

lemma command_builtin_target_suffix: "command_builtin_target arguments = Some target \<Longrightarrow> suffix target arguments"
  by (induction arguments rule: command_builtin_target.induct)
    (auto split: if_split_asm intro: suffix_ConsI)

lemma env_target_suffix: "env_target options arguments = Inr (Some target) \<Longrightarrow> suffix target arguments"
  by (induction options arguments rule: env_target.induct)
    (auto split: if_split_asm list.split_asm intro: suffix_ConsI)

lemma sudo_rest_suffix: "sudo_rest rest = Some target \<Longrightarrow> suffix target rest"
  by (auto simp: sudo_rest_def suffix_dropWhile)

lemma sudo_command_target_suffix: "sudo_command_target arguments = Inr (Some target) \<Longrightarrow> suffix target arguments"
proof (induction arguments rule: sudo_command_target.induct)
  case (2 argument rest)
  consider (stop) "sudo_rest rest = Some target" | (plain) "sudo_rest (argument # rest) = Some target"
    | (option) n where "argument \<noteq> ''--''" "is_option argument" "sudo_option argument = Inr n" "\<not> length rest < n"
        "sudo_command_target (drop n rest) = Inr (Some target)"
    using "2.prems" by (auto split: if_split_asm)
  then show ?case
  proof cases
    case option
    from "2.IH" [of n] option have "suffix target (drop n rest)" by simp
    then show ?thesis by (meson suffix_ConsI suffix_drop suffix_order.trans)
  qed (auto dest: sudo_rest_suffix intro: suffix_ConsI)
qed simp

lemma of_target_Runs: "of_target v target = Runs command \<longleftrightarrow> target = Some command"
  by (auto simp: of_target_def split: option.splits)

lemma of_parsed_target_Runs: "of_parsed_target parsed = Runs command \<longleftrightarrow> parsed = Inr (Some command)"
  by (auto simp: of_parsed_target_def of_target_Runs split: sum.splits)

lemma unwrap_suffix:
  "unwrap script_blocked sensitive program arguments = Runs command \<Longrightarrow> suffix command arguments"
  by (auto simp: unwrap_def Let_def of_target_Runs of_parsed_target_Runs env_command_target_def
      busybox_command_target_def
      dest: command_builtin_target_suffix env_target_suffix sudo_command_target_suffix
      split: if_split_asm list.split_asm)

lemma suffix_total_length: "suffix xs ys \<Longrightarrow> total_length xs \<le> total_length ys"
  by (auto simp: suffix_def)

lemma explicit_script_shorter:
  "explicit_shell_script parts = Some script \<Longrightarrow> length script < total_length parts"
  by (auto simp: explicit_shell_script_def split: list.split_asm if_split_asm)

section \<open>The guard returns\<close>

lemma or_else_decides [simp]: "or_else a b = None \<longleftrightarrow> a = None \<or> (a = Some False \<and> b = None)"
  by (auto simp: or_else_def split: option.splits bool.splits)

lemma or_else_Some [simp]: "or_else (Some a) b = (if a then Some True else b)"
  by (auto simp: or_else_def)

lemma unwrap_decides:
  assumes "unwrap script_blocked sensitive program arguments = Verdict None"
  obtains script where "script_blocked script = None"
    "length script < total_length (program # arguments)"
proof -
  from assms obtain script where "explicit_shell_script (program # arguments) = Some script"
      "script_blocked script = None"
    by (auto simp: unwrap_def Let_def of_target_def of_parsed_target_def
        split: if_split_asm option.split_asm sum.split_asm)
  with explicit_script_shorter that show thesis by blast
qed

lemma parts_blocked_decides:
  assumes "\<And>script. length script < total_length parts \<Longrightarrow> script_blocked script \<noteq> None"
  shows "parts_blocked n script_blocked sensitive parts \<noteq> None"
  using assms
proof (induction n script_blocked sensitive parts rule: parts_blocked.induct)
  case (3 n script_blocked sensitive program arguments)
  show ?case
  proof (cases "unwrap script_blocked sensitive program arguments")
    case (Runs command)
    with suffix_total_length [OF unwrap_suffix [OF Runs]] "3.IH" [OF Runs] "3.prems" show ?thesis
      by fastforce
  next
    case (Verdict v)
    have "v \<noteq> None" using Verdict "3.prems" unwrap_decides by (metis (no_types, lifting))
    with Verdict show ?thesis by simp
  qed
qed simp_all

text \<open>The splitter removes quotes and blanks, it never adds text.\<close>

definition splits_shorten :: "Shell_Env \<Rightarrow> bool" where
  "splits_shorten env \<longleftrightarrow> (\<forall>s parts. shlex env s = Some parts \<longrightarrow> total_length parts \<le> length s)"

lemma node_text_length: "node_text source node = Some t \<Longrightarrow> length t \<le> length source"
  by (auto simp: node_text_def slice_def split: if_split_asm bind_split_asm)

lemma node_blocked_decides:
  assumes "splits_shorten env"
    and "\<And>script. length script < length source \<Longrightarrow> script_blocked script \<noteq> None"
  shows "node_blocked env script_blocked sensitive source node \<noteq> None"
proof (cases "Option.bind (node_text source node) (shlex env)")
  case (Some parts)
  then obtain t where "node_text source node = Some t" "shlex env t = Some parts" by (auto split: bind_splits)
  with assms(1) node_text_length have "total_length parts \<le> length source"
    by (fastforce simp: splits_shorten_def)
  with suffix_total_length [OF suffix_dropWhile, of is_shell_variable_assignment parts]
  have "parts_blocked 8 script_blocked sensitive (dropWhile is_shell_variable_assignment parts) \<noteq> None"
    by (intro parts_blocked_decides assms(2)) simp
  with Some show ?thesis
    by (auto simp: node_blocked_def shell_script_command_parts_are_blocked_def shell_command_parts_are_blocked_def)
qed (auto simp: node_blocked_def)

lemma shell_ast_decides:
  "splits_shorten env \<Longrightarrow> (\<And>script. length script < length source \<Longrightarrow> script_blocked script \<noteq> None) \<Longrightarrow>
     shell_ast_is_blocked env script_blocked sensitive source node \<noteq> None"
  "splits_shorten env \<Longrightarrow> (\<And>script. length script < length source \<Longrightarrow> script_blocked script \<noteq> None) \<Longrightarrow>
     any_ast_blocked env script_blocked sensitive source nodes \<noteq> None"
proof (induction env script_blocked sensitive source node and env script_blocked sensitive source nodes
    rule: shell_ast_is_blocked_any_ast_blocked.induct)
  case (1 env script_blocked sensitive source kind named err field start stop children)
  with node_blocked_decides [OF "1.prems"] show ?case by simp
qed (auto simp del: not_None_eq)

lemma shell_script_decides:
  assumes "splits_shorten env" and "length script < fuel"
  shows "shell_script_is_blocked env sensitive fuel script \<noteq> None"
  using assms(2)
proof (induction fuel arbitrary: script)
  case (Suc fuel)
  have nested: "shell_script_is_blocked env sensitive fuel inner \<noteq> None"
    if "length inner < length script" for inner
    using that Suc.prems by (intro Suc.IH) simp
  have "shell_ast_is_blocked env (shell_script_is_blocked env sensitive fuel) sensitive script root \<noteq> None"
    for root
    using assms(1) nested by (rule shell_ast_decides(1))
  then show ?case by (auto split: option.split)
qed simp

lemma shell_command_decides:
  assumes "splits_shorten env" and "total_length parts \<le> fuel"
  shows "shell_command_is_blocked env sensitive fuel parts \<noteq> None"
proof (cases "explicit_shell_script parts")
  case None
  have "parts_blocked 8 (shell_script_is_blocked env sensitive fuel) sensitive parts \<noteq> None"
    using assms by (intro parts_blocked_decides shell_script_decides) auto
  with None show ?thesis by (simp add: shell_command_is_blocked_def shell_command_parts_are_blocked_def)
next
  case (Some script)
  with explicit_script_shorter [OF Some] assms show ?thesis
    using shell_script_decides [of env script fuel sensitive] by (simp add: shell_command_is_blocked_def)
qed

section \<open>The parsed command is no longer than its text\<close>

lemma length_trim_start: "length (trim_start s) \<le> length s"
proof (induction s rule: trim_start.induct)
  case (1 s)
  then show ?case
    by (subst trim_start.simps) (fastforce split: option.split dest: le_trans)
qed

lemma length_trim_end: "length (trim_end s) \<le> length s"
proof (induction s rule: trim_end.induct)
  case (1 s)
  then show ?case
    by (subst trim_end.simps) (fastforce split: option.split dest: le_trans)
qed

lemma length_trim: "length (trim s) \<le> length s"
  unfolding trim_def using length_trim_start length_trim_end le_trans by blast

lemma split_at_whitespace_length:
  "split_at_whitespace s = Some (word, rest) \<Longrightarrow> length word + length rest = length s"
proof -
  assume "split_at_whitespace s = Some (word, rest)"
  then have "word @ rest = concat (utf8_chars s)"
    by (auto simp: split_at_whitespace_def Let_def split: if_split_asm
        simp flip: concat_append simp del: concat_utf8_chars)
  then show ?thesis by (metis concat_utf8_chars length_append)
qed

lemma wrapper_words_length:
  assumes "wrapper_words command = Some (program, option, script)"
  shows "length program + length option + length script \<le> length command"
proof -
  from assms obtain after_program after_option where
    "split_at_whitespace (trim command) = Some (program, after_program)"
    "split_at_whitespace (trim_start after_program) = Some (option, after_option)"
    "script = trim_start after_option"
    by (auto simp: wrapper_words_def split: bind_split_asm if_split_asm)
  with split_at_whitespace_length [OF this(1)] split_at_whitespace_length [OF this(2)]
    length_trim [of command] length_trim_start [of after_program] length_trim_start [of after_option]
  show ?thesis by simp
qed

lemma parse_explicit_wrapper_raw_length:
  assumes "parse_explicit_wrapper_raw command = Inr (Some (parts, quote))"
  shows "total_length parts \<le> length command"
proof -
  from assms obtain program option script body where
    words: "wrapper_words command = Some (program, option, script)" and
    body: "unquote_script script = Inr (Some (body, quote))" and parts: "parts = [program, option, body]"
    by (auto simp: parse_explicit_wrapper_raw_def split: option.split_asm)
  from body have "length body \<le> length script"
    by (auto simp: unquote_script_def slice_def split: list.split_asm if_split_asm option.split_asm)
  with wrapper_words_length [OF words] parts show ?thesis by simp
qed

lemma heredoc_parts_length:
  assumes "splits_shorten env" and "heredoc_parts env source body redirect = Some parts"
  shows "total_length parts \<le> length source"
proof -
  from assms(2) obtain t first gap more where
    t: "node_text source body = Some t" and first: "shlex env (trim t) = Some first" and
    gap: "slice source (end_byte body) (start_byte redirect) = Some gap" and
    more: "shlex env (trim gap) = Some more" and parts: "parts = first @ more"
    by (auto simp: heredoc_parts_def split: bind_split_asm if_split_asm list.split_asm)
  have "length t + length gap \<le> length source"
    using t gap by (auto simp: node_text_def slice_def split: bind_split_asm if_split_asm)
  moreover have "total_length first \<le> length t" "total_length more \<le> length gap"
    using assms(1) first more length_trim [of t] length_trim [of gap]
    by (meson splits_shorten_def le_trans)+
  ultimately show ?thesis using parts by simp
qed

lemma decoded_command_script:
  "decoded_command env decoded = Some parsed \<Longrightarrow>
     explicit_shell_script (psc_parts parsed) \<noteq> None \<and> psc_stdin parsed = None \<and>
     decoded = Some (psc_parts parsed)"
  by (auto simp: decoded_command_def plain_command_def complete_script_def
      split: option.split_asm if_split_asm)

lemma raw_command_script:
  "raw_command env raw_parts raw_script = Some parsed \<Longrightarrow> psc_stdin parsed = None \<and> psc_parts parsed = raw_parts"
  by (auto simp: raw_command_def plain_command_def split: if_split_asm)

lemma parse_wrapper_script:
  assumes "parse_wrapper env decoded raw_parts quote = Some parsed"
  shows "explicit_shell_script (psc_parts parsed) \<noteq> None \<and> psc_stdin parsed = None \<and>
    (decoded = Some (psc_parts parsed) \<or> psc_parts parsed = raw_parts)"
  using assms
  by (auto simp: parse_wrapper_def dest: decoded_command_script raw_command_script
      split: option.split_asm if_split_asm)

lemma parse_shell_command_cases:
  assumes "parse_shell_command_with_input env command = Inr (Some parsed)"
  obtains (heredoc) "parse_direct_quoted_python_heredoc env command = Some parsed"
    | (wrapper) raw_parts quote where "parse_explicit_wrapper_raw command = Inr (Some (raw_parts, quote))"
        "parse_wrapper env (shlex env command) raw_parts quote = Some parsed"
    | (plain) "shlex env command = Some (psc_parts parsed)" "psc_stdin parsed = None"
  using assms
  by (auto simp: parse_shell_command_with_input_def plain_command_def split: option.split_asm)

lemma heredoc_parsed:
  assumes "parse_direct_quoted_python_heredoc env command = Some parsed"
  obtains body redirect input where "heredoc_parts env (trim command) body redirect = Some (psc_parts parsed)"
    "psc_stdin parsed = Some input"
  using assms by (auto simp: parse_direct_quoted_python_heredoc_def Let_def split: bind_split_asm)

lemma parse_shell_command_length:
  assumes "splits_shorten env" and "parse_shell_command_with_input env command = Inr (Some parsed)"
  shows "total_length (psc_parts parsed) \<le> length command"
proof -
  have decoded: "total_length parts \<le> length command" if "shlex env command = Some parts" for parts
    using assms(1) that by (simp add: splits_shorten_def)
  from assms(2) show ?thesis
  proof (cases rule: parse_shell_command_cases)
    case heredoc
    then obtain body redirect input where
      "heredoc_parts env (trim command) body redirect = Some (psc_parts parsed)"
      by (rule heredoc_parsed)
    from heredoc_parts_length [OF assms(1) this] length_trim [of command] show ?thesis by simp
  next
    case (wrapper raw_parts quote)
    with parse_wrapper_script [OF wrapper(2)] decoded parse_explicit_wrapper_raw_length [OF wrapper(1)]
    show ?thesis by auto
  next
    case plain
    from plain(1) show ?thesis by (rule decoded)
  qed
qed

section \<open>Wrappers do not hide a command\<close>

text \<open>What the wrapping programs run, one wrapper at a time.\<close>

inductive runs :: "string list \<Rightarrow> string list \<Rightarrow> bool" where
  by_command: "base_name program = ''command'' \<Longrightarrow> command_builtin_target arguments = Some target \<Longrightarrow>
    runs (program # arguments) target"
| by_env: "base_name program = ''env'' \<Longrightarrow> env_command_target arguments = Inr (Some target) \<Longrightarrow>
    runs (program # arguments) target"
| by_busybox: "base_name program = ''busybox'' \<Longrightarrow> busybox_command_target arguments = Some target \<Longrightarrow>
    runs (program # arguments) target"
| by_sudo: "base_name program = ''sudo'' \<Longrightarrow> sudo_command_target arguments = Inr (Some target) \<Longrightarrow>
    runs (program # arguments) target"

lemma unwrap_runs:
  assumes "runs (program # arguments) target"
  shows "unwrap script_blocked sensitive program arguments \<in> {Runs target, Verdict (Some True)}"
  using assms
  by (cases rule: runs.cases) (auto simp: unwrap_def of_target_def of_parsed_target_def)

lemma parts_blocked_antimono:
  "parts_blocked n script_blocked sensitive parts = Some True \<Longrightarrow> m \<le> n \<Longrightarrow>
     parts_blocked m script_blocked sensitive parts = Some True"
proof (induction n script_blocked sensitive parts arbitrary: m rule: parts_blocked.induct)
  case (3 n script_blocked sensitive program arguments)
  then show ?case by (cases m) (auto split: Unwrapped.split_asm)
next
  case (2 n script_blocked sensitive)
  then show ?case by (cases m) simp_all
qed simp

lemma runs_blocked:
  assumes "runs parts target" and "parts_blocked n script_blocked sensitive target = Some True"
  shows "parts_blocked n script_blocked sensitive parts = Some True"
proof (cases n)
  case (Suc m)
  from assms(1) obtain program arguments where parts: "parts = program # arguments"
    by (cases rule: runs.cases) auto
  have "unwrap script_blocked sensitive program arguments \<in> {Runs target, Verdict (Some True)}"
    using assms(1) unfolding parts by (rule unwrap_runs)
  moreover have "parts_blocked m script_blocked sensitive target = Some True"
    using parts_blocked_antimono [OF assms(2), of m] Suc by simp
  ultimately show ?thesis using Suc parts by auto
qed simp

section \<open>Properties\<close>

text \<open>
  Property C37. No chain of wrappers hides a command from the guard: a command that is refused is
  also refused when it is run through any number of \<^verbatim>\<open>command\<close>, \<^verbatim>\<open>env\<close>, \<^verbatim>\<open>busybox\<close>
  and \<^verbatim>\<open>sudo\<close>, with whatever options these accept.
\<close>

theorem wrappers_hide_nothing:
  assumes "runs\<^sup>*\<^sup>* parts target"
    and "shell_command_parts_are_blocked script_blocked sensitive target = Some True"
  shows "shell_command_parts_are_blocked script_blocked sensitive parts = Some True"
  using assms
  by (induction rule: converse_rtranclp_induct)
    (auto simp: shell_command_parts_are_blocked_def intro: runs_blocked)

text \<open>
  Property C38. The guard over nested scripts always reaches a verdict: since splitting a command
  into words never adds text, each nested script is shorter than the one it stands in, and a
  depth of the length of the command is enough.
\<close>

theorem shell_verdict_returns:
  assumes "splits_shorten env" and "length command \<le> fuel"
  shows "evaluate_shell env fuel fragments mode policy_id command \<noteq> Exhausted"
proof -
  have "terminal_violation env (references_sensitive_path fragments) fuel parsed \<noteq> None"
    if parsed: "parse_shell_command_with_input env command = Inr parsed" for parsed
  proof (cases parsed)
    case (Some p)
    have "total_length (psc_parts p) \<le> fuel"
      using parse_shell_command_length [OF assms(1)] parsed Some assms(2) by fastforce
    with shell_command_decides [OF assms(1)] Some show ?thesis
      by (simp add: terminal_violation_def del: not_None_eq)
  qed (simp add: terminal_violation_def)
  then show ?thesis
    by (auto simp: evaluate_shell_def Let_def split: sum.split Panic.split option.split)
qed

text \<open>
  Property C39. In guarded mode only an inert command runs without a question: it splits into
  exactly \<^verbatim>\<open>pwd\<close>, \<^verbatim>\<open>ls\<close> or \<^verbatim>\<open>ls -la\<close> and has no character a shell would interpret.
\<close>

theorem guarded_shell_allows_only_inert:
  assumes "evaluate_shell env fuel fragments Guarded policy_id command = Returns verdict"
    and "pe_decision verdict = PolicyDecision.Allow"
  shows "(\<exists>parts. shlex env command = Some parts \<and>
      (parts = [''pwd''] \<or> parts = [''ls''] \<or> parts = [''ls'', ''-la''])) \<and>
    \<not> contains_shell_metacharacter command"
proof -
  from assms obtain parsed fatal where
    parse: "parse_shell_command_with_input env command = Inr parsed" and
    decision: "shell_decision fatal (recoverable_violation command parsed) parsed = PolicyDecision.Allow"
    by (auto simp: evaluate_shell_def shell_evaluation_def Let_def
        split: sum.split_asm Panic.split_asm option.split_asm)
  from decision obtain p where p: "parsed = Some p" "psc_stdin p = None"
      "shell_command_is_preapproved (psc_parts p)" and ok: "\<not> recoverable_violation command parsed"
    by (auto simp: shell_decision_def split: if_split_asm option.split_asm)
  from p(3) have no_script: "explicit_shell_script (psc_parts p) = None"
    by (auto simp: shell_command_is_preapproved_def explicit_shell_script_def)
  from parse p(1) have "parse_shell_command_with_input env command = Inr (Some p)" by simp
  then have "shlex env command = Some (psc_parts p)"
    using p(2) no_script
    by (cases rule: parse_shell_command_cases) (auto dest: parse_wrapper_script elim: heredoc_parsed)
  moreover have "\<not> contains_shell_metacharacter command"
    using ok p no_script by (simp add: recoverable_violation_def)
  ultimately show ?thesis using p(3) by (auto simp: shell_command_is_preapproved_def)
qed

lemma unquote_script_panics: "unquote_script script = Inl e \<longleftrightarrow> script = [CHR 0x27] \<or> script = [CHR 0x22]"
  by (cases e) (auto simp: unquote_script_def slice_def Suc_le_eq split: list.split if_split)

text \<open>
  Property C40. The evaluation of a command panics exactly when a shell wrapper has a lone quote
  in place of its script, as in \<^verbatim>\<open>bash -c '\<close>: the slice between the quotes ends before it
  starts.
\<close>

theorem shell_evaluation_panics_iff:
  "evaluate_shell env fuel fragments mode policy_id command = Panics \<longleftrightarrow>
     mode = Guarded \<and> parse_direct_quoted_python_heredoc env command = None \<and>
     (\<exists>program option. wrapper_words command = Some (program, option, [CHR 0x27]) \<or>
        wrapper_words command = Some (program, option, [CHR 0x22]))"
proof -
  have "parse_shell_command_with_input env command = Inl SliceOutOfRange \<longleftrightarrow>
      parse_direct_quoted_python_heredoc env command = None \<and>
      (\<exists>program option script. wrapper_words command = Some (program, option, script) \<and>
         (script = [CHR 0x27] \<or> script = [CHR 0x22]))"
    by (auto simp: parse_shell_command_with_input_def parse_explicit_wrapper_raw_def and_then_Inl_iff
        unquote_script_panics split: option.split)
  moreover have "evaluate_shell env fuel fragments mode policy_id command = Panics \<longleftrightarrow>
      mode = Guarded \<and> parse_shell_command_with_input env command = Inl SliceOutOfRange"
    by (cases mode) (auto simp: evaluate_shell_def Let_def split: sum.split Panic.split option.split)
  ultimately show ?thesis by auto
qed

text \<open>
  Approvals cannot be widened step by step: what an approval of an approved command
  covers is covered by the first approval, because shell approvals compare whole arguments and
  all others compare the resource.
\<close>

theorem approval_is_transitive:
  assumes "approval_resource_matches env tool a b = Inr True"
    and "approval_resource_matches env tool b c = Inr True"
  shows "approval_resource_matches env tool a c = Inr True"
  using assms
  by (auto simp: approval_resource_matches_def split: if_split_asm option.split_asm
      intro: prefix_order.trans)

text \<open>
  The statements of a script that the read-only check reaches: the root, and the children of
  programs, lists and pipelines.
\<close>

inductive statement :: "SyntaxNode \<Rightarrow> SyntaxNode \<Rightarrow> bool" for tree where
  itself: "statement tree tree"
| below: "statement tree parent \<Longrightarrow> node_kind parent \<in> set [''program'', ''list'', ''pipeline''] \<Longrightarrow>
    child \<in> set (node_children parent) \<Longrightarrow> statement tree child"

lemma all_read_only_iff:
  "all_read_only env source depth nodes \<longleftrightarrow>
     (\<forall>node \<in> set nodes. if node_named node then read_only_shell_node env source depth node
        else node_kind node \<in> set ['';'', ''&&'', ''||'', ''|''])"
  by (induction nodes) simp_all

lemma read_only_children:
  assumes "read_only_shell_node env source depth node"
    and "node_kind node \<in> set [''program'', ''list'', ''pipeline'']"
  shows "all_read_only env source (depth + 1) (node_children node)"
  using assms by (cases node) (simp split: if_split_asm)

lemma read_only_kind:
  assumes "read_only_shell_node env source depth node"
  shows "node_kind node \<in> set [''program'', ''list'', ''pipeline'', ''comment''] \<or>
    node_kind node = ''command'' \<and>
      (\<exists>command. node_text source node = Some command \<and> read_only_command env command)"
  using assms by (cases node) (auto split: if_split_asm option.split_asm)

text \<open>
  A script on the read-only path consists of nothing but allow-listed commands,
  comments and the separators of lists and pipelines: everything the check reaches is one of
  these, so no redirection, substitution, background job or compound statement gets through.
\<close>

theorem read_only_script_statements:
  assumes "shell_script_is_strictly_read_only env script" and "bash_parse env script = Some root"
    and "statement root node"
  shows "node_kind node \<in> set [''program'', ''list'', ''pipeline'', ''comment''] \<or>
    (node_kind node = ''command'' \<and>
      (\<exists>command. node_text script node = Some command \<and> read_only_command env command)) \<or>
    (\<not> node_named node \<and> node_kind node \<in> set ['';'', ''&&'', ''||'', ''|''])"
proof -
  have "(\<exists>depth. read_only_shell_node env script depth node) \<or>
      (\<not> node_named node \<and> node_kind node \<in> set ['';'', ''&&'', ''||'', ''|''])"
    using assms(3)
  proof (induction rule: statement.induct)
    case itself
    with assms(1,2) show ?case by (auto simp: shell_script_is_strictly_read_only_def)
  next
    case (below parent child)
    then obtain depth where "read_only_shell_node env script depth parent" by auto
    from read_only_children [OF this below.hyps(2)] below.hyps(3) show ?case
      by (auto simp: all_read_only_iff split: if_split_asm)
  qed
  then show ?thesis using read_only_kind by blast
qed

text \<open>The allow-list also takes commands that write: the second operand of \<^verbatim>\<open>uniq\<close> is its
  output file, and \<^verbatim>\<open>-uo\<close> is \<^verbatim>\<open>sort -u -o\<close>.\<close>

theorem read_only_list_admits_writers:
  "shell_command_is_strictly_read_only [''uniq'', ''a'', ''b''] \<and>
   shell_command_is_strictly_read_only [''sort'', ''-uo'', ''b'', ''a'']"
  by code_simp

section \<open>Witnesses\<close>

definition ex_env :: Shell_Env where
  "ex_env = \<lparr>bash_parse = (\<lambda>s. if s = ''ls'' then Some (SyntaxNode ''command'' True False None 0 2 [])
       else None), shlex = (\<lambda>s. Some [s])\<rparr>"

lemma ex_env_shortens: "splits_shorten ex_env"
  by (simp add: splits_shorten_def ex_env_def)

lemma ex_env_allows:
  "evaluate_shell ex_env 0 [''.env''] Guarded 1 ''ls'' =
     Returns (shell_evaluation 1 ''ls'' PolicyDecision.Allow None (shell_reason PolicyDecision.Allow False))"
  by code_simp

theorem wrappers_hide_nothing_witness:
  "shell_command_parts_are_blocked (\<lambda>s. None) (\<lambda>s. False) [''sudo'', ''-n'', ''shutdown''] = Some True"
proof (rule wrappers_hide_nothing)
  have "runs [''sudo'', ''-n'', ''shutdown''] [''shutdown'']"
    by (rule by_sudo) code_simp+
  then show "runs\<^sup>*\<^sup>* [''sudo'', ''-n'', ''shutdown''] [''shutdown'']" by (rule r_into_rtranclp)
  show "shell_command_parts_are_blocked (\<lambda>s. None) (\<lambda>s. False) [''shutdown''] = Some True" by code_simp
qed

theorem shell_verdict_returns_witness:
  "evaluate_shell ex_env 2 [''.env''] Guarded 1 ''ls'' \<noteq> Exhausted"
  by (rule shell_verdict_returns [OF ex_env_shortens]) simp

theorem guarded_shell_allows_only_inert_witness:
  "\<exists>parts. shlex ex_env ''ls'' = Some parts \<and> parts \<noteq> []"
  using guarded_shell_allows_only_inert [OF ex_env_allows] by (auto simp: shell_evaluation_def)

theorem approval_is_transitive_witness:
  "approval_resource_matches ex_env ''shell'' ''ls'' ''ls'' = Inr True"
  by (rule approval_is_transitive [where b = "''ls''"]) code_simp+

theorem read_only_script_statements_witness:
  "read_only_command ex_env ''ls''"
proof -
  have read_only: "shell_script_is_strictly_read_only ex_env ''ls''" by code_simp
  have root: "bash_parse ex_env ''ls'' = Some (SyntaxNode ''command'' True False None 0 2 [])" by code_simp
  have "node_text ''ls'' (SyntaxNode ''command'' True False None 0 2 []) = Some ''ls''" by code_simp
  with read_only_script_statements [OF read_only root itself] show ?thesis by simp
qed

end
