(* ===== verification/Path_Policy.thy ===== *)
theory Path_Policy
  imports Shell_Policy
begin

text \<open>
  The workspace boundary for paths (\<^verbatim>\<open>golutra-agent-policy/src/lib.rs\<close>). Paths are lists of
  components. The file system is a parameter: which paths exist, and the canonical form of a path
  that does.
\<close>

section \<open>Paths and the file system\<close>

type_synonym path = "Component list"

record File_System =
  fs_exists :: "path \<Rightarrow> bool"
  fs_canonicalize :: "path \<Rightarrow> path option"

datatype PolicyError =
  MissingWorkspace path | MissingParent path | Canonicalization path

abbreviation is_absolute :: "path \<Rightarrow> bool" where
  "is_absolute p \<equiv> prefix [RootDir] p"

text \<open>\<^verbatim>\<open>Path::join\<close>; a dot inside a path is no component.\<close>

definition join_path :: "path \<Rightarrow> path \<Rightarrow> path" where
  "join_path base p = (if is_absolute p then p else base @ filter (\<lambda>c. c \<noteq> CurDir) p)"

fun component_text :: "Component \<Rightarrow> string" where
  "component_text (Prefix p) = p"
| "component_text RootDir = []"
| "component_text CurDir = ''.''"
| "component_text ParentDir = ''..''"
| "component_text (Normal n) = n"

definition path_text :: "path \<Rightarrow> string" where
  "path_text p = (if p = [RootDir] then ''/'' else join ''/'' (map component_text p))"

section \<open>Aliases of the workspace\<close>

record WorkspacePathMapper =
  pm_workspace_root :: path
  aliases :: "path list"

definition mapper_new :: "path \<Rightarrow> WorkspacePathMapper" where
  "mapper_new root =
     \<lparr>pm_workspace_root = root, aliases = [[RootDir, Normal ''app''], [RootDir, Normal ''workspace'']]\<rparr>"

definition map_path :: "WorkspacePathMapper \<Rightarrow> path \<Rightarrow> path" where
  "map_path m p =
     (if \<not> is_absolute p \<or> prefix (pm_workspace_root m) p then p
      else case find (\<lambda>alias. prefix alias p) (aliases m) of
        None \<Rightarrow> p
      | Some alias \<Rightarrow> join_path (pm_workspace_root m) (drop (length alias) p))"

definition add_alias :: "path \<Rightarrow> WorkspacePathMapper \<Rightarrow> (WorkspacePathMapper, PolicyError) result" where
  "add_alias alias m =
     (if \<not> is_absolute alias then Inl (Canonicalization alias)
      else Inr (if alias \<in> set (aliases m) then m else m\<lparr>aliases := aliases m @ [alias]\<rparr>))"

section \<open>The policy\<close>

record WorkspacePolicy =
  workspace_root :: path
  path_mapper :: WorkspacePathMapper
  sensitive_path_fragments :: "string list"
  policy_mode :: WorkspacePolicyMode

definition canonicalize_existing :: "File_System \<Rightarrow> path \<Rightarrow> (path, PolicyError) result" where
  "canonicalize_existing fs p =
     (case fs_canonicalize fs p of None \<Rightarrow> Inl (Canonicalization p) | Some q \<Rightarrow> Inr q)"

definition policy_new :: "File_System \<Rightarrow> path \<Rightarrow> (WorkspacePolicy, PolicyError) result" where
  "policy_new fs root =
     (if \<not> fs_exists fs root then Inl (MissingWorkspace root)
      else and_then (canonicalize_existing fs root) (\<lambda>canonical.
        Inr \<lparr>workspace_root = canonical, path_mapper = mapper_new canonical,
             sensitive_path_fragments = [''.env'', ''id_rsa'', ''id_ed25519'', ''.ssh'', ''secrets''],
             policy_mode = Guarded\<rparr>))"

definition with_unrestricted_access :: "bool \<Rightarrow> WorkspacePolicy \<Rightarrow> WorkspacePolicy" where
  "with_unrestricted_access enabled p = p\<lparr>policy_mode := (if enabled then Unrestricted else Guarded)\<rparr>"

definition with_path_alias :: "path \<Rightarrow> WorkspacePolicy \<Rightarrow> (WorkspacePolicy, PolicyError) result" where
  "with_path_alias alias p =
     and_then (add_alias alias (path_mapper p)) (\<lambda>m. Inr (p\<lparr>path_mapper := m\<rparr>))"

text \<open>
  The nearest existing ancestor and the names below it; the first argument is the path from its
  last component up.
\<close>

fun nearest_existing ::
  "File_System \<Rightarrow> path \<Rightarrow> string list \<Rightarrow> (path \<times> string list, unit) result" where
  "nearest_existing fs [] missing = (if fs_exists fs [] then Inr ([], missing) else Inl ())"
| "nearest_existing fs (c # up) missing =
     (if fs_exists fs (rev (c # up)) then Inr (rev (c # up), missing)
      else case c of Normal name \<Rightarrow> nearest_existing fs up (name # missing) | _ \<Rightarrow> Inl ())"

definition canonicalize_nonexistent_target :: "File_System \<Rightarrow> path \<Rightarrow> (path, PolicyError) result" where
  "canonicalize_nonexistent_target fs candidate =
     (case nearest_existing fs (rev candidate) [] of
        Inl _ \<Rightarrow> Inl (MissingParent candidate)
      | Inr (existing, missing) \<Rightarrow>
          and_then (canonicalize_existing fs existing) (\<lambda>resolved. Inr (resolved @ map Normal missing)))"

definition resolve_path ::
  "File_System \<Rightarrow> WorkspacePolicy \<Rightarrow> path \<Rightarrow> bool \<Rightarrow> (path, PolicyError) result" where
  "resolve_path fs policy p requires_existing_path =
     (let candidate = join_path (workspace_root policy) (map_path (path_mapper policy) p) in
      if requires_existing_path \<or> fs_exists fs candidate then canonicalize_existing fs candidate
      else canonicalize_nonexistent_target fs candidate)"

definition has_internal_runtime_component :: "path \<Rightarrow> bool" where
  "has_internal_runtime_component p =
     list_ex (\<lambda>c. case c of Normal value \<Rightarrow> value \<in> set INTERNAL_COMPONENTS | _ \<Rightarrow> False) p"

definition is_sensitive_path :: "WorkspacePolicy \<Rightarrow> path \<Rightarrow> bool" where
  "is_sensitive_path policy p \<longleftrightarrow>
     has_internal_runtime_component p \<or>
     list_ex (\<lambda>fragment. contains (to_ascii_lowercase (path_text p)) fragment)
       (sensitive_path_fragments policy)"

definition policy_error_text :: "PolicyError \<Rightarrow> string" where
  "policy_error_text e =
     (case e of
        MissingWorkspace p \<Rightarrow> ''workspace root does not exist: '' @ path_text p
      | MissingParent p \<Rightarrow> ''path has no parent: '' @ path_text p
      | Canonicalization p \<Rightarrow> ''path canonicalization failed: '' @ path_text p)"

definition evaluation ::
  "uuid \<Rightarrow> string \<Rightarrow> string \<Rightarrow> PolicyDecision \<Rightarrow> PolicyBlockDisposition option \<Rightarrow> string \<Rightarrow> PolicyEvaluation" where
  "evaluation policy_id action resource decision disposition reason =
     \<lparr>policy_ref = policy_id, pe_subject = ''tool'', pe_action = action, pe_resource = resource,
      pe_decision = decision, block_disposition = disposition, pe_reason = reason,
      pe_evidence_refs = []\<rparr>"

definition evaluate_path ::
  "File_System \<Rightarrow> WorkspacePolicy \<Rightarrow> uuid \<Rightarrow> string \<Rightarrow> string \<Rightarrow> bool \<Rightarrow> PolicyEvaluation" where
  "evaluate_path fs policy policy_id action p requires_existing_path =
     (case resolve_path fs policy (components p) requires_existing_path of
        Inr resolved \<Rightarrow>
          if policy_mode policy = Unrestricted
          then evaluation policy_id action (path_text resolved) PolicyDecision.Allow None
                 UNRESTRICTED_REASON
          else if is_sensitive_path policy resolved
          then evaluation policy_id action (path_text resolved) PolicyDecision.Block
                 (Some PolicyBlockDisposition.Terminal) ''sensitive path''
          else if prefix (workspace_root policy) resolved
          then evaluation policy_id action (path_text resolved) PolicyDecision.Allow None
                 ''path is inside workspace''
          else evaluation policy_id action (path_text resolved) PolicyDecision.Block
                 (Some PolicyBlockDisposition.Terminal) ''path is outside workspace''
      | Inl error \<Rightarrow>
          evaluation policy_id action p PolicyDecision.Block (Some PolicyBlockDisposition.Recoverable)
            (''path resolution failed: '' @ policy_error_text error))"

section \<open>The boundary\<close>

text \<open>An absolute path without dots: what the file system returns as canonical.\<close>

definition plain_path :: "path \<Rightarrow> bool" where
  "plain_path p \<longleftrightarrow> is_absolute p \<and>
     list_all (\<lambda>c. case c of Normal n \<Rightarrow> True | _ \<Rightarrow> False) (tl p)"

definition canonical_fs :: "File_System \<Rightarrow> bool" where
  "canonical_fs fs \<longleftrightarrow> (\<forall>p q. fs_canonicalize fs p = Some q \<longrightarrow> plain_path q)"

lemma plain_path_extend: "plain_path p \<Longrightarrow> plain_path (p @ map Normal names)"
  by (cases p) (auto simp: plain_path_def list_all_iff)

lemma canonicalize_existing_plain:
  "canonical_fs fs \<Longrightarrow> canonicalize_existing fs p = Inr q \<Longrightarrow> plain_path q"
  by (auto simp: canonical_fs_def canonicalize_existing_def split: option.split_asm)

lemma nearest_existing_sound:
  "nearest_existing fs up missing = Inr (existing, missing') \<Longrightarrow>
     fs_exists fs existing \<and> rev up @ map Normal missing = existing @ map Normal missing'"
  by (induction fs up missing rule: nearest_existing.induct)
    (auto split: if_split_asm Component.split_asm)

lemma resolve_path_plain:
  assumes "canonical_fs fs" and "resolve_path fs policy p requires_existing_path = Inr resolved"
  shows "plain_path resolved"
  using assms(2)
  by (auto simp: resolve_path_def canonicalize_nonexistent_target_def Let_def
      split: if_split_asm sum.split_asm
      intro!: plain_path_extend dest!: canonicalize_existing_plain [OF assms(1)])

lemma not_sensitive_path:
  "\<not> is_sensitive_path policy p \<longleftrightarrow>
     (\<forall>name \<in> set INTERNAL_COMPONENTS. Normal name \<notin> set p) \<and>
     (\<forall>fragment \<in> set (sensitive_path_fragments policy).
        \<not> contains (to_ascii_lowercase (path_text p)) fragment)"
  by (auto simp: is_sensitive_path_def has_internal_runtime_component_def list_ex_iff
      split: Component.splits)

lemma evaluate_path_allow:
  assumes "policy_mode policy = Guarded"
  shows "pe_decision (evaluate_path fs policy policy_id action p existing) = PolicyDecision.Allow \<longleftrightarrow>
    (\<exists>resolved. resolve_path fs policy (components p) existing = Inr resolved \<and>
       \<not> is_sensitive_path policy resolved \<and> prefix (workspace_root policy) resolved)"
  using assms by (auto simp: evaluate_path_def evaluation_def split: sum.split)

text \<open>
  Property C36. In guarded mode an allowed path stays inside the workspace, also when it does not
  exist yet and whatever dots, links or aliases it is written with: it resolves to an absolute
  path without dots that extends the workspace root, has no component of the runtime or of git
  and contains no sensitive fragment in any case.
\<close>

theorem allowed_path_stays_inside:
  assumes "canonical_fs fs" and "policy_mode policy = Guarded"
    and "pe_decision (evaluate_path fs policy policy_id action p existing) = PolicyDecision.Allow"
  shows "\<exists>resolved. resolve_path fs policy (components p) existing = Inr resolved \<and>
    plain_path resolved \<and> prefix (workspace_root policy) resolved \<and>
    (\<forall>name \<in> set INTERNAL_COMPONENTS. Normal name \<notin> set resolved) \<and>
    (\<forall>fragment \<in> set (sensitive_path_fragments policy).
       \<not> contains (to_ascii_lowercase (path_text resolved)) fragment)"
  using assms(3) unfolding evaluate_path_allow [OF assms(2)] not_sensitive_path
  using resolve_path_plain [OF assms(1)] by blast

lemma mapped_alias:
  assumes "alias \<in> set (aliases m)" and "is_absolute alias" and "\<not> prefix (pm_workspace_root m) (alias @ rest)"
    and "list_all (\<lambda>c. c \<noteq> CurDir \<and> c \<noteq> RootDir) rest"
    and "\<And>other. other \<in> set (aliases m) \<Longrightarrow> prefix other (alias @ rest) \<Longrightarrow> other = alias"
  shows "map_path m (alias @ rest) = pm_workspace_root m @ rest"
proof -
  have "find (\<lambda>alias'. prefix alias' (alias @ rest)) (aliases m) = Some alias"
  proof (cases "find (\<lambda>alias'. prefix alias' (alias @ rest)) (aliases m)")
    case None
    with assms(1) show ?thesis by (auto simp: find_None_iff)
  next
    case (Some other)
    with assms(5) find_SomeD [OF Some] show ?thesis by simp
  qed
  moreover have "filter (\<lambda>c. c \<noteq> CurDir) rest = rest"
    using assms(4) by (auto simp: list_all_iff intro: filter_True)
  moreover have "\<not> is_absolute rest" using assms(4) by (cases rest) auto
  moreover have "is_absolute (alias @ rest)" using assms(2) by (rule prefix_prefix)
  ultimately show ?thesis using assms(3) by (simp add: map_path_def join_path_def)
qed

section \<open>Witnesses\<close>

definition ex_fs :: File_System where
  "ex_fs = \<lparr>fs_exists = (\<lambda>p. p = [RootDir] \<or> p = [RootDir, Normal ''w'']),
     fs_canonicalize = (\<lambda>p. if plain_path p then Some p else None)\<rparr>"

definition ex_policy :: WorkspacePolicy where
  "ex_policy = \<lparr>workspace_root = [RootDir, Normal ''w''], path_mapper = mapper_new [RootDir, Normal ''w''],
     sensitive_path_fragments = [''.env''], policy_mode = Guarded\<rparr>"

lemma ex_path_allowed:
  "pe_decision (evaluate_path ex_fs ex_policy 1 ''write'' ''/app/src/main.rs'' False) = PolicyDecision.Allow"
  by code_simp

theorem allowed_path_stays_inside_witness:
  "\<exists>resolved. resolve_path ex_fs ex_policy (components ''/app/src/main.rs'') False = Inr resolved \<and>
     prefix [RootDir, Normal ''w''] resolved"
proof -
  have "canonical_fs ex_fs" by (auto simp: canonical_fs_def ex_fs_def)
  from allowed_path_stays_inside [OF this _ ex_path_allowed] show ?thesis by (auto simp: ex_policy_def)
qed

end
