(* ===== verification/Verification.thy ===== *)
theory Verification
  imports Text Core_Types
begin

text \<open>
  The verifier (\<^verbatim>\<open>golutra-agent-verify/src/lib.rs\<close>): it fixes the task class and the assertions
  of a task before it looks at the facts, then gives every assertion a status and combines them
  into the result. Identifiers and the time of the plan are arguments.
\<close>

section \<open>Input and text analysis\<close>

record VerificationInput =
  vi_task_id :: uuid
  vi_objective :: string
  vi_completion_criteria :: "string list"
  vi_evidence_refs :: "uuid list"
  vi_command_checks :: "VerificationCheck list"
  vi_requires_workspace_evidence :: bool
  vi_code_files_changed :: bool

definition contains_some :: "string \<Rightarrow> string list \<Rightarrow> bool" where
  "contains_some s phrases = list_ex (\<lambda>phrase. contains s phrase) phrases"

definition contains_word :: "string \<Rightarrow> string \<Rightarrow> bool" where
  "contains_word t word =
     list_ex (\<lambda>token. trim_matches (\<lambda>c. \<not> is_ascii_alphanumeric c) token = word) (split_whitespace t)"

text \<open>The phrases in Chinese are given by their UTF-8 bytes.\<close>

abbreviation TEST_PHRASES :: "string list" where
  "TEST_PHRASES \<equiv>
     [''tests pass'', ''tests passed'', ''test passes'', ''test passed'', ''run tests'',
      ''run the tests'', ''test suite'', ''test command'', ''test result'', ''fixture passes'',
      ''fixture passed'']"

abbreviation CJK_TEST_PHRASES :: "string list" where
  "CJK_TEST_PHRASES \<equiv>
     [[CHR 0xE6, CHR 0xB5, CHR 0x8B, CHR 0xE8, CHR 0xAF, CHR 0x95, CHR 0xE9, CHR 0x80, CHR 0x9A, CHR 0xE8, CHR 0xBF, CHR 0x87],
      [CHR 0xE6, CHR 0xB5, CHR 0x8B, CHR 0xE8, CHR 0xAF, CHR 0x95, CHR 0xE6, CHR 0x88, CHR 0x90, CHR 0xE5, CHR 0x8A, CHR 0x9F],
      [CHR 0xE8, CHR 0xBF, CHR 0x90, CHR 0xE8, CHR 0xA1, CHR 0x8C, CHR 0xE6, CHR 0xB5, CHR 0x8B, CHR 0xE8, CHR 0xAF, CHR 0x95],
      [CHR 0xE6, CHR 0xB5, CHR 0x8B, CHR 0xE8, CHR 0xAF, CHR 0x95, CHR 0xE5, CHR 0x91, CHR 0xBD, CHR 0xE4, CHR 0xBB, CHR 0xA4],
      [CHR 0xE7, CHR 0x94, CHR 0xA8, CHR 0xE4, CHR 0xBE, CHR 0x8B, CHR 0xE9, CHR 0x80, CHR 0x9A, CHR 0xE8, CHR 0xBF, CHR 0x87],
      [CHR 0xE7, CHR 0x94, CHR 0xA8, CHR 0xE4, CHR 0xBE, CHR 0x8B, CHR 0xE6, CHR 0x88, CHR 0x90, CHR 0xE5, CHR 0x8A, CHR 0x9F]]"

definition criterion_requests_test :: "string \<Rightarrow> string \<Rightarrow> bool" where
  "criterion_requests_test lower original \<longleftrightarrow>
     contains_some lower TEST_PHRASES \<or> contains_some original CJK_TEST_PHRASES"

abbreviation DIAGNOSTIC_PHRASES :: "string list" where
  "DIAGNOSTIC_PHRASES \<equiv>
     [''check passes'', ''check passed'', ''run the check'', ''run checks'', ''build passes'',
      ''build passed'', ''compile succeeds'', ''compiles successfully'', ''lint passes'',
      ''typecheck passes'', ''diagnostic passes'', ''schema validates'']"

abbreviation CJK_DIAGNOSTIC_PHRASES :: "string list" where
  "CJK_DIAGNOSTIC_PHRASES \<equiv>
     [[CHR 0xE6, CHR 0xA3, CHR 0x80, CHR 0xE6, CHR 0x9F, CHR 0xA5, CHR 0xE9, CHR 0x80, CHR 0x9A, CHR 0xE8, CHR 0xBF, CHR 0x87],
      [CHR 0xE6, CHR 0xA3, CHR 0x80, CHR 0xE6, CHR 0x9F, CHR 0xA5, CHR 0xE6, CHR 0x88, CHR 0x90, CHR 0xE5, CHR 0x8A, CHR 0x9F],
      [CHR 0xE8, CHR 0xBF, CHR 0x90, CHR 0xE8, CHR 0xA1, CHR 0x8C, CHR 0xE6, CHR 0xA3, CHR 0x80, CHR 0xE6, CHR 0x9F, CHR 0xA5],
      [CHR 0xE6, CHR 0x9E, CHR 0x84, CHR 0xE5, CHR 0xBB, CHR 0xBA, CHR 0xE9, CHR 0x80, CHR 0x9A, CHR 0xE8, CHR 0xBF, CHR 0x87],
      [CHR 0xE7, CHR 0xBC, CHR 0x96, CHR 0xE8, CHR 0xAF, CHR 0x91, CHR 0xE9, CHR 0x80, CHR 0x9A, CHR 0xE8, CHR 0xBF, CHR 0x87],
      [CHR 0xE8, CHR 0xAF, CHR 0x8A, CHR 0xE6, CHR 0x96, CHR 0xAD, CHR 0xE9, CHR 0x80, CHR 0x9A, CHR 0xE8, CHR 0xBF, CHR 0x87],
      [CHR 0xE5, CHR 0x8D, CHR 0x8F, CHR 0xE8, CHR 0xAE, CHR 0xAE, CHR 0xE9, CHR 0x80, CHR 0x9A, CHR 0xE8, CHR 0xBF, CHR 0x87]]"

definition criterion_requests_diagnostic :: "string \<Rightarrow> string \<Rightarrow> bool" where
  "criterion_requests_diagnostic lower original \<longleftrightarrow>
     contains_some lower DIAGNOSTIC_PHRASES \<or> contains_some original CJK_DIAGNOSTIC_PHRASES"

abbreviation CONTENT_WORDS :: "string list" where
  "CONTENT_WORDS \<equiv>
     [''content'', ''contains'', ''equals'', ''match'']"

abbreviation CJK_CONTENT_WORDS :: "string list" where
  "CJK_CONTENT_WORDS \<equiv>
     [[CHR 0xE5, CHR 0x86, CHR 0x85, CHR 0xE5, CHR 0xAE, CHR 0xB9],
      [CHR 0xE5, CHR 0x8C, CHR 0x85, CHR 0xE5, CHR 0x90, CHR 0xAB],
      [CHR 0xE7, CHR 0xAD, CHR 0x89, CHR 0xE4, CHR 0xBA, CHR 0x8E],
      [CHR 0xE5, CHR 0x8C, CHR 0xB9, CHR 0xE9, CHR 0x85, CHR 0x8D]]"

abbreviation FILE_WORDS :: "string list" where
  "FILE_WORDS \<equiv>
     [''file'', ''path'', ''diff'', ''write'', ''edit'', ''create'']"

abbreviation CJK_FILE_WORDS :: "string list" where
  "CJK_FILE_WORDS \<equiv>
     [[CHR 0xE6, CHR 0x96, CHR 0x87, CHR 0xE4, CHR 0xBB, CHR 0xB6],
      [CHR 0xE8, CHR 0xB7, CHR 0xAF, CHR 0xE5, CHR 0xBE, CHR 0x84],
      [CHR 0xE5, CHR 0xB7, CHR 0xAE, CHR 0xE5, CHR 0xBC, CHR 0x82],
      [CHR 0xE5, CHR 0x86, CHR 0x99, CHR 0xE5, CHR 0x85, CHR 0xA5],
      [CHR 0xE4, CHR 0xBF, CHR 0xAE, CHR 0xE6, CHR 0x94, CHR 0xB9],
      [CHR 0xE5, CHR 0x88, CHR 0x9B, CHR 0xE5, CHR 0xBB, CHR 0xBA]]"

definition mentions :: "string \<Rightarrow> string \<Rightarrow> string list \<Rightarrow> string list \<Rightarrow> bool" where
  "mentions lower original ascii_words cjk_words \<longleftrightarrow>
     list_ex (contains_word lower) ascii_words \<or> contains_some original cjk_words"

definition criterion_assertion_kind :: "TaskClass \<Rightarrow> string \<Rightarrow> VerificationAssertionKind" where
  "criterion_assertion_kind task_class criterion =
     (let lower = to_ascii_lowercase criterion in
      if task_class = PlainConversation then VerificationAssertionKind.AssistantResponse
      else if criterion_requests_test lower criterion then VerificationAssertionKind.Test
      else if criterion_requests_diagnostic lower criterion then VerificationAssertionKind.Diagnostic
      else if mentions lower criterion CONTENT_WORDS CJK_CONTENT_WORDS
      then VerificationAssertionKind.Diagnostic
      else if mentions lower criterion FILE_WORDS CJK_FILE_WORDS
      then VerificationAssertionKind.FileState
      else VerificationAssertionKind.Delivery)"

abbreviation MUTATION_MARKERS :: "string list" where
  "MUTATION_MARKERS \<equiv>
     [''create'', ''created'', ''configure'', ''configured'', ''deploy'', ''edit'', ''enable'',
      ''extract'', ''fix'', ''generate'', ''implement'', ''install'', ''modify'', ''move'',
      ''rename'', ''recover'', ''remove'', ''restart'', ''save'', ''setup'', ''start'', ''stop'',
      ''update'', ''upload'', ''write'']"

abbreviation CJK_MUTATION_MARKERS :: "string list" where
  "CJK_MUTATION_MARKERS \<equiv>
     [[CHR 0xE5, CHR 0x88, CHR 0x9B, CHR 0xE5, CHR 0xBB, CHR 0xBA],
      [CHR 0xE9, CHR 0x85, CHR 0x8D, CHR 0xE7, CHR 0xBD, CHR 0xAE],
      [CHR 0xE9, CHR 0x83, CHR 0xA8, CHR 0xE7, CHR 0xBD, CHR 0xB2],
      [CHR 0xE7, CHR 0xBC, CHR 0x96, CHR 0xE8, CHR 0xBE, CHR 0x91],
      [CHR 0xE5, CHR 0x90, CHR 0xAF, CHR 0xE7, CHR 0x94, CHR 0xA8],
      [CHR 0xE6, CHR 0x8F, CHR 0x90, CHR 0xE5, CHR 0x8F, CHR 0x96],
      [CHR 0xE4, CHR 0xBF, CHR 0xAE, CHR 0xE5, CHR 0xA4, CHR 0x8D],
      [CHR 0xE7, CHR 0x94, CHR 0x9F, CHR 0xE6, CHR 0x88, CHR 0x90],
      [CHR 0xE5, CHR 0xAE, CHR 0x9E, CHR 0xE7, CHR 0x8E, CHR 0xB0],
      [CHR 0xE5, CHR 0xAE, CHR 0x89, CHR 0xE8, CHR 0xA3, CHR 0x85],
      [CHR 0xE4, CHR 0xBF, CHR 0xAE, CHR 0xE6, CHR 0x94, CHR 0xB9],
      [CHR 0xE7, CHR 0xA7, CHR 0xBB, CHR 0xE5, CHR 0x8A, CHR 0xA8],
      [CHR 0xE9, CHR 0x87, CHR 0x8D, CHR 0xE5, CHR 0x91, CHR 0xBD, CHR 0xE5, CHR 0x90, CHR 0x8D],
      [CHR 0xE6, CHR 0x81, CHR 0xA2, CHR 0xE5, CHR 0xA4, CHR 0x8D],
      [CHR 0xE5, CHR 0x88, CHR 0xA0, CHR 0xE9, CHR 0x99, CHR 0xA4],
      [CHR 0xE9, CHR 0x87, CHR 0x8D, CHR 0xE5, CHR 0x90, CHR 0xAF],
      [CHR 0xE4, CHR 0xBF, CHR 0x9D, CHR 0xE5, CHR 0xAD, CHR 0x98],
      [CHR 0xE5, CHR 0x90, CHR 0xAF, CHR 0xE5, CHR 0x8A, CHR 0xA8],
      [CHR 0xE5, CHR 0x81, CHR 0x9C, CHR 0xE6, CHR 0xAD, CHR 0xA2],
      [CHR 0xE6, CHR 0x9B, CHR 0xB4, CHR 0xE6, CHR 0x96, CHR 0xB0],
      [CHR 0xE4, CHR 0xB8, CHR 0x8A, CHR 0xE4, CHR 0xBC, CHR 0xA0],
      [CHR 0xE5, CHR 0x86, CHR 0x99, CHR 0xE5, CHR 0x85, CHR 0xA5]]"

definition requires_objective_validation :: "string \<Rightarrow> bool" where
  "requires_objective_validation objective \<longleftrightarrow>
     (let words = split_by (\<lambda>c. \<not> is_ascii_alphabetic c) (to_ascii_lowercase objective) in
      list_ex (\<lambda>marker. marker \<in> set words) MUTATION_MARKERS) \<or>
     contains_some objective CJK_MUTATION_MARKERS"

section \<open>Objective checks\<close>

abbreviation EXTERNAL_VERIFIER :: string where
  "EXTERNAL_VERIFIER \<equiv> ''objective:test:external_verifier''"

definition is_external_verifier :: "VerificationCheck \<Rightarrow> bool" where
  "is_external_verifier check \<longleftrightarrow> chk_name check = EXTERNAL_VERIFIER"

abbreviation is_contract_objective_check :: "VerificationCheck \<Rightarrow> bool" where
  "is_contract_objective_check check \<equiv>
     starts_with (chk_name check) ''objective:path:'' \<or> starts_with (chk_name check) ''objective:content:''"

definition is_unknown_objective_check :: "VerificationCheck \<Rightarrow> bool" where
  "is_unknown_objective_check check \<longleftrightarrow>
     chk_kind check = VerificationCheckKind.ObjectiveValidation \<and>
     starts_with (chk_name check) ''objective:unknown:''"

text \<open>Checks of one identity supersede each other; the name alone identifies some of them.\<close>

definition check_identity :: "VerificationCheck \<Rightarrow> string" where
  "check_identity check =
     (if chk_kind check = VerificationCheckKind.ObjectiveValidation \<and>
         starts_with (chk_name check) ''objective:'' \<and> contains (chk_name check) '':identity:''
      then chk_name check
      else chk_name check @ [CHR 0x00] @ (case chk_command check of None \<Rightarrow> [] | Some c \<Rightarrow> c))"

fun keep_unseen :: "string list \<Rightarrow> VerificationCheck list \<Rightarrow> VerificationCheck list" where
  "keep_unseen seen [] = []"
| "keep_unseen seen (check # checks) =
     (if check_identity check \<in> set seen then keep_unseen seen checks
      else check # keep_unseen (check_identity check # seen) checks)"

definition latest_distinct_checks :: "VerificationCheck list \<Rightarrow> VerificationCheck list" where
  "latest_distinct_checks checks = rev (keep_unseen [] (rev checks))"

definition authoritative_objective_checks :: "VerificationCheck list \<Rightarrow> VerificationCheck list" where
  "authoritative_objective_checks checks =
     (let latest = latest_distinct_checks checks;
          external_commands = List.map_filter chk_command (filter is_external_verifier latest)
      in if \<not> list_ex is_external_verifier latest then latest
         else filter (\<lambda>check. is_external_verifier check \<or> is_contract_objective_check check \<or>
                (case chk_command check of None \<Rightarrow> True
                 | Some command \<Rightarrow> command \<notin> set external_commands)) latest)"

definition passed_check :: "VerificationCheck list \<Rightarrow> VerificationCheckKind \<Rightarrow> bool" where
  "passed_check checks kind = list_ex (\<lambda>check. chk_kind check = kind \<and> chk_passed check) checks"

abbreviation DELIVERY_STOP_WORDS :: "string list" where
  "DELIVERY_STOP_WORDS \<equiv>
     [''the'', ''and'', ''for'', ''with'', ''from'', ''that'', ''this'', ''exists'', ''available'',
      ''returned'']"

definition delivery_tokens :: "string \<Rightarrow> string list" where
  "delivery_tokens criterion =
     filter (\<lambda>token. length token \<ge> 3 \<and> token \<notin> set DELIVERY_STOP_WORDS)
       (split_by (\<lambda>c. \<not> is_ascii_alphanumeric c \<and> c \<noteq> CHR ''_'') criterion)"

definition delivery_check_matches :: "VerificationAssertion \<Rightarrow> VerificationCheck \<Rightarrow> bool" where
  "delivery_check_matches a check =
     (if va_criterion_id a = ''delivery_paths'' then chk_name check = ''objective:path:delivery''
      else if va_criterion_id a = ''analysis_evidence'' then True
      else
        let criterion = to_ascii_lowercase (trim (va_expected a));
            check_text = to_ascii_lowercase (chk_name check) @ '' '' @
              to_ascii_lowercase (chk_message check) @ '' '' @
              to_ascii_lowercase (case chk_command check of None \<Rightarrow> [] | Some c \<Rightarrow> c);
            tokens = delivery_tokens criterion
        in if list_all (\<lambda>token. token \<in> set [''evidence'', ''artifact'', ''output'', ''delivery'']) tokens
           then True
           else contains_some check_text tokens \<or>
                (list_ex (\<lambda>c. \<not> in_range 0 127 c) criterion \<and> contains check_text criterion))"

section \<open>The plan\<close>

definition assertion ::
  "string \<Rightarrow> VerificationAssertionKind \<Rightarrow> string \<Rightarrow> string \<Rightarrow> bool \<Rightarrow> uuid \<Rightarrow> VerificationAssertion" where
  "assertion criterion_id kind subject expected blocking assertion_id =
     \<lparr>va_assertion_id = assertion_id, va_criterion_id = criterion_id, va_kind = kind,
      va_subject = subject, va_expected = expected, va_verifier_id = ''golutra-agent-verifier/semantic'',
      va_required_evidence_strength = (if blocking then ''medium'' else ''none''),
      va_blocking = blocking, va_status = VerificationAssertionStatus.Pending, va_evidence_refs = [],
      va_message = ''assertion is pending execution facts''\<rparr>"

definition classify_task :: "VerificationInput \<Rightarrow> TaskClass" where
  "classify_task input =
     (if vi_code_files_changed input then TaskClass.CodeChange
      else if vi_requires_workspace_evidence input \<and>
        list_ex (\<lambda>check. chk_kind check = VerificationCheckKind.WorkspaceChange) (vi_command_checks input)
      then TaskClass.WorkspaceChange
      else if vi_requires_workspace_evidence input then TaskClass.ReadOnlyAnalysis
      else if vi_evidence_refs input = [] \<and>
        list_all (\<lambda>check. chk_kind check \<in> {VerificationCheckKind.AssistantResponse,
          VerificationCheckKind.Schema, VerificationCheckKind.Policy}) (vi_command_checks input)
      then TaskClass.PlainConversation
      else TaskClass.ReadOnlyAnalysis)"

text \<open>The assertions of a class, still without their identifiers.\<close>

type_synonym pending = "uuid \<Rightarrow> VerificationAssertion"

definition has_kind :: "VerificationCheckKind \<Rightarrow> VerificationCheck list \<Rightarrow> bool" where
  "has_kind kind = list_ex (\<lambda>check. chk_kind check = kind)"

definition response_assertion :: "string \<Rightarrow> pending" where
  "response_assertion expected =
     assertion ''assistant_response'' VerificationAssertionKind.AssistantResponse ''assistant response''
       expected False"

definition analysis_assertions :: "VerificationCheck list \<Rightarrow> pending list" where
  "analysis_assertions checks =
     response_assertion ''a non-empty answer is emitted'' #
     (if checks = [] then []
      else assertion ''analysis_evidence'' VerificationAssertionKind.Delivery ''analysis evidence''
             ''observations are backed by durable tool evidence'' True #
           (if has_kind VerificationCheckKind.ObjectiveValidation checks
            then [assertion ''analysis_objective'' VerificationAssertionKind.Diagnostic
                    ''requested observation'' ''the observed file or command target matches the objective''
                    True]
            else []))"

definition workspace_assertions :: "pending list" where
  "workspace_assertions =
     [assertion ''workspace_diff'' VerificationAssertionKind.Diff ''workspace''
        ''the requested workspace change is recorded'' True,
      assertion ''file_state'' VerificationAssertionKind.FileState ''changed files''
        ''changed file state is represented by durable evidence'' True,
      assertion ''workspace_validation'' VerificationAssertionKind.Diagnostic ''objective''
        ''an objective validation command or check succeeds'' True]"

definition code_assertions :: "pending list" where
  "code_assertions =
     [assertion ''workspace_diff'' VerificationAssertionKind.Diff ''workspace''
        ''the requested code change is recorded'' True,
      assertion ''file_state'' VerificationAssertionKind.FileState ''changed code files''
        ''the changed code files have durable before/after evidence'' True,
      assertion ''tests_or_diagnostics'' VerificationAssertionKind.Test ''objective''
        ''a test, check, build, or diagnostic command succeeds'' True]"

definition class_assertions :: "TaskClass \<Rightarrow> VerificationCheck list \<Rightarrow> pending list" where
  "class_assertions task_class checks =
     (case task_class of
        TaskClass.PlainConversation \<Rightarrow> [response_assertion ''a non-empty assistant response is emitted'']
      | TaskClass.ReadOnlyAnalysis \<Rightarrow> analysis_assertions checks
      | TaskClass.WorkspaceChange \<Rightarrow> workspace_assertions
      | TaskClass.CodeChange \<Rightarrow> code_assertions)"

definition delivery_assertions :: "VerificationCheck list \<Rightarrow> pending list" where
  "delivery_assertions checks =
     (if list_ex (\<lambda>check. chk_name check = ''objective:path:delivery'') checks
      then [assertion ''delivery_paths'' VerificationAssertionKind.Delivery ''requested delivery paths''
              ''all explicitly requested delivery paths are present in the workspace change'' True]
      else [])"

definition effect_assertions :: "TaskClass \<Rightarrow> string \<Rightarrow> VerificationCheck list \<Rightarrow> pending list" where
  "effect_assertions task_class objective checks =
     (if task_class = TaskClass.ReadOnlyAnalysis \<and> requires_objective_validation objective \<and>
         \<not> list_ex (\<lambda>check. chk_kind check = VerificationCheckKind.ObjectiveValidation \<and>
             chk_name check \<noteq> ''objective:path:delivery'') checks
      then [assertion ''effect_validation'' VerificationAssertionKind.Diagnostic ''objective''
              ''a command independently validates the requested external or workspace effect'' True]
      else [])"

definition criterion_assertions :: "TaskClass \<Rightarrow> string list \<Rightarrow> pending list" where
  "criterion_assertions task_class criteria =
     map (\<lambda>(index, criterion).
         assertion (''criterion-'' @ show_nat (index + 1)) (criterion_assertion_kind task_class criterion)
           criterion criterion True)
       (enumerate 0 criteria)"

definition schema_assertions :: "VerificationCheck list \<Rightarrow> pending list" where
  "schema_assertions checks =
     (if has_kind VerificationCheckKind.Schema checks
      then [assertion ''output_schema'' VerificationAssertionKind.Schema ''assistant output''
              ''the final assistant response validates against the requested JSON Schema'' True]
      else [])"

definition pending_assertions :: "VerificationInput \<Rightarrow> pending list" where
  "pending_assertions input =
     (let task_class = classify_task input; checks = vi_command_checks input in
      class_assertions task_class checks @ delivery_assertions checks @
      effect_assertions task_class (vi_objective input) checks @
      criterion_assertions task_class (vi_completion_criteria input) @ schema_assertions checks)"

definition policy_assertion :: pending where
  "policy_assertion =
     assertion ''policy'' VerificationAssertionKind.Policy ''runtime policy''
       ''no blocking policy decision is present'' True"

text \<open>The identifiers of the plan: one for itself and one for each assertion by position.\<close>

record Plan_Ids =
  plan_id_of :: uuid
  assertion_id_of :: "nat \<Rightarrow> uuid"
  plan_time :: timestamp

abbreviation default_dimensions :: VerificationDimensions where
  "default_dimensions \<equiv>
     \<lparr>evidence_status = VerificationDimensionStatus.Unknown,
      objective_status = VerificationDimensionStatus.Unknown,
      policy_dim_status = VerificationDimensionStatus.Unknown\<rparr>"

definition plan :: "Plan_Ids \<Rightarrow> VerificationInput \<Rightarrow> VerificationPlan" where
  "plan ids input =
     (let task_class = classify_task input; pendings = pending_assertions input in
      \<lparr>vp_plan_id = plan_id_of ids, vp_task_id = vi_task_id input, vp_task_class = task_class,
       vp_criteria = vi_completion_criteria input,
       vp_assertions = map (\<lambda>(i, a). a (assertion_id_of ids i)) (enumerate 0 pendings),
       vp_policy_assertions = [policy_assertion (assertion_id_of ids (length pendings))],
       vp_required_artifact_types =
         (if task_class \<in> {TaskClass.WorkspaceChange, TaskClass.CodeChange}
          then [''tool_output'', ''evidence''] else []),
       vp_generated_by = ''golutra-agent-verifier/v3'', vp_verifier_versions = [''semantic-assertions-v2''],
       vp_dimensions = default_dimensions, vp_revision = 1, vp_created_at = plan_time ids\<rparr>)"

section \<open>The status of an assertion\<close>

type_synonym verdict = "VerificationAssertionStatus \<times> string \<times> uuid list"

abbreviation collected_refs :: "VerificationCheck list \<Rightarrow> uuid list" where
  "collected_refs checks \<equiv> concat (map chk_evidence_refs checks)"

definition of_kind :: "VerificationCheckKind \<Rightarrow> VerificationInput \<Rightarrow> VerificationCheck list" where
  "of_kind kind input = filter (\<lambda>check. chk_kind check = kind) (vi_command_checks input)"

definition response_status :: "VerificationInput \<Rightarrow> verdict" where
  "response_status input =
     (if passed_check (vi_command_checks input) VerificationCheckKind.AssistantResponse \<or>
         (vi_command_checks input = [] \<and> \<not> is_blank (vi_objective input))
      then (VerificationAssertionStatus.Pass, ''assistant response exists'', vi_evidence_refs input)
      else (VerificationAssertionStatus.Unknown, ''assistant response fact is missing'', vi_evidence_refs input))"

definition schema_status :: "VerificationInput \<Rightarrow> verdict" where
  "schema_status input =
     (let checks = of_kind VerificationCheckKind.Schema input; refs = vi_evidence_refs input in
      if list_ex (\<lambda>check. \<not> chk_passed check) checks
      then (VerificationAssertionStatus.Fail,
            ''assistant response does not satisfy the requested JSON Schema'', refs)
      else if list_ex chk_passed checks
      then (VerificationAssertionStatus.Pass,
            ''assistant response satisfies the requested JSON Schema'', refs)
      else (VerificationAssertionStatus.Unknown, ''no output schema validation fact was recorded'', refs))"

definition change_status :: "VerificationInput \<Rightarrow> verdict" where
  "change_status input =
     (let checks = of_kind VerificationCheckKind.WorkspaceChange input in
      if list_ex (\<lambda>check. chk_passed check \<and> chk_evidence_refs check \<noteq> []) checks
      then (VerificationAssertionStatus.Pass, ''workspace change is linked to evidence'', collected_refs checks)
      else if list_ex chk_passed checks
      then (VerificationAssertionStatus.Unknown, ''workspace change has no linked evidence'', vi_evidence_refs input)
      else (VerificationAssertionStatus.Fail, ''workspace change was not recorded'', vi_evidence_refs input))"

definition tests_or_diagnoses :: "string \<Rightarrow> bool" where
  "tests_or_diagnoses name \<longleftrightarrow>
     starts_with name ''objective:test:'' \<or> starts_with name ''objective:diagnostic:''"

text \<open>Which objective checks speak about an assertion.\<close>

definition check_applies :: "VerificationAssertion \<Rightarrow> VerificationCheck \<Rightarrow> bool" where
  "check_applies a check =
     (let name = chk_name check; criterion = va_criterion_id a in
      name = EXTERNAL_VERIFIER \<or>
      (if criterion = ''tests_or_diagnostics'' then tests_or_diagnoses name
       else if criterion = ''analysis_objective'' then starts_with name ''objective:''
       else if criterion = ''effect_validation'' then tests_or_diagnoses name
       else if criterion = ''workspace_validation''
       then tests_or_diagnoses name \<or> starts_with name ''objective:content:''
       else if va_kind a = VerificationAssertionKind.Test then starts_with name ''objective:test:''
       else if va_kind a = VerificationAssertionKind.Diagnostic
       then \<not> starts_with name ''objective:test:''
       else False))"

definition objective_status_of :: "VerificationAssertion \<Rightarrow> VerificationInput \<Rightarrow> bool \<Rightarrow> verdict" where
  "objective_status_of a input has_evidence =
     (let checks = authoritative_objective_checks
            (filter (check_applies a)
              (filter (\<lambda>check. \<not> is_unknown_objective_check check)
                (of_kind VerificationCheckKind.ObjectiveValidation input)))
      in case find (\<lambda>check. \<not> chk_passed check) checks of
           Some failed \<Rightarrow>
             (VerificationAssertionStatus.Fail,
              (if is_blank (chk_message failed) then ''at least one objective validation failed''
               else ''objective validation failed: '' @ trim (chk_message failed)),
              vi_evidence_refs input)
         | None \<Rightarrow>
             if list_ex chk_passed checks \<and> has_evidence
             then (VerificationAssertionStatus.Pass, ''objective validation passed with evidence'',
                   collected_refs checks)
             else (VerificationAssertionStatus.Unknown, ''no objective validation fact was recorded'',
                   vi_evidence_refs input))"

definition delivery_status :: "VerificationAssertion \<Rightarrow> VerificationInput \<Rightarrow> bool \<Rightarrow> verdict" where
  "delivery_status a input has_evidence =
     (let checks = filter (delivery_check_matches a) (vi_command_checks input) in
      if list_ex (\<lambda>check. \<not> chk_passed check \<and>
           chk_kind check = VerificationCheckKind.ObjectiveValidation) checks
      then (VerificationAssertionStatus.Fail, ''a requested delivery check failed'', collected_refs checks)
      else if has_evidence \<and> list_ex (\<lambda>check. chk_passed check \<and> chk_evidence_refs check \<noteq> []) checks
      then (VerificationAssertionStatus.Pass, ''matching delivered evidence is available'',
            collected_refs (filter chk_passed checks))
      else (VerificationAssertionStatus.Unknown, ''no matching delivered evidence is available'',
            vi_evidence_refs input))"

definition policy_status_of :: "VerificationInput \<Rightarrow> verdict" where
  "policy_status_of input =
     (let checks = filter (\<lambda>check. chk_kind check = VerificationCheckKind.Policy \<or>
            starts_with (chk_name check) ''policy:'') (vi_command_checks input)
      in if list_ex (\<lambda>check. \<not> chk_passed check) checks
         then (VerificationAssertionStatus.Fail, ''a policy assertion failed'', collected_refs checks)
         else if checks \<noteq> []
         then (VerificationAssertionStatus.Pass, ''all recorded policy decisions allowed execution'',
               collected_refs checks)
         else (VerificationAssertionStatus.Unknown, ''no policy decision fact was recorded'',
               vi_evidence_refs input))"

definition assertion_status :: "VerificationAssertion \<Rightarrow> VerificationInput \<Rightarrow> bool \<Rightarrow> verdict" where
  "assertion_status a input has_evidence =
     (case va_kind a of
        VerificationAssertionKind.AssistantResponse \<Rightarrow> response_status input
      | VerificationAssertionKind.Schema \<Rightarrow> schema_status input
      | VerificationAssertionKind.Diff \<Rightarrow> change_status input
      | VerificationAssertionKind.FileState \<Rightarrow> change_status input
      | VerificationAssertionKind.Test \<Rightarrow> objective_status_of a input has_evidence
      | VerificationAssertionKind.Diagnostic \<Rightarrow> objective_status_of a input has_evidence
      | VerificationAssertionKind.Delivery \<Rightarrow> delivery_status a input has_evidence
      | VerificationAssertionKind.Policy \<Rightarrow> policy_status_of input
      | VerificationAssertionKind.CommandExit \<Rightarrow>
          (VerificationAssertionStatus.NotApplicable,
           ''assertion kind is not emitted by the current tool adapter'', vi_evidence_refs input))"

definition settle :: "VerificationInput \<Rightarrow> bool \<Rightarrow> VerificationAssertion \<Rightarrow> VerificationAssertion" where
  "settle input has_evidence a =
     (let (status, message, refs) = assertion_status a input has_evidence in
      a\<lparr>va_status := status, va_message := message, va_evidence_refs := refs\<rparr>)"

section \<open>The record\<close>

definition aggregate_dimension :: "VerificationAssertion list \<Rightarrow> VerificationDimensionStatus" where
  "aggregate_dimension assertions =
     (let statuses = map va_status assertions in
      if statuses = [] then VerificationDimensionStatus.Unknown
      else if VerificationAssertionStatus.Fail \<in> set statuses then VerificationDimensionStatus.Fail
      else if VerificationAssertionStatus.Unknown \<in> set statuses then VerificationDimensionStatus.Partial
      else if list_all (\<lambda>s. s = VerificationAssertionStatus.Pass) statuses
      then VerificationDimensionStatus.Pass
      else VerificationDimensionStatus.Partial)"

definition verification_dimensions :: "VerificationPlan \<Rightarrow> bool \<Rightarrow> VerificationDimensions" where
  "verification_dimensions p has_evidence =
     \<lparr>evidence_status =
        (if vp_task_class p = TaskClass.PlainConversation \<or> has_evidence
         then VerificationDimensionStatus.Pass
         else if list_ex va_blocking (vp_assertions p) then VerificationDimensionStatus.Fail
         else VerificationDimensionStatus.Unknown),
      objective_status = aggregate_dimension (filter va_blocking (vp_assertions p)),
      policy_dim_status = aggregate_dimension (filter va_blocking (vp_policy_assertions p))\<rparr>"

definition residual_risks :: "VerificationResult \<Rightarrow> string list" where
  "residual_risks result =
     (case result of
        VerificationResult.Pass \<Rightarrow> []
      | VerificationResult.Fail \<Rightarrow> [''objective evidence is missing or failed'']
      | VerificationResult.Partial \<Rightarrow> [''some objective checks failed'']
      | VerificationResult.Unknown \<Rightarrow> [''verification evidence is insufficient''])"

definition objective_checks_passed :: "VerificationInput \<Rightarrow> bool" where
  "objective_checks_passed input =
     (let latest = authoritative_objective_checks (of_kind VerificationCheckKind.ObjectiveValidation input)
      in latest \<noteq> [] \<and> list_all chk_passed latest)"

definition conversational_pass :: "VerificationInput \<Rightarrow> bool" where
  "conversational_pass input \<longleftrightarrow>
     \<not> vi_code_files_changed input \<and> \<not> vi_requires_workspace_evidence input \<and>
     passed_check (vi_command_checks input) VerificationCheckKind.AssistantResponse \<and>
     list_all chk_passed (of_kind VerificationCheckKind.Schema input) \<and>
     list_all chk_passed (filter (\<lambda>check. chk_kind check \<notin> {VerificationCheckKind.AssistantResponse,
       VerificationCheckKind.Schema}) (vi_command_checks input))"

definition legacy_result :: "VerificationInput \<Rightarrow> VerificationResult" where
  "legacy_result input =
     (let has_evidence = vi_evidence_refs input \<noteq> [];
          objective_validated = objective_checks_passed input;
          commands_passed = objective_validated \<or>
            passed_check (vi_command_checks input) VerificationCheckKind.ToolExecution;
          change_recorded = passed_check (vi_command_checks input) VerificationCheckKind.WorkspaceChange
      in if conversational_pass input then VerificationResult.Pass
         else if vi_code_files_changed input
         then (if has_evidence \<and> commands_passed \<and> change_recorded \<and> objective_validated
               then VerificationResult.Pass
               else if has_evidence \<and> change_recorded then VerificationResult.Partial
               else VerificationResult.Fail)
         else if has_evidence
         then (if commands_passed then VerificationResult.Pass else VerificationResult.Partial)
         else if vi_requires_workspace_evidence input then VerificationResult.Fail
         else VerificationResult.Unknown)"

definition verify_legacy :: "uuid \<Rightarrow> VerificationInput \<Rightarrow> VerificationRecord" where
  "verify_legacy verification_id input =
     \<lparr>vr_verification_id = verification_id, vr_task_id = vi_task_id input,
      vr_objective = vi_objective input, vr_completion_criteria = vi_completion_criteria input,
      vr_checks = vi_command_checks input, vr_evidence_refs = vi_evidence_refs input,
      vr_result = legacy_result input, vr_policy_status = ''p0_policy_checked'',
      vr_residual_risks = residual_risks (legacy_result input), vr_plan_id = None, vr_assertions = [],
      vr_source = VerificationSource.Runtime, vr_independence = VerificationIndependence.Unspecified,
      vr_environment_digest = None\<rparr>"

definition record_source :: "VerificationInput \<Rightarrow> VerificationSource" where
  "record_source input =
     (if list_ex is_external_verifier (vi_command_checks input)
      then VerificationSource.ExternalVerifier else VerificationSource.Runtime)"

definition record_independence :: "VerificationInput \<Rightarrow> VerificationIndependence" where
  "record_independence input =
     (if record_source input = VerificationSource.ExternalVerifier
      then VerificationIndependence.Independent
      else if vi_evidence_refs input \<noteq> [] then VerificationIndependence.RuntimeEvidence
      else VerificationIndependence.Unspecified)"

definition settle_plan :: "VerificationInput \<Rightarrow> VerificationPlan \<Rightarrow> VerificationPlan" where
  "settle_plan input p =
     (let has_evidence = vi_evidence_refs input \<noteq> [];
          settled = p\<lparr>vp_assertions := map (settle input has_evidence) (vp_assertions p),
                      vp_policy_assertions := map (settle input has_evidence) (vp_policy_assertions p)\<rparr>
      in settled\<lparr>vp_dimensions := verification_dimensions settled has_evidence\<rparr>)"

definition blocking_failed :: "VerificationPlan \<Rightarrow> bool" where
  "blocking_failed p =
     list_ex (\<lambda>a. va_blocking a \<and> va_status a = VerificationAssertionStatus.Fail)
       (vp_assertions p @ vp_policy_assertions p)"

definition blocking_unresolved :: "VerificationPlan \<Rightarrow> bool" where
  "blocking_unresolved p =
     list_ex (\<lambda>a. va_blocking a \<and> va_status a \<noteq> VerificationAssertionStatus.Pass \<and>
       va_status a \<noteq> VerificationAssertionStatus.Fail) (vp_assertions p)"

definition apply_assertions :: "VerificationPlan \<Rightarrow> VerificationRecord \<Rightarrow> VerificationRecord" where
  "apply_assertions p r =
     (if blocking_failed p
      then r\<lparr>vr_result := VerificationResult.Fail,
             vr_residual_risks := vr_residual_risks r @
               [''semantic verification has failed blocking assertions'']\<rparr>
      else if blocking_unresolved p \<and> vr_result r = VerificationResult.Pass
      then r\<lparr>vr_result := VerificationResult.Partial,
             vr_residual_risks := vr_residual_risks r @
               [''semantic verification has unresolved blocking assertions'']\<rparr>
      else r)"

definition verify_with_plan ::
  "uuid \<Rightarrow> VerificationInput \<Rightarrow> VerificationPlan \<Rightarrow> VerificationRecord \<times> VerificationPlan" where
  "verify_with_plan verification_id input p =
     (let settled = settle_plan input p;
          r = (verify_legacy verification_id input)
            \<lparr>vr_plan_id := Some (vp_plan_id p),
             vr_assertions := vp_assertions settled @ vp_policy_assertions settled,
             vr_source := record_source input, vr_independence := record_independence input\<rparr>
      in (apply_assertions settled r, settled))"

definition verify :: "Plan_Ids \<Rightarrow> uuid \<Rightarrow> VerificationInput \<Rightarrow> VerificationRecord" where
  "verify ids verification_id input = fst (verify_with_plan verification_id input (plan ids input))"

definition requires_objective_evidence :: "bool \<Rightarrow> bool" where
  "requires_objective_evidence task_touched_code = task_touched_code"

section \<open>Which checks count\<close>

text \<open>The reference: a check counts unless a later check has its identity.\<close>

fun without_superseded :: "VerificationCheck list \<Rightarrow> VerificationCheck list" where
  "without_superseded [] = []"
| "without_superseded (check # later) =
     (if list_ex (\<lambda>other. check_identity other = check_identity check) later then without_superseded later
      else check # without_superseded later)"

lemma keep_unseen_snoc:
  "keep_unseen seen (xs @ [x]) =
     keep_unseen seen xs @ (if check_identity x \<in> set seen \<union> check_identity ` set xs then [] else [x])"
  by (induction seen xs rule: keep_unseen.induct) auto

lemma authoritative_subset: "set (authoritative_objective_checks checks) \<subseteq> set checks"
proof -
  have "set (keep_unseen seen xs) \<subseteq> set xs" for seen xs
    by (induction seen xs rule: keep_unseen.induct) auto
  from this [of "[]" "rev checks"] have "set (latest_distinct_checks checks) \<subseteq> set checks"
    by (simp add: latest_distinct_checks_def)
  then show ?thesis by (auto simp: authoritative_objective_checks_def Let_def)
qed

section \<open>Settled assertions\<close>

lemma settle_simps [simp]:
  "va_status (settle input e a) = fst (assertion_status a input e)"
  "va_blocking (settle input e a) = va_blocking a"
  "va_kind (settle input e a) = va_kind a"
  "va_criterion_id (settle input e a) = va_criterion_id a"
  by (simp_all add: settle_def split: prod.split)

lemma settle_plan_simps [simp]:
  "vp_assertions (settle_plan input p) = map (settle input (vi_evidence_refs input \<noteq> [])) (vp_assertions p)"
  "vp_policy_assertions (settle_plan input p)
     = map (settle input (vi_evidence_refs input \<noteq> [])) (vp_policy_assertions p)"
  by (simp_all add: settle_plan_def Let_def)

lemma planned_assertion:
  assumes "a \<in> set (pending_assertions input)"
  shows "\<exists>i. a i \<in> set (vp_assertions (plan ids input))"
proof -
  from assms obtain i where i: "i < length (pending_assertions input)" "pending_assertions input ! i = a"
    by (auto simp: in_set_conv_nth)
  then have "(i, a) \<in> set (enumerate 0 (pending_assertions input))"
    by (force simp: in_set_enumerate_eq)
  then have "a (assertion_id_of ids i) \<in> set (vp_assertions (plan ids input))"
    by (force simp: plan_def Let_def)
  then show ?thesis ..
qed

lemma change_status_Pass:
  "fst (change_status input) = VerificationAssertionStatus.Pass \<Longrightarrow>
     \<exists>check \<in> set (vi_command_checks input). chk_kind check = VerificationCheckKind.WorkspaceChange \<and>
       chk_passed check \<and> chk_evidence_refs check \<noteq> []"
  by (auto simp: change_status_def of_kind_def list_ex_iff Let_def split: if_split_asm)

lemma objective_status_Pass:
  assumes "fst (objective_status_of a input e) = VerificationAssertionStatus.Pass"
  shows "e \<and> (\<exists>check \<in> set (vi_command_checks input).
    chk_kind check = VerificationCheckKind.ObjectiveValidation \<and> chk_passed check \<and> check_applies a check)"
proof -
  let ?all = "filter (check_applies a) (filter (\<lambda>check. \<not> is_unknown_objective_check check)
    (of_kind VerificationCheckKind.ObjectiveValidation input))"
  from assms obtain check where e: "e" and check: "check \<in> set (authoritative_objective_checks ?all)" "chk_passed check"
    by (auto simp: objective_status_of_def Let_def list_ex_iff split: option.split_asm if_split_asm)
  from check(1) authoritative_subset have "check \<in> set ?all" by blast
  with e check(2) show ?thesis by (auto simp: of_kind_def)
qed

lemma schema_status_Pass:
  "fst (schema_status input) = VerificationAssertionStatus.Pass \<Longrightarrow>
     \<forall>check \<in> set (vi_command_checks input). chk_kind check = VerificationCheckKind.Schema \<longrightarrow> chk_passed check"
  by (auto simp: schema_status_def of_kind_def list_ex_iff Let_def split: if_split_asm)

definition is_policy_check :: "VerificationCheck \<Rightarrow> bool" where
  "is_policy_check check \<longleftrightarrow>
     chk_kind check = VerificationCheckKind.Policy \<or> starts_with (chk_name check) ''policy:''"

lemma policy_status_cases:
  "fst (policy_status_of input) = VerificationAssertionStatus.Fail \<longleftrightarrow>
     (\<exists>check \<in> set (vi_command_checks input). is_policy_check check \<and> \<not> chk_passed check)"
  "fst (policy_status_of input) = VerificationAssertionStatus.Pass \<longleftrightarrow>
     (\<exists>check \<in> set (vi_command_checks input). is_policy_check check) \<and>
     (\<forall>check \<in> set (vi_command_checks input). is_policy_check check \<longrightarrow> chk_passed check)"
  by (auto simp: policy_status_of_def Let_def list_ex_iff is_policy_check_def filter_empty_conv)

lemma blocking_iff:
  "\<not> blocking_failed p \<and> \<not> blocking_unresolved p \<longleftrightarrow>
     (\<forall>a \<in> set (vp_assertions p). va_blocking a \<longrightarrow> va_status a = VerificationAssertionStatus.Pass) \<and>
     (\<forall>a \<in> set (vp_policy_assertions p). va_blocking a \<longrightarrow> va_status a \<noteq> VerificationAssertionStatus.Fail)"
  unfolding blocking_failed_def blocking_unresolved_def list_ex_iff by auto

lemma verified_pass_blocking:
  "vr_result (fst (verify_with_plan verification_id input p)) = VerificationResult.Pass \<longleftrightarrow>
     legacy_result input = VerificationResult.Pass \<and>
     \<not> blocking_failed (settle_plan input p) \<and> \<not> blocking_unresolved (settle_plan input p)"
  by (auto simp: verify_with_plan_def apply_assertions_def verify_legacy_def Let_def)

text \<open>
  Settling the plan never improves a verdict: a task passes exactly when its facts
  pass on their own and every blocking assertion of the plan passes and no blocking policy
  assertion fails. An assertion without facts holds a pass back, it never grants one.
\<close>

theorem verified_pass_iff:
  "vr_result (fst (verify_with_plan verification_id input p)) = VerificationResult.Pass \<longleftrightarrow>
     legacy_result input = VerificationResult.Pass \<and>
     list_all (\<lambda>a. va_status a = VerificationAssertionStatus.Pass)
       (filter va_blocking (vp_assertions (settle_plan input p))) \<and>
     list_all (\<lambda>a. va_status a \<noteq> VerificationAssertionStatus.Fail)
       (filter va_blocking (vp_policy_assertions (settle_plan input p)))"
  unfolding verified_pass_blocking blocking_iff list_all_filter_iff by blast

text \<open>
  The single backward pass with a set of seen identities keeps exactly the checks
  that no later check supersedes, in their order.
\<close>

theorem latest_checks_supersede:
  "latest_distinct_checks checks = without_superseded checks"
proof (induction checks)
  case (Cons check later)
  have "list_ex (\<lambda>other. check_identity other = check_identity check) later
      \<longleftrightarrow> check_identity check \<in> check_identity ` set later"
    by (simp add: list_ex_iff image_iff) metis
  with Cons.IH show ?case
    by (auto simp: latest_distinct_checks_def keep_unseen_snoc)
qed (simp add: latest_distinct_checks_def)

lemma planned_blocking_passes:
  assumes "vr_result (verify ids verification_id input) = VerificationResult.Pass"
    and "a \<in> set (pending_assertions input)" and "\<And>i. va_blocking (a i)"
  shows "\<exists>i. fst (assertion_status (a i) input (vi_evidence_refs input \<noteq> [])) = VerificationAssertionStatus.Pass"
proof -
  from planned_assertion [OF assms(2)] obtain i where "a i \<in> set (vp_assertions (plan ids input))" by blast
  with assms(1,3) show ?thesis
    unfolding verify_def verified_pass_blocking blocking_iff by (fastforce simp: Ball_def)
qed

lemma pending_code_assertions:
  assumes "vi_code_files_changed input"
  shows "set code_assertions \<subseteq> set (pending_assertions input)"
  using assms by (auto simp: pending_assertions_def classify_task_def class_assertions_def Let_def)

lemma pending_schema_assertions: "set (schema_assertions (vi_command_checks input)) \<subseteq> set (pending_assertions input)"
  by (auto simp: pending_assertions_def Let_def)

lemma external_verifier_tests: "tests_or_diagnoses EXTERNAL_VERIFIER"
  by code_simp

lemma planned_schema_passes:
  assumes pass: "vr_result (verify ids verification_id input) = VerificationResult.Pass"
    and check: "check \<in> set (vi_command_checks input)" "chk_kind check = VerificationCheckKind.Schema"
  shows "chk_passed check"
proof -
  from check have schema: "schema_assertions (vi_command_checks input) \<noteq> []"
    by (auto simp: schema_assertions_def has_kind_def list_ex_iff)
  then have "hd (schema_assertions (vi_command_checks input)) \<in> set (pending_assertions input)"
    using pending_schema_assertions hd_in_set by blast
  from planned_blocking_passes [OF pass this] schema
  have "fst (schema_status input) = VerificationAssertionStatus.Pass"
    by (auto simp: schema_assertions_def assertion_def assertion_status_def split: if_split_asm)
  with check show ?thesis using schema_status_Pass by blast
qed

text \<open>
  Property C3. A passed code change is proved by evidence, not by wording: there is recorded
  evidence, a passed workspace change linked to it and a passed test or diagnostic, every
  objective check that has not been superseded passed, and no policy or schema check failed.
\<close>

theorem passed_code_change_is_evidenced:
  assumes pass: "vr_result (verify ids verification_id input) = VerificationResult.Pass"
    and code: "vi_code_files_changed input"
  shows "vi_evidence_refs input \<noteq> [] \<and>
    (\<exists>check \<in> set (vi_command_checks input). chk_kind check = VerificationCheckKind.WorkspaceChange \<and>
       chk_passed check \<and> chk_evidence_refs check \<noteq> []) \<and>
    (\<exists>check \<in> set (vi_command_checks input). chk_kind check = VerificationCheckKind.ObjectiveValidation \<and>
       chk_passed check \<and> tests_or_diagnoses (chk_name check)) \<and>
    (\<forall>check \<in> set (authoritative_objective_checks
        (of_kind VerificationCheckKind.ObjectiveValidation input)). chk_passed check) \<and>
    (\<forall>check \<in> set (vi_command_checks input).
       is_policy_check check \<or> chk_kind check = VerificationCheckKind.Schema \<longrightarrow> chk_passed check)"
    (is "?evidence \<and> ?change \<and> ?test \<and> ?objective \<and> ?others")
proof -
  from pass have legacy: "legacy_result input = VerificationResult.Pass"
    by (simp add: verify_def verified_pass_blocking)
  with code have objective: "objective_checks_passed input" and evidence: ?evidence
    by (auto simp: legacy_result_def conversational_pass_def Let_def split: if_split_asm)
  note passes = planned_blocking_passes [OF pass subsetD [OF pending_code_assertions [OF code]]]
  have ?change
    using passes [of "code_assertions ! 0"] change_status_Pass
    by (auto simp: code_assertions_def assertion_def assertion_status_def)
  moreover have ?test
  proof -
    obtain i where
      "fst (assertion_status ((code_assertions ! 2) i) input (vi_evidence_refs input \<noteq> []))
         = VerificationAssertionStatus.Pass"
      using passes [of "code_assertions ! 2"] by (auto simp: code_assertions_def assertion_def)
    moreover define a where "a = (code_assertions ! 2) i"
    ultimately have a: "va_criterion_id a = ''tests_or_diagnostics''"
        "fst (objective_status_of a input (vi_evidence_refs input \<noteq> [])) = VerificationAssertionStatus.Pass"
      by (simp_all add: code_assertions_def assertion_def assertion_status_def)
    from objective_status_Pass [OF a(2)] obtain check where "check \<in> set (vi_command_checks input)"
        "chk_kind check = VerificationCheckKind.ObjectiveValidation" "chk_passed check" "check_applies a check"
      by blast
    moreover from this(4) a(1) external_verifier_tests have "tests_or_diagnoses (chk_name check)"
      by (auto simp: check_applies_def Let_def)
    ultimately show ?thesis by blast
  qed
  moreover have ?objective
    using objective by (simp add: objective_checks_passed_def Let_def list_all_iff)
  moreover have "fst (policy_status_of input) \<noteq> VerificationAssertionStatus.Fail"
    using pass
    by (auto simp: verify_def verified_pass_blocking blocking_iff plan_def policy_assertion_def
        assertion_def assertion_status_def Let_def)
  moreover have "chk_passed check"
    if "check \<in> set (vi_command_checks input)" "chk_kind check = VerificationCheckKind.Schema" for check
    using planned_schema_passes [OF pass that] .
  ultimately show ?thesis using evidence policy_status_cases(1) by blast
qed

section \<open>Witnesses\<close>

definition ex_check :: "VerificationCheckKind \<Rightarrow> string \<Rightarrow> VerificationCheck" where
  "ex_check kind name = \<lparr>chk_kind = kind, chk_name = name, chk_command = None, chk_passed = True,
     chk_evidence_refs = [7], chk_message = ''ok''\<rparr>"

definition ex_input :: VerificationInput where
  "ex_input = \<lparr>vi_task_id = 1, vi_objective = ''fix the parser'', vi_completion_criteria = [''tests pass''],
     vi_evidence_refs = [7],
     vi_command_checks = [ex_check VerificationCheckKind.WorkspaceChange ''workspace_diff'',
       ex_check VerificationCheckKind.ObjectiveValidation ''objective:test:unit'',
       ex_check VerificationCheckKind.Policy ''policy:shell''],
     vi_requires_workspace_evidence = True, vi_code_files_changed = True\<rparr>"

definition ex_ids :: Plan_Ids where
  "ex_ids = \<lparr>plan_id_of = 2, assertion_id_of = (\<lambda>i. i + 3), plan_time = 0\<rparr>"

lemma ex_input_passes: "vr_result (verify ex_ids 9 ex_input) = VerificationResult.Pass"
  by code_simp

theorem passed_code_change_is_evidenced_witness:
  "\<exists>check \<in> set (vi_command_checks ex_input). tests_or_diagnoses (chk_name check)"
proof -
  have "vi_code_files_changed ex_input" by (simp add: ex_input_def)
  from passed_code_change_is_evidenced [OF ex_input_passes this] show ?thesis by blast
qed

end
