(* ===== verification/Task_Contract.thy ===== *)
theory Task_Contract
  imports Core_Types Paths
begin

text \<open>
  The explicit contract of a task (\<^verbatim>\<open>golutra-agent-core/src/task_contract.rs\<close>): its
  validation, the path check and the correction budget. Error messages are constructors.
\<close>

section \<open>The contract\<close>

abbreviation TASK_CONTRACT_SCHEMA_VERSION :: u32 where
  "TASK_CONTRACT_SCHEMA_VERSION \<equiv> 1"

abbreviation MAX_TASK_CONTRACT_PATH_CHARS :: nat where
  "MAX_TASK_CONTRACT_PATH_CHARS \<equiv> 1024"

abbreviation MAX_TASK_CONTRACT_CRITERION_CHARS :: nat where
  "MAX_TASK_CONTRACT_CRITERION_CHARS \<equiv> 4096"

abbreviation MAX_REQUIRED_FILE_CONTENT_BYTES :: nat where
  "MAX_REQUIRED_FILE_CONTENT_BYTES \<equiv> 1024 * 1024"

datatype WorkspaceChangeRequirement = Optional | Required | Forbidden

datatype VerificationRequirement = BestEffort | Required | Independent

record RequiredFileContent =
  rfc_path :: string
  rfc_content :: string

record TaskContract =
  tc_schema_version :: u32
  workspace_change :: WorkspaceChangeRequirement
  required_paths :: "string list"
  required_file_contents :: "RequiredFileContent list"
  completion_criteria :: "string list"
  require_objective_validation :: bool
  tc_verification :: VerificationRequirement
  max_correction_rounds :: "u32 option"

definition default_contract :: TaskContract where
  "default_contract =
     \<lparr>tc_schema_version = TASK_CONTRACT_SCHEMA_VERSION, workspace_change = Optional,
      required_paths = [], required_file_contents = [], completion_criteria = [],
      require_objective_validation = False, tc_verification = BestEffort,
      max_correction_rounds = None\<rparr>"

definition open_contract :: "string list \<Rightarrow> TaskContract" where
  "open_contract criteria = default_contract\<lparr>completion_criteria := criteria\<rparr>"

definition conversational :: "string list \<Rightarrow> TaskContract" where
  "conversational criteria =
     default_contract\<lparr>completion_criteria := criteria, max_correction_rounds := Some 0\<rparr>"

definition requires_workspace_evidence :: "TaskContract \<Rightarrow> bool" where
  "requires_workspace_evidence c \<longleftrightarrow>
     workspace_change c = WorkspaceChangeRequirement.Required \<or> required_paths c \<noteq> [] \<or>
     required_file_contents c \<noteq> []"

definition requires_independent_verification :: "TaskContract \<Rightarrow> bool" where
  "requires_independent_verification c \<longleftrightarrow> tc_verification c = VerificationRequirement.Independent"

definition allows_correction :: "TaskContract \<Rightarrow> u32 \<Rightarrow> bool" where
  "allows_correction c attempt =
     (case max_correction_rounds c of None \<Rightarrow> True | Some limit \<Rightarrow> attempt < limit)"

definition is_portable_workspace_relative_path :: "string \<Rightarrow> bool" where
  "is_portable_workspace_relative_path path =
     (let normalized = replace_char (CHR 0x5C) CHR ''/'' path in
      if starts_with normalized ''/'' \<or> (length normalized > 1 \<and> normalized ! 1 = CHR '':'')
      then False
      else \<not> list_ex (\<lambda>component. component = ''..'') (split_char CHR ''/'' normalized))"

definition is_valid_workspace_relative_path :: "string \<Rightarrow> bool" where
  "is_valid_workspace_relative_path path \<longleftrightarrow>
     trim path \<noteq> [] \<and> char_count (trim path) \<le> MAX_TASK_CONTRACT_PATH_CHARS \<and>
     \<not> List.member path (CHR 0x00) \<and> is_portable_workspace_relative_path path \<and>
     \<not> list_ex (\<lambda>c. case c of ParentDir \<Rightarrow> True | RootDir \<Rightarrow> True | Prefix p \<Rightarrow> True | _ \<Rightarrow> False)
         (components path)"

datatype ContractError =
    UnsupportedSchemaVersion u32
  | TooManyRequiredPaths
  | TooManyRequiredFileContents
  | TooManyCompletionCriteria
  | InvalidPaths
  | InvalidFileContents
  | InvalidCriteria
  | ForbiddenChangesRequirePaths

definition validate :: "TaskContract \<Rightarrow> (unit, ContractError) result" where
  "validate c =
     (if tc_schema_version c \<noteq> TASK_CONTRACT_SCHEMA_VERSION
      then Inl (UnsupportedSchemaVersion (tc_schema_version c))
      else if length (required_paths c) > 64 then Inl TooManyRequiredPaths
      else if length (required_file_contents c) > 64 then Inl TooManyRequiredFileContents
      else if length (completion_criteria c) > 32 then Inl TooManyCompletionCriteria
      else if list_ex (\<lambda>path. \<not> is_valid_workspace_relative_path path) (required_paths c)
      then Inl InvalidPaths
      else if list_ex (\<lambda>r. \<not> is_valid_workspace_relative_path (rfc_path r) \<or>
                length (rfc_content r) > MAX_REQUIRED_FILE_CONTENT_BYTES) (required_file_contents c)
      then Inl InvalidFileContents
      else if list_ex (\<lambda>t. is_blank t \<or> char_count t > MAX_TASK_CONTRACT_CRITERION_CHARS)
                (completion_criteria c)
      then Inl InvalidCriteria
      else if workspace_change c = Forbidden \<and>
                (required_paths c \<noteq> [] \<or> required_file_contents c \<noteq> [])
      then Inl ForbiddenChangesRequirePaths
      else Inr ())"

section \<open>What an accepted contract guarantees\<close>

lemma valid_path_inside:
  assumes "is_valid_workspace_relative_path path"
  shows "prefix dir (resolve dir path)" and "\<not> starts_with path ''/''"
proof -
  from assms have portable: "is_portable_workspace_relative_path path"
    by (simp add: is_valid_workspace_relative_path_def)
  then show "prefix dir (resolve dir path)"
    by (intro resolve_inside)
      (auto simp: is_portable_workspace_relative_path_def Let_def list_ex_iff split: if_splits)
  from portable show "\<not> starts_with path ''/''"
    by (cases path)
      (auto simp: is_portable_workspace_relative_path_def Let_def replace_char_def split: if_splits)
qed

lemma validate_ok:
  assumes "validate c = Inr ()"
  shows "list_all is_valid_workspace_relative_path
      (required_paths c @ map rfc_path (required_file_contents c))"
    and "workspace_change c = Forbidden \<Longrightarrow> \<not> requires_workspace_evidence c"
  using assms
  by (auto simp: validate_def list_all_iff list_ex_iff requires_workspace_evidence_def
      split: if_splits)

text \<open>
  Property C26. The paths an accepted contract requires stay inside the workspace: none is
  absolute, and read with either path separator each resolves to a place below the directory it
  is resolved in; a contract that forbids workspace changes requires no path at all.
\<close>

theorem accepted_contract_stays_inside:
  assumes "validate c = Inr ()"
    and "path \<in> set (required_paths c @ map rfc_path (required_file_contents c))"
  shows "prefix workspace (resolve workspace path) \<and> \<not> starts_with path ''/'' \<and>
    workspace_change c \<noteq> Forbidden"
proof -
  from validate_ok(1) [OF assms(1)] assms(2) have "is_valid_workspace_relative_path path"
    by (simp only: list_all_iff)
  moreover have "workspace_change c \<noteq> Forbidden"
  proof
    assume "workspace_change c = Forbidden"
    with validate_ok(2) [OF assms(1)] assms(2) show False
      by (auto simp: requires_workspace_evidence_def)
  qed
  ultimately show ?thesis by (simp add: valid_path_inside)
qed

theorem accepted_contract_stays_inside_witness:
  "prefix [''home'', ''ws''] (resolve [''home'', ''ws''] ''src/./main.rs'')"
proof -
  let ?c = "default_contract\<lparr>required_paths := [''src/./main.rs'']\<rparr>"
  have "validate ?c = Inr ()" by code_simp
  then show ?thesis
    using accepted_contract_stays_inside [of ?c "''src/./main.rs''" "[''home'', ''ws'']"] by simp
qed

end
