(* ===== verification/Task_Outcome.thy ===== *)
theory Task_Outcome
  imports Core_Types
begin

text \<open>
  The outcome of a task (\<^verbatim>\<open>golutra-agent-core/src/outcome.rs\<close>) and what the verdicts of an
  external evaluator do to it.
\<close>

section \<open>Outcomes\<close>

datatype ExecutionOutcome =
  Running | CandidateReady | Completed | Partial | Failed | Aborted | Blocked | Cancelled
  | Interrupted | Uncertain

datatype ExternalVerificationStatus = NotRequested | Pending | Pass | Partial | Fail | Unknown

datatype FailureClass =
  RuntimeControlFlow | Context | Provider | Tool | Policy | Verification | ExternalEvaluation
  | Environment | Timeout | Unknown

record TaskOutcome =
  to_execution :: ExecutionOutcome
  to_verification :: VerificationResult
  to_evidence_refs :: "uuid list"
  to_external_verification :: ExternalVerificationStatus
  to_failure_class :: "FailureClass option"
  to_scorable :: bool
  to_confidence :: u8
  to_next_action :: "string option"

fun execution_of_status :: "TaskStatus \<Rightarrow> ExecutionOutcome" where
  "execution_of_status TaskStatus.Completed = ExecutionOutcome.Completed"
| "execution_of_status TaskStatus.Partial = ExecutionOutcome.Partial"
| "execution_of_status TaskStatus.Failed = ExecutionOutcome.Failed"
| "execution_of_status TaskStatus.Blocked = ExecutionOutcome.Blocked"
| "execution_of_status TaskStatus.Cancelled = ExecutionOutcome.Cancelled"
| "execution_of_status TaskStatus.Interrupted = ExecutionOutcome.Interrupted"
| "execution_of_status TaskStatus.Uncertain = ExecutionOutcome.Uncertain"
| "execution_of_status _ = ExecutionOutcome.Running"

fun failure_class_of :: "ExecutionOutcome \<Rightarrow> FailureClass option" where
  "failure_class_of ExecutionOutcome.Completed = None"
| "failure_class_of ExecutionOutcome.Blocked = Some Policy"
| "failure_class_of ExecutionOutcome.Partial = Some Verification"
| "failure_class_of ExecutionOutcome.Failed = Some RuntimeControlFlow"
| "failure_class_of ExecutionOutcome.Cancelled = Some RuntimeControlFlow"
| "failure_class_of ExecutionOutcome.Interrupted = Some RuntimeControlFlow"
| "failure_class_of ExecutionOutcome.Uncertain = Some FailureClass.Unknown"
| "failure_class_of _ = Some FailureClass.Unknown"

definition from_status :: "TaskStatus \<Rightarrow> VerificationResult \<Rightarrow> TaskOutcome" where
  "from_status status verification =
     (let execution = execution_of_status status in
      \<lparr>to_execution = execution, to_verification = verification, to_evidence_refs = [],
       to_external_verification = NotRequested, to_failure_class = failure_class_of execution,
       to_scorable = (execution \<notin>
         {ExecutionOutcome.Running, ExecutionOutcome.Aborted, ExecutionOutcome.Uncertain}),
       to_confidence = (if verification = VerificationResult.Unknown then 0 else 100),
       to_next_action = None\<rparr>)"

definition from_verification :: "TaskStatus \<Rightarrow> VerificationRecord \<Rightarrow> TaskOutcome" where
  "from_verification status v =
     (let outcome = from_status status (vr_result v);
          outcome' =
            (if to_execution outcome \<in> {ExecutionOutcome.Failed, ExecutionOutcome.Partial}
             then let cls = (if vr_policy_status v = ''policy_blocked'' then Policy
                             else if vr_policy_status v = ''runtime_failed'' then RuntimeControlFlow
                             else Verification)
                  in outcome\<lparr>to_failure_class := Some cls,
                       to_next_action := Some (case cls of
                           Policy \<Rightarrow> ''resolve the policy decision or change the approval mode''
                         | Verification \<Rightarrow> ''inspect failed checks and retry with objective evidence''
                         | _ \<Rightarrow> ''inspect the runtime failure and retry the task'')\<rparr>
             else outcome)
      in outcome'\<lparr>to_evidence_refs := vr_evidence_refs v\<rparr>)"

definition candidate_outcome :: "VerificationRecord \<Rightarrow> TaskOutcome" where
  "candidate_outcome v =
     \<lparr>to_execution = ExecutionOutcome.CandidateReady, to_verification = vr_result v,
      to_evidence_refs = vr_evidence_refs v,
      to_external_verification = ExternalVerificationStatus.Pending, to_failure_class = None,
      to_scorable = False,
      to_confidence = (if vr_result v = VerificationResult.Unknown then 0 else 50),
      to_next_action = Some ''await the external evaluator result''\<rparr>"

definition with_evidence_refs :: "uuid list \<Rightarrow> TaskOutcome \<Rightarrow> TaskOutcome" where
  "with_evidence_refs refs o' = o'\<lparr>to_evidence_refs := refs\<rparr>"

definition not_scorable :: "TaskOutcome \<Rightarrow> TaskOutcome" where
  "not_scorable o' = o'\<lparr>to_scorable := False, to_confidence := min (to_confidence o') 50\<rparr>"

definition with_external_verification ::
  "ExternalVerificationStatus \<Rightarrow> TaskOutcome \<Rightarrow> TaskOutcome" where
  "with_external_verification status outcome =
     (let o1 = outcome\<lparr>to_external_verification := status\<rparr>;
          is_candidate = (to_execution o1 = ExecutionOutcome.CandidateReady)
      in case status of
           ExternalVerificationStatus.Pass \<Rightarrow>
             if is_candidate
             then o1\<lparr>to_execution := ExecutionOutcome.Completed, to_scorable := True,
                     to_confidence := max (to_confidence o1) 90, to_failure_class := None,
                     to_next_action := None\<rparr>
             else not_scorable o1
         | ExternalVerificationStatus.Fail \<Rightarrow>
             (if is_candidate
              then (not_scorable o1)\<lparr>to_execution := ExecutionOutcome.Failed,
                     to_failure_class := Some ExternalEvaluation,
                     to_next_action := Some ''inspect external evaluator assertions''\<rparr>
              else not_scorable o1)
         | ExternalVerificationStatus.Pending \<Rightarrow>
             (if is_candidate
              then (not_scorable o1)\<lparr>to_next_action := Some ''await the external evaluator result''\<rparr>
              else not_scorable o1)
         | ExternalVerificationStatus.Partial \<Rightarrow>
             not_scorable (if is_candidate
              then o1\<lparr>to_execution := ExecutionOutcome.Partial,
                     to_failure_class := Some ExternalEvaluation,
                     to_next_action := Some ''inspect partial external evaluator results''\<rparr>
              else o1)
         | ExternalVerificationStatus.Unknown \<Rightarrow>
             not_scorable (if is_candidate
              then o1\<lparr>to_execution := ExecutionOutcome.Uncertain,
                     to_failure_class := Some ExternalEvaluation,
                     to_next_action := Some ''resolve the inconclusive external evaluation''\<rparr>
              else o1)
         | NotRequested \<Rightarrow> o1)"

section \<open>Verdicts of an external evaluator\<close>

text \<open>What a verdict makes of a candidate; \<open>None\<close> where it leaves the question open.\<close>

fun verdict_execution :: "ExternalVerificationStatus \<Rightarrow> ExecutionOutcome option" where
  "verdict_execution ExternalVerificationStatus.Pass = Some ExecutionOutcome.Completed"
| "verdict_execution ExternalVerificationStatus.Fail = Some ExecutionOutcome.Failed"
| "verdict_execution ExternalVerificationStatus.Partial = Some ExecutionOutcome.Partial"
| "verdict_execution ExternalVerificationStatus.Unknown = Some ExecutionOutcome.Uncertain"
| "verdict_execution _ = None"

lemma external_execution:
  "to_execution (with_external_verification st o') =
     (if to_execution o' = ExecutionOutcome.CandidateReady
      then (case verdict_execution st of None \<Rightarrow> ExecutionOutcome.CandidateReady | Some e \<Rightarrow> e)
      else to_execution o')"
  by (cases st) (simp_all add: with_external_verification_def Let_def not_scorable_def)

lemma external_frame [simp]:
  "to_verification (with_external_verification st o') = to_verification o'"
  "to_evidence_refs (with_external_verification st o') = to_evidence_refs o'"
  "to_external_verification (with_external_verification st o') = st"
  by (cases st; simp add: with_external_verification_def Let_def not_scorable_def)+

lemma verdict_leaves_candidate: "verdict_execution st = Some e \<Longrightarrow> e \<noteq> ExecutionOutcome.CandidateReady"
  by (cases st) auto

lemma settled_execution:
  "to_execution o' \<noteq> ExecutionOutcome.CandidateReady \<Longrightarrow>
     to_execution (fold with_external_verification sts o') = to_execution o'"
  by (induction sts arbitrary: o') (simp_all add: external_execution)

lemma first_verdict:
  "to_execution o' = ExecutionOutcome.CandidateReady \<Longrightarrow>
     to_execution (fold with_external_verification sts o') =
       (case List.map_filter verdict_execution sts of
          [] \<Rightarrow> ExecutionOutcome.CandidateReady | e # es \<Rightarrow> e)"
proof (induction sts arbitrary: o')
  case Nil
  then show ?case by (simp add: List.map_filter_def)
next
  case (Cons st sts)
  show ?case
  proof (cases "verdict_execution st")
    case None
    with Cons show ?thesis by (simp add: external_execution map_filter_simps)
  next
    case (Some e)
    with Cons.prems have "to_execution (with_external_verification st o') = e"
      by (simp add: external_execution)
    moreover from this Some have "to_execution (with_external_verification st o') \<noteq> CandidateReady"
      by (simp add: verdict_leaves_candidate)
    ultimately show ?thesis using Some by (simp add: settled_execution map_filter_simps)
  qed
qed

lemma fold_external_frame:
  "to_verification (fold with_external_verification sts o') = to_verification o'"
  "to_evidence_refs (fold with_external_verification sts o') = to_evidence_refs o'"
  by (induction sts arbitrary: o') simp_all

text \<open>
  An external evaluator decides a candidate once: whatever sequence of statuses it
  reports, the first conclusive verdict determines the execution outcome and later ones do not
  overturn it, and the runtime's own verification result and evidence stay as they were.
\<close>

theorem first_external_verdict_decides:
  "to_execution (fold with_external_verification sts (candidate_outcome v)) =
     (case List.map_filter verdict_execution sts of
        [] \<Rightarrow> ExecutionOutcome.CandidateReady | e # es \<Rightarrow> e) \<and>
   to_verification (fold with_external_verification sts (candidate_outcome v)) = vr_result v \<and>
   to_evidence_refs (fold with_external_verification sts (candidate_outcome v)) = vr_evidence_refs v"
  by (simp add: first_verdict fold_external_frame candidate_outcome_def)

text \<open>
  An external verdict never upgrades a run that the runtime itself has ended: its
  outcome and failure class stay, and any verdict or pending request takes its score away and
  caps its confidence at 50.
\<close>

theorem external_verdict_never_upgrades:
  assumes "to_execution o' \<noteq> ExecutionOutcome.CandidateReady" and "st \<noteq> NotRequested"
  shows "to_execution (with_external_verification st o') = to_execution o' \<and>
    to_failure_class (with_external_verification st o') = to_failure_class o' \<and>
    \<not> to_scorable (with_external_verification st o') \<and>
    to_confidence (with_external_verification st o') = min (to_confidence o') 50"
  using assms by (cases st) (simp_all add: with_external_verification_def Let_def not_scorable_def)

theorem external_verdict_never_upgrades_witness:
  "let o' = with_external_verification ExternalVerificationStatus.Pass
     (from_status TaskStatus.Failed VerificationResult.Fail)
   in to_execution o' = ExecutionOutcome.Failed \<and> \<not> to_scorable o' \<and> to_confidence o' = 50"
  using external_verdict_never_upgrades [of "from_status TaskStatus.Failed VerificationResult.Fail"
      ExternalVerificationStatus.Pass]
  by (simp add: from_status_def Let_def min_def)

end
