(* ===== verification/Runtime_Verification.thy ===== *)
theory Runtime_Verification
  imports Verification Task_Contract Task_Outcome
begin

text \<open>
  The verification boundary the runtime owns (\<^verbatim>\<open>golutra-agent-runtime/src/verification.rs\<close>): the
  plan of the verifier under a task contract, and the gate that applies policy evidence and the
  contract after the assertions have been settled.
\<close>

section \<open>The governed plan\<close>

definition observed :: "VerificationInput \<Rightarrow> (string \<Rightarrow> bool) \<Rightarrow> bool" where
  "observed input named =
     list_ex (\<lambda>check. chk_kind check = VerificationCheckKind.ObjectiveValidation \<and> named (chk_name check))
       (vi_command_checks input)"

definition keeps_assertion :: "VerificationInput \<Rightarrow> VerificationAssertion \<Rightarrow> bool" where
  "keeps_assertion input a =
     (let tests_or_diagnostics_observed = observed input tests_or_diagnoses;
          content_validation_observed = observed input (\<lambda>name. starts_with name ''objective:content:'')
      in if va_criterion_id a = ''workspace_validation''
         then tests_or_diagnostics_observed \<or> content_validation_observed
         else if va_criterion_id a = ''tests_or_diagnostics'' \<or> va_criterion_id a = ''effect_validation''
         then tests_or_diagnostics_observed
         else True)"

definition plan_governed :: "Plan_Ids \<Rightarrow> VerificationInput \<Rightarrow> TaskContract \<Rightarrow> VerificationPlan" where
  "plan_governed ids input contract =
     (let p = plan ids input in
      if require_objective_validation contract then p
      else p\<lparr>vp_assertions := filter (keeps_assertion input) (vp_assertions p)\<rparr>)"

section \<open>The gate\<close>

definition workspace_changed :: "VerificationInput \<Rightarrow> bool" where
  "workspace_changed input \<longleftrightarrow>
     vi_code_files_changed input \<or>
     passed_check (vi_command_checks input) VerificationCheckKind.WorkspaceChange"

definition objective_validated :: "VerificationInput \<Rightarrow> bool" where
  "objective_validated input = passed_check (vi_command_checks input) VerificationCheckKind.ObjectiveValidation"

definition external_verified :: "VerificationInput \<Rightarrow> bool" where
  "external_verified input =
     list_ex (\<lambda>check. is_external_verifier check \<and> chk_passed check) (vi_command_checks input)"

definition blocking_assertions_satisfied :: "VerificationPlan \<Rightarrow> bool" where
  "blocking_assertions_satisfied p =
     list_all (\<lambda>a. va_status a = VerificationAssertionStatus.Pass \<or>
         va_status a = VerificationAssertionStatus.NotApplicable)
       (filter va_blocking (vp_assertions p @ vp_policy_assertions p))"

definition planned_policy_status :: "VerificationPlan \<Rightarrow> VerificationAssertionStatus option" where
  "planned_policy_status p =
     map_option va_status (find (\<lambda>a. va_criterion_id a = ''policy'') (vp_policy_assertions p))"

definition apply_policy :: "VerificationAssertionStatus option \<Rightarrow> VerificationRecord \<Rightarrow> VerificationRecord" where
  "apply_policy status r =
     (if status = Some VerificationAssertionStatus.Fail
      then r\<lparr>vr_result := VerificationResult.Fail, vr_policy_status := ''policy_blocked'',
             vr_residual_risks := vr_residual_risks r @ [''a blocking policy decision was recorded'']\<rparr>
      else if status = Some VerificationAssertionStatus.Unknown \<or> status = None
      then r\<lparr>vr_result := (if vr_result r = VerificationResult.Pass then VerificationResult.Partial
                           else vr_result r),
             vr_policy_status := ''policy_unknown'',
             vr_residual_risks := vr_residual_risks r @ [''policy decision evidence is missing'']\<rparr>
      else r)"

definition contract_failures :: "TaskContract \<Rightarrow> VerificationInput \<Rightarrow> string list" where
  "contract_failures contract input =
     (if workspace_change contract = WorkspaceChangeRequirement.Required \<and> \<not> workspace_changed input
      then [''task contract requires a workspace change'']
      else if workspace_change contract = WorkspaceChangeRequirement.Forbidden \<and> workspace_changed input
      then [''task contract forbids workspace changes'']
      else []) @
     (if require_objective_validation contract \<and> \<not> objective_validated input
      then [''task contract requires objective validation''] else []) @
     (if requires_independent_verification contract \<and> \<not> external_verified input
      then [''task contract requires an independent verifier''] else [])"

definition without_risk :: "string \<Rightarrow> VerificationRecord \<Rightarrow> VerificationRecord" where
  "without_risk risk r = r\<lparr>vr_residual_risks := filter (\<lambda>x. x \<noteq> risk) (vr_residual_risks r)\<rparr>"

text \<open>The last step when the contract is met and policy evidence allows the task.\<close>

definition satisfy_contract ::
  "TaskContract \<Rightarrow> VerificationInput \<Rightarrow> bool \<Rightarrow> VerificationRecord \<Rightarrow> VerificationRecord" where
  "satisfy_contract contract input blocking_satisfied r0 =
     (let r = r0\<lparr>vr_policy_status := ''task_contract_satisfied'',
            vr_independence := (if requires_independent_verification contract
              then VerificationIndependence.Independent else vr_independence r0)\<rparr>
      in if vr_result r = VerificationResult.Partial \<and> workspace_changed input \<and>
            \<not> require_objective_validation contract \<and> blocking_satisfied \<and> \<not> vi_code_files_changed input
         then without_risk ''some objective checks failed'' (r\<lparr>vr_result := VerificationResult.Pass\<rparr>)
         else if vr_result r = VerificationResult.Partial \<and> vi_code_files_changed input \<and>
            \<not> objective_validated input
         then (let r' = without_risk ''some objective checks failed'' r in
               r'\<lparr>vr_residual_risks := vr_residual_risks r' @
                    [''behavioral changes were not objectively validated'']\<rparr>)
         else r)"

definition apply_contract ::
  "TaskContract \<Rightarrow> VerificationInput \<Rightarrow> bool \<Rightarrow> VerificationRecord \<Rightarrow> VerificationRecord" where
  "apply_contract contract input blocking_satisfied r =
     (let failures = contract_failures contract input in
      if failures \<noteq> []
      then r\<lparr>vr_result := VerificationResult.Fail, vr_policy_status := ''task_contract_failed'',
             vr_residual_risks := vr_residual_risks r @ failures\<rparr>
      else if vr_policy_status r = ''policy_unknown''
      then r\<lparr>vr_residual_risks := vr_residual_risks r @
               [''task contract cannot be satisfied without policy evidence'']\<rparr>
      else if vr_policy_status r \<noteq> ''policy_blocked''
      then satisfy_contract contract input blocking_satisfied r
      else r)"

definition verify_governed ::
  "uuid \<Rightarrow> VerificationInput \<Rightarrow> VerificationPlan \<Rightarrow> TaskContract \<Rightarrow> string
     \<Rightarrow> VerificationRecord \<times> VerificationPlan" where
  "verify_governed verification_id input p contract environment_digest =
     (let (r, settled) = verify_with_plan verification_id input p;
          r1 = apply_policy (planned_policy_status settled) (r\<lparr>vr_environment_digest := Some environment_digest\<rparr>)
      in (apply_contract contract input (blocking_assertions_satisfied settled) r1, settled))"

section \<open>Failures of the runtime\<close>

definition runtime_failure_input ::
  "uuid \<Rightarrow> string \<Rightarrow> string list \<Rightarrow> bool \<Rightarrow> string \<Rightarrow> VerificationInput" where
  "runtime_failure_input task objective criteria needs_workspace reason =
     \<lparr>vi_task_id = task, vi_objective = objective, vi_completion_criteria = criteria,
      vi_evidence_refs = [],
      vi_command_checks = [\<lparr>chk_kind = (if needs_workspace
            then VerificationCheckKind.ObjectiveValidation else VerificationCheckKind.AssistantResponse),
          chk_name = ''runtime_execution'', chk_command = None, chk_passed = False,
          chk_evidence_refs = [], chk_message = reason\<rparr>],
      vi_requires_workspace_evidence = needs_workspace, vi_code_files_changed = False\<rparr>"

definition verify_runtime_failure ::
  "Plan_Ids \<Rightarrow> uuid \<Rightarrow> uuid \<Rightarrow> string \<Rightarrow> string list \<Rightarrow> bool \<Rightarrow> string
     \<Rightarrow> VerificationRecord \<times> VerificationPlan" where
  "verify_runtime_failure ids verification_id task objective criteria needs_workspace reason =
     (let input = runtime_failure_input task objective criteria needs_workspace reason;
          (r, settled) = verify_with_plan verification_id input (plan ids input);
          risks = vr_residual_risks r
      in (r\<lparr>vr_result := VerificationResult.Fail, vr_policy_status := ''runtime_failed'',
            vr_residual_risks := (if reason \<in> set risks then risks else risks @ [reason])\<rparr>, settled))"

section \<open>What a governed pass means\<close>

lemma verify_with_plan_snd [simp]: "snd (verify_with_plan verification_id input p) = settle_plan input p"
  by (simp add: verify_with_plan_def Let_def)

lemma legacy_policy_status [simp]:
  "vr_policy_status (fst (verify_with_plan verification_id input p)) = ''p0_policy_checked''"
  by (simp add: verify_with_plan_def apply_assertions_def verify_legacy_def Let_def)

lemma satisfy_contract_pass:
  assumes "vr_result (satisfy_contract contract input ok r) = VerificationResult.Pass"
  shows "vr_result r = VerificationResult.Pass \<or> ok"
  using assms by (auto simp: satisfy_contract_def without_risk_def Let_def split: if_split_asm)

lemma apply_contract_pass:
  assumes "vr_result (apply_contract contract input ok r) = VerificationResult.Pass"
  shows "contract_failures contract input = [] \<and> (vr_result r = VerificationResult.Pass \<or>
    ok \<and> vr_policy_status r \<noteq> ''policy_unknown'' \<and> vr_policy_status r \<noteq> ''policy_blocked'')"
  using assms
  by (auto simp: apply_contract_def Let_def dest: satisfy_contract_pass split: if_split_asm)

lemma planned_kinds:
  assumes "a \<in> set (vp_assertions (plan ids input))"
  shows "va_kind a \<noteq> VerificationAssertionKind.CommandExit"
proof -
  have kinds: "va_kind (assertion c k s e b i) = k" for c k s e b i by (simp add: assertion_def)
  have criterion: "criterion_assertion_kind t c \<noteq> VerificationAssertionKind.CommandExit" for t c
    by (simp add: criterion_assertion_kind_def Let_def)
  from assms obtain i q where iq: "(i, q) \<in> set (enumerate 0 (pending_assertions input))"
      "a = q (assertion_id_of ids i)"
    by (auto simp: plan_def Let_def)
  from iq(1) have "q \<in> set (pending_assertions input)"
    by (auto simp: in_set_enumerate_eq intro: nth_mem)
  with iq(2) show ?thesis
    by (auto simp: pending_assertions_def class_assertions_def analysis_assertions_def
        workspace_assertions_def code_assertions_def delivery_assertions_def effect_assertions_def
        criterion_assertions_def schema_assertions_def response_assertion_def kinds criterion Let_def
        split: TaskClass.split_asm if_split_asm)
qed

lemma not_applicable_kind:
  "fst (assertion_status a input e) = VerificationAssertionStatus.NotApplicable \<Longrightarrow>
     va_kind a = VerificationAssertionKind.CommandExit"
  by (cases "va_kind a")
    (auto simp: assertion_status_def response_status_def schema_status_def change_status_def
      objective_status_of_def delivery_status_def policy_status_of_def Let_def
      split: if_split_asm option.split_asm)

lemma governed_settled [simp]:
  "snd (verify_governed verification_id input p contract digest) = settle_plan input p"
  by (simp add: verify_governed_def Let_def split: prod.split)
    (metis snd_conv verify_with_plan_snd)

lemma governed_pass:
  assumes "vr_result (fst (verify_governed verification_id input p contract digest)) = VerificationResult.Pass"
  shows "contract_failures contract input = []"
    and "planned_policy_status (settle_plan input p) \<notin> {None, Some VerificationAssertionStatus.Fail,
      Some VerificationAssertionStatus.Unknown}"
    and "vr_result (fst (verify_with_plan verification_id input p)) = VerificationResult.Pass \<or>
      blocking_assertions_satisfied (settle_plan input p)"
proof -
  let ?r = "(fst (verify_with_plan verification_id input p))\<lparr>vr_environment_digest := Some digest\<rparr>"
  let ?r1 = "apply_policy (planned_policy_status (settle_plan input p)) ?r"
  have "vr_result (apply_contract contract input (blocking_assertions_satisfied (settle_plan input p)) ?r1)
      = VerificationResult.Pass"
    using assms verify_with_plan_snd [of verification_id input p]
    by (auto simp: verify_governed_def Let_def split: prod.split_asm simp del: verify_with_plan_snd)
  note pass = apply_contract_pass [OF this]
  from pass show "contract_failures contract input = []" by simp
  from pass show "planned_policy_status (settle_plan input p) \<notin> {None, Some VerificationAssertionStatus.Fail,
      Some VerificationAssertionStatus.Unknown}"
    by (auto simp: apply_policy_def split: if_split_asm)
  with pass show "vr_result (fst (verify_with_plan verification_id input p)) = VerificationResult.Pass \<or>
      blocking_assertions_satisfied (settle_plan input p)"
    by (auto simp: apply_policy_def)
qed

lemma governed_plan_simps:
  "set (vp_assertions (plan_governed ids input contract)) \<subseteq> set (vp_assertions (plan ids input))"
  "vp_policy_assertions (plan_governed ids input contract) = vp_policy_assertions (plan ids input)"
  by (auto simp: plan_governed_def Let_def)

lemma governed_policy_status:
  "planned_policy_status (settle_plan input (plan_governed ids input contract)) = Some (fst (policy_status_of input))"
  by (simp add: planned_policy_status_def governed_plan_simps plan_def policy_assertion_def assertion_def
      assertion_status_def Let_def)

lemma policy_status_decided:
  "fst (policy_status_of input) \<in> {VerificationAssertionStatus.Pass, VerificationAssertionStatus.Fail,
     VerificationAssertionStatus.Unknown}"
  by (simp add: policy_status_of_def Let_def)

lemma contract_failures_Nil:
  "contract_failures contract input = [] \<longleftrightarrow>
     (workspace_change contract = WorkspaceChangeRequirement.Required \<longrightarrow> workspace_changed input) \<and>
     (workspace_change contract = WorkspaceChangeRequirement.Forbidden \<longrightarrow> \<not> workspace_changed input) \<and>
     (require_objective_validation contract \<longrightarrow> objective_validated input) \<and>
     (requires_independent_verification contract \<longrightarrow> external_verified input)"
  by (auto simp: contract_failures_def)

lemma governed_evidence:
  assumes "vr_result (fst (verify_governed verification_id input (plan_governed ids input contract)
      contract digest)) = VerificationResult.Pass \<or>
    vr_policy_status (fst (verify_governed verification_id input (plan_governed ids input contract)
      contract digest)) = ''task_contract_satisfied''"
  shows "contract_failures contract input = [] \<and>
    fst (policy_status_of input) = VerificationAssertionStatus.Pass"
  using assms
proof
  assume "vr_result (fst (verify_governed verification_id input (plan_governed ids input contract)
      contract digest)) = VerificationResult.Pass"
  note pass = governed_pass [OF this]
  with policy_status_decided [of input] show ?thesis by (auto simp: governed_policy_status)
next
  let ?p = "plan_governed ids input contract"
  let ?r = "(fst (verify_with_plan verification_id input ?p))\<lparr>vr_environment_digest := Some digest\<rparr>"
  let ?r1 = "apply_policy (planned_policy_status (settle_plan input ?p)) ?r"
  assume "vr_policy_status (fst (verify_governed verification_id input ?p contract digest))
      = ''task_contract_satisfied''"
  then have *: "vr_policy_status (apply_contract contract input
      (blocking_assertions_satisfied (settle_plan input ?p)) ?r1) = ''task_contract_satisfied''"
    using verify_with_plan_snd [of verification_id input ?p]
    by (auto simp: verify_governed_def Let_def split: prod.split_asm simp del: verify_with_plan_snd)
  have "vr_policy_status ?r1 \<in> {''p0_policy_checked'', ''policy_unknown'', ''policy_blocked''}"
    by (simp add: apply_policy_def)
  with * have "contract_failures contract input = []" "vr_policy_status ?r1 = ''p0_policy_checked''"
    by (auto simp: apply_contract_def Let_def split: if_split_asm)
  then show ?thesis
    using policy_status_decided [of input] by (auto simp: apply_policy_def governed_policy_status)
qed

text \<open>
  Property C2. A governed pass meets the task contract and rests on policy evidence: a required
  workspace change happened and a forbidden one did not, required objective validation and an
  independent verifier passed, at least one policy decision was recorded and none refused, and
  every blocking assertion of the plan passed. The relaxed verdict for changes outside the code
  keeps all of this.
\<close>

theorem governed_pass_meets_contract:
  assumes "verify_governed verification_id input (plan_governed ids input contract) contract digest
      = (verdict, settled)"
    and "vr_result verdict = VerificationResult.Pass"
  shows "(workspace_change contract = WorkspaceChangeRequirement.Required \<longrightarrow> workspace_changed input) \<and>
    (workspace_change contract = WorkspaceChangeRequirement.Forbidden \<longrightarrow> \<not> workspace_changed input) \<and>
    (require_objective_validation contract \<longrightarrow> objective_validated input) \<and>
    (requires_independent_verification contract \<longrightarrow> external_verified input) \<and>
    (\<exists>check \<in> set (vi_command_checks input). is_policy_check check) \<and>
    (\<forall>check \<in> set (vi_command_checks input). is_policy_check check \<longrightarrow> chk_passed check) \<and>
    (\<forall>a \<in> set (vp_assertions settled). va_blocking a \<longrightarrow> va_status a = VerificationAssertionStatus.Pass)"
proof -
  let ?p = "plan_governed ids input contract"
  from assms have "vr_result (fst (verify_governed verification_id input ?p contract digest))
      = VerificationResult.Pass" by simp
  note pass = governed_pass [OF this]
  have settled: "settled = settle_plan input ?p"
    using assms(1) governed_settled [of verification_id input ?p contract digest] by simp
  have "fst (policy_status_of input) = VerificationAssertionStatus.Pass"
    using governed_evidence [of verification_id input ids contract digest] assms by simp
  then have policy: "(\<exists>check \<in> set (vi_command_checks input). is_policy_check check) \<and>
      (\<forall>check \<in> set (vi_command_checks input). is_policy_check check \<longrightarrow> chk_passed check)"
    by (simp add: policy_status_cases)
  have "va_status a = VerificationAssertionStatus.Pass"
    if a: "a \<in> set (vp_assertions settled)" "va_blocking a" for a
    using pass(3)
  proof
    assume "vr_result (fst (verify_with_plan verification_id input ?p)) = VerificationResult.Pass"
    with a settled show ?thesis unfolding verified_pass_blocking blocking_iff by blast
  next
    assume satisfied: "blocking_assertions_satisfied (settle_plan input ?p)"
    with a settled have "va_status a = VerificationAssertionStatus.Pass \<or>
        va_status a = VerificationAssertionStatus.NotApplicable"
      unfolding blocking_assertions_satisfied_def list_all_filter_iff by simp
    moreover obtain x where "x \<in> set (vp_assertions (plan ids input))"
        "a = settle input (vi_evidence_refs input \<noteq> []) x"
      using a(1) settled governed_plan_simps(1) by fastforce
    then have "va_status a \<noteq> VerificationAssertionStatus.NotApplicable"
      using planned_kinds not_applicable_kind by fastforce
    ultimately show ?thesis by simp
  qed
  with pass(1) policy show ?thesis unfolding contract_failures_Nil by blast
qed

text \<open>
  A failure of the runtime itself is always a failed verification, and the outcome of the task
  blames the runtime and not the verification.
\<close>

lemma runtime_failure_is_classified:
  "vr_result (fst (verify_runtime_failure ids verification_id task objective criteria needs reason))
     = VerificationResult.Fail"
  "reason \<in> set (vr_residual_risks
     (fst (verify_runtime_failure ids verification_id task objective criteria needs reason)))"
  "to_failure_class (from_verification TaskStatus.Failed
     (fst (verify_runtime_failure ids verification_id task objective criteria needs reason)))
     = Some RuntimeControlFlow"
proof -
  obtain r settled where v: "verify_with_plan verification_id
      (runtime_failure_input task objective criteria needs reason)
      (plan ids (runtime_failure_input task objective criteria needs reason)) = (r, settled)"
    by fastforce
  show "vr_result (fst (verify_runtime_failure ids verification_id task objective criteria needs reason))
      = VerificationResult.Fail"
    "reason \<in> set (vr_residual_risks
      (fst (verify_runtime_failure ids verification_id task objective criteria needs reason)))"
    by (simp_all add: verify_runtime_failure_def Let_def v)
  show "to_failure_class (from_verification TaskStatus.Failed
     (fst (verify_runtime_failure ids verification_id task objective criteria needs reason)))
     = Some RuntimeControlFlow"
    by (simp add: verify_runtime_failure_def Let_def v from_verification_def from_status_def)
qed

section \<open>Witnesses\<close>

definition ex_contract :: TaskContract where
  "ex_contract = default_contract\<lparr>workspace_change := WorkspaceChangeRequirement.Required,
     require_objective_validation := True\<rparr>"

lemma ex_governed_passes:
  "vr_result (fst (verify_governed 9 ex_input (plan_governed ex_ids ex_input ex_contract) ex_contract ''e''))
     = VerificationResult.Pass"
  by code_simp

theorem governed_pass_meets_contract_witness:
  "workspace_changed ex_input \<and> objective_validated ex_input"
proof -
  let ?v = "verify_governed 9 ex_input (plan_governed ex_ids ex_input ex_contract) ex_contract ''e''"
  have "?v = (fst ?v, snd ?v)" by (rule prod.collapse [symmetric])
  from governed_pass_meets_contract [OF this ex_governed_passes] show ?thesis
    by (simp add: ex_contract_def)
qed

end
