(* ===== verification/Compaction_Summary.thy ===== *)
theory Compaction_Summary
  imports Provider_Session Text
begin

text \<open>
  The summaries of \<^verbatim>\<open>golutra-agent-context/src/lib.rs\<close> that stand for the messages a
  context compaction drops: the token estimates, the envelope a summary is stored in with its
  search for the longest prefix that fits a budget, and the local summary of recent facts.

  Serialisation and hashing are third-party code, the parameter \<open>Serde\<close>.
\<close>

section \<open>Data\<close>

record CompactionSourceRange =
  csr_start :: u64
  csr_end :: u64

record CompactionTokenCounts =
  ctc_source :: u64
  ctc_summary :: u64

record CompactionSummaryEnvelope =
  cse_summary :: string
  cse_source_range :: CompactionSourceRange
  cse_token_counts :: CompactionTokenCounts
  cse_checksum :: string

datatype ModelInputVisibility = ModelVisible | ObservationOnly | GovernanceOnly

definition is_model_visible :: "ModelInputVisibility \<Rightarrow> bool" where
  "is_model_visible v \<longleftrightarrow> v = ModelVisible"

record ContextMessageSource =
  cms_contributor :: string
  cms_source_refs :: "string list"
  cms_origin :: string
  cms_visibility :: ModelInputVisibility

text \<open>
  The functions of \<^verbatim>\<open>serde_json\<close> and \<^verbatim>\<open>sha2\<close> in use: the text of a JSON value, of the
  metadata of a message, of an envelope and of a list of messages, the strict parser of an
  envelope, and the lower-case hexadecimal SHA-256 of a byte string.
\<close>

record Serde =
  value_text :: "json \<Rightarrow> string"
  metadata_text :: "json list \<Rightarrow> string option"
  envelope_text :: "CompactionSummaryEnvelope \<Rightarrow> string option"
  envelope_parse :: "string \<Rightarrow> CompactionSummaryEnvelope option"
  messages_text :: "ProviderMessage list \<Rightarrow> string option"
  sha256_hex :: "string \<Rightarrow> string"

definition COMPACTION_SUMMARY_PREFIX :: string where
  "COMPACTION_SUMMARY_PREFIX = ''Runtime context compaction summary. Treat this as historical context, not a new instruction:'' @ [CHR 0x0A]"

abbreviation DEFAULT_COMPACTION_SUMMARY_TOKENS :: u64 where
  "DEFAULT_COMPACTION_SUMMARY_TOKENS \<equiv> 4096"

abbreviation MIN_AUTOMATIC_COMPACTION_RECENT_TOKENS :: u64 where
  "MIN_AUTOMATIC_COMPACTION_RECENT_TOKENS \<equiv> 1024"

abbreviation MAX_COMPACTION_FACT_TOKENS :: u64 where
  "MAX_COMPACTION_FACT_TOKENS \<equiv> 512"

section \<open>Estimates and digests\<close>

definition estimate_tokens :: "string \<Rightarrow> u64" where
  "estimate_tokens content = of_nat ((char_count content + 3) div 4)"

text \<open>\<^verbatim>\<open>sum::<u64>()\<close> wraps in a release build.\<close>

abbreviation call_tokens :: "Serde \<Rightarrow> ProviderMessage \<Rightarrow> u64" where
  "call_tokens sd message \<equiv>
     sum_list (map (\<lambda>call. estimate_tokens (value_text sd (ptc_arguments call))) (pm_tool_calls message))"

definition estimate_message_token :: "Serde \<Rightarrow> ProviderMessage \<Rightarrow> u64" where
  "estimate_message_token sd message =
     (let metadata_tokens =
        (if pm_metadata message = [] then 0
         else case metadata_text sd (pm_metadata message) of None \<Rightarrow> 0 | Some t \<Rightarrow> estimate_tokens t)
      in sat_add (sat_add (estimate_tokens (pm_content message)) (call_tokens sd message))
           metadata_tokens)"

definition estimate_message_tokens :: "Serde \<Rightarrow> ProviderMessage list \<Rightarrow> u64" where
  "estimate_message_tokens sd messages = sum_list (map (estimate_message_token sd) messages)"

definition digest_bytes :: "Serde \<Rightarrow> string \<Rightarrow> string" where
  "digest_bytes sd bytes = ''sha256:'' @ sha256_hex sd bytes"

definition serialized_digest :: "Serde \<Rightarrow> ProviderMessage list \<Rightarrow> string" where
  "serialized_digest sd messages =
     (case messages_text sd messages of
        None \<Rightarrow> digest_bytes sd []
      | Some t \<Rightarrow> ''sha256:'' @ sha256_hex sd t)"

definition compact_text :: "string \<Rightarrow> u64 \<Rightarrow> string" where
  "compact_text value token_budget =
     concat (take (unat (sat_mul token_budget 4)) (utf8_chars (join '' '' (split_whitespace value))))"

text \<open>An equation that evaluates a budget above the length of the text without counting it out.\<close>

lemma compact_text_short [code]:
  "compact_text value token_budget =
     (let cs = utf8_chars (join '' '' (split_whitespace value)) in
      if int (length cs) \<le> uint (sat_mul token_budget 4) then concat cs
      else concat (take (unat (sat_mul token_budget 4)) cs))"
proof -
  have "length cs \<le> unat (sat_mul token_budget 4)" if "int (length cs) \<le> uint (sat_mul token_budget 4)"
    for cs :: "string list"
    using that by (simp only: unat_eq_nat_uint le_nat_iff [OF unsigned_greater_eq])
  then show ?thesis by (auto simp: compact_text_def Let_def)
qed

section \<open>The envelope of a summary\<close>

definition render_compaction_summary_envelope :: "Serde \<Rightarrow> CompactionSummaryEnvelope \<Rightarrow> string" where
  "render_compaction_summary_envelope sd envelope =
     (case envelope_text sd envelope of None \<Rightarrow> [] | Some t \<Rightarrow> t)"

definition empty_compaction_summary_envelope :: "Serde \<Rightarrow> string" where
  "empty_compaction_summary_envelope sd = render_compaction_summary_envelope sd
     \<lparr>cse_summary = [], cse_source_range = \<lparr>csr_start = 0, csr_end = 0\<rparr>,
      cse_token_counts = \<lparr>ctc_source = 0, ctc_summary = 0\<rparr>, cse_checksum = digest_bytes sd []\<rparr>"

definition envelope_of ::
  "CompactionSourceRange \<Rightarrow> u64 \<Rightarrow> string \<Rightarrow> string \<Rightarrow> CompactionSummaryEnvelope" where
  "envelope_of source_range source_tokens checksum summary =
     \<lparr>cse_summary = summary, cse_source_range = source_range,
      cse_token_counts = \<lparr>ctc_source = source_tokens, ctc_summary = estimate_tokens summary\<rparr>,
      cse_checksum = checksum\<rparr>"

text \<open>
  The loop over \<^verbatim>\<open>lower..=upper\<close>. Its first bound starts at one and only grows, so the model
  carries its predecessor.
\<close>

function search_prefix ::
  "(nat \<Rightarrow> string) \<Rightarrow> u64 \<Rightarrow> nat \<Rightarrow> nat \<Rightarrow> string option \<Rightarrow> string option" where
  "search_prefix render token_budget below upper best =
     (if Suc below \<le> upper then
        let middle = Suc below + (upper - Suc below) div 2;
            rendered = render middle
        in if estimate_tokens rendered \<le> token_budget
           then search_prefix render token_budget middle upper (Some rendered)
           else search_prefix render token_budget below (middle - 1) best
      else best)"
  by pat_completeness auto
termination
  by (relation "measure (\<lambda>(_, _, below, upper, _). upper - below)") auto

declare search_prefix.simps [simp del]

definition compaction_summary_envelope ::
  "Serde \<Rightarrow> string \<Rightarrow> CompactionSourceRange \<Rightarrow> u64 \<Rightarrow> string \<Rightarrow> u64 \<Rightarrow> string" where
  "compaction_summary_envelope sd summary source_range source_tokens checksum token_budget =
     (let summary = trim summary;
          render = (\<lambda>s. render_compaction_summary_envelope sd
                          (envelope_of source_range source_tokens checksum s))
      in if summary = [] \<or> csr_end source_range < csr_start source_range then []
         else if token_budget = - 1 \<or> estimate_tokens (render summary) \<le> token_budget
         then render summary
         else let characters = utf8_chars summary in
           case search_prefix (\<lambda>n. render (concat (take n characters))) token_budget 0
                  (length characters - 1) None of
             None \<Rightarrow> []
           | Some rendered \<Rightarrow> rendered)"

definition complete_compaction_summary_envelope ::
  "Serde \<Rightarrow> string \<Rightarrow> CompactionSourceRange \<Rightarrow> u64 \<Rightarrow> string \<Rightarrow> u64 \<Rightarrow> string option" where
  "complete_compaction_summary_envelope sd summary source_range source_tokens checksum token_budget =
     (let rendered = compaction_summary_envelope sd summary source_range source_tokens checksum (- 1)
      in if rendered \<noteq> [] \<and> estimate_tokens rendered \<le> token_budget then Some rendered else None)"

definition is_ascii_hexdigit :: "char \<Rightarrow> bool" where
  "is_ascii_hexdigit c \<longleftrightarrow>
     in_range 48 57 c \<or> in_range 65 70 c \<or> in_range 97 102 c"

definition envelope_ok :: "CompactionSummaryEnvelope \<Rightarrow> bool" where
  "envelope_ok parsed \<longleftrightarrow>
     (case strip_prefix ''sha256:'' (cse_checksum parsed) of
        None \<Rightarrow> False
      | Some checksum \<Rightarrow>
          \<not> (is_blank (cse_summary parsed)
            \<or> csr_end (cse_source_range parsed) < csr_start (cse_source_range parsed)
            \<or> ctc_summary (cse_token_counts parsed) \<noteq> estimate_tokens (cse_summary parsed)
            \<or> length checksum \<noteq> 64
            \<or> \<not> list_all is_ascii_hexdigit checksum))"

definition parse_compaction_summary_envelope :: "Serde \<Rightarrow> string \<Rightarrow> CompactionSummaryEnvelope option" where
  "parse_compaction_summary_envelope sd value =
     Option.bind (envelope_parse sd (trim value)) (\<lambda>parsed.
       if envelope_ok parsed then Some parsed else None)"

definition compaction_context_content :: "Serde \<Rightarrow> string \<Rightarrow> string option" where
  "compaction_context_content sd value =
     map_option (\<lambda>_. COMPACTION_SUMMARY_PREFIX @ trim value) (parse_compaction_summary_envelope sd value)"

definition compaction_summary_from_context_content ::
  "Serde \<Rightarrow> string \<Rightarrow> CompactionSummaryEnvelope option" where
  "compaction_summary_from_context_content sd value =
     parse_compaction_summary_envelope sd
       (case strip_prefix COMPACTION_SUMMARY_PREFIX value of None \<Rightarrow> value | Some v \<Rightarrow> v)"

section \<open>The local summary\<close>

definition embedded_compaction_summary ::
  "Serde \<Rightarrow> ProviderMessage \<Rightarrow> ContextMessageSource option \<Rightarrow> string option" where
  "embedded_compaction_summary sd message source =
     map_option cse_summary
       (Option.bind
          (case strip_prefix COMPACTION_SUMMARY_PREFIX (pm_content message) of
             Some v \<Rightarrow> Some v
           | None \<Rightarrow>
               (case source of
                  None \<Rightarrow> None
                | Some s \<Rightarrow>
                    if cms_contributor s = ''working_summary'' \<or> cms_origin s = ''compaction_summary''
                    then Some (pm_content message) else None))
          (parse_compaction_summary_envelope sd))"

fun role_name :: "ProviderRole \<Rightarrow> string" where
  "role_name System = ''system''"
| "role_name User = ''user''"
| "role_name Assistant = ''assistant''"
| "role_name Tool = ''tool''"

definition compaction_fact_from_message :: "ProviderMessage \<Rightarrow> string" where
  "compaction_fact_from_message message =
     (let tool_names = join '','' (map ptc_tool_name (pm_tool_calls message));
          ending = (if tool_names = [] then [] else '' tools='' @ tool_names);
          start = ''['' @ role_name (pm_role message) @ ending @ ''] '';
          content_budget = sat_sub MAX_COMPACTION_FACT_TOKENS (estimate_tokens start)
      in start @ compact_text (pm_content message) content_budget)"

text \<open>The loop over the recent facts, newest first; it returns the facts newest first.\<close>

fun recent_facts :: "u64 \<Rightarrow> u64 \<Rightarrow> string list \<Rightarrow> string list \<Rightarrow> string list" where
  "recent_facts recent_budget used recent [] = recent"
| "recent_facts recent_budget used recent (line # lines) =
     (let fact = join '' '' (split_whitespace line) in
      if fact = [] \<or> (recent \<noteq> [] \<and> last recent = fact) then recent_facts recent_budget used recent lines
      else let fact_tokens = sat_add (estimate_tokens fact) 1 in
        if recent_budget < sat_add used fact_tokens then
          (if recent = [] then
             let fitted = compact_text fact recent_budget in if fitted \<noteq> [] then [fitted] else []
           else recent)
        else recent_facts recent_budget (sat_add used fact_tokens) (recent @ [fact]) lines)"

definition div_ceil :: "u64 \<Rightarrow> u64 \<Rightarrow> u64" where
  "div_ceil a b = (if a mod b = 0 then a div b else a div b + 1)"

definition deterministic_compaction_fallback :: "string option \<Rightarrow> string list \<Rightarrow> u64 \<Rightarrow> string" where
  "deterministic_compaction_fallback previous_summary lines token_budget =
     (if token_budget = 0 then []
      else let previous =
          (case map_option trim previous_summary of
             None \<Rightarrow> None
           | Some v \<Rightarrow>
               if v = [] then None
               else let c = compact_text v (if lines = [] then token_budget else div_ceil token_budget 2)
                    in if c = [] then None else Some c);
          previous_tokens = (case previous of None \<Rightarrow> 0 | Some p \<Rightarrow> estimate_tokens p);
          recent_budget = sat_sub (sat_sub token_budget previous_tokens)
                            (if previous = None then 0 else 1);
          recent = rev (recent_facts recent_budget 0 [] (rev lines))
        in join [CHR 0x0A] ((case previous of None \<Rightarrow> [] | Some p \<Rightarrow> [p]) @ recent))"

text \<open>The loop that collects facts, newest message first, until the budget is surely full.\<close>

fun collect_facts ::
  "Serde \<Rightarrow> u64 \<Rightarrow> u64 \<Rightarrow> (ProviderMessage \<times> ContextMessageSource option) list \<Rightarrow> string list" where
  "collect_facts sd enough candidate_tokens [] = []"
| "collect_facts sd enough candidate_tokens ((message, source) # rest) =
     (if embedded_compaction_summary sd message source \<noteq> None
      then collect_facts sd enough candidate_tokens rest
      else let line = compaction_fact_from_message message;
               total = sat_add candidate_tokens (estimate_tokens line)
        in line # (if enough \<le> total then [] else collect_facts sd enough total rest))"

definition source_at :: "ContextMessageSource list \<Rightarrow> nat \<Rightarrow> ContextMessageSource option" where
  "source_at sources i = (if i < length sources then Some (sources ! i) else None)"

definition fallback_compaction_summary ::
  "Serde \<Rightarrow> ProviderMessage list \<Rightarrow> ContextMessageSource list \<Rightarrow> u64 \<Rightarrow> string" where
  "fallback_compaction_summary sd messages message_sources token_budget =
     (if messages = [] \<or> token_budget = 0 then []
      else let newest_first =
          rev (map (\<lambda>i. (messages ! i, source_at message_sources i)) [0..<length messages]);
          previous_summary =
            (case List.map_filter (\<lambda>(m, s). embedded_compaction_summary sd m s) newest_first of
               [] \<Rightarrow> None | s # _ \<Rightarrow> Some s);
          lines = rev (collect_facts sd (sat_add token_budget MAX_COMPACTION_FACT_TOKENS) 0 newest_first)
        in deterministic_compaction_fallback previous_summary lines token_budget)"

section \<open>Trimmed text\<close>

lemma leading_whitespace_None_prefix:
  "leading_whitespace s = None \<Longrightarrow> prefix t s \<Longrightarrow> leading_whitespace t = None"
  unfolding leading_whitespace_def find_None_iff by (meson prefix_order.trans)

lemma trim_start_no_leading: "leading_whitespace (trim_start s) = None"
proof (induction s rule: trim_start.induct)
  case (1 s)
  then show ?case by (subst trim_start.simps) (simp split: option.split)
qed

lemma trim_end_prefix: "prefix (trim_end s) s"
proof (induction s rule: trim_end.induct)
  case (1 s)
  show ?case
  proof (cases "trailing_whitespace s")
    case None
    then show ?thesis by (subst trim_end.simps) simp
  next
    case (Some w)
    then show ?thesis
      using 1 [OF Some] by (subst trim_end.simps) (auto intro: prefix_order.trans take_is_prefix)
  qed
qed

lemma trim_no_leading: "leading_whitespace (trim s) = None"
  unfolding trim_def by (rule leading_whitespace_None_prefix [OF trim_start_no_leading trim_end_prefix])

lemma trim_end_Nil_leading:
  "trim_end s = [] \<Longrightarrow> s \<noteq> [] \<Longrightarrow> leading_whitespace s \<noteq> None"
proof (induction s rule: trim_end.induct)
  case (1 s)
  from 1(2,3) obtain w where w: "trailing_whitespace s = Some w"
    by (subst (asm) trim_end.simps) (auto split: option.split_asm)
  let ?t = "take (length s - length w) s"
  have "trim_end ?t = []" using 1(2) w by (subst (asm) trim_end.simps) simp
  show ?case
  proof (cases "?t = []")
    case True
    with w 1(3) have "w = s" by (auto simp: trailing_whitespace_nonempty suffix_def dest!: trailing_whitespace_nonempty)
    moreover have "w \<in> set whitespace_encodings"
      using w unfolding trailing_whitespace_def find_Some_iff by (auto dest: nth_mem)
    ultimately show ?thesis by (auto simp: leading_whitespace_def find_None_iff)
  next
    case False
    with 1(1) [OF w \<open>trim_end ?t = []\<close>] show ?thesis
      by (metis leading_whitespace_None_prefix take_is_prefix)
  qed
qed

lemma prefix_of_trim_not_blank:
  assumes "prefix t (trim s)" and "t \<noteq> []"
  shows "\<not> is_blank t"
proof -
  have t: "leading_whitespace t = None"
    by (rule leading_whitespace_None_prefix [OF trim_no_leading assms(1)])
  then have "trim_start t = t" by (subst trim_start.simps) simp
  with t assms(2) show ?thesis by (auto simp: is_blank_def trim_def dest: trim_end_Nil_leading)
qed

lemma concat_take_prefix: "prefix (concat (take n xs)) (concat xs)"
  by (metis append_take_drop_id concat_append prefixI)

lemma utf8_chars_prefix: "prefix (concat (take n (utf8_chars s))) s"
  by (metis concat_take_prefix concat_utf8_chars)

lemma utf8_chars_prefix_nonempty: "0 < n \<Longrightarrow> s \<noteq> [] \<Longrightarrow> concat (take n (utf8_chars s)) \<noteq> []"
  by (cases n; cases s) auto

section \<open>The search for the longest prefix\<close>

text \<open>The reference: the last of the candidate lengths whose rendering fits.\<close>

definition longest_fitting :: "(nat \<Rightarrow> string) \<Rightarrow> u64 \<Rightarrow> nat list \<Rightarrow> string option" where
  "longest_fitting render token_budget ns =
     (let fitting = filter (\<lambda>n. estimate_tokens (render n) \<le> token_budget) ns in
      if fitting = [] then None else Some (render (last fitting)))"

lemma longest_fitting_append:
  "longest_fitting render b (ns @ ms) =
     (case longest_fitting render b ms of None \<Rightarrow> longest_fitting render b ns | Some r \<Rightarrow> Some r)"
  by (simp add: longest_fitting_def Let_def)

lemma longest_fitting_Nil: "longest_fitting render b [] = None"
  by (simp add: longest_fitting_def)

lemma longest_fitting_Cons:
  "longest_fitting render b (n # ns) =
     (case longest_fitting render b ns of
        None \<Rightarrow> if estimate_tokens (render n) \<le> b then Some (render n) else None
      | Some r \<Rightarrow> Some r)"
  by (simp add: longest_fitting_def Let_def)

lemmas longest_fitting_simps = longest_fitting_append longest_fitting_Cons longest_fitting_Nil

lemma longest_fitting_None:
  "(\<And>n. n \<in> set ns \<Longrightarrow> \<not> estimate_tokens (render n) \<le> b) \<Longrightarrow> longest_fitting render b ns = None"
  by (simp add: longest_fitting_def filter_empty_conv)

lemma longest_fitting_SomeD:
  "longest_fitting render b ns = Some r \<Longrightarrow> \<exists>n \<in> set ns. r = render n \<and> estimate_tokens r \<le> b"
proof -
  let ?fits = "filter (\<lambda>n. estimate_tokens (render n) \<le> b) ns"
  assume "longest_fitting render b ns = Some r"
  then have "?fits \<noteq> []" and r: "r = render (last ?fits)"
    by (auto simp: longest_fitting_def Let_def split: if_split_asm)
  from last_in_set [OF this(1)] show ?thesis unfolding r by auto
qed

text \<open>One round of the search halves the interval at a point inside it.\<close>

lemma search_prefix_round:
  assumes "below < upper"
  obtains m where "below < m" and "m \<le> upper"
    and "search_prefix render b below upper best =
           (if estimate_tokens (render m) \<le> b
            then search_prefix render b m upper (Some (render m))
            else search_prefix render b below (m - 1) best)"
proof
  let ?m = "Suc below + (upper - Suc below) div 2"
  show "below < ?m" and "?m \<le> upper" using assms by auto
  show "search_prefix render b below upper best =
          (if estimate_tokens (render ?m) \<le> b
           then search_prefix render b ?m upper (Some (render ?m))
           else search_prefix render b below (?m - 1) best)"
    using assms by (subst search_prefix.simps) (simp add: Let_def Suc_le_eq)
qed

lemma search_prefix_stop: "\<not> below < upper \<Longrightarrow> search_prefix render b below upper best = best"
  by (subst search_prefix.simps) simp

lemma search_prefix_cases:
  "search_prefix render b below upper best = Some r \<Longrightarrow>
     best = Some r \<or> (\<exists>n. below < n \<and> n \<le> upper \<and> r = render n \<and> estimate_tokens r \<le> b)"
proof (induction "upper - below" arbitrary: below upper best rule: less_induct)
  case less
  show ?case
  proof (cases "below < upper")
    case True
    then obtain m where m: "below < m" "m \<le> upper" and round:
      "search_prefix render b below upper best =
         (if estimate_tokens (render m) \<le> b
          then search_prefix render b m upper (Some (render m))
          else search_prefix render b below (m - 1) best)"
      by (rule search_prefix_round)
    show ?thesis
    proof (cases "estimate_tokens (render m) \<le> b")
      case fits: True
      have "upper - m < upper - below" using m by simp
      from less.hyps [OF this, of "Some (render m)"] less.prems round fits m show ?thesis
        by (auto intro: less_trans)
    next
      case False
      have "(m - 1) - below < upper - below" using m by simp
      from less.hyps [OF this, of best] less.prems round False have
        "best = Some r \<or> (\<exists>n. below < n \<and> n \<le> m - 1 \<and> r = render n \<and> estimate_tokens r \<le> b)" by simp
      moreover have "n \<le> upper" if "n \<le> m - 1" for n using that m by simp
      ultimately show ?thesis by blast
    qed
  next
    case False
    with less.prems show ?thesis by (simp add: search_prefix_stop)
  qed
qed

lemma search_prefix_longest:
  assumes "\<And>m n. m \<le> n \<Longrightarrow> n \<le> upper \<Longrightarrow> estimate_tokens (render m) \<le> estimate_tokens (render n)"
  shows "search_prefix render b below upper best =
     (case longest_fitting render b [Suc below..<Suc upper] of None \<Rightarrow> best | Some r \<Rightarrow> Some r)"
  using assms
proof (induction "upper - below" arbitrary: below upper best rule: less_induct)
  case less
  show ?case
  proof (cases "below < upper")
    case True
    then obtain m where m: "below < m" "m \<le> upper" and round:
      "search_prefix render b below upper best =
         (if estimate_tokens (render m) \<le> b
          then search_prefix render b m upper (Some (render m))
          else search_prefix render b below (m - 1) best)"
      by (rule search_prefix_round)
    have split: "[Suc below..<Suc upper] = [Suc below..<m] @ [m] @ [Suc m..<Suc upper]"
      using m upt_add_eq_append [of "Suc below" m "Suc upper - m"] by (simp add: upt_conv_Cons)
    show ?thesis
    proof (cases "estimate_tokens (render m) \<le> b")
      case fits: True
      have "upper - m < upper - below" using m by simp
      from less.hyps [OF this, of "Some (render m)"] less.prems round fits show ?thesis
        unfolding split by (auto simp: longest_fitting_simps simp del: upt_Suc
            split: option.split)
    next
      case False
      have "(m - 1) - below < upper - below" using m by simp
      moreover have "Suc (m - 1) = m" using m by simp
      moreover have "longest_fitting render b [Suc m..<Suc upper] = None"
      proof (rule longest_fitting_None)
        fix n
        assume "n \<in> set [Suc m..<Suc upper]"
        then have "estimate_tokens (render m) \<le> estimate_tokens (render n)"
          by (intro less.prems) auto
        with False show "\<not> estimate_tokens (render n) \<le> b" by (meson order_trans)
      qed
      moreover have "estimate_tokens (render k) \<le> estimate_tokens (render n)"
        if "k \<le> n" "n \<le> m - 1" for k n
        using that m by (intro less.prems) auto
      ultimately show ?thesis
        using less.hyps [of "m - 1" below best] round False unfolding split
        by (simp add: longest_fitting_simps del: upt_Suc)
    qed
  next
    case False
    then show ?thesis by (simp add: search_prefix_stop longest_fitting_def)
  qed
qed

section \<open>Properties of the envelope\<close>

definition render_prefix ::
  "Serde \<Rightarrow> CompactionSourceRange \<Rightarrow> u64 \<Rightarrow> string \<Rightarrow> string \<Rightarrow> nat \<Rightarrow> string" where
  "render_prefix sd source_range source_tokens checksum summary n =
     render_compaction_summary_envelope sd
       (envelope_of source_range source_tokens checksum (concat (take n (utf8_chars summary))))"

lemma max_word_le: "(x :: u64) \<le> - 1"
  by simp

lemma render_prefix_all:
  "render_prefix sd rng toks digest s (length (utf8_chars s)) =
     render_compaction_summary_envelope sd (envelope_of rng toks digest s)"
  by (simp add: render_prefix_def)

lemma envelope_by_prefix:
  "compaction_summary_envelope sd s rng toks digest b =
     (let t = trim s; n = length (utf8_chars t); render = render_prefix sd rng toks digest t in
      if t = [] \<or> csr_end rng < csr_start rng then []
      else if estimate_tokens (render n) \<le> b then render n
      else case search_prefix render b 0 (n - 1) None of None \<Rightarrow> [] | Some r \<Rightarrow> r)"
  by (auto simp: compaction_summary_envelope_def render_prefix_all Let_def render_prefix_def [abs_def])

text \<open>
  Property C8. When the size of a rendered envelope grows with its summary, the stored summary is
  the longest non-empty prefix of the trimmed summary, in whole characters, whose envelope fits the
  budget, and nothing when no prefix fits: the binary search gives what a scan of every prefix
  gives.
\<close>

theorem envelope_keeps_longest_prefix:
  assumes "csr_start rng \<le> csr_end rng"
    and "\<forall>n \<le> length (utf8_chars (trim s)). \<forall>m \<le> n.
           estimate_tokens (render_prefix sd rng toks digest (trim s) m)
             \<le> estimate_tokens (render_prefix sd rng toks digest (trim s) n)"
  shows "compaction_summary_envelope sd s rng toks digest b =
     (case longest_fitting (render_prefix sd rng toks digest (trim s)) b
             [1..<Suc (length (utf8_chars (trim s)))] of None \<Rightarrow> [] | Some r \<Rightarrow> r)"
proof (cases "trim s = []")
  case True
  then show ?thesis by (simp add: envelope_by_prefix longest_fitting_def)
next
  case False
  let ?n = "length (utf8_chars (trim s))" and ?f = "render_prefix sd rng toks digest (trim s)"
  have "0 < ?n" using False by (cases "trim s") simp_all
  then have split: "[1..<Suc ?n] = [Suc 0..<Suc (?n - 1)] @ [?n]" by (simp add: Suc_le_eq)
  have "search_prefix ?f b 0 (?n - 1) None =
    (case longest_fitting ?f b [Suc 0..<Suc (?n - 1)] of None \<Rightarrow> None | Some r \<Rightarrow> Some r)"
    by (rule search_prefix_longest) (use assms(2) in auto)
  then show ?thesis
    using False assms(1) unfolding split envelope_by_prefix longest_fitting_simps
    by (auto simp: Let_def not_le split: option.split)
qed

definition plain_serde :: Serde where
  "plain_serde = \<lparr>value_text = (\<lambda>_. ''v''), metadata_text = (\<lambda>_. None),
     envelope_text = (\<lambda>e. Some (cse_summary e)), envelope_parse = (\<lambda>_. None),
     messages_text = (\<lambda>_. None), sha256_hex = (\<lambda>_. replicate 64 (CHR ''0''))\<rparr>"

lemma plain_serde_monotone:
  "list_all (\<lambda>n. list_all (\<lambda>m.
       estimate_tokens (render_prefix plain_serde \<lparr>csr_start = 0, csr_end = 1\<rparr> 9 ''c'' (trim ''abcdefgh'') m)
     \<le> estimate_tokens (render_prefix plain_serde \<lparr>csr_start = 0, csr_end = 1\<rparr> 9 ''c'' (trim ''abcdefgh'') n))
       [0..<Suc n]) [0..<Suc (length (utf8_chars (trim ''abcdefgh'')))]"
  by code_simp

theorem envelope_keeps_longest_prefix_witness:
  "compaction_summary_envelope plain_serde ''abcdefgh'' \<lparr>csr_start = 0, csr_end = 1\<rparr> 9 ''c'' 1 = ''abcd''"
proof -
  have "compaction_summary_envelope plain_serde ''abcdefgh'' \<lparr>csr_start = 0, csr_end = 1\<rparr> 9 ''c'' 1 =
    (case longest_fitting (render_prefix plain_serde \<lparr>csr_start = 0, csr_end = 1\<rparr> 9 ''c''
            (trim ''abcdefgh'')) 1 [1..<Suc (length (utf8_chars (trim ''abcdefgh'')))] of
       None \<Rightarrow> [] | Some r \<Rightarrow> r)"
    by (rule envelope_keeps_longest_prefix)
      (use plain_serde_monotone in \<open>auto simp: list_all_iff less_Suc_eq_le simp del: upt_Suc\<close>)
  also have "\<dots> = ''abcd''" by code_simp
  finally show ?thesis .
qed

text \<open>What a stored summary is: the envelope of a non-blank prefix that fits.\<close>

lemma envelope_nonempty:
  assumes "compaction_summary_envelope sd s rng toks digest b = r" and "r \<noteq> []"
  obtains t where "envelope_text sd (envelope_of rng toks digest t) = Some r" and "prefix t (trim s)"
    and "\<not> is_blank t" and "estimate_tokens r \<le> b" and "csr_start rng \<le> csr_end rng"
proof -
  let ?n = "length (utf8_chars (trim s))" and ?f = "render_prefix sd rng toks digest (trim s)"
  have ok: "trim s \<noteq> []" "csr_start rng \<le> csr_end rng"
    using assms by (auto simp: envelope_by_prefix not_le Let_def split: if_split_asm)
  then have "0 < ?n" by (cases "trim s") simp_all
  then have "\<exists>n. 0 < n \<and> r = ?f n \<and> estimate_tokens r \<le> b"
    using assms search_prefix_cases [of ?f b 0 "?n - 1" None]
    by (auto simp: envelope_by_prefix Let_def split: if_split_asm option.split_asm)
  then obtain n where n: "0 < n" "r = ?f n" "estimate_tokens r \<le> b" by blast
  let ?t = "concat (take n (utf8_chars (trim s)))"
  have "envelope_text sd (envelope_of rng toks digest ?t) = Some r"
    using n assms(2) by (auto simp: render_prefix_def render_compaction_summary_envelope_def
        split: option.split_asm)
  moreover have "prefix ?t (trim s)" by (rule utf8_chars_prefix)
  moreover have "\<not> is_blank ?t"
    by (rule prefix_of_trim_not_blank [OF utf8_chars_prefix utf8_chars_prefix_nonempty [OF n(1) ok(1)]])
  ultimately show thesis by (rule that [OF _ _ _ n(3) ok(2)])
qed

text \<open>A checksum this code computes is well-formed when SHA-256 prints 64 hexadecimal digits.\<close>

definition checksum_ok :: "string \<Rightarrow> bool" where
  "checksum_ok digest \<longleftrightarrow>
     (\<exists>hex. digest = ''sha256:'' @ hex \<and> length hex = 64 \<and> list_all is_ascii_hexdigit hex)"

lemma serialized_digest_ok:
  "\<forall>t. length (sha256_hex sd t) = 64 \<and> list_all is_ascii_hexdigit (sha256_hex sd t) \<Longrightarrow>
     checksum_ok (serialized_digest sd ms)"
  by (auto simp: checksum_ok_def serialized_digest_def digest_bytes_def split: option.split)

lemma strip_prefix_append [simp]: "strip_prefix p (p @ s) = Some s"
  by (simp add: strip_prefix_def)

lemma envelope_of_ok:
  "\<not> is_blank t \<Longrightarrow> csr_start rng \<le> csr_end rng \<Longrightarrow> checksum_ok digest \<Longrightarrow>
     envelope_ok (envelope_of rng toks digest t)"
  by (auto simp: checksum_ok_def envelope_ok_def envelope_of_def not_less strip_prefix_def)

text \<open>
  Property C9. Every stored summary reads back from the message that carries it. With a parser that
  inverts the printer and a printer that adds no white space around the text, a non-empty envelope
  behind the summary prefix parses, passes the checks of the reader, and holds a non-blank prefix
  of the trimmed summary with the source range, the source tokens and the checksum it was given.
\<close>

theorem stored_summary_reads_back:
  assumes "\<forall>e t. envelope_text sd e = Some t \<longrightarrow> envelope_parse sd t = Some e \<and> trim t = t"
    and "checksum_ok digest"
    and "compaction_summary_envelope sd s rng toks digest b \<noteq> []"
  shows "\<exists>t. prefix t (trim s) \<and> \<not> is_blank t \<and>
     compaction_summary_from_context_content sd
       (COMPACTION_SUMMARY_PREFIX @ compaction_summary_envelope sd s rng toks digest b) =
     Some (envelope_of rng toks digest t)"
proof -
  obtain t where t: "envelope_text sd (envelope_of rng toks digest t) =
      Some (compaction_summary_envelope sd s rng toks digest b)"
    and t': "prefix t (trim s)" "\<not> is_blank t" "csr_start rng \<le> csr_end rng"
    using envelope_nonempty [OF refl assms(3)] by metis
  from assms(1) t have "envelope_parse sd (compaction_summary_envelope sd s rng toks digest b) =
      Some (envelope_of rng toks digest t)"
    and "trim (compaction_summary_envelope sd s rng toks digest b) =
      compaction_summary_envelope sd s rng toks digest b" by blast+
  with t' show ?thesis
    by (auto simp: compaction_summary_from_context_content_def parse_compaction_summary_envelope_def
        envelope_of_ok [OF _ _ assms(2)])
qed

definition sample_envelope :: CompactionSummaryEnvelope where
  "sample_envelope = envelope_of \<lparr>csr_start = 0, csr_end = 3\<rparr> 9 (''sha256:'' @ replicate 64 (CHR ''0'')) ''done''"

definition sample_serde :: Serde where
  "sample_serde = plain_serde\<lparr>envelope_text := (\<lambda>e. if e = sample_envelope then Some ''{}'' else None),
     envelope_parse := (\<lambda>t. if t = ''{}'' then Some sample_envelope else None)\<rparr>"

theorem stored_summary_reads_back_witness:
  "\<exists>t. prefix t (trim '' done'') \<and> \<not> is_blank t \<and>
     compaction_summary_from_context_content sample_serde
       (COMPACTION_SUMMARY_PREFIX @ compaction_summary_envelope sample_serde '' done''
          \<lparr>csr_start = 0, csr_end = 3\<rparr> 9 (''sha256:'' @ replicate 64 (CHR ''0'')) 10) =
     Some (envelope_of \<lparr>csr_start = 0, csr_end = 3\<rparr> 9 (''sha256:'' @ replicate 64 (CHR ''0'')) t)"
proof (rule stored_summary_reads_back)
  have "trim ''{}'' = ''{}''" by code_simp
  then show "\<forall>e t. envelope_text sample_serde e = Some t \<longrightarrow>
      envelope_parse sample_serde t = Some e \<and> trim t = t"
    by (simp add: sample_serde_def)
  show "checksum_ok (''sha256:'' @ replicate 64 (CHR ''0''))"
    by (simp add: checksum_ok_def is_ascii_hexdigit_def in_range_def list_all_iff)
  show "compaction_summary_envelope sample_serde '' done''
      \<lparr>csr_start = 0, csr_end = 3\<rparr> 9 (''sha256:'' @ replicate 64 (CHR ''0'')) 10 \<noteq> []"
    by code_simp
qed

text \<open>A stored summary fits the budget it was given.\<close>

lemma envelope_fits:
  "compaction_summary_envelope sd s rng toks digest b \<noteq> [] \<Longrightarrow>
     estimate_tokens (compaction_summary_envelope sd s rng toks digest b) \<le> b"
  by (erule envelope_nonempty [OF refl])

end
