(* ===== verification/Tool_Failure.thy ===== *)
theory Tool_Failure
  imports Text "HOL-Library.List_Lexorder" "HOL-Library.Char_ord"
begin

text \<open>
  The operational family of a failed tool call (\<^verbatim>\<open>semantic_tool_failure_family\<close> of
  \<^verbatim>\<open>golutra-agent-core/src/tool.rs\<close>), which retry and diagnosis share. The printer of a JSON value
  is a parameter. The family of an installation names its packages; the lemmas show that it holds
  nothing else of the command and has a bounded length.
\<close>

section \<open>Package targets\<close>

definition dependency_option_takes_value :: "string \<Rightarrow> bool" where
  "dependency_option_takes_value option \<longleftrightarrow> option \<in> set
     [''-c'', ''--cert'', ''--client-cert'', ''--config-settings'', ''--constraint'',
      ''--extra-index-url'', ''-f'', ''--find-links'', ''--global-option'', ''-i'', ''--index-url'',
      ''--install-option'', ''-o'', ''--option'', ''--prefix'', ''--proxy'', ''-r'', ''--requirement'',
      ''--root'', ''--target'', ''--trusted-host'']"

definition is_target_char :: "char \<Rightarrow> bool" where
  "is_target_char c \<longleftrightarrow> is_ascii_alphanumeric c \<or> c \<in> set ''._-[]:''"

definition normalized_dependency_target :: "string \<Rightarrow> nat \<Rightarrow> string option" where
  "normalized_dependency_target raw max_chars =
     (if raw = [] \<or> contains raw ''://'' \<or> list_ex (\<lambda>c. c \<in> {CHR ''/'', CHR 0x5C}) raw \<or> starts_with raw ''.''
      then None
      else let direct_name = before ''@'' raw;
               name = trim (takeWhile (\<lambda>c. c \<notin> set ''<>=!~'') direct_name)
        in if name = [] \<or> \<not> list_all is_target_char name then None
           else let bounded = concat (take max_chars (utf8_chars name)) in
             if bounded = [] then None else Some bounded)"

abbreviation MAX_TARGETS :: nat where
  "MAX_TARGETS \<equiv> 8"

abbreviation MAX_TARGET_CHARS :: nat where
  "MAX_TARGET_CHARS \<equiv> 64"

definition add_target :: "string \<Rightarrow> string list \<Rightarrow> string list" where
  "add_target target targets =
     (if \<not> starts_with target ''-'' \<and> length targets < MAX_TARGETS
      then (case normalized_dependency_target target MAX_TARGET_CHARS of
              None \<Rightarrow> targets
            | Some t \<Rightarrow> if t \<in> set targets then targets else targets @ [t])
      else targets)"

text \<open>The loop over the words after \<^verbatim>\<open>install\<close>.\<close>

fun collect_targets :: "string list \<Rightarrow> string list \<Rightarrow> string list" where
  "collect_targets targets [] = targets"
| "collect_targets targets (raw # rest) =
     (if raw \<noteq> [] \<and> hd raw \<in> set ''|&;><'' then targets
      else let target = trim_matches (\<lambda>c. c \<in> set [CHR 0x27, CHR 0x22, CHR '','', CHR '';'', CHR ''|'', CHR ''&'']) raw
        in if dependency_option_takes_value target then collect_targets targets (drop 1 rest)
           else if raw \<noteq> [] \<and> last raw \<in> set ''|&;'' then add_target target targets
           else collect_targets (add_target target targets) rest)"

definition dependency_install_scope :: "string \<Rightarrow> string list \<Rightarrow> string" where
  "dependency_install_scope command managers =
     (let quoted = (\<lambda>c. c = CHR 0x27 \<or> c = CHR 0x22);
          is_manager = (\<lambda>token. last (split_by (\<lambda>c. c = CHR ''/'' \<or> c = CHR 0x5C) (trim_matches quoted token))
                          \<in> set managers)
      in case dropWhile (\<lambda>t. \<not> is_manager t) (split_whitespace command) of
           [] \<Rightarrow> ''unspecified''
         | _ # after_manager \<Rightarrow>
             (case dropWhile (\<lambda>t. trim_matches quoted t \<noteq> ''install'') after_manager of
                [] \<Rightarrow> ''unspecified''
              | _ # arguments \<Rightarrow>
                  (let targets = sort (collect_targets [] arguments) in
                   if targets = [] then ''unspecified'' else join '','' targets)))"

section \<open>The family\<close>

definition command_text :: "json \<Rightarrow> string" where
  "command_text facts = to_ascii_lowercase
     (case json_get facts ''command'' of
        Some (JStr command) \<Rightarrow> command
      | Some (JArr parts) \<Rightarrow> join '' '' (List.map_filter as_str parts)
      | _ \<Rightarrow> [])"

definition semantic_tool_failure_family :: "(json \<Rightarrow> string) \<Rightarrow> string \<Rightarrow> json \<Rightarrow> string option" where
  "semantic_tool_failure_family value_text tool_name facts =
     (let command = command_text facts in
      if tool_name = ''shell'' \<and> contains command ''apt-get'' \<and> contains command ''install''
      then Some (''dependency_install:apt:'' @ dependency_install_scope command [''apt-get'', ''apt''])
      else if tool_name = ''shell'' \<and> (contains command ''pip install'' \<or> contains command ''pip3 install''
          \<or> contains command ''-m pip'' \<and> contains command ''install'')
      then Some (''dependency_install:pip:'' @ dependency_install_scope command [''pip'', ''pip3''])
      else if tool_name = ''shell'' \<and> contains command ''apt-get'' \<and> contains command ''update''
      then Some ''dependency_index:apt''
      else if tool_name = ''process_poll'' \<or> tool_name = ''process_reconnect''
      then Some (''process_wait:'' @
        (case json_get facts ''process_id'' of
           Some (JStr value) \<Rightarrow> value
         | Some value \<Rightarrow> value_text value
         | None \<Rightarrow> ''unknown''))
      else None)"

section \<open>What a family holds\<close>

definition clean_target :: "string \<Rightarrow> bool" where
  "clean_target t \<longleftrightarrow> list_all is_target_char t \<and> length t \<le> MAX_TARGET_CHARS"

lemma target_char_not_continuation: "is_target_char c \<Longrightarrow> \<not> is_continuation c"
  by (auto simp: is_target_char_def is_ascii_alphanumeric_def is_ascii_alphabetic_def in_range_def
      is_continuation_def Let_def)

lemma utf8_chars_targets: "list_all is_target_char s \<Longrightarrow> utf8_chars s = map (\<lambda>c. [c]) s"
proof (induction s)
  case (Cons c s)
  then have "takeWhile is_continuation s = []" "dropWhile is_continuation s = s"
    by (cases s; simp add: target_char_not_continuation)+
  with Cons show ?case by simp
qed simp

lemma concat_singletons: "concat (map (\<lambda>c. [c]) s) = s"
  by (induction s) simp_all

lemma normalized_dependency_target_clean:
  "normalized_dependency_target raw MAX_TARGET_CHARS = Some t \<Longrightarrow> clean_target t"
  by (auto simp: normalized_dependency_target_def clean_target_def Let_def utf8_chars_targets
      take_map concat_singletons list_all_iff dest: in_set_takeD split: if_split_asm)

definition clean_targets :: "string list \<Rightarrow> bool" where
  "clean_targets ts \<longleftrightarrow> list_all clean_target ts \<and> length ts \<le> MAX_TARGETS"

lemma add_target_clean: "clean_targets ts \<Longrightarrow> clean_targets (add_target t ts)"
  by (auto simp: clean_targets_def add_target_def dest: normalized_dependency_target_clean split: option.split)

lemma collect_targets_clean: "clean_targets ts \<Longrightarrow> clean_targets (collect_targets ts words)"
  by (induction ts words rule: collect_targets.induct) (auto simp: Let_def add_target_clean)

definition is_family_char :: "char \<Rightarrow> bool" where
  "is_family_char c \<longleftrightarrow> is_target_char c \<or> c = CHR '',''"

lemma join_clean:
  "list_all clean_target ts \<Longrightarrow>
     list_all is_family_char (join '','' ts) \<and> length (join '','' ts) \<le> 65 * length ts"
  by (induction "'',''" ts rule: join.induct) (auto simp: clean_target_def is_family_char_def list_all_iff)

lemma scope_clean:
  "list_all is_family_char (dependency_install_scope command managers)
     \<and> length (dependency_install_scope command managers) \<le> 520"
proof -
  have unspecified: "list_all is_family_char ''unspecified'' \<and> length ''unspecified'' \<le> 520"
    by code_simp
  have "list_all is_family_char (join '','' (sort (collect_targets [] ws)))
      \<and> length (join '','' (sort (collect_targets [] ws))) \<le> 520" for ws
  proof -
    have "clean_targets (collect_targets [] ws)"
      by (rule collect_targets_clean) (simp add: clean_targets_def)
    then have "list_all clean_target (sort (collect_targets [] ws))" "length (sort (collect_targets [] ws)) \<le> 8"
      by (simp_all add: clean_targets_def list_all_iff)
    with join_clean [OF this(1)] show ?thesis by fastforce
  qed
  with unspecified show ?thesis by (simp add: dependency_install_scope_def Let_def split: list.split)
qed



end
