(* ===== verification/Completion_Gate.thy ===== *)
theory Completion_Gate
  imports Runtime_Verification Step_Machine Governor Compaction_Summary Tool_Failure
begin

text \<open>
  The end of a completion cycle of the agent loop (\<^verbatim>\<open>run\<close> of \<^verbatim>\<open>golutra-agent-runtime/src/lib.rs\<close>
  from the choice of the verification input on, \<^verbatim>\<open>completion.rs\<close>, \<^verbatim>\<open>correction_progress.rs\<close> and the
  requested action of \<^verbatim>\<open>correction_feedback.rs\<close>): a candidate is verified, and the cycle either issues
  a correction and goes on or concludes with a decision and a message. Trace events are left out.
  The decision of the governor and the facts gathered before are fields of the cycle.
\<close>

section \<open>Reports of tools\<close>

datatype FileContentKind = Text | Binary | Unknown

record FileStateMetadata =
  fsm_size_bytes :: u64
  fsm_checksum :: "string option"
  fsm_unix_mode :: "u32 option"
  fsm_content_kind :: FileContentKind
  fsm_content_available :: bool

record FileBeforeImage =
  fbi_path :: string
  fbi_content :: "string option"
  fbi_unix_mode :: "u32 option"
  fbi_metadata :: "FileStateMetadata option"

text \<open>The fields in use: the evidence is represented by the identifiers of its records.\<close>

record ToolExecutionReport =
  ter_envelope :: ToolResultEnvelope
  ter_evidence :: "uuid list"
  ter_changed_files :: "string list"
  ter_after_images :: "FileBeforeImage list"

section \<open>Progress of corrections\<close>

text \<open>
  The facts of a candidate: the unmet requirements, the latest verdict of every check, the content
  of the files (a map by path components, which keeps the spelling it met first) and the answer.
\<close>

type_synonym image_map = "Component list \<rightharpoonup> string \<times> string option \<times> u32 option"

record Fingerprint_Facts =
  ff_requirements :: "string list"
  ff_checks :: "string \<times> string option \<rightharpoonup> bool \<times> string"
  ff_candidate :: image_map
  ff_answer :: "string option option"

text \<open>
  The functions of the program's libraries in use: the text of an identifier and of a JSON value, the
  hexadecimal SHA-256 of the JSON text of the facts of a candidate and of a message, and the
  instruction to the model, whose diagnostics are redacted JSON.
\<close>

record Completion_Fns =
  id_text :: "uuid \<Rightarrow> string"
  serde :: Serde
  facts_digest :: "Fingerprint_Facts \<Rightarrow> string"
  message_digest :: "ProviderMessage \<Rightarrow> string"
  model_instruction ::
    "CorrectionEnvelope \<Rightarrow> VerificationRecord \<Rightarrow> ToolExecutionReport list \<Rightarrow> string"

definition observed_checks :: "VerificationCheck list \<Rightarrow> (string \<times> string option \<rightharpoonup> bool \<times> string)" where
  "observed_checks checks = fold
     (\<lambda>check m. if chk_kind check \<in> {VerificationCheckKind.ToolExecution,
            VerificationCheckKind.AssistantResponse, VerificationCheckKind.WorkspaceChange}
        then m
        else m((chk_name check, chk_command check) \<mapsto> (chk_passed check, chk_message check)))
     checks Map.empty"

definition insert_image :: "Serde \<Rightarrow> FileBeforeImage \<Rightarrow> image_map \<Rightarrow> image_map" where
  "insert_image sd img m =
     (let checksum = (case Option.bind (fbi_metadata img) fsm_checksum of
                        Some digest \<Rightarrow> Some digest
                      | None \<Rightarrow> map_option (sha256_hex sd) (fbi_content img));
          key = components (fbi_path img);
          spelling = (case m key of None \<Rightarrow> fbi_path img | Some (p, _) \<Rightarrow> p)
      in m(key \<mapsto> (spelling, checksum, fbi_unix_mode img)))"

definition fingerprint_facts ::
  "Serde \<Rightarrow> CorrectionEnvelope \<Rightarrow> VerificationRecord \<Rightarrow> ToolExecutionReport list \<Rightarrow> string option
     \<Rightarrow> Fingerprint_Facts" where
  "fingerprint_facts sd correction verification reports message =
     (let objective = has_kind VerificationCheckKind.ObjectiveValidation (vr_checks verification)
      in \<lparr>ff_requirements = ce_failed_requirements correction,
          ff_checks = observed_checks (vr_checks verification),
          ff_candidate = (if objective
            then fold (insert_image sd) (concat (map ter_after_images reports)) Map.empty
            else Map.empty),
          ff_answer = (if \<not> objective \<or> list_ex (\<lambda>check. chk_kind check = VerificationCheckKind.Schema
                \<and> \<not> chk_passed check) (vr_checks verification)
            then Some (case map_option trim message of
                         Some m \<Rightarrow> if m = [] then None else Some m | None \<Rightarrow> None)
            else None)\<rparr>)"

abbreviation MAX_FINGERPRINT_HISTORY :: nat where
  "MAX_FINGERPRINT_HISTORY \<equiv> 8"

text \<open>The history of fingerprints, the oldest first.\<close>

definition permits_retry :: "string \<Rightarrow> string list \<Rightarrow> bool \<times> string list" where
  "permits_retry fingerprint history =
     (if fingerprint \<in> set history then (False, history)
      else let pushed = history @ [fingerprint] in
        (True, if length pushed > MAX_FINGERPRINT_HISTORY then tl pushed else pushed))"

section \<open>Corrections\<close>

abbreviation unmet :: "VerificationAssertion \<Rightarrow> bool" where
  "unmet a \<equiv> va_blocking a \<and> va_status a \<notin>
     {VerificationAssertionStatus.Pass, VerificationAssertionStatus.NotApplicable}"

definition is_unknown_validation :: "VerificationCheck \<Rightarrow> bool" where
  "is_unknown_validation check \<longleftrightarrow> chk_kind check = VerificationCheckKind.ObjectiveValidation
     \<and> starts_with (chk_name check) ''objective:unknown:''"

fun latest_failed :: "(string \<times> string option) list \<Rightarrow> VerificationCheck list \<Rightarrow> bool" where
  "latest_failed seen [] = False"
| "latest_failed seen (check # checks) =
     (let key = (chk_name check, chk_command check) in
      key \<notin> set seen \<and> \<not> chk_passed check \<and> \<not> is_unknown_validation check
      \<or> latest_failed (key # seen) checks)"

definition latest_check_failed :: "VerificationRecord \<Rightarrow> VerificationCheckKind \<Rightarrow> bool" where
  "latest_check_failed verification kind =
     latest_failed [] (filter (\<lambda>check. chk_kind check = kind) (rev (vr_checks verification)))"

definition missing_validation :: "VerificationRecord \<Rightarrow> bool" where
  "missing_validation verification \<longleftrightarrow>
     list_ex is_unknown_validation (vr_checks verification)
     \<or> \<not> has_kind VerificationCheckKind.ObjectiveValidation (vr_checks verification)
       \<and> list_ex (\<lambda>risk. risk \<in> {''task contract requires objective validation'',
            ''behavioral changes were not objectively validated''}) (vr_residual_risks verification)"

definition requested_action :: "VerificationRecord \<Rightarrow> string" where
  "requested_action verification =
     (let failed = map va_kind (filter unmet (vr_assertions verification));
          schema = latest_check_failed verification VerificationCheckKind.Schema
            \<or> VerificationAssertionKind.Schema \<in> set failed;
          delivery = latest_check_failed verification VerificationCheckKind.ObjectiveValidation
            \<or> latest_check_failed verification VerificationCheckKind.WorkspaceChange
            \<or> list_ex (\<lambda>kind. kind \<in> {FileState, Diff, CommandExit, Test, Diagnostic, Delivery}) failed;
          actions =
            (if schema then [''Correct the final response to match the requested output schema; formatting alone requires no tools or workspace validation''] else []) @
            (if delivery then [''Address the reported delivery or validation issue within the requested scope, then rerun only the affected checks; report any check that cannot be performed''] else []) @
            (if missing_validation verification then [''Supply the missing relevant validation evidence, or explain why validation is unavailable; do not add unrelated tests or work''] else [])
      in if latest_check_failed verification VerificationCheckKind.Policy
            \<or> VerificationAssertionKind.Policy \<in> set failed
         then ''Respect the reported permission boundary. Explain the limitation and request missing authorization if needed; do not bypass it or repeat the denied action''
         else join ''. '' (if actions = []
           then [''Address only the reported unmet requirements; use tools when additional facts or changes are needed and state any unresolved limitation'']
           else actions))"

definition correction_envelope :: "VerificationRecord \<Rightarrow> u32 \<Rightarrow> u32 option \<Rightarrow> CorrectionEnvelope" where
  "correction_envelope verification attempt remaining_attempts =
     (let requirements =
            map (\<lambda>a. va_subject a @ '': '' @
                   (if is_blank (va_message a) then va_expected a else va_message a))
              (filter unmet (vr_assertions verification)) @ vr_residual_risks verification
      in \<lparr>ce_verification_id = vr_verification_id verification, ce_attempt = attempt,
          ce_remaining_attempts = remaining_attempts,
          ce_failed_requirements = map (\<lambda>value. concat (take 512 (utf8_chars value)))
            (take 8 (remdups_adj (sort requirements))),
          ce_evidence_refs = take 16 (vr_evidence_refs verification),
          ce_requested_action = requested_action verification\<rparr>)"

section \<open>Terminal decision and message\<close>

definition accepts_best_effort_completion :: "TaskContract \<Rightarrow> VerificationRecord \<Rightarrow> bool" where
  "accepts_best_effort_completion contract verification \<longleftrightarrow>
     tc_verification contract = VerificationRequirement.BestEffort
     \<and> \<not> require_objective_validation contract
     \<and> vr_result verification = VerificationResult.Partial
     \<and> vr_policy_status verification = ''task_contract_satisfied''
     \<and> \<not> list_ex unmet (vr_assertions verification)
     \<and> passed_check (vr_checks verification) VerificationCheckKind.WorkspaceChange
     \<and> \<not> has_kind VerificationCheckKind.ObjectiveValidation (vr_checks verification)
     \<and> list_all chk_passed (filter (\<lambda>check. chk_kind check \<in> {VerificationCheckKind.Schema,
          VerificationCheckKind.Policy}) (vr_checks verification))"

fun action_of_result :: "VerificationResult \<Rightarrow> LoopAction" where
  "action_of_result VerificationResult.Pass = StopSuccess"
| "action_of_result VerificationResult.Partial = StopPartial"
| "action_of_result VerificationResult.Fail = StopFailed"
| "action_of_result VerificationResult.Unknown = LoopAction.Blocked"

fun result_name :: "VerificationResult \<Rightarrow> string" where
  "result_name VerificationResult.Pass = ''Pass''"
| "result_name VerificationResult.Fail = ''Fail''"
| "result_name VerificationResult.Partial = ''Partial''"
| "result_name VerificationResult.Unknown = ''Unknown''"

definition loop_decision ::
  "uuid \<Rightarrow> uuid \<Rightarrow> uuid \<Rightarrow> VerificationRecord \<Rightarrow> BudgetState \<Rightarrow> LoopDecision" where
  "loop_decision decision_id task_id turn_id verification budget_state =
     \<lparr>ld_decision_id = decision_id, ld_task_id = task_id, ld_turn_id = turn_id,
      ld_action = action_of_result (vr_result verification),
      ld_reason = ''verification result: '' @ result_name (vr_result verification),
      ld_evidence_refs = vr_evidence_refs verification,
      ld_verification_ref = Some (vr_verification_id verification), ld_policy_ref = None,
      ld_budget_state = budget_state, ld_tool_state = ''p0_tool_reports_recorded'',
      ld_model_state = ''p0_provider_response_recorded'', ld_next_step = None\<rparr>"

definition bounded_text :: "string \<Rightarrow> nat \<Rightarrow> string" where
  "bounded_text value max_chars =
     concat (take max_chars (utf8_chars value)) @ (if char_count value > max_chars then ''...'' else [])"

text \<open>The family with most failures; among equals the last in byte order.\<close>

definition dominant_family :: "string list \<Rightarrow> (string \<times> nat) option" where
  "dominant_family families = fold
     (\<lambda>family best. let attempts = count_list families family in
        case best of Some (_, n) \<Rightarrow> if n \<le> attempts then Some (family, attempts) else best
        | None \<Rightarrow> Some (family, attempts))
     (sort (remdups families)) None"

abbreviation refutes :: "VerificationCheck \<Rightarrow> bool" where
  "refutes check \<equiv> \<not> chk_passed check \<and> chk_kind check \<noteq> VerificationCheckKind.ToolExecution"

definition failed_families ::
  "Completion_Fns \<Rightarrow> ToolExecutionReport list \<Rightarrow> VerificationRecord \<Rightarrow> string list" where
  "failed_families f tool_reports verification =
     map (\<lambda>report. let envelope = ter_envelope report in
        case semantic_tool_failure_family (value_text (serde f)) (env_tool_name envelope)
            (env_structured_facts envelope) of
          Some family \<Rightarrow> family | None \<Rightarrow> ''tool:'' @ env_tool_name envelope)
       (filter (\<lambda>report. env_status (ter_envelope report) \<noteq> ToolResultStatus.Ok
          \<and> list_ex (\<lambda>check. refutes check
              \<and> list_ex (\<lambda>i. i \<in> set (env_evidence_refs (ter_envelope report))) (chk_evidence_refs check))
            (vr_checks verification))
         tool_reports)"

definition evidence_backed_failure_message ::
  "Completion_Fns \<Rightarrow> ToolExecutionReport list \<Rightarrow> VerificationRecord \<Rightarrow> string" where
  "evidence_backed_failure_message f tool_reports verification =
     (let failed_check = find refutes (rev (vr_checks verification));
          failed_message =
            (case map_option (\<lambda>check. trim (chk_message check)) failed_check of
               Some (c # cs) \<Rightarrow> c # cs
             | _ \<Rightarrow> (case vr_residual_risks verification of
                       risk # _ \<Rightarrow> risk | [] \<Rightarrow> ''completion criteria were not proven''));
          evidence = map (id_text f) (take 3 (case failed_check of
            Some check \<Rightarrow> chk_evidence_refs check | None \<Rightarrow> vr_evidence_refs verification))
      in ''Could not complete. Verification '' @ result_name (vr_result verification) @ '': ''
         @ bounded_text failed_message 240 @ ''.''
         @ (case dominant_family (failed_families f tool_reports verification) of
              None \<Rightarrow> []
            | Some (family, attempts) \<Rightarrow>
                '' Root cause: `'' @ family @ ''`; failed tool attempts: '' @ show_nat attempts @ ''.'')
         @ (if evidence = []
            then '' Verification record: '' @ id_text f (vr_verification_id verification) @ ''.''
            else '' Evidence: '' @ join '', '' evidence @ ''.''))"

abbreviation spoken :: "string option \<Rightarrow> string option" where
  "spoken message \<equiv> Option.bind message (\<lambda>m. if is_blank m then None else Some m)"

definition final_message ::
  "Completion_Fns \<Rightarrow> string option \<Rightarrow> ToolExecutionReport list \<Rightarrow> VerificationRecord \<Rightarrow> string option" where
  "final_message f assistant_message tool_reports verification =
     (if vr_result verification = VerificationResult.Pass
      then (case spoken assistant_message of
              Some m \<Rightarrow> Some m
            | None \<Rightarrow> Some (''Completed: '' @
                (case find (\<lambda>summary. summary \<noteq> [])
                    (map (\<lambda>report. trim (env_summary (ter_envelope report))) (rev tool_reports)) of
                   Some summary \<Rightarrow> summary | None \<Rightarrow> ''verified completion'')))
      else let diagnostic = evidence_backed_failure_message f tool_reports verification in
        Some (case spoken assistant_message of
          Some message \<Rightarrow> diagnostic @ [CHR 0x0A, CHR 0x0A] @
            ''Findings (not verified as complete):'' @ [CHR 0x0A] @ message
        | None \<Rightarrow> diagnostic))"

definition interaction_only_report :: "ToolExecutionReport \<Rightarrow> bool" where
  "interaction_only_report report \<longleftrightarrow>
     env_status (ter_envelope report) = ToolResultStatus.Ok
     \<and> env_risk (ter_envelope report) = ''p0_user_input''
     \<and> env_raw_artifact_ref (ter_envelope report) = None
     \<and> env_evidence_refs (ter_envelope report) = []
     \<and> ter_evidence report = [] \<and> ter_changed_files report = []"

definition accepts_text_response_without_evidence ::
  "bool \<Rightarrow> string option \<Rightarrow> ToolExecutionReport list \<Rightarrow> bool" where
  "accepts_text_response_without_evidence needs_workspace assistant_message tool_reports \<longleftrightarrow>
     \<not> needs_workspace \<and> list_all interaction_only_report tool_reports \<and> spoken assistant_message \<noteq> None"

section \<open>The completion cycle\<close>

text \<open>
  What the cycle has gathered when its candidate is verified: the contract and the settings of the
  turn, the checks and the evidence of its reports, the check of the output schema when there is
  one, the decision of the governor for the completion phase, and the identifiers the cycle draws.
\<close>

record Completion_Cycle =
  cc_task_id :: uuid
  cc_turn_id :: uuid
  cc_objective :: string
  cc_criteria :: "string list"
  cc_contract :: TaskContract
  cc_touched_code :: bool
  cc_behavior_files_changed :: bool
  cc_evidence_refs :: "uuid list"
  cc_command_checks :: "VerificationCheck list"
  cc_schema_check :: "VerificationCheck option"
  cc_plan_ids :: Plan_Ids
  cc_verification_id :: uuid
  cc_environment_digest :: string
  cc_governance :: RuntimeGovernorDecision
  cc_has_external_verifiers :: bool
  cc_defer_external_verification :: bool
  cc_candidate_complete :: bool
  cc_elapsed_ms :: u64
  cc_budget_state :: BudgetState
  cc_decision_id :: uuid

record Completion_State =
  cs_turn_state :: TurnState
  cs_progress :: "string list"
  cs_step_machine :: StepMachine
  cs_messages :: "ProviderMessage list"
  cs_message_estimates :: "u64 list"
  cs_message_digests :: "string list"
  cs_message_sources :: "ContextMessageSource list"
  cs_message_token_total :: u64
  cs_tool_reports :: "ToolExecutionReport list"
  cs_assistant_message :: "string option"
  cs_guard_reason :: "string option"
  cs_governor_action :: "GovernorAction option"

record AgentLoopOutcome =
  alo_runtime_stop_reason :: "string option"
  alo_runtime_failure_class :: "FailureClass option"
  alo_verification :: VerificationRecord
  alo_verification_plan :: VerificationPlan
  alo_loop_decision :: LoopDecision
  alo_tool_reports :: "ToolExecutionReport list"
  alo_final_message :: "string option"
  alo_final_turn_id :: uuid
  alo_defer_external_verification :: bool
  alo_candidate_ready :: bool

datatype Completion_End = Corrected Completion_State | Concluded AgentLoopOutcome TurnState

abbreviation response_check :: "string \<Rightarrow> VerificationCheck" where
  "response_check message \<equiv>
     \<lparr>chk_kind = VerificationCheckKind.AssistantResponse, chk_name = ''assistant_response'',
      chk_command = None, chk_passed = True, chk_evidence_refs = [], chk_message = message\<rparr>"

definition completion_input :: "Completion_Cycle \<Rightarrow> Completion_State \<Rightarrow> VerificationInput" where
  "completion_input c s =
     (let needs = Task_Contract.requires_workspace_evidence (cc_contract c);
          checks = cc_command_checks c @
            (if spoken (cs_assistant_message s) \<noteq> None \<and> (\<not> needs \<or> cs_tool_reports s \<noteq> [])
             then [response_check ''assistant response produced after tool execution''] else []) @
            (case cc_schema_check c of None \<Rightarrow> [] | Some check \<Rightarrow> [check]);
          touched = cc_touched_code c \<or> list_ex (\<lambda>report. ter_changed_files report \<noteq> []) (cs_tool_reports s)
      in if accepts_text_response_without_evidence (needs \<or> touched) (cs_assistant_message s) (cs_tool_reports s)
            \<and> cc_schema_check c = None
         then \<lparr>vi_task_id = cc_task_id c, vi_objective = cc_objective c,
               vi_completion_criteria = cc_criteria c, vi_evidence_refs = [],
               vi_command_checks = [response_check ''assistant response produced'',
                 \<lparr>chk_kind = VerificationCheckKind.Policy, chk_name = ''policy:no_tool_calls'',
                  chk_command = None, chk_passed = True, chk_evidence_refs = [],
                  chk_message = ''no side-effecting tool call was requested''\<rparr>],
               vi_requires_workspace_evidence = False, vi_code_files_changed = False\<rparr>
         else \<lparr>vi_task_id = cc_task_id c, vi_objective = cc_objective c,
               vi_completion_criteria = cc_criteria c, vi_evidence_refs = cc_evidence_refs c,
               vi_command_checks = checks, vi_requires_workspace_evidence = touched,
               vi_code_files_changed = cc_behavior_files_changed c\<rparr>)"

definition govern :: "Completion_Cycle \<Rightarrow> Completion_State \<Rightarrow> Completion_State" where
  "govern c s =
     (if permits_execution (cc_governance c) then s
      else s\<lparr>cs_guard_reason := Some (gd_reason (cc_governance c)),
             cs_governor_action := Some (gd_action (cc_governance c))\<rparr>)"

definition apply_guard :: "string option \<Rightarrow> VerificationRecord \<Rightarrow> VerificationRecord" where
  "apply_guard guard verification =
     (case guard of
        None \<Rightarrow> verification
      | Some reason \<Rightarrow> verification
          \<lparr>vr_result := (if vr_result verification = VerificationResult.Pass
             then VerificationResult.Partial else vr_result verification),
           vr_residual_risks := vr_residual_risks verification @ [reason]\<rparr>)"

abbreviation policy_verified :: "VerificationRecord \<Rightarrow> bool" where
  "policy_verified verification \<equiv>
     list_ex (\<lambda>a. va_blocking a \<and> va_kind a = VerificationAssertionKind.Policy
         \<and> va_status a \<in> {VerificationAssertionStatus.Pass, VerificationAssertionStatus.NotApplicable})
       (vr_assertions verification)"

definition ready_for_external :: "Completion_Cycle \<Rightarrow> string option \<Rightarrow> VerificationRecord \<Rightarrow> bool" where
  "ready_for_external c guard verification \<longleftrightarrow>
     cc_candidate_complete c \<and> guard = None \<and> cc_defer_external_verification c
     \<and> policy_verified verification
     \<and> \<not> list_ex (\<lambda>a. va_blocking a \<and> va_status a = VerificationAssertionStatus.Fail)
         (vr_assertions verification)"

definition best_effort_complete :: "Completion_Cycle \<Rightarrow> string option \<Rightarrow> VerificationRecord \<Rightarrow> bool" where
  "best_effort_complete c guard verification \<longleftrightarrow>
     cc_candidate_complete c \<and> guard = None \<and> \<not> cc_defer_external_verification c
     \<and> accepts_best_effort_completion (cc_contract c) verification"

definition wants_correction ::
  "Completion_Cycle \<Rightarrow> u32 \<Rightarrow> string option \<Rightarrow> VerificationRecord \<Rightarrow> bool" where
  "wants_correction c attempt guard verification \<longleftrightarrow>
     cc_candidate_complete c \<and> guard = None \<and> vr_result verification \<noteq> VerificationResult.Pass
     \<and> \<not> best_effort_complete c guard verification
     \<and> \<not> (requires_independent_verification (cc_contract c) \<and> \<not> cc_has_external_verifiers c)
     \<and> \<not> ready_for_external c guard verification
     \<and> allows_correction (cc_contract c) attempt"

definition append_plan_message ::
  "Completion_Fns \<Rightarrow> ProviderMessage \<Rightarrow> ContextMessageSource \<Rightarrow> Completion_State \<Rightarrow> Completion_State" where
  "append_plan_message f message source s =
     (let tokens = estimate_message_token (serde f) message in
      s\<lparr>cs_messages := cs_messages s @ [message],
        cs_message_estimates := cs_message_estimates s @ [tokens],
        cs_message_digests := cs_message_digests s @ [message_digest f message],
        cs_message_sources := cs_message_sources s @ [source],
        cs_message_token_total := sat_add (cs_message_token_total s) tokens\<rparr>)"

text \<open>A correction goes to the model as a user message; the reports of verifiers are dropped.\<close>

definition begin_retry ::
  "Completion_Fns \<Rightarrow> Completion_Cycle \<Rightarrow> CorrectionEnvelope \<Rightarrow> VerificationRecord
     \<Rightarrow> Completion_State \<Rightarrow> Completion_State" where
  "begin_retry f c correction verification s0 =
     (let s = s0\<lparr>cs_turn_state := issue_correction VerificationFailed (cs_turn_state s0),
            cs_step_machine := begin_correction (cc_elapsed_ms c) (cs_step_machine s0)\<rparr>;
          s' = append_plan_message f
            \<lparr>pm_role = ProviderRole.User,
             pm_content = model_instruction f correction verification (cs_tool_reports s),
             pm_tool_call_id = None, pm_tool_name = None, pm_tool_calls = [], pm_metadata = []\<rparr>
            \<lparr>cms_contributor = ''verification_feedback'',
             cms_source_refs = map (\<lambda>e. ''evidence:'' @ id_text f e) (ce_evidence_refs correction),
             cms_origin = ''verification_feedback'', cms_visibility = ModelVisible\<rparr> s
      in s'\<lparr>cs_tool_reports := filter (\<lambda>report. env_tool_name (ter_envelope report) \<notin>
               {''external_verifier'', ''contract_file_content_verifier'', ''contract_path_verifier''})
               (cs_tool_reports s'),
             cs_assistant_message := None, cs_guard_reason := None, cs_governor_action := None\<rparr>)"

definition terminal_decision ::
  "Completion_Cycle \<Rightarrow> bool \<Rightarrow> string option \<Rightarrow> GovernorAction option \<Rightarrow> VerificationRecord \<Rightarrow> LoopDecision" where
  "terminal_decision c best_effort guard action verification =
     (let d0 = loop_decision (cc_decision_id c) (cc_task_id c) (cc_turn_id c) verification (cc_budget_state c);
          d1 = (case guard of None \<Rightarrow> d0 | Some reason \<Rightarrow> d0\<lparr>ld_reason := reason\<rparr>);
          d2 = (if best_effort then d1\<lparr>ld_action := StopSuccess,
                  ld_reason := ''task contract satisfied; optional objective validation remains unverified (best effort)''\<rparr>
                else d1)
      in case action of
           None \<Rightarrow> d2
         | Some a \<Rightarrow> d2
             \<lparr>ld_action := (case a of GovernorAction.AskUser \<Rightarrow> LoopAction.AskUser
                | GovernorAction.Block \<Rightarrow> LoopAction.Blocked | _ \<Rightarrow> ld_action d2),
              ld_reason := (case guard of Some reason \<Rightarrow> reason | None \<Rightarrow> ''runtime governor stopped execution''),
              ld_next_step := Some ''user must revise the objective or runtime budget''\<rparr>)"

definition conclude ::
  "Completion_Fns \<Rightarrow> Completion_Cycle \<Rightarrow> Completion_State \<Rightarrow> bool \<Rightarrow> bool \<Rightarrow> VerificationRecord \<Rightarrow> VerificationPlan
     \<Rightarrow> Completion_End" where
  "conclude f c s best_effort external_ready verification settled =
     (let guard = cs_guard_reason s;
          message = (if best_effort then cs_assistant_message s
            else case guard of
              Some reason \<Rightarrow> Some (''Could not complete: '' @ reason @ ''.'')
            | None \<Rightarrow> final_message f (cs_assistant_message s) (cs_tool_reports s) verification)
      in Concluded
        \<lparr>alo_runtime_stop_reason = guard,
         alo_runtime_failure_class = map_option (\<lambda>_.
           if vr_policy_status verification = ''policy_blocked'' then FailureClass.Policy
           else RuntimeControlFlow) guard,
         alo_verification = verification, alo_verification_plan = settled,
         alo_loop_decision = terminal_decision c best_effort guard (cs_governor_action s) verification,
         alo_tool_reports = cs_tool_reports s, alo_final_message = message,
         alo_final_turn_id = cc_turn_id c,
         alo_defer_external_verification = cc_defer_external_verification c,
         alo_candidate_ready = external_ready\<rparr>
        (terminal (cs_turn_state s)))"

abbreviation NO_PROGRESS_REASON :: string where
  "NO_PROGRESS_REASON \<equiv> ''automatic correction stopped: the same verification requirement remains unresolved without new validation evidence or a changed candidate''"

text \<open>The verification of the candidate and the effect of a guard on it.\<close>

definition judged :: "Completion_Cycle \<Rightarrow> Completion_State \<Rightarrow> VerificationRecord \<times> VerificationPlan" where
  "judged c s =
     (let input = completion_input c s;
          (verification, settled) = verify_governed (cc_verification_id c) input
            (plan_governed (cc_plan_ids c) input (cc_contract c)) (cc_contract c) (cc_environment_digest c)
      in (apply_guard (cs_guard_reason (govern c s)) verification, settled))"

abbreviation next_correction :: "Completion_Cycle \<Rightarrow> u32 \<Rightarrow> VerificationRecord \<Rightarrow> CorrectionEnvelope" where
  "next_correction c attempt verification \<equiv>
     correction_envelope verification (sat_add attempt 1)
       (map_option (\<lambda>limit. sat_sub limit (sat_add attempt 1)) (max_correction_rounds (cc_contract c)))"

definition completion_step :: "Completion_Fns \<Rightarrow> Completion_Cycle \<Rightarrow> Completion_State \<Rightarrow> Completion_End" where
  "completion_step f c s0 =
     (let (verification, settled) = judged c s0;
          s = (govern c s0)\<lparr>cs_turn_state := begin_verification (vr_verification_id verification)
            (verification_ready (cs_turn_state s0))\<rparr>;
          guard = cs_guard_reason s;
          attempt = ts_correction_attempt (cs_turn_state s);
          best_effort = best_effort_complete c guard verification;
          external_ready = ready_for_external c guard verification
      in if wants_correction c attempt guard verification
         then let correction = next_correction c attempt verification;
                  (permitted, progress) = permits_retry (facts_digest f (fingerprint_facts (serde f)
                    correction verification (cs_tool_reports s) (cs_assistant_message s))) (cs_progress s)
           in if permitted
              then Corrected (begin_retry f c correction verification (s\<lparr>cs_progress := progress\<rparr>))
              else conclude f c (s\<lparr>cs_progress := progress, cs_guard_reason := Some NO_PROGRESS_REASON\<rparr>)
                     best_effort external_ready
                     (verification\<lparr>vr_residual_risks := vr_residual_risks verification @ [NO_PROGRESS_REASON]\<rparr>)
                     settled
         else conclude f c s best_effort external_ready verification settled)"

section \<open>What a conclusion rests on\<close>

lemma permits_govern: "cs_guard_reason (govern c s) = None \<longleftrightarrow>
    cs_guard_reason s = None \<and> permits_execution (cc_governance c)"
  by (auto simp: govern_def)

lemma apply_guard_None [simp]: "apply_guard None v = v"
  by (simp add: apply_guard_def)

lemma apply_guard_pass: "vr_result (apply_guard guard v) = VerificationResult.Pass \<Longrightarrow> guard = None"
  by (auto simp: apply_guard_def split: option.split_asm if_split_asm)

lemma judged_unguarded:
  "cs_guard_reason (govern c s) = None \<Longrightarrow> judged c s =
     verify_governed (cc_verification_id c) (completion_input c s)
       (plan_governed (cc_plan_ids c) (completion_input c s) (cc_contract c)) (cc_contract c)
       (cc_environment_digest c)"
  by (simp add: judged_def Let_def split: prod.split)

lemma judged_pass: "vr_result (fst (judged c s)) = VerificationResult.Pass \<Longrightarrow> cs_guard_reason (govern c s) = None"
  by (auto simp: judged_def Let_def dest: apply_guard_pass split: prod.split_asm)

lemma best_effort_cases:
  assumes "best_effort_complete c guard v"
  shows "guard = None" "vr_result v \<noteq> VerificationResult.Pass"
    "vr_policy_status v = ''task_contract_satisfied''" "\<not> wants_correction c attempt guard v"
  using assms
  by (auto simp: best_effort_complete_def accepts_best_effort_completion_def wants_correction_def)

text \<open>A conclusion is drawn from the judged record, unless a correction was due and refused.\<close>

definition concludes ::
  "Completion_Fns \<Rightarrow> Completion_Cycle \<Rightarrow> Completion_State \<Rightarrow> AgentLoopOutcome \<Rightarrow> bool" where
  "concludes f c s out \<longleftrightarrow>
     (let v = fst (judged c s); s' = govern c s; guard = cs_guard_reason s'
      in (alo_runtime_stop_reason out = guard \<and> alo_verification out = v
          \<or> guard = None \<and> vr_result v \<noteq> VerificationResult.Pass \<and> \<not> best_effort_complete c guard v
            \<and> alo_runtime_stop_reason out = Some NO_PROGRESS_REASON
            \<and> vr_result (alo_verification out) = vr_result v)
         \<and> alo_loop_decision out = terminal_decision c (best_effort_complete c guard v)
             (alo_runtime_stop_reason out) (cs_governor_action s') (alo_verification out)
         \<and> alo_final_message out = (if best_effort_complete c guard v then cs_assistant_message s
             else case alo_runtime_stop_reason out of
               Some reason \<Rightarrow> Some (''Could not complete: '' @ reason @ ''.'')
             | None \<Rightarrow> final_message f (cs_assistant_message s) (cs_tool_reports s) (alo_verification out)))"

lemma govern_frame [simp]:
  "cs_assistant_message (govern c s) = cs_assistant_message s"
  "cs_tool_reports (govern c s) = cs_tool_reports s"
  "cs_turn_state (govern c s) = cs_turn_state s"
  "cs_progress (govern c s) = cs_progress s"
  by (simp_all add: govern_def)

lemma conclude_fields:
  assumes "conclude f c s best ready v settled = Concluded out t"
  shows "alo_runtime_stop_reason out = cs_guard_reason s" "alo_verification out = v"
    "alo_loop_decision out = terminal_decision c best (cs_guard_reason s) (cs_governor_action s) v"
    "alo_final_message out = (if best then cs_assistant_message s
       else case cs_guard_reason s of
         Some reason \<Rightarrow> Some (''Could not complete: '' @ reason @ ''.'')
       | None \<Rightarrow> final_message f (cs_assistant_message s) (cs_tool_reports s) v)"
  using assms by (auto simp: conclude_def Let_def)

lemma completion_concludes:
  assumes "completion_step f c s = Concluded out t"
  shows "concludes f c s out"
proof -
  obtain v settled where j: "judged c s = (v, settled)" by fastforce
  let ?s = "(govern c s)\<lparr>cs_turn_state := begin_verification (vr_verification_id v)
    (verification_ready (cs_turn_state s))\<rparr>"
  let ?guard = "cs_guard_reason (govern c s)"
  let ?stopped = "v\<lparr>vr_residual_risks := vr_residual_risks v @ [NO_PROGRESS_REASON]\<rparr>"
  consider (plain) "conclude f c ?s (best_effort_complete c ?guard v) (ready_for_external c ?guard v) v settled
      = Concluded out t"
    | (refused) progress attempt where "wants_correction c attempt ?guard v"
      "conclude f c (?s\<lparr>cs_progress := progress, cs_guard_reason := Some NO_PROGRESS_REASON\<rparr>)
        (best_effort_complete c ?guard v) (ready_for_external c ?guard v) ?stopped settled = Concluded out t"
    using assms by (auto simp: completion_step_def j Let_def split: if_split_asm prod.split_asm)
  then show ?thesis
  proof cases
    case plain
    from conclude_fields [OF this] show ?thesis by (simp add: concludes_def j Let_def cong: option.case_cong)
  next
    case refused
    then have "?guard = None" "vr_result v \<noteq> VerificationResult.Pass" "\<not> best_effort_complete c ?guard v"
      by (auto simp: wants_correction_def)
    with conclude_fields [OF refused(2)] show ?thesis
      by (simp add: concludes_def j Let_def)
  qed
qed

lemma terminal_decision_success:
  "ld_action (terminal_decision c best guard action v) = StopSuccess \<longleftrightarrow>
     (best \<or> vr_result v = VerificationResult.Pass) \<and>
     action \<notin> {Some GovernorAction.AskUser, Some GovernorAction.Block}"
  by (cases "vr_result v"; cases action)
    (auto simp: terminal_decision_def loop_decision_def Let_def split: option.split GovernorAction.split)

lemma success_cases:
  assumes "concludes f c s out" and "ld_action (alo_loop_decision out) = StopSuccess"
  shows "cs_guard_reason (govern c s) = None" and "alo_runtime_stop_reason out = None"
    and "alo_verification out = fst (judged c s)"
    and "vr_result (alo_verification out) = VerificationResult.Pass \<or>
      best_effort_complete c None (alo_verification out)"
proof -
  let ?v = "fst (judged c s)" and ?guard = "cs_guard_reason (govern c s)"
  from assms have *: "best_effort_complete c ?guard ?v \<or> vr_result ?v = VerificationResult.Pass"
    by (auto simp: concludes_def Let_def terminal_decision_success)
  then show guard: "?guard = None" using best_effort_cases(1) judged_pass by blast
  from assms(1) * guard show "alo_runtime_stop_reason out = None" "alo_verification out = ?v"
    by (auto simp: concludes_def Let_def)
  with * guard show "vr_result (alo_verification out) = VerificationResult.Pass \<or>
      best_effort_complete c None (alo_verification out)" by auto
qed

text \<open>
  Property C1. The agent loop reports success only for an earned one: no guard stopped the turn and
  the governor permitted its completion, the task contract is met, at least one policy decision was
  recorded and none refused, and the verification passed, or it is partial and the contract accepts
  the best effort because no objective validation was required and none was observed to fail. The
  wording of the model's answer decides nothing.
\<close>

theorem success_is_earned:
  assumes "completion_step f c s = Concluded out t"
    and "ld_action (alo_loop_decision out) = StopSuccess"
  shows "cs_guard_reason s = None \<and> permits_execution (cc_governance c) \<and>
    (workspace_change (cc_contract c) = WorkspaceChangeRequirement.Required \<longrightarrow>
       workspace_changed (completion_input c s)) \<and>
    (workspace_change (cc_contract c) = WorkspaceChangeRequirement.Forbidden \<longrightarrow>
       \<not> workspace_changed (completion_input c s)) \<and>
    (require_objective_validation (cc_contract c) \<longrightarrow> objective_validated (completion_input c s)) \<and>
    (requires_independent_verification (cc_contract c) \<longrightarrow> external_verified (completion_input c s)) \<and>
    (\<exists>check \<in> set (vi_command_checks (completion_input c s)). is_policy_check check) \<and>
    (\<forall>check \<in> set (vi_command_checks (completion_input c s)). is_policy_check check \<longrightarrow> chk_passed check) \<and>
    (vr_result (alo_verification out) = VerificationResult.Pass \<or>
     accepts_best_effort_completion (cc_contract c) (alo_verification out))"
proof -
  note success = success_cases [OF completion_concludes [OF assms(1)] assms(2)]
  from success(3,4) have "vr_result (fst (judged c s)) = VerificationResult.Pass \<or>
      vr_policy_status (fst (judged c s)) = ''task_contract_satisfied''"
    using best_effort_cases(3) by auto
  then have "contract_failures (cc_contract c) (completion_input c s) = [] \<and>
      fst (policy_status_of (completion_input c s)) = VerificationAssertionStatus.Pass"
    unfolding judged_unguarded [OF success(1)] by (rule governed_evidence)
  with success(1,4) show ?thesis
    by (auto simp: contract_failures_Nil policy_status_cases permits_govern best_effort_complete_def)
qed

text \<open>
  Property C12. The message of the outcome matches the decision, provided an action of the governor
  always came with a reason: unless the turn ends in success the message opens with the words
  \<^verbatim>\<open>Could not complete\<close>, whatever the model said, and in a success it is the answer of the model or
  a summary that opens with \<^verbatim>\<open>Completed\<close>.
\<close>

theorem message_matches_decision:
  assumes "completion_step f c s = Concluded out t"
    and "cs_governor_action s \<noteq> None \<longrightarrow> cs_guard_reason s \<noteq> None"
  shows "if ld_action (alo_loop_decision out) = StopSuccess
    then alo_final_message out = cs_assistant_message s \<or>
      (\<exists>rest. alo_final_message out = Some (''Completed: '' @ rest))
    else \<exists>rest. alo_final_message out = Some (''Could not complete'' @ rest)"
proof (cases "ld_action (alo_loop_decision out) = StopSuccess")
  case True
  note success = success_cases [OF completion_concludes [OF assms(1)] True]
  from completion_concludes [OF assms(1)] success True show ?thesis
    by (auto simp: concludes_def Let_def final_message_def bind_eq_Some_conv
        split: option.split if_split_asm)
next
  case False
  note stop = completion_concludes [OF assms(1)]
  let ?guard = "cs_guard_reason (govern c s)"
  have free: "cs_governor_action (govern c s) = None" if "?guard = None"
    using that assms(2) by (cases "cs_governor_action s") (auto simp: govern_def split: if_split_asm)
  with False stop have fails: "\<not> best_effort_complete c ?guard (fst (judged c s))"
    by (auto simp: concludes_def Let_def terminal_decision_success dest: best_effort_cases(1))
  show ?thesis
  proof (cases "alo_runtime_stop_reason out")
    case None
    with stop have "?guard = None" by (auto simp: concludes_def Let_def)
    with free stop False have "vr_result (alo_verification out) \<noteq> VerificationResult.Pass"
      by (auto simp: concludes_def Let_def terminal_decision_success)
    with None stop fails False show ?thesis
      by (auto simp: concludes_def Let_def final_message_def evidence_backed_failure_message_def
          split: option.split)
  next
    case (Some reason)
    with stop fails False show ?thesis by (auto simp: concludes_def Let_def)
  qed
qed

section \<open>Corrections end\<close>

lemma sat_add_1_below: "a < limit \<Longrightarrow> unat (sat_add a 1) = unat a + 1" for a limit :: u32
  using unsigned_less [of limit, where ?'a = nat] by (simp add: unat_sat_add word_less_nat_alt)

definition cycle_fingerprint :: "Completion_Fns \<Rightarrow> Completion_Cycle \<times> Completion_State \<Rightarrow> string" where
  "cycle_fingerprint f = (\<lambda>(c, s). let v = fst (judged c s) in
     facts_digest f (fingerprint_facts (serde f)
       (next_correction c (ts_correction_attempt (cs_turn_state s)) v) v
       (cs_tool_reports s) (cs_assistant_message s)))"

text \<open>
  Cycles of one turn that all end in a correction. Between two of them the model and its tools may
  change everything but the contract, the number of corrections and the history of fingerprints.
\<close>

fun corrected_cycles :: "Completion_Fns \<Rightarrow> (Completion_Cycle \<times> Completion_State) list \<Rightarrow> bool" where
  "corrected_cycles f [] = True"
| "corrected_cycles f ((c, s) # rest) =
     (case completion_step f c s of
        Concluded _ _ \<Rightarrow> False
      | Corrected s' \<Rightarrow> corrected_cycles f rest \<and>
          (case rest of [] \<Rightarrow> True
           | (c2, s2) # _ \<Rightarrow> cc_contract c2 = cc_contract c \<and>
               ts_correction_attempt (cs_turn_state s2) = ts_correction_attempt (cs_turn_state s') \<and>
               cs_progress s2 = cs_progress s'))"

lemma turn_state_attempts [simp]:
  "ts_correction_attempt (begin_verification i t) = ts_correction_attempt t"
  "ts_correction_attempt (verification_ready t) = ts_correction_attempt t"
  "ts_correction_attempt (issue_correction reason t) = sat_add (ts_correction_attempt t) 1"
  by (simp_all add: begin_verification_def verification_ready_def issue_correction_def)

lemma begin_retry_frame [simp]:
  "cs_turn_state (begin_retry f c correction v s) = issue_correction VerificationFailed (cs_turn_state s)"
  "cs_progress (begin_retry f c correction v s) = cs_progress s"
  by (simp_all add: begin_retry_def append_plan_message_def Let_def)

lemma completion_corrected:
  assumes "completion_step f c s = Corrected s'"
  shows "allows_correction (cc_contract c) (ts_correction_attempt (cs_turn_state s))"
    and "permits_retry (cycle_fingerprint f (c, s)) (cs_progress s) = (True, cs_progress s')"
    and "ts_correction_attempt (cs_turn_state s') = sat_add (ts_correction_attempt (cs_turn_state s)) 1"
proof -
  obtain v settled where j: "judged c s = (v, settled)" by fastforce
  have no_end: "conclude f c x b r w p \<noteq> Corrected s'" for x b r w p
    by (simp add: conclude_def Let_def)
  from assms show "allows_correction (cc_contract c) (ts_correction_attempt (cs_turn_state s))"
    "permits_retry (cycle_fingerprint f (c, s)) (cs_progress s) = (True, cs_progress s')"
    "ts_correction_attempt (cs_turn_state s') = sat_add (ts_correction_attempt (cs_turn_state s)) 1"
    by (auto simp: completion_step_def j Let_def no_end wants_correction_def cycle_fingerprint_def
        split: if_split_asm prod.split_asm)
qed

text \<open>
  Corrections as operations on the state: the lists of the plan stay aligned, the history stays
  bounded, and an action of the governor comes with a reason.
\<close>

definition cycle_run :: "Completion_Fns \<Rightarrow> (Completion_Cycle, Completion_State, unit, AgentLoopOutcome) machine" where
  "cycle_run f c s = (case completion_step f c s of Corrected s' \<Rightarrow> Inr ((), s') | Concluded out t \<Rightarrow> Inl out)"

definition cycle_wf :: "Completion_State \<Rightarrow> bool" where
  "cycle_wf s \<longleftrightarrow>
     length (cs_message_estimates s) = length (cs_messages s) \<and>
     length (cs_message_digests s) = length (cs_messages s) \<and>
     length (cs_message_sources s) = length (cs_messages s) \<and>
     length (cs_progress s) \<le> MAX_FINGERPRINT_HISTORY \<and>
     (cs_governor_action s \<noteq> None \<longrightarrow> cs_guard_reason s \<noteq> None)"

lemma permits_retry_length:
  "length history \<le> MAX_FINGERPRINT_HISTORY \<Longrightarrow> length (snd (permits_retry p history)) \<le> MAX_FINGERPRINT_HISTORY"
  by (simp add: permits_retry_def Let_def)

lemma begin_retry_wf:
  "cycle_wf s \<Longrightarrow> length progress \<le> MAX_FINGERPRINT_HISTORY \<Longrightarrow>
     cycle_wf (begin_retry f c correction v ((govern c s)\<lparr>cs_turn_state := t, cs_progress := progress\<rparr>))"
  by (simp add: cycle_wf_def begin_retry_def append_plan_message_def govern_def Let_def)

lemma completion_corrected_wf:
  assumes "cycle_wf s" and "completion_step f c s = Corrected s'"
  shows "cycle_wf s'"
proof -
  obtain v settled where j: "judged c s = (v, settled)" by fastforce
  have no_end: "conclude f c x b r w p \<noteq> Corrected s'" for x b r w p
    by (simp add: conclude_def Let_def)
  from assms(2) obtain correction t progress where
      "s' = begin_retry f c correction v ((govern c s)\<lparr>cs_turn_state := t, cs_progress := progress\<rparr>)"
      "permits_retry (cycle_fingerprint f (c, s)) (cs_progress s) = (True, progress)"
    by (auto simp: completion_step_def j Let_def no_end cycle_fingerprint_def
        split: if_split_asm prod.split_asm)
  moreover from this(2) assms(1) have "length progress \<le> MAX_FINGERPRINT_HISTORY"
    using permits_retry_length [of "cs_progress s" "cycle_fingerprint f (c, s)"] by (simp add: cycle_wf_def)
  ultimately show ?thesis using assms(1) begin_retry_wf by simp
qed

interpretation cycles: invariant_machine "cycle_run f" cycle_wf for f
  by unfold_locales (auto simp: cycle_run_def intro: completion_corrected_wf split: Completion_End.split_asm)

lemma corrections_keep_state_well_formed: "cycle_wf s \<Longrightarrow> cycle_wf (exec (cycle_run f) cs s)"
  by (rule cycles.exec_inv)

text \<open>
  Property C11. The correction budget of a contract is a hard bound: from a turn with a given number
  of corrections, a run of completion cycles that all end in a correction has at most as many cycles
  as the limit leaves, whatever the model does between them.
\<close>

theorem correction_rounds_bounded:
  assumes "corrected_cycles f ((c, s) # cycles)"
    and "max_correction_rounds (cc_contract c) = Some limit"
  shows "unat (ts_correction_attempt (cs_turn_state s)) + length ((c, s) # cycles) \<le> unat limit"
  using assms
proof (induction cycles arbitrary: c s)
  case (Cons cycle cycles)
  obtain c2 s2 where n: "cycle = (c2, s2)" by fastforce
  let ?a = "ts_correction_attempt (cs_turn_state s)"
  from Cons.prems(1) n obtain s' where s': "completion_step f c s = Corrected s'"
      "corrected_cycles f ((c2, s2) # cycles)" "cc_contract c2 = cc_contract c"
      "ts_correction_attempt (cs_turn_state s2) = ts_correction_attempt (cs_turn_state s')"
    by (simp del: corrected_cycles.simps add: corrected_cycles.simps(2) [of f c]
        split: Completion_End.split_asm)
  from completion_corrected(1) [OF s'(1)] Cons.prems(2) have "?a < limit"
    by (simp add: allows_correction_def)
  then have "unat (sat_add ?a 1) = unat ?a + 1" by (rule sat_add_1_below)
  with Cons.IH [OF s'(2)] Cons.prems(2) s'(3,4) completion_corrected(3) [OF s'(1)] n show ?case
    by simp
next
  case Nil
  then obtain s' where "completion_step f c s = Corrected s'"
    by (auto split: Completion_End.split_asm)
  from completion_corrected(1) [OF this] Nil.prems(2) show ?case
    by (simp add: allows_correction_def word_less_nat_alt)
qed

fun all_permitted :: "string list \<Rightarrow> string list \<Rightarrow> bool" where
  "all_permitted history [] = True"
| "all_permitted history (p # ps) =
     (fst (permits_retry p history) \<and> all_permitted (snd (permits_retry p history)) ps)"

lemma corrected_cycles_permitted:
  "corrected_cycles f ((c, s) # cycles) \<Longrightarrow>
     all_permitted (cs_progress s) (map (cycle_fingerprint f) ((c, s) # cycles))"
proof (induction cycles arbitrary: c s)
  case Nil
  then show ?case using completion_corrected(2) [of f c s] by (auto split: Completion_End.split_asm)
next
  case (Cons cycle cycles)
  obtain c2 s2 where n: "cycle = (c2, s2)" by fastforce
  from Cons.prems n obtain s' where s': "completion_step f c s = Corrected s'"
      "corrected_cycles f ((c2, s2) # cycles)" "cs_progress s2 = cs_progress s'"
    by (simp del: corrected_cycles.simps add: corrected_cycles.simps(2) [of f c]
        split: Completion_End.split_asm)
  with Cons.IH [OF s'(2)] n completion_corrected(2) [OF s'(1)] show ?case by simp
qed

lemma permitted_avoids:
  "all_permitted (a @ x # b) ps \<Longrightarrow> j < length ps \<Longrightarrow> length b + j < MAX_FINGERPRINT_HISTORY \<Longrightarrow> ps ! j \<noteq> x"
proof (induction ps arbitrary: a b j)
  case (Cons p ps)
  let ?h = "a @ x # b"
  from Cons.prems(1) have p: "p \<notin> set ?h" by (auto simp: permits_retry_def split: if_split_asm)
  show ?case
  proof (cases j)
    case 0
    with p show ?thesis by auto
  next
    case (Suc k)
    have "\<exists>a'. snd (permits_retry p ?h) = a' @ x # (b @ [p])"
      using p Cons.prems(3) Suc by (cases a) (auto simp: permits_retry_def Let_def)
    with Cons.prems(1) obtain a' where "all_permitted (a' @ x # (b @ [p])) ps" by auto
    from Cons.IH [OF this, of k] Cons.prems(2,3) Suc show ?thesis by simp
  qed
qed simp

lemma permitted_distinct:
  "all_permitted history ps \<Longrightarrow> i < j \<Longrightarrow> j < length ps \<Longrightarrow> j \<le> i + MAX_FINGERPRINT_HISTORY \<Longrightarrow> ps ! i \<noteq> ps ! j"
proof (induction ps arbitrary: history i j)
  case (Cons p ps)
  let ?h = "snd (permits_retry p history)"
  from Cons.prems have ps: "all_permitted ?h ps" by simp
  show ?case
  proof (cases i)
    case 0
    have "\<exists>a. ?h = a @ p # []"
      using Cons.prems(1) by (cases history) (auto simp: permits_retry_def Let_def split: if_split_asm)
    with ps obtain a where "all_permitted (a @ p # []) ps" by auto
    from permitted_avoids [OF this, of "j - 1"] 0 Cons.prems(2-4) show ?thesis by (cases j) auto
  next
    case (Suc k)
    with Cons.IH [OF ps, of k "j - 1"] Cons.prems(2-4) show ?thesis by (cases j) auto
  qed
qed simp

text \<open>
  Property C10. A correction without progress is never issued again, even without a correction
  budget: among nine successive corrections no two answer the same facts, so a run in which the facts
  take at most eight distinct forms has at most eight corrections. A model that alternates between
  known candidates is stopped.
\<close>

theorem corrections_need_progress:
  assumes "corrected_cycles f cycles"
  defines "ps \<equiv> map (cycle_fingerprint f) cycles"
  shows "(\<forall>i j. i < j \<and> j < length cycles \<and> j \<le> i + 8 \<longrightarrow> ps ! i \<noteq> ps ! j) \<and>
    (card (set ps) \<le> 8 \<longrightarrow> length cycles = card (set ps))"
proof (cases cycles)
  case (Cons cycle rest)
  obtain c s where "cycle = (c, s)" by fastforce
  with assms Cons have permitted: "all_permitted (cs_progress s) ps"
    using corrected_cycles_permitted by simp
  have length: "length ps = length cycles" by (simp add: ps_def)
  have distinct: "distinct (take 9 ps)"
    using permitted_distinct [OF permitted] by (fastforce simp: distinct_conv_nth nat_neq_iff)
  have "length cycles = card (set ps)" if "card (set ps) \<le> 8"
  proof -
    have "length (take 9 ps) \<le> card (set ps)"
      using distinct_card [OF distinct] card_mono [OF finite_set set_take_subset, of 9 ps] by simp
    with that have "take 9 ps = ps" by simp
    with distinct distinct_card length show ?thesis by metis
  qed
  with permitted_distinct [OF permitted] length show ?thesis by simp
qed (simp add: ps_def)

section \<open>Witnesses\<close>

definition ex_fns :: Completion_Fns where
  "ex_fns = \<lparr>id_text = show_nat,
     serde = \<lparr>value_text = (\<lambda>_. ''v''), metadata_text = (\<lambda>_. None), envelope_text = (\<lambda>_. None),
       envelope_parse = (\<lambda>_. None), messages_text = (\<lambda>_. None), sha256_hex = (\<lambda>s. s)\<rparr>,
     facts_digest = (\<lambda>facts. join ''/'' (ff_requirements facts)), message_digest = pm_content,
     model_instruction = (\<lambda>correction _ _. as_model_instruction correction)\<rparr>"

definition ex_governance :: RuntimeGovernorDecision where
  "ex_governance = \<lparr>gd_task_id = 1, gd_phase = GovernorPhase.Completion, gd_action = GovernorAction.Allow,
     gd_reason = ''within budget'', gd_budget_risk = ''low'', gd_security_risk = ''low'', gd_iteration = 1,
     gd_tool_calls = 0, gd_failed_tool_calls = 0, gd_consecutive_failed_tool_calls = 0,
     gd_alignment = \<lparr>ga_task_id = 1, ga_aligned = True, alignment_score = 100, drift_type = None,
       ga_reason = ''aligned'', ga_evidence_refs = []\<rparr>, gd_advisories = []\<rparr>"

definition ex_cycle :: "TaskContract \<Rightarrow> Completion_Cycle" where
  "ex_cycle contract = \<lparr>cc_task_id = 1, cc_turn_id = 2, cc_objective = ''explain'', cc_criteria = [],
     cc_contract = contract, cc_touched_code = False, cc_behavior_files_changed = False,
     cc_evidence_refs = [], cc_command_checks = [], cc_schema_check = None,
     cc_plan_ids = ex_ids, cc_verification_id = 9, cc_environment_digest = ''e'',
     cc_governance = ex_governance,
     cc_has_external_verifiers = False, cc_defer_external_verification = False,
     cc_candidate_complete = True, cc_elapsed_ms = 5,
     cc_budget_state = \<lparr>bs_planned_input_tokens = None, bs_actual_input_tokens = None,
       bs_output_tokens = None, bs_total_tokens = None, bs_estimated_cost = None,
       bs_budget_remaining = None, bs_compact_recommended = False, bs_cost_risk = ''low''\<rparr>,
     cc_decision_id = 3\<rparr>"

definition ex_state :: Completion_State where
  "ex_state = \<lparr>cs_turn_state = turn_state_new 2, cs_progress = [],
     cs_step_machine = step_machine_default, cs_messages = [], cs_message_estimates = [],
     cs_message_digests = [], cs_message_sources = [], cs_message_token_total = 0,
     cs_tool_reports = [], cs_assistant_message = Some ''Here is how it works.'',
     cs_guard_reason = None, cs_governor_action = None\<rparr>"

fun ends_with_success :: "Completion_End \<Rightarrow> bool" where
  "ends_with_success (Concluded out t) = (ld_action (alo_loop_decision out) = StopSuccess)"
| "ends_with_success (Corrected s) = False"

lemma ex_success: "ends_with_success (completion_step ex_fns (ex_cycle default_contract) ex_state)"
  by code_simp

definition ex_budget :: TaskContract where
  "ex_budget = default_contract\<lparr>workspace_change := WorkspaceChangeRequirement.Required,
     max_correction_rounds := Some 2\<rparr>"

lemma ex_corrected: "corrected_cycles ex_fns [(ex_cycle ex_budget, ex_state)]"
  by code_simp

theorem correction_rounds_bounded_witness:
  "unat (ts_correction_attempt (cs_turn_state ex_state)) + length [(ex_cycle ex_budget, ex_state)] \<le> 2"
proof -
  have "max_correction_rounds (cc_contract (ex_cycle ex_budget)) = Some 2"
    by (simp add: ex_cycle_def ex_budget_def)
  from correction_rounds_bounded [OF ex_corrected this] show ?thesis by simp
qed

theorem corrections_need_progress_witness:
  "length [(ex_cycle ex_budget, ex_state)]
     = card (set (map (cycle_fingerprint ex_fns) [(ex_cycle ex_budget, ex_state)]))"
  using corrections_need_progress [OF ex_corrected] by simp

lemma ends_with_success_iff:
  "ends_with_success e \<longleftrightarrow> (\<exists>out t. e = Concluded out t \<and> ld_action (alo_loop_decision out) = StopSuccess)"
  by (cases e) simp_all

theorem success_is_earned_witness:
  "\<exists>out t. completion_step ex_fns (ex_cycle default_contract) ex_state = Concluded out t \<and>
     ld_action (alo_loop_decision out) = StopSuccess \<and>
     permits_execution (cc_governance (ex_cycle default_contract)) \<and>
     (\<exists>check \<in> set (vi_command_checks (completion_input (ex_cycle default_contract) ex_state)).
        is_policy_check check)"
proof -
  obtain out t where "completion_step ex_fns (ex_cycle default_contract) ex_state = Concluded out t"
      "ld_action (alo_loop_decision out) = StopSuccess"
    using ex_success unfolding ends_with_success_iff by blast
  with success_is_earned [OF this] show ?thesis by blast
qed

theorem message_matches_decision_witness:
  "\<exists>out t. completion_step ex_fns (ex_cycle default_contract) ex_state = Concluded out t \<and>
     (alo_final_message out = Some ''Here is how it works.'' \<or>
      (\<exists>rest. alo_final_message out = Some (''Completed: '' @ rest)))"
proof -
  obtain out t where step: "completion_step ex_fns (ex_cycle default_contract) ex_state = Concluded out t"
      "ld_action (alo_loop_decision out) = StopSuccess"
    using ex_success unfolding ends_with_success_iff by blast
  have "cs_governor_action ex_state \<noteq> None \<longrightarrow> cs_guard_reason ex_state \<noteq> None"
    by (simp add: ex_state_def)
  from message_matches_decision [OF step(1) this] step show ?thesis by (auto simp: ex_state_def)
qed
end
