(* ===== verification/Context_Window.thy ===== *)
theory Context_Window
  imports Compaction_Summary "HOL-Library.List_Lexorder" "HOL-Library.Char_ord" "HOL-Library.Multiset"
begin

text \<open>
  The context window of \<^verbatim>\<open>golutra-agent-context/src/lib.rs\<close>: the accounting of a message list
  against a budget, the compaction that replaces the messages between a protected prefix and the
  recent tail by a summary, and the attribution of reported tokens to messages.

  The lemmas show that a compacted list keeps every tool call together with its results, that it
  reaches its target size, that it discloses nothing the originals did not, and that the
  attributed tokens add up.
\<close>

section \<open>Data\<close>

datatype ContextError =
    BudgetExceeded u64 u64
  | UserActionRequired u64 u64
  | CompactionImpossible u64 u64
  | ForbiddenModelInputSource string
  | ModelInputSourceCardinality nat nat

record ObservedContextPrefix =
  ocp_message_count :: nat
  ocp_input_tokens :: u64

record ContextCompactionDecision =
  ccd_original_index :: u32
  ccd_contributor :: string
  ccd_action :: string
  ccd_original_estimated_tokens :: u64
  ccd_retained_estimated_tokens :: u64

record ContextCompactionRecord =
  ccr_turn_id :: uuid
  ccr_compaction_id :: string
  ccr_mode :: string
  ccr_strategy :: string
  ccr_summary_attempts :: u32
  ccr_summary_failure :: "string option"
  ccr_original_message_count :: nat
  ccr_replacement_message_count :: nat
  ccr_dropped_message_count :: nat
  ccr_protected_prefix_len :: nat
  ccr_original_estimated_tokens :: u64
  ccr_replacement_estimated_tokens :: u64
  ccr_planned_tool_tokens :: u64
  ccr_compaction_limit :: u64
  ccr_target_input_tokens :: u64
  ccr_budget_limit :: u64
  ccr_summary :: string
  ccr_checksum :: string
  ccr_replacement_messages :: "ProviderMessage list"
  ccr_replacement_sources :: "ContextMessageSource list"
  ccr_message_decisions :: "ContextCompactionDecision list"
  ccr_summary_source_messages :: "ProviderMessage list"
  ccr_summary_source_sources :: "ContextMessageSource list"
  ccr_summary_token_budget :: u64

record ContextWindowManager =
  cwm_budget_limit :: u64
  cwm_target_percent :: u64

definition new_window :: "u64 \<Rightarrow> ContextWindowManager" where
  "new_window budget_limit = \<lparr>cwm_budget_limit = budget_limit, cwm_target_percent = 80\<rparr>"

definition with_target_percent :: "u64 \<Rightarrow> ContextWindowManager \<Rightarrow> ContextWindowManager" where
  "with_target_percent target_percent w = w\<lparr>cwm_target_percent := max 50 (min 95 target_percent)\<rparr>"

section \<open>Accounting\<close>

definition sum_estimates :: "u64 list \<Rightarrow> u64" where
  "sum_estimates estimates = fold (\<lambda>e total. sat_add total e) estimates 0"

definition matching_estimates :: "Serde \<Rightarrow> ProviderMessage list \<Rightarrow> u64 list \<Rightarrow> u64 list" where
  "matching_estimates sd messages estimates =
     (if length estimates = length messages then estimates
      else map (estimate_message_token sd) messages)"

definition applicable_prefix :: "nat \<Rightarrow> ObservedContextPrefix option \<Rightarrow> ObservedContextPrefix option" where
  "applicable_prefix n observed =
     Option.bind observed (\<lambda>p. if ocp_message_count p \<le> n then Some p else None)"

definition context_tokens_with_observed_prefix_and_total ::
  "Serde \<Rightarrow> ProviderMessage list \<Rightarrow> u64 list \<Rightarrow> u64 \<Rightarrow> u64 \<Rightarrow> ObservedContextPrefix option \<Rightarrow> u64" where
  "context_tokens_with_observed_prefix_and_total sd messages message_estimates total_message_tokens
     planned_tool_tokens observed_prefix =
     (let estimates = matching_estimates sd messages message_estimates in
      case applicable_prefix (length messages) observed_prefix of
        Some observed \<Rightarrow>
          sat_add (ocp_input_tokens observed) (sum_estimates (drop (ocp_message_count observed) estimates))
      | None \<Rightarrow> sat_add total_message_tokens planned_tool_tokens)"

definition context_tokens_with_observed_prefix ::
  "Serde \<Rightarrow> ProviderMessage list \<Rightarrow> u64 list \<Rightarrow> u64 \<Rightarrow> ObservedContextPrefix option \<Rightarrow> u64" where
  "context_tokens_with_observed_prefix sd messages message_estimates planned_tool_tokens observed_prefix =
     (let estimates = matching_estimates sd messages message_estimates in
      context_tokens_with_observed_prefix_and_total sd messages estimates (sum_estimates estimates)
        planned_tool_tokens observed_prefix)"

text \<open>The half-open range \<^verbatim>\<open>xs[start..end]\<close>.\<close>

definition range_of :: "nat \<times> nat \<Rightarrow> 'a list \<Rightarrow> 'a list" where
  "range_of r xs = take (snd r - fst r) (drop (fst r) xs)"

definition protected_context_tokens ::
  "nat \<Rightarrow> u64 list \<Rightarrow> u64 \<Rightarrow> ObservedContextPrefix option \<Rightarrow> u64" where
  "protected_context_tokens prefix_len message_estimates planned_tool_tokens observed_prefix =
     (let prefix_len = min prefix_len (length message_estimates);
          local_estimate = sat_add (sum_estimates (take prefix_len message_estimates)) planned_tool_tokens
      in case applicable_prefix (length message_estimates) observed_prefix of
           None \<Rightarrow> local_estimate
         | Some observed \<Rightarrow>
             let n = ocp_message_count observed;
                 observed_estimate =
                   (if n < prefix_len
                    then sat_add (ocp_input_tokens observed)
                           (sum_estimates (range_of (n, prefix_len) message_estimates))
                    else sat_sub (ocp_input_tokens observed)
                           (sum_estimates (range_of (prefix_len, n) message_estimates)))
             in max local_estimate observed_estimate)"

definition required_compaction_limit_with_observed_prefix ::
  "Serde \<Rightarrow> ContextWindowManager \<Rightarrow> nat \<Rightarrow> ProviderMessage list \<Rightarrow> u64 list \<Rightarrow> u64 \<Rightarrow>
   ObservedContextPrefix option \<Rightarrow> u64 option" where
  "required_compaction_limit_with_observed_prefix sd w prefix_len messages message_estimates
     planned_tool_tokens observed_prefix =
     (if cwm_budget_limit w = 0 then None
      else if context_tokens_with_observed_prefix sd messages
                (matching_estimates sd messages message_estimates) planned_tool_tokens observed_prefix
              \<le> cwm_budget_limit w then None
      else Some (cwm_budget_limit w))"

definition required_compaction_limit_with_estimates ::
  "Serde \<Rightarrow> ContextWindowManager \<Rightarrow> nat \<Rightarrow> ProviderMessage list \<Rightarrow> u64 list \<Rightarrow> u64 \<Rightarrow> u64 option" where
  "required_compaction_limit_with_estimates sd w prefix_len messages message_estimates
     planned_tool_tokens =
     required_compaction_limit_with_observed_prefix sd w prefix_len messages message_estimates
       planned_tool_tokens None"

definition required_compaction_limit ::
  "Serde \<Rightarrow> ContextWindowManager \<Rightarrow> nat \<Rightarrow> ProviderMessage list \<Rightarrow> u64 \<Rightarrow> u64 option" where
  "required_compaction_limit sd w prefix_len messages planned_tool_tokens =
     required_compaction_limit_with_estimates sd w prefix_len messages
       (map (estimate_message_token sd) messages) planned_tool_tokens"

section \<open>Message groups\<close>

text \<open>An assistant message with tool calls opens a group that also holds the results after it.\<close>

definition opens_group :: "ProviderMessage \<Rightarrow> bool" where
  "opens_group m \<longleftrightarrow> pm_role m = Assistant \<and> pm_tool_calls m \<noteq> []"

definition group_len :: "ProviderMessage \<Rightarrow> ProviderMessage list \<Rightarrow> nat" where
  "group_len m ms =
     Suc (if opens_group m then length (takeWhile (\<lambda>x. pm_role x = Tool) ms) else 0)"

function groups_from :: "nat \<Rightarrow> ProviderMessage list \<Rightarrow> (nat \<times> nat) list" where
  "groups_from start [] = []"
| "groups_from start (m # ms) =
     (start, start + group_len m ms)
       # groups_from (start + group_len m ms) (drop (group_len m ms - 1) ms)"
  by pat_completeness auto
termination
  by (relation "measure (length \<circ> snd)") auto

definition message_groups :: "ProviderMessage list \<Rightarrow> (nat \<times> nat) list" where
  "message_groups messages = groups_from 0 messages"

definition is_user_instruction :: "ProviderMessage \<Rightarrow> ContextMessageSource \<Rightarrow> bool" where
  "is_user_instruction message source \<longleftrightarrow>
     pm_role message = User
     \<and> (cms_contributor source = ''user_message'' \<or> cms_contributor source = ''objective'')
     \<and> is_model_visible (cms_visibility source)"

fun keep_instructions ::
  "Serde \<Rightarrow> ProviderMessage list \<Rightarrow> u64 \<Rightarrow> nat list \<Rightarrow> nat list \<Rightarrow> nat list" where
  "keep_instructions sd messages remaining retained [] = retained"
| "keep_instructions sd messages remaining retained (i # is) =
     (let tokens = estimate_message_token sd (messages ! i) in
      if i \<notin> set retained \<and> tokens \<le> remaining
      then keep_instructions sd messages (remaining - tokens) (retained @ [i]) is
      else keep_instructions sd messages remaining retained is)"

definition retained_user_instructions ::
  "Serde \<Rightarrow> ProviderMessage list \<Rightarrow> ContextMessageSource list \<Rightarrow> nat \<Rightarrow> u64 \<Rightarrow> nat list" where
  "retained_user_instructions sd messages sources start budget =
     (let candidates =
        filter (\<lambda>i. is_user_instruction (messages ! i) (sources ! i)) [start..<length messages]
      in sort (keep_instructions sd messages budget [] (take 1 candidates @ rev candidates)))"

definition compact_call :: "Serde \<Rightarrow> u64 \<Rightarrow> ProviderToolCall \<Rightarrow> ProviderToolCall" where
  "compact_call sd per_message call =
     (if per_message < estimate_tokens (value_text sd (ptc_arguments call))
      then call\<lparr>ptc_arguments := JObj [(''compacted'', JBool True)]\<rparr> else call)"

definition compact_message :: "Serde \<Rightarrow> u64 \<Rightarrow> ProviderMessage \<Rightarrow> ProviderMessage" where
  "compact_message sd per_message message =
     message\<lparr>pm_content := compact_text (pm_content message)
               (sat_sub per_message (call_tokens sd message)),
             pm_tool_calls := map (compact_call sd per_message) (pm_tool_calls message),
             pm_metadata := []\<rparr>"

definition compact_message_group :: "Serde \<Rightarrow> ProviderMessage list \<Rightarrow> u64 \<Rightarrow> ProviderMessage list" where
  "compact_message_group sd messages budget =
     (if messages = [] \<or> budget = 0 then []
      else map (compact_message sd (max (budget div of_nat (length messages)) 1)) messages)"

section \<open>Compaction\<close>

definition inferred_contributor :: "ProviderRole \<Rightarrow> string" where
  "inferred_contributor role =
     (case role of
        System \<Rightarrow> ''system_prompt''
      | User \<Rightarrow> ''runtime_context''
      | Assistant \<Rightarrow> ''assistant_recent''
      | Tool \<Rightarrow> ''tool_result_excerpt'')"

definition normalized_message_sources ::
  "ProviderMessage list \<Rightarrow> ContextMessageSource list \<Rightarrow> ContextMessageSource list" where
  "normalized_message_sources messages message_sources =
     map (\<lambda>i. if i < length message_sources then message_sources ! i
              else \<lparr>cms_contributor = inferred_contributor (pm_role (messages ! i)),
                    cms_source_refs = [''request:message:'' @ show_nat i],
                    cms_origin = ''inferred_legacy'', cms_visibility = ModelVisible\<rparr>)
       [0..<length messages]"

definition target_limit :: "ContextWindowManager \<Rightarrow> u64 \<Rightarrow> u64" where
  "target_limit w protected_tokens =
     (let limit = cwm_budget_limit w;
          hard_available = sat_sub limit protected_tokens
      in min (max (sat_mul (cwm_target_percent w) limit div 100)
                  (sat_add protected_tokens (min hard_available 128)))
             limit)"

definition summary_reserve :: "Serde \<Rightarrow> u64 \<Rightarrow> u64" where
  "summary_reserve sd target_available =
     (let minimum_summary_reserve =
            sat_add (sat_add (estimate_tokens COMPACTION_SUMMARY_PREFIX)
                             (estimate_tokens (empty_compaction_summary_envelope sd))) 16;
          recent_reserve = min target_available MIN_AUTOMATIC_COMPACTION_RECENT_TOKENS
      in max (min (sat_sub target_available recent_reserve) DEFAULT_COMPACTION_SUMMARY_TOKENS)
             (min minimum_summary_reserve (sat_sub target_available 1)))"

definition instruction_budget :: "Serde \<Rightarrow> u64 \<Rightarrow> u64" where
  "instruction_budget sd target_available =
     min (sat_sub target_available (summary_reserve sd target_available) div 4) 2048"

definition instruction_indices ::
  "Serde \<Rightarrow> ProviderMessage list \<Rightarrow> ContextMessageSource list \<Rightarrow> nat \<Rightarrow> u64 \<Rightarrow> nat list" where
  "instruction_indices sd messages sources p target_available =
     retained_user_instructions sd messages sources p (instruction_budget sd target_available)"

definition tail_budget ::
  "Serde \<Rightarrow> ProviderMessage list \<Rightarrow> ContextMessageSource list \<Rightarrow> u64 list \<Rightarrow> nat \<Rightarrow> u64 \<Rightarrow> u64" where
  "tail_budget sd messages sources estimates p target_available =
     sat_sub (sat_sub target_available (summary_reserve sd target_available))
       (sum_list (map ((!) estimates) (instruction_indices sd messages sources p target_available)))"

text \<open>The loop over the groups, newest first: the groups pushed and their tokens.\<close>

fun retain_groups :: "u64 list \<Rightarrow> u64 \<Rightarrow> u64 \<Rightarrow> (nat \<times> nat) list \<Rightarrow> (nat \<times> nat) list \<times> u64" where
  "retain_groups estimates budget retained_tokens [] = ([], retained_tokens)"
| "retain_groups estimates budget retained_tokens (g # groups) =
     (let group_tokens = sum_estimates (range_of g estimates) in
      if budget < sat_add retained_tokens group_tokens then ([], retained_tokens)
      else let (rest, total) = retain_groups estimates budget (sat_add retained_tokens group_tokens) groups
           in (g # rest, total))"

definition retained_tail ::
  "Serde \<Rightarrow> ProviderMessage list \<Rightarrow> u64 list \<Rightarrow> u64 \<Rightarrow> ProviderMessage list \<times> u64" where
  "retained_tail sd tail estimates budget =
     (let groups = message_groups tail;
          (pushed, retained_tokens) = retain_groups estimates budget 0 (rev groups);
          retained_start = (case rev pushed of [] \<Rightarrow> length tail | g # _ \<Rightarrow> fst g);
          retained = drop retained_start tail
      in if retained = [] \<and> tail \<noteq> [] \<and> 0 < budget then
           let latest_group = (if groups = [] then (length tail - 1, length tail) else last groups);
               cut = compact_message_group sd (range_of latest_group tail) budget
           in (cut, estimate_message_tokens sd cut)
         else (retained, retained_tokens))"

definition summary_message :: "string \<Rightarrow> ProviderMessage" where
  "summary_message summary =
     \<lparr>pm_role = User, pm_content = COMPACTION_SUMMARY_PREFIX @ summary, pm_tool_call_id = None,
      pm_tool_name = None, pm_tool_calls = [], pm_metadata = []\<rparr>"

definition summary_source :: "ContextMessageSource list \<Rightarrow> ContextMessageSource" where
  "summary_source dropped_sources =
     \<lparr>cms_contributor = ''working_summary'',
      cms_source_refs = remdups_adj (sort (concat (map cms_source_refs dropped_sources))),
      cms_origin = ''compaction_summary'',
      cms_visibility =
        (case find (\<lambda>v. \<not> is_model_visible v) (map cms_visibility dropped_sources) of
           None \<Rightarrow> ModelVisible | Some v \<Rightarrow> v)\<rparr>"

definition message_decision ::
  "nat \<Rightarrow> nat list \<Rightarrow> nat \<Rightarrow> ContextMessageSource list \<Rightarrow> u64 list \<Rightarrow> nat \<Rightarrow> ContextCompactionDecision" where
  "message_decision p instructions retained_source_start sources estimates i =
     (let retained = i < p \<or> i \<in> set instructions \<or> retained_source_start \<le> i in
      \<lparr>ccd_original_index = (if int i < 2 ^ 32 then of_nat i else - 1),
       ccd_contributor = cms_contributor (sources ! i),
       ccd_action = (if i < p then ''protected'' else if retained then ''retained'' else ''summarized''),
       ccd_original_estimated_tokens = estimates ! i,
       ccd_retained_estimated_tokens = (if retained then estimates ! i else 0)\<rparr>)"

text \<open>The record of a compaction, before its size is checked against the limit.\<close>

definition compaction_record ::
  "Serde \<Rightarrow> ContextWindowManager \<Rightarrow> uuid \<Rightarrow> nat \<Rightarrow> ProviderMessage list \<Rightarrow> ContextMessageSource list \<Rightarrow>
   u64 list \<Rightarrow> u64 \<Rightarrow> u64 \<Rightarrow> u64 \<Rightarrow> ContextCompactionRecord" where
  "compaction_record sd w turn_id p messages sources estimates planned_tool_tokens protected_tokens
     original_estimated_tokens =
     (let target = target_limit w protected_tokens;
          target_available = sat_sub target protected_tokens;
          reserve = summary_reserve sd target_available;
          instructions = instruction_indices sd messages sources p target_available;
          tail = drop p messages;
          (retained, retained_message_tokens) = retained_tail sd tail (drop p estimates)
             (tail_budget sd messages sources estimates p target_available);
          dropped_end = length tail - length retained;
          dropped = take dropped_end tail;
          dropped_sources = take dropped_end (drop p sources);
          summary_overhead = estimate_message_tokens sd [summary_message []];
          summary_token_budget = sat_sub reserve summary_overhead;
          summary = compaction_summary_envelope sd
             (fallback_compaction_summary sd dropped dropped_sources summary_token_budget)
             \<lparr>csr_start = 0, csr_end = of_nat dropped_end\<rparr>
             (sum_estimates (take dropped_end (drop p estimates)))
             (serialized_digest sd dropped) summary_token_budget;
          has_summary = summary \<noteq> [];
          retained_source_start = length messages - length retained;
          kept = filter (\<lambda>i. i < retained_source_start) instructions;
          replacement_messages = take p messages
             @ (if has_summary then [summary_message summary] else [])
             @ map ((!) messages) kept @ retained;
          replacement_sources = take p sources
             @ (if has_summary then [summary_source dropped_sources] else [])
             @ map ((!) sources) kept @ drop retained_source_start sources
      in \<lparr>ccr_turn_id = turn_id, ccr_compaction_id = [], ccr_mode = ''automatic'',
          ccr_strategy = ''fallback_facts_tail'', ccr_summary_attempts = 0,
          ccr_summary_failure = None,
          ccr_original_message_count = length messages,
          ccr_replacement_message_count = length replacement_messages,
          ccr_dropped_message_count =
            length dropped - length (filter (\<lambda>i. i < p + dropped_end) instructions),
          ccr_protected_prefix_len = p,
          ccr_original_estimated_tokens = original_estimated_tokens,
          ccr_replacement_estimated_tokens =
            sat_add (sat_add (sat_add (sat_add
              (sum_estimates (take p estimates))
              (if has_summary then estimate_message_token sd (summary_message summary) else 0))
              (sum_estimates (map ((!) estimates) kept)))
              retained_message_tokens)
              planned_tool_tokens,
          ccr_planned_tool_tokens = planned_tool_tokens,
          ccr_compaction_limit = cwm_budget_limit w,
          ccr_target_input_tokens = target,
          ccr_budget_limit = cwm_budget_limit w,
          ccr_summary = summary,
          ccr_checksum = serialized_digest sd replacement_messages,
          ccr_replacement_messages = replacement_messages,
          ccr_replacement_sources = replacement_sources,
          ccr_message_decisions =
            map (message_decision p kept retained_source_start sources estimates) [0..<length messages],
          ccr_summary_source_messages = dropped,
          ccr_summary_source_sources = dropped_sources,
          ccr_summary_token_budget = summary_token_budget\<rparr>)"

definition compact_if_needed_with_observed_prefix ::
  "Serde \<Rightarrow> ContextWindowManager \<Rightarrow> uuid \<Rightarrow> nat \<Rightarrow> ProviderMessage list \<Rightarrow> ContextMessageSource list \<Rightarrow>
   u64 list \<Rightarrow> u64 \<Rightarrow> ObservedContextPrefix option \<Rightarrow> (ContextCompactionRecord option, ContextError) result" where
  "compact_if_needed_with_observed_prefix sd w turn_id prefix_len messages message_sources
     message_estimates planned_tool_tokens observed_prefix =
     (let estimates = matching_estimates sd messages message_estimates;
          original = context_tokens_with_observed_prefix sd messages estimates planned_tool_tokens
                       observed_prefix;
          limit = cwm_budget_limit w
      in if limit = 0 \<or> original \<le> limit then Inr None
         else let p = min prefix_len (length messages);
                  protected_tokens = protected_context_tokens p estimates planned_tool_tokens observed_prefix
           in if limit \<le> protected_tokens then Inl (CompactionImpossible protected_tokens limit)
              else let record = compaction_record sd w turn_id p messages
                         (normalized_message_sources messages message_sources) estimates
                         planned_tool_tokens protected_tokens original
                in if limit < ccr_replacement_estimated_tokens record
                   then Inl (CompactionImpossible (ccr_replacement_estimated_tokens record) limit)
                   else Inr (Some record))"

definition compact_if_needed_with_estimates ::
  "Serde \<Rightarrow> ContextWindowManager \<Rightarrow> uuid \<Rightarrow> nat \<Rightarrow> ProviderMessage list \<Rightarrow> ContextMessageSource list \<Rightarrow>
   u64 list \<Rightarrow> u64 \<Rightarrow> (ContextCompactionRecord option, ContextError) result" where
  "compact_if_needed_with_estimates sd w turn_id prefix_len messages message_sources
     message_estimates planned_tool_tokens =
     compact_if_needed_with_observed_prefix sd w turn_id prefix_len messages message_sources
       message_estimates planned_tool_tokens None"

definition compact_if_needed ::
  "Serde \<Rightarrow> ContextWindowManager \<Rightarrow> uuid \<Rightarrow> nat \<Rightarrow> ProviderMessage list \<Rightarrow> ContextMessageSource list \<Rightarrow>
   u64 \<Rightarrow> (ContextCompactionRecord option, ContextError) result" where
  "compact_if_needed sd w turn_id prefix_len messages message_sources planned_tool_tokens =
     compact_if_needed_with_estimates sd w turn_id prefix_len messages message_sources
       (map (estimate_message_token sd) messages) planned_tool_tokens"

definition supports_model_summary :: "ContextCompactionRecord \<Rightarrow> bool" where
  "supports_model_summary r \<longleftrightarrow>
     ccr_summary_source_messages r \<noteq> []
     \<and> length (ccr_summary_source_sources r) = length (ccr_summary_source_messages r)
     \<and> list_all (\<lambda>s. is_model_visible (cms_visibility s)) (ccr_summary_source_sources r)"

text \<open>The record after the call and the value the call returns.\<close>

definition apply_model_summary ::
  "Serde \<Rightarrow> string \<Rightarrow> ContextCompactionRecord \<Rightarrow> ContextCompactionRecord \<times> bool" where
  "apply_model_summary sd summary r =
     (case parse_compaction_summary_envelope sd (ccr_summary r) of
        None \<Rightarrow> (r, False)
      | Some previous \<Rightarrow>
          (case complete_compaction_summary_envelope sd summary (cse_source_range previous)
                  (ctc_source (cse_token_counts previous)) (cse_checksum previous)
                  (ccr_summary_token_budget r) of
             None \<Rightarrow> (r, False)
           | Some rendered \<Rightarrow>
               let p = ccr_protected_prefix_len r in
               if length (ccr_replacement_messages r) \<le> p \<or> length (ccr_replacement_sources r) \<le> p
                  \<or> cms_origin (ccr_replacement_sources r ! p) \<noteq> ''compaction_summary''
               then (r, False)
               else let messages = (ccr_replacement_messages r)[p :=
                          (ccr_replacement_messages r ! p)
                            \<lparr>pm_content := COMPACTION_SUMMARY_PREFIX @ rendered\<rparr>]
                 in (r\<lparr>ccr_replacement_messages := messages, ccr_summary := rendered,
                       ccr_strategy := ''model_summary_tail'', ccr_summary_failure := None,
                       ccr_replacement_estimated_tokens :=
                         sat_add (estimate_message_tokens sd messages) (ccr_planned_tool_tokens r),
                       ccr_replacement_message_count := length messages,
                       ccr_checksum := serialized_digest sd messages\<rparr>, True)))"

section \<open>Attribution\<close>

text \<open>The sort is by falling remainder, then by rising index.\<close>

definition remainder_order :: "(nat \<times> nat) list \<Rightarrow> (nat \<times> nat) list" where
  "remainder_order remainders = rev (sort_key snd (rev remainders))"

definition proportional_token_attribution :: "u64 \<Rightarrow> u64 list \<Rightarrow> u64 list" where
  "proportional_token_attribution actual weights =
     (let total_weight = sum_list (map unat weights) in
      if total_weight = 0 then replicate (length weights) 0
      else let numerators = map (\<lambda>w. min (unat actual * unat w) (2 ^ 128 - 1)) weights;
               shares = map (\<lambda>n. if n div total_weight < 2 ^ 64 then of_nat (n div total_weight) else - 1)
                          numerators;
               assigned = sum_estimates shares;
               remainders = remainder_order
                 (zip [0..<length weights] (map (\<lambda>n. n mod total_weight) numerators));
               remainder = unat (sat_sub actual assigned)
        in fold (\<lambda>(i, _) ss. ss[i := sat_add (ss ! i) 1]) (take remainder remainders) shares)"

section \<open>Tool calls and their results\<close>

text \<open>
  What a provider accepts: a tool message answers a call of the assistant message before it, and
  every call is answered before the next message that is not a tool message.
\<close>

definition called_ids :: "ProviderMessage \<Rightarrow> string list" where
  "called_ids m = (if pm_role m = Assistant then map ptc_tool_call_id (pm_tool_calls m) else [])"

fun paired_from :: "string list \<Rightarrow> string list \<Rightarrow> ProviderMessage list \<Rightarrow> bool" where
  "paired_from calls answered [] \<longleftrightarrow> set calls \<subseteq> set answered"
| "paired_from calls answered (m # ms) \<longleftrightarrow>
     (if pm_role m = Tool
      then (case pm_tool_call_id m of
              None \<Rightarrow> False
            | Some i \<Rightarrow> i \<in> set calls \<and> paired_from calls (i # answered) ms)
      else set calls \<subseteq> set answered \<and> paired_from (called_ids m) [] ms)"

definition paired :: "ProviderMessage list \<Rightarrow> bool" where
  "paired ms = paired_from [] [] ms"

lemma paired_Nil [simp]: "paired []"
  by (simp add: paired_def)

lemma paired_from_append:
  "paired_from calls answered xs \<Longrightarrow> paired ys \<Longrightarrow> paired_from calls answered (xs @ ys)"
proof (induction calls answered xs rule: paired_from.induct)
  case (1 calls answered)
  then show ?case by (cases ys) (auto simp: paired_def split: option.splits)
qed (auto split: option.splits)

lemma paired_append: "paired xs \<Longrightarrow> paired ys \<Longrightarrow> paired (xs @ ys)"
  unfolding paired_def [of xs] paired_def [of "xs @ ys"] by (rule paired_from_append)

lemma paired_users: "list_all (\<lambda>m. pm_role m = User) ms \<Longrightarrow> paired ms"
  unfolding paired_def by (induction ms) (auto simp: called_ids_def)

text \<open>Pairing looks at roles and call identifiers only.\<close>

definition call_shape :: "ProviderMessage \<Rightarrow> ProviderRole \<times> string option \<times> string list" where
  "call_shape m = (pm_role m, pm_tool_call_id m, map ptc_tool_call_id (pm_tool_calls m))"

lemma paired_from_shape:
  "map call_shape xs = map call_shape ys \<Longrightarrow> paired_from calls answered xs = paired_from calls answered ys"
proof (induction xs arbitrary: ys calls answered)
  case (Cons m ms)
  then obtain m' ms' where ys: "ys = m' # ms'" and shape: "call_shape m = call_shape m'"
    and rest: "map call_shape ms = map call_shape ms'" by auto
  have "called_ids m = called_ids m'" "pm_role m = pm_role m'" "pm_tool_call_id m = pm_tool_call_id m'"
    using shape by (simp_all add: call_shape_def called_ids_def)
  with ys show ?case by (simp add: Cons.IH [OF rest] split: option.split)
qed simp

lemma paired_shape: "map call_shape xs = map call_shape ys \<Longrightarrow> paired xs = paired ys"
  unfolding paired_def by (rule paired_from_shape)

lemma call_shape_content [simp]: "call_shape (m\<lparr>pm_content := c\<rparr>) = call_shape m"
  by (simp add: call_shape_def)

lemma call_shape_compact [simp]: "call_shape (compact_message sd b m) = call_shape m"
  by (simp add: call_shape_def compact_message_def compact_call_def)

lemma paired_compact_message_group: "paired ms \<Longrightarrow> paired (compact_message_group sd ms b)"
  using paired_shape [of "map (compact_message sd (max (b div of_nat (length ms)) 1)) ms" ms]
  by (simp add: compact_message_group_def comp_def)

lemma paired_apply_model_summary:
  "paired (ccr_replacement_messages r) \<Longrightarrow>
     paired (ccr_replacement_messages (fst (apply_model_summary sd summary r)))"
proof -
  have "paired (ms[p := (ms ! p)\<lparr>pm_content := c\<rparr>]) = paired ms" for ms p c
    by (rule paired_shape) (cases "p < length ms"; simp add: map_update list_update_same_conv
        list_update_beyond)
  then show "paired (ccr_replacement_messages r) \<Longrightarrow> ?thesis"
    by (simp add: apply_model_summary_def Let_def split: option.split)
qed

text \<open>After the results of a call the rest of a paired list is paired on its own.\<close>

lemma paired_from_dropWhile:
  "paired_from calls answered ms \<Longrightarrow> paired (dropWhile (\<lambda>x. pm_role x = Tool) ms)"
  by (induction calls answered ms rule: paired_from.induct)
    (auto simp: paired_def split: option.split_asm)

lemma paired_drop_group:
  assumes "paired (m # ms)"
  shows "paired (drop (group_len m ms - 1) ms)"
proof (cases "opens_group m")
  case True
  with assms have "paired_from (called_ids m) [] ms"
    by (simp add: paired_def opens_group_def)
  with True show ?thesis
    by (simp add: group_len_def dropWhile_eq_drop [symmetric] paired_from_dropWhile)
next
  case False
  then have "called_ids m = []" by (auto simp: called_ids_def opens_group_def)
  with False assms show ?thesis
    by (auto simp: group_len_def paired_def split: if_split_asm option.split_asm)
qed

lemma group_len_pos: "0 < group_len m ms"
  by (simp add: group_len_def)

lemma group_len_le: "group_len m ms \<le> Suc (length ms)"
  by (simp add: group_len_def length_takeWhile_le)

lemma groups_from_paired:
  "paired ms \<Longrightarrow> g \<in> set (groups_from start ms) \<Longrightarrow> start \<le> fst g \<and> paired (drop (fst g - start) ms)"
proof (induction start ms rule: groups_from.induct)
  case (2 start m ms)
  let ?n = "group_len m ms"
  show ?case
  proof (cases "g = (start, start + ?n)")
    case False
    with 2(3) have "g \<in> set (groups_from (start + ?n) (drop (?n - 1) ms))" by simp
    with 2(1) [OF paired_drop_group [OF 2(2)]]
    have "start + ?n \<le> fst g \<and> paired (drop (fst g - (start + ?n)) (drop (?n - 1) ms))" by blast
    moreover from this have "fst g - start = Suc (fst g - (start + ?n) + (?n - 1))"
      using group_len_pos [of m ms] by linarith
    ultimately show ?thesis by (simp add: ac_simps)
  qed (use 2 in simp)
qed simp

lemma groups_from_last:
  "ms \<noteq> [] \<Longrightarrow> groups_from start ms \<noteq> [] \<and> snd (last (groups_from start ms)) = start + length ms"
proof (induction start ms rule: groups_from.induct)
  case (2 start m ms)
  then show ?case
    using group_len_pos [of m ms] group_len_le [of m ms]
    by (cases "drop (group_len m ms - 1) ms = []") auto
qed simp

lemma retain_groups_subset: "set (fst (retain_groups estimates b used gs)) \<subseteq> set gs"
  by (induction estimates b used gs rule: retain_groups.induct) (auto simp: Let_def split: prod.split)

text \<open>The retained tail starts at a group, so it is paired when the whole tail is.\<close>

lemma paired_retained_tail:
  assumes "paired ms"
  shows "paired (fst (retained_tail sd ms estimates b))"
proof -
  let ?gs = "message_groups ms"
  obtain pushed used where pushed: "retain_groups estimates b 0 (rev ?gs) = (pushed, used)"
    by fastforce
  have sub: "set pushed \<subseteq> set ?gs"
    using retain_groups_subset [of estimates b 0 "rev ?gs"] pushed by simp
  have at_group: "paired (drop (fst g) ms)" if "g \<in> set ?gs" for g
    using groups_from_paired [OF assms, of g 0] that by (simp add: message_groups_def)
  have "paired (drop (case rev pushed of [] \<Rightarrow> length ms | g # _ \<Rightarrow> fst g) ms)"
    using sub at_group by (auto split: list.split)
  moreover have "paired (compact_message_group sd (range_of (last ?gs) ms) b)" if "ms \<noteq> []"
  proof (rule paired_compact_message_group)
    have "?gs \<noteq> []" and "snd (last ?gs) = length ms"
      using groups_from_last [OF that, of 0] by (simp_all add: message_groups_def)
    then show "paired (range_of (last ?gs) ms)"
      using at_group [of "last ?gs"] by (simp add: range_of_def)
  qed
  moreover have "?gs \<noteq> []" if "ms \<noteq> []"
    using groups_from_last [OF that, of 0] by (simp add: message_groups_def)
  ultimately show ?thesis
    by (simp add: retained_tail_def Let_def pushed)
qed

text \<open>The groups from any group on are the groups of the messages from there on.\<close>

lemma groups_from_suffix:
  "groups_from start ms = gs1 @ g # gs2 \<Longrightarrow>
     start \<le> fst g \<and> fst g < start + length ms \<and>
     g # gs2 = groups_from (fst g) (drop (fst g - start) ms)"
proof (induction start ms arbitrary: gs1 rule: groups_from.induct)
  case (2 start m ms)
  let ?n = "group_len m ms"
  show ?case
  proof (cases gs1)
    case (Cons h hs)
    with 2(2) have "groups_from (start + ?n) (drop (?n - 1) ms) = hs @ g # gs2" by simp
    from 2(1) [OF this] have *: "start + ?n \<le> fst g" "fst g < start + ?n + length (drop (?n - 1) ms)"
      "g # gs2 = groups_from (fst g) (drop (fst g - (start + ?n)) (drop (?n - 1) ms))" by auto
    moreover from *(1) have "fst g - start = Suc (fst g - (start + ?n) + (?n - 1))"
      using group_len_pos [of m ms] by linarith
    moreover have "?n + length (drop (?n - 1) ms) = length (m # ms)"
      using group_len_pos [of m ms] group_len_le [of m ms] by simp
    ultimately show ?thesis by (simp add: ac_simps)
  qed (use 2 in auto)
qed simp

lemma groups_from_start: "g \<in> set (groups_from start ms) \<Longrightarrow> start \<le> fst g"
  by (metis groups_from_suffix split_list)

lemma groups_from_tile:
  "length xs = length ms \<Longrightarrow>
     concat (map (\<lambda>g. range_of g (pre @ xs)) (groups_from (length pre) ms)) = xs"
proof (induction "length pre" ms arbitrary: pre xs rule: groups_from.induct)
  case (2 m ms)
  let ?n = "group_len m ms"
  have n: "0 < ?n" "?n \<le> length xs" using 2(2) group_len_pos group_len_le by simp_all
  have "length (drop ?n xs) = length (drop (?n - 1) ms)" using 2(2) n by simp
  from 2(1) [of "pre @ take ?n xs", OF _ this] n
  have "concat (map (\<lambda>g. range_of g (pre @ xs)) (groups_from (length pre + ?n) (drop (?n - 1) ms))) =
    drop ?n xs"
    by simp
  then show ?case by (simp add: range_of_def)
qed simp

lemma message_groups_suffix:
  assumes "message_groups ms = gs1 @ g # gs2" and "length xs = length ms"
  shows "fst g < length ms" and "concat (map (\<lambda>h. range_of h xs) (g # gs2)) = drop (fst g) xs"
proof -
  from groups_from_suffix [OF assms(1) [unfolded message_groups_def]]
  have g: "fst g < length ms" "g # gs2 = groups_from (fst g) (drop (fst g) ms)" by simp_all
  show "fst g < length ms" by (fact g(1))
  show "concat (map (\<lambda>h. range_of h xs) (g # gs2)) = drop (fst g) xs"
    using groups_from_tile [of "drop (fst g) xs" "drop (fst g) ms" "take (fst g) xs"] g assms(2)
    by simp
qed

section \<open>The retained tail\<close>

lemma sum_estimates_fold: "fold (\<lambda>e total. sat_add total e) xs a = sat_add a (sum_estimates xs)"
proof (induction xs arbitrary: a)
  case (Cons x xs)
  show ?case
    using Cons.IH [of "sat_add a x"] Cons.IH [of "sat_add 0 x"]
    by (simp add: sum_estimates_def sat_add_assoc)
qed (simp add: sum_estimates_def)

lemma sum_estimates_simps [simp]:
  "sum_estimates [] = 0"
  "sum_estimates (x # xs) = sat_add x (sum_estimates xs)"
  using sum_estimates_fold [of xs x] by (simp_all add: sum_estimates_def)

lemma sum_estimates_append [simp]:
  "sum_estimates (xs @ ys) = sat_add (sum_estimates xs) (sum_estimates ys)"
  by (induction xs) (simp_all add: sat_add_assoc)

lemma retain_groups_pushed:
  "retain_groups estimates b used gs = (pushed, toks) \<Longrightarrow>
     \<exists>n. pushed = take n gs \<and>
       toks = sat_add used (sum_estimates (concat (map (\<lambda>g. range_of g estimates) (rev pushed))))"
proof (induction estimates b used gs arbitrary: pushed rule: retain_groups.induct)
  case (2 estimates b used g gs)
  let ?t = "sum_estimates (range_of g estimates)"
  show ?case
  proof (cases "b < sat_add used ?t")
    case False
    with 2(2) obtain rest where rest: "retain_groups estimates b (sat_add used ?t) gs = (rest, toks)"
      and pushed: "pushed = g # rest"
      by (auto simp: Let_def split: prod.split_asm)
    from 2(1) [OF refl False rest] obtain n where "rest = take n gs"
      "toks = sat_add (sat_add used ?t)
         (sum_estimates (concat (map (\<lambda>g. range_of g estimates) (rev rest))))" by blast
    with pushed have "pushed = take (Suc n) (g # gs) \<and>
        toks = sat_add used (sum_estimates (concat (map (\<lambda>g. range_of g estimates) (rev pushed))))"
      by (simp add: sat_add_assoc sat_add_commute [of ?t])
    then show ?thesis by blast
  qed (use 2(2) in \<open>auto intro: exI [of _ 0]\<close>)
qed (auto)

lemma retain_groups_fits:
  "used \<le> b \<Longrightarrow> snd (retain_groups estimates b used gs) \<le> b"
  by (induction estimates b used gs rule: retain_groups.induct)
    (auto simp: Let_def not_less split: prod.split)

lemma retain_groups_first:
  "sum_estimates (range_of g estimates) \<le> b \<Longrightarrow> fst (retain_groups estimates b 0 (g # gs)) \<noteq> []"
  by (simp add: Let_def not_less split: prod.split)

text \<open>The retained messages are the last messages of the tail, as they are or cut to the budget.\<close>

lemma retained_tail_cases:
  assumes "retained_tail sd ms estimates b = (retained, toks)"
    and "length estimates = length ms"
  obtains (whole) k where "k \<le> length ms" and "retained = drop k ms"
      and "toks = sum_estimates (drop k estimates)" and "toks \<le> b"
      and "ms \<noteq> [] \<Longrightarrow> sum_estimates (range_of (last (message_groups ms)) estimates) \<le> b \<Longrightarrow>
             k \<le> fst (last (message_groups ms))"
  | (cut) k c where "k < length ms" and "retained = map (compact_message sd c) (drop k ms)"
      and "b < sum_estimates (range_of (last (message_groups ms)) estimates)" and "0 < b"
proof -
  let ?gs = "message_groups ms"
  obtain pushed used where pushed: "retain_groups estimates b 0 (rev ?gs) = (pushed, used)"
    by fastforce
  obtain n where n: "pushed = take n (rev ?gs)"
    and used: "used = sum_estimates (concat (map (\<lambda>g. range_of g estimates) (rev pushed)))"
    using retain_groups_pushed [OF pushed] by auto
  have "used \<le> b" using retain_groups_fits [of 0 b estimates "rev ?gs"] pushed by simp
  have gs: "?gs = take (length ?gs - n) ?gs @ rev pushed"
    unfolding n by (simp add: rev_take)
  have last: "\<exists>gs'. ?gs = gs' @ [last ?gs]" if "ms \<noteq> []"
    using groups_from_last [OF that, of 0] by (metis append_butlast_last_id message_groups_def)
  show thesis
  proof (cases "rev pushed")
    case Nil
    have first: "b < sum_estimates (range_of (last ?gs) estimates)" if "ms \<noteq> []"
    proof -
      from last [OF that] obtain gs' where "?gs = gs' @ [last ?gs]" by blast
      then have "rev ?gs = last ?gs # rev gs'" by (metis rev.simps(2) rev_rev_ident rev_swap)
      with pushed Nil have "fst (retain_groups estimates b 0 (last ?gs # rev gs')) = []"
        by (simp del: retain_groups.simps)
      with retain_groups_first show ?thesis by (meson not_le_imp_less)
    qed
    show ?thesis
    proof (cases "ms = [] \<or> b = 0")
      case True
      with Nil assms(1) pushed have "retained = drop (length ms) ms" "toks = used"
        by (auto simp: retained_tail_def Let_def)
      with Nil used \<open>used \<le> b\<close> assms(2) first show ?thesis
        by (intro whole [of "length ms"]) (auto simp: not_le)
    next
      case False
      then obtain gs' g where g: "?gs = gs' @ [g]" using last by metis
      have "0 < b" using False by (simp add: word_gt_0)
      then have "retained = compact_message_group sd (drop (fst g) ms) b"
        using False Nil assms(1) pushed g message_groups_suffix(2) [of ms gs' g "[]" ms]
        by (simp add: retained_tail_def Let_def)
      moreover have "fst g < length ms" using g message_groups_suffix(1) [of ms gs' g "[]" ms] by simp
      ultimately show ?thesis
        using False first \<open>0 < b\<close> by (intro cut [of "fst g"]) (auto simp: compact_message_group_def)
    qed
  next
    case (Cons g rest)
    note gs = gs [unfolded Cons]
    have "fst g < length ms" "concat (map (\<lambda>h. range_of h estimates) (g # rest)) = drop (fst g) estimates"
      using message_groups_suffix [OF gs assms(2)] by simp_all
    moreover have "retained = drop (fst g) ms" "toks = used"
      using assms(1) pushed Cons \<open>fst g < length ms\<close> by (auto simp: retained_tail_def Let_def)
    moreover have "fst g \<le> fst (last ?gs)"
    proof -
      have "last ?gs = last (g # rest)" by (subst gs) simp
      then have "last ?gs \<in> set (g # rest)" by (metis last_in_set list.distinct(1))
      moreover have "g # rest = groups_from (fst g) (drop (fst g) ms)"
        using groups_from_suffix [OF gs [unfolded message_groups_def]] by simp
      ultimately show ?thesis using groups_from_start by metis
    qed
    ultimately show ?thesis
      using used Cons \<open>used \<le> b\<close> by (intro whole [of "fst g"]) simp_all
  qed
qed

section \<open>Retained instructions\<close>

lemma keep_instructions_subset:
  "set (keep_instructions sd messages remaining retained is) \<subseteq> set retained \<union> set is"
proof (induction sd messages remaining retained "is" rule: keep_instructions.induct)
  case (2 sd messages remaining retained i "is")
  then show ?case by (auto simp: Let_def)
qed simp

lemma keep_instructions_distinct:
  "distinct retained \<Longrightarrow> distinct (keep_instructions sd messages remaining retained is)"
  by (induction sd messages remaining retained "is" rule: keep_instructions.induct) (auto simp: Let_def)

lemma retained_user_instructions_sound:
  "i \<in> set (retained_user_instructions sd messages sources start budget) \<Longrightarrow>
     start \<le> i \<and> i < length messages \<and> is_user_instruction (messages ! i) (sources ! i)"
  using keep_instructions_subset [of sd messages budget "[]"]
  by (fastforce simp: retained_user_instructions_def Let_def dest: in_set_takeD)

lemma keep_instructions_budget:
  "sum_list (map (\<lambda>i. unat (estimate_message_token sd (messages ! i)))
       (keep_instructions sd messages remaining retained is))
     \<le> unat remaining + sum_list (map (\<lambda>i. unat (estimate_message_token sd (messages ! i))) retained)"
proof (induction sd messages remaining retained "is" rule: keep_instructions.induct)
  case (2 sd messages remaining retained i "is")
  let ?t = "estimate_message_token sd (messages ! i)"
  show ?case
  proof (cases "i \<notin> set retained \<and> ?t \<le> remaining")
    case True
    then have "unat (remaining - ?t) = unat remaining - unat ?t" "unat ?t \<le> unat remaining"
      by (simp_all add: unat_sub word_le_nat_alt)
    with 2(1) [OF refl True] True show ?thesis by (simp add: Let_def)
  next
    case False
    with 2(2) [OF refl False] show ?thesis by (auto simp: Let_def)
  qed
qed simp

lemma sum_list_map_sort: "sum_list (map f (sort xs)) = (sum_list (map f xs) :: nat)"
  by (metis mset_map mset_sort sum_mset_sum_list)

lemma retained_user_instructions_budget:
  "sum_list (map (\<lambda>i. unat (estimate_message_token sd (messages ! i)))
       (retained_user_instructions sd messages sources start budget)) \<le> unat budget"
  using keep_instructions_budget [of sd messages budget "[]"]
  by (simp add: retained_user_instructions_def Let_def sum_list_map_sort)

section \<open>Sizes\<close>

lemma unat_u64: "unat (x :: u64) < 2 ^ 64"
  using unsigned_less [of x] by simp

lemma unat_sum_estimates_min: "unat (sum_estimates xs) = min (sum_list (map unat xs)) (2 ^ 64 - 1)"
  by (induction xs) (auto simp: unat_sat_add)

lemma sum_estimates_exact:
  "unat (sum_estimates xs) < 2 ^ 64 - 1 \<Longrightarrow> unat (sum_estimates xs) = sum_list (map unat xs)"
  unfolding unat_sum_estimates_min by linarith

lemma unat_sum_estimates_le: "unat (sum_estimates xs) \<le> sum_list (map unat xs)"
  by (induction xs) (auto simp: unat_sat_add)

lemma unat_sum_list:
  "sum_list (map unat xs) < 2 ^ 64 \<Longrightarrow> unat (sum_list xs) = sum_list (map unat (xs :: u64 list))"
  by (induction xs) (simp_all add: unat_word_ariths)

lemma sum_list_filter_le: "sum_list (map f (filter P xs)) \<le> (sum_list (map f xs) :: nat)"
  by (induction xs) auto

lemma unat_estimate_tokens: "unat (estimate_tokens s) = (char_count s + 3) div 4 mod 2 ^ 64"
  by (simp add: estimate_tokens_def unat_of_nat)

lemma estimate_tokens_append:
  assumes "char_count x + 3 < 2 ^ 64"
  shows "unat (estimate_tokens (x @ y)) \<le> unat (estimate_tokens x) + unat (estimate_tokens y)"
proof -
  let ?m = "2 ^ 64 :: nat" and ?cx = "(char_count x + 3) div 4" and ?cy = "(char_count y + 3) div 4"
  obtain d where d: "(char_count (x @ y) + 3) div 4 = ?cy + d" "d \<le> ?cx"
  proof
    show "(char_count (x @ y) + 3) div 4 = ?cy + ((char_count (x @ y) + 3) div 4 - ?cy)"
      by (simp add: char_count_def)
    show "(char_count (x @ y) + 3) div 4 - ?cy \<le> ?cx"
      by (simp add: char_count_def)
  qed
  have "(?cy + d) mod ?m \<le> ?cy mod ?m + d mod ?m" 
    by (subst mod_add_eq [symmetric]) (rule mod_less_eq_dividend)
  also have "d mod ?m \<le> ?cx mod ?m"
  proof -
    have "?cx < ?m" using assms by linarith
    with d(2) have "d < ?m" by linarith
    with \<open>?cx < ?m\<close> d(2) show ?thesis by (simp only: mod_less)
  qed
  finally have "(?cy + d) mod ?m \<le> ?cy mod ?m + ?cx mod ?m" by simp
  then show ?thesis unfolding unat_estimate_tokens d(1) by linarith
qed

lemma summary_message_tokens:
  "estimate_message_token sd (summary_message s) = estimate_tokens (COMPACTION_SUMMARY_PREFIX @ s)"
  by (simp add: estimate_message_token_def summary_message_def)

lemma summary_message_fits:
  assumes "estimate_tokens s \<le> sat_sub reserve (estimate_message_tokens sd [summary_message []])"
    and "sat_sub reserve (estimate_message_tokens sd [summary_message []]) \<noteq> 0"
  shows "estimate_message_token sd (summary_message s) \<le> reserve"
proof -
  let ?o = "estimate_tokens COMPACTION_SUMMARY_PREFIX"
  have "estimate_message_tokens sd [summary_message []] = ?o"
    by (simp add: estimate_message_tokens_def summary_message_tokens)
  with assms have "unat (estimate_tokens s) + unat ?o \<le> unat reserve"
    by (simp add: word_le_nat_alt unat_sat_sub word_unat_eq_iff)
  moreover have "char_count COMPACTION_SUMMARY_PREFIX \<le> length COMPACTION_SUMMARY_PREFIX"
    by (simp add: char_count_def)
  then have "char_count COMPACTION_SUMMARY_PREFIX + 3 < 2 ^ 64"
    by (simp add: COMPACTION_SUMMARY_PREFIX_def)
  note estimate_tokens_append [OF this, of s]
  ultimately show ?thesis by (simp add: summary_message_tokens word_le_nat_alt)
qed

section \<open>The compacted list\<close>

lemma compact_SomeE:
  assumes "compact_if_needed_with_observed_prefix sd w turn_id prefix_len messages message_sources
     message_estimates planned_tool_tokens observed_prefix = Inr (Some r)"
  obtains original protected_tokens where
    "r = compaction_record sd w turn_id (min prefix_len (length messages)) messages
           (normalized_message_sources messages message_sources)
           (matching_estimates sd messages message_estimates) planned_tool_tokens protected_tokens original"
    and "ccr_replacement_estimated_tokens r \<le> cwm_budget_limit w"
    and "protected_tokens < cwm_budget_limit w" 
  using assms by (auto simp: compact_if_needed_with_observed_prefix_def Let_def not_le not_less
      split: if_split_asm)

lemma compaction_record_parts:
  assumes "a = sat_sub (target_limit w protected_tokens) protected_tokens"
    and "retained_tail sd (drop p messages) (drop p estimates)
           (tail_budget sd messages sources estimates p a) = (retained, retained_tokens)"
    and "r = compaction_record sd w turn_id p messages sources estimates tools protected_tokens original"
    and "kept = filter (\<lambda>i. i < length messages - length retained)
           (instruction_indices sd messages sources p a)"
    and "dropped_sources = take (length (drop p messages) - length retained) (drop p sources)"
  shows "ccr_replacement_messages r = take p messages
           @ (if ccr_summary r \<noteq> [] then [summary_message (ccr_summary r)] else [])
           @ map ((!) messages) kept @ retained"
    and "ccr_replacement_sources r = take p sources
           @ (if ccr_summary r \<noteq> [] then [summary_source dropped_sources] else [])
           @ map ((!) sources) kept @ drop (length messages - length retained) sources"
    and "ccr_replacement_estimated_tokens r =
           sat_add (sat_add (sat_add (sat_add (sum_estimates (take p estimates))
             (if ccr_summary r \<noteq> [] then estimate_message_token sd (summary_message (ccr_summary r)) else 0))
             (sum_estimates (map ((!) estimates) kept))) retained_tokens) tools"
    and "ccr_summary_source_sources r = dropped_sources"
    and "ccr_summary_token_budget r =
           sat_sub (summary_reserve sd a) (estimate_message_tokens sd [summary_message []])"
    and "ccr_target_input_tokens r = target_limit w protected_tokens"
    and "\<exists>dropped rng toks digest. ccr_summary r = compaction_summary_envelope sd
           (fallback_compaction_summary sd dropped dropped_sources (ccr_summary_token_budget r))
           rng toks digest (ccr_summary_token_budget r)"
  unfolding assms(3,4,5)
  by (simp_all only: compaction_record_def Let_def assms(1) [symmetric] assms(2) prod.case
      ContextCompactionRecord.simps) blast

lemma paired_compaction_record:
  assumes "paired (take p messages)" and "paired (drop p messages)"
  shows "paired (ccr_replacement_messages
     (compaction_record sd w turn_id p messages sources estimates tools protected_tokens original))"
proof -
  let ?a = "sat_sub (target_limit w protected_tokens) protected_tokens"
  obtain retained toks where rt: "retained_tail sd (drop p messages) (drop p estimates)
      (tail_budget sd messages sources estimates p ?a) = (retained, toks)"
    by fastforce
  have "paired (map ((!) messages) (filter P (instruction_indices sd messages sources p ?a)))" for P
    by (rule paired_users) (auto simp: list_all_iff instruction_indices_def is_user_instruction_def
        dest: retained_user_instructions_sound)
  moreover have "paired [summary_message s]" for s
    by (rule paired_users) (simp add: summary_message_def)
  moreover have "paired retained"
    using paired_retained_tail [OF assms(2), of sd "drop p estimates"] rt by (metis fst_conv)
  ultimately show ?thesis
    using assms(1) unfolding compaction_record_parts(1) [OF refl rt refl refl refl]
    by (simp del: append.simps add: paired_append)
qed

text \<open>A small window: a system message, a long question, and a tool call with its result.\<close>

definition sample_message :: "ProviderRole \<Rightarrow> string \<Rightarrow> ProviderMessage" where
  "sample_message role content = \<lparr>pm_role = role, pm_content = content, pm_tool_call_id = None,
     pm_tool_name = None, pm_tool_calls = [], pm_metadata = []\<rparr>"

definition sample_messages :: "ProviderMessage list" where
  "sample_messages =
     [sample_message System ''s'', sample_message User (replicate 170 (CHR ''x'')),
      (sample_message Assistant [])\<lparr>pm_tool_calls :=
         [\<lparr>ptc_tool_call_id = ''c1'', ptc_tool_name = ''t'', ptc_arguments = JNull\<rparr>]\<rparr>,
      (sample_message Tool ''ok'')\<lparr>pm_tool_call_id := Some ''c1''\<rparr>]"

definition sample_sources :: "ContextMessageSource list" where
  "sample_sources = [\<lparr>cms_contributor = ''system_prompt'', cms_source_refs = [''a''], cms_origin = ''o'',
       cms_visibility = ModelVisible\<rparr>,
     \<lparr>cms_contributor = ''debug'', cms_source_refs = [''b''], cms_origin = ''o'',
       cms_visibility = ObservationOnly\<rparr>]"

definition compacted :: "(ContextCompactionRecord option, ContextError) result \<Rightarrow> bool" where
  "compacted res = (case res of Inr (Some r) \<Rightarrow> True | _ \<Rightarrow> False)"

lemma compactedE: "compacted res \<Longrightarrow> \<exists>r. res = Inr (Some r)"
  by (auto simp: compacted_def split: sum.split_asm option.split_asm)

lemma sample_compacted:
  "\<exists>r. compact_if_needed_with_observed_prefix plain_serde (new_window 43) 7 1 sample_messages
     sample_sources [] 0 None = Inr (Some r)"
proof -
  have "compacted (compact_if_needed_with_observed_prefix plain_serde (new_window 43) 7 1 sample_messages
     sample_sources [] 0 None)"
    by code_simp
  then show ?thesis by (rule compactedE)
qed

text \<open>
  Property C5. A compaction never separates a tool call from its results. When the protected prefix
  and the messages after it each answer every call they contain and contain no other tool message,
  the replacement list starts with the prefix unchanged and has the same property, also after a
  summary of a model has been put in.
\<close>

theorem compaction_keeps_calls_answered:
  assumes "compact_if_needed_with_observed_prefix sd w turn_id prefix_len messages message_sources
     message_estimates planned_tool_tokens observed_prefix = Inr (Some r)"
    and "paired (take prefix_len messages)" and "paired (drop prefix_len messages)"
  shows "prefix (take prefix_len messages) (ccr_replacement_messages r) \<and>
     paired (ccr_replacement_messages r) \<and>
     paired (ccr_replacement_messages (fst (apply_model_summary sd summary r)))"
proof -
  let ?p = "min prefix_len (length messages)"
  obtain original protected_tokens where r: "r = compaction_record sd w turn_id ?p messages
      (normalized_message_sources messages message_sources)
      (matching_estimates sd messages message_estimates) planned_tool_tokens protected_tokens original"
    by (rule compact_SomeE [OF assms(1)])
  have "take ?p messages = take prefix_len messages" "drop ?p messages = drop prefix_len messages"
    by (simp_all add: min_def)
  with assms(2,3) have "paired (ccr_replacement_messages r)"
    unfolding r by (intro paired_compaction_record) simp_all
  moreover have "prefix (take prefix_len messages) (ccr_replacement_messages r)"
    by (simp add: r compaction_record_def Let_def min_def split: prod.split)
  ultimately show ?thesis by (simp add: paired_apply_model_summary)
qed

theorem compaction_keeps_calls_answered_witness:
  "\<exists>r. compact_if_needed_with_observed_prefix plain_serde (new_window 43) 7 1 sample_messages
       sample_sources [] 0 None = Inr (Some r) \<and>
     prefix (take 1 sample_messages) (ccr_replacement_messages r) \<and>
     paired (ccr_replacement_messages r) \<and>
     paired (ccr_replacement_messages (fst (apply_model_summary plain_serde ''done'' r)))"
proof -
  obtain r where r: "compact_if_needed_with_observed_prefix plain_serde (new_window 43) 7 1
      sample_messages sample_sources [] 0 None = Inr (Some r)"
    using sample_compacted by blast
  have "paired (take 1 sample_messages)" and "paired (drop 1 sample_messages)" by code_simp+
  from compaction_keeps_calls_answered [OF r this, of "''done''"] r show ?thesis by blast
qed

section \<open>The size of the compacted list\<close>

lemma target_limit_bounds:
  "protected_tokens < cwm_budget_limit w \<Longrightarrow>
     protected_tokens \<le> target_limit w protected_tokens \<and> target_limit w protected_tokens \<le> cwm_budget_limit w"
  using sat_add_ge [of protected_tokens] by (auto simp: target_limit_def Let_def le_max_iff_disj)

lemma summary_reserve_le: "summary_reserve sd a \<le> a"
  by (auto simp: summary_reserve_def Let_def sat_sub_le intro: order_trans [OF min.cobounded1]
      order_trans [OF min.cobounded2])

lemma instruction_budget_le: "unat (instruction_budget sd a) \<le> unat a - unat (summary_reserve sd a)"
proof -
  have "instruction_budget sd a \<le> sat_sub a (summary_reserve sd a) div 4"
    by (simp add: instruction_budget_def)
  then have "unat (instruction_budget sd a) \<le> unat (sat_sub a (summary_reserve sd a)) div 4"
    by (simp add: word_le_nat_alt unat_div)
  then show ?thesis by (simp add: unat_sat_sub)
qed

text \<open>
  The parts of a compacted list stay within their shares of the target: the sum is stated on natural
  numbers, so no saturation hides an excess. \<open>m\<close> is any summary message within the reserve.
\<close>

lemma parts_within_target:
  assumes "estimates = map (estimate_message_token sd) messages"
    and "sat_add (sum_estimates (take p estimates)) tools = protected_tokens"
    and "protected_tokens < cwm_budget_limit w"
    and "a = sat_sub (target_limit w protected_tokens) protected_tokens"
    and "kept = filter P (instruction_indices sd messages sources p a)"
    and "retained_tokens \<le> tail_budget sd messages sources estimates p a"
    and "m \<le> summary_reserve sd a"
  shows "unat (sum_estimates (take p estimates)) + unat m
     + sum_list (map (\<lambda>i. unat (estimates ! i)) kept) + unat retained_tokens + unat tools
     \<le> unat (target_limit w protected_tokens)"
proof -
  let ?is = "instruction_indices sd messages sources p a"
  let ?s = "sum_list (map (\<lambda>i. unat (estimates ! i)) ?is)"
  have bounds: "protected_tokens \<le> target_limit w protected_tokens"
    using target_limit_bounds [OF assms(3)] by simp
  have "unat protected_tokens < unat (cwm_budget_limit w)" using assms(3) by (simp add: word_less_nat_alt)
  moreover have "unat (cwm_budget_limit w) \<le> 2 ^ 64 - 1"
    using unat_u64 [of "cwm_budget_limit w"] by simp
  ultimately have protected: "unat protected_tokens = unat (sum_estimates (take p estimates)) + unat tools"
    unfolding assms(2) [symmetric] by (simp add: unat_sat_add)
  have "map (\<lambda>i. unat (estimates ! i)) ?is =
      map (\<lambda>i. unat (estimate_message_token sd (messages ! i))) ?is"
    unfolding assms(1) by (rule map_cong) (auto simp: instruction_indices_def
        dest: retained_user_instructions_sound)
  then have "?s \<le> unat (instruction_budget sd a)"
    using retained_user_instructions_budget [of sd messages sources p "instruction_budget sd a"]
    by (simp only: instruction_indices_def)
  then have s: "?s \<le> unat a - unat (summary_reserve sd a)"
    using instruction_budget_le [of sd a] by linarith
  have "sum_list (map (\<lambda>i. unat (estimates ! i)) kept) \<le> ?s"
    unfolding assms(5) by (rule sum_list_filter_le)
  moreover have "unat (sum_list (map ((!) estimates) ?is)) = ?s"
  proof -
    have "?s < 2 ^ 64" using s unat_u64 [of a] by simp
    then show ?thesis using unat_sum_list [of "map ((!) estimates) ?is"] by (simp add: comp_def)
  qed
  with assms(6) have "unat retained_tokens \<le> unat a - unat (summary_reserve sd a) - ?s"
    by (simp add: tail_budget_def word_le_nat_alt unat_sat_sub)
  moreover have "unat m \<le> unat (summary_reserve sd a)" "unat (summary_reserve sd a) \<le> unat a"
    using assms(7) summary_reserve_le [of sd a] by (simp_all add: word_le_nat_alt)
  moreover have "unat a = unat (target_limit w protected_tokens) - unat protected_tokens"
    unfolding assms(4) by (simp add: unat_sat_sub)
  ultimately show ?thesis
    using s protected bounds [unfolded word_le_nat_alt] by linarith
qed

lemma fallback_without_budget [simp]: "fallback_compaction_summary sd ms srcs 0 = []"
  by (simp add: fallback_compaction_summary_def)

lemma envelope_of_nothing [simp]: "compaction_summary_envelope sd [] rng toks digest b = []"
  by (simp add: compaction_summary_envelope_def)

text \<open>A summary, local or by a model, stays within the reserve kept for it.\<close>

lemma stored_summary_fits:
  assumes "s = compaction_summary_envelope sd (fallback_compaction_summary sd dropped srcs b) rng toks digest b"
    and "b = sat_sub reserve (estimate_message_tokens sd [summary_message []])" and "s \<noteq> []"
  shows "estimate_message_token sd (summary_message s) \<le> reserve"
proof -
  have "b \<noteq> 0" using assms(1,3) by auto
  moreover have "estimate_tokens s \<le> b" using assms(1,3) envelope_fits by blast
  ultimately show ?thesis using assms(2) by (intro summary_message_fits) simp_all
qed

lemma model_summary_fits:
  assumes "complete_compaction_summary_envelope sd s rng toks digest b = Some rendered"
    and "b = sat_sub reserve (estimate_message_tokens sd [summary_message []])" and "b \<noteq> 0"
  shows "estimate_message_token sd (summary_message rendered) \<le> reserve"
  using assms by (intro summary_message_fits)
    (auto simp: complete_compaction_summary_envelope_def Let_def split: if_split_asm)

text \<open>The room for recent messages and the newest group of messages, for local estimates.\<close>

definition local_estimates :: "Serde \<Rightarrow> ProviderMessage list \<Rightarrow> u64 list" where
  "local_estimates sd messages = map (estimate_message_token sd) messages"

definition protected_size :: "Serde \<Rightarrow> nat \<Rightarrow> ProviderMessage list \<Rightarrow> u64 \<Rightarrow> u64" where
  "protected_size sd p messages tools = sat_add (sum_estimates (local_estimates sd (take p messages))) tools"

definition tail_room ::
  "Serde \<Rightarrow> ContextWindowManager \<Rightarrow> nat \<Rightarrow> ProviderMessage list \<Rightarrow> ContextMessageSource list \<Rightarrow> u64 \<Rightarrow> u64" where
  "tail_room sd w p messages message_sources tools =
     (let protected_tokens = protected_size sd p messages tools in
      tail_budget sd messages (normalized_message_sources messages message_sources)
        (local_estimates sd messages) p (sat_sub (target_limit w protected_tokens) protected_tokens))"

definition newest_group :: "ProviderMessage list \<Rightarrow> ProviderMessage list" where
  "newest_group ms = range_of (last (message_groups ms)) ms"

lemma newest_group_suffix:
  assumes "ms \<noteq> []" and "k \<le> fst (last (message_groups ms))"
  shows "suffix (newest_group ms) (drop k ms)"
proof -
  let ?g = "last (message_groups ms)"
  have "snd ?g = length ms" using groups_from_last [OF assms(1), of 0] by (simp add: message_groups_def)
  then have "newest_group ms = drop (fst ?g - k) (drop k ms)"
    using assms(2) by (simp add: newest_group_def range_of_def)
  then show ?thesis by (simp add: suffix_drop del: drop_drop)
qed

lemma range_of_map: "range_of g (map f xs) = map f (range_of g xs)"
  by (simp add: range_of_def take_map drop_map)

lemma local_estimates_simps [simp]:
  "length (local_estimates sd ms) = length ms"
  "local_estimates sd [] = []"
  "local_estimates sd (m # ms) = estimate_message_token sd m # local_estimates sd ms"
  "local_estimates sd (xs @ ys) = local_estimates sd xs @ local_estimates sd ys"
  "local_estimates sd (take n ms) = take n (local_estimates sd ms)"
  "local_estimates sd (drop n ms) = drop n (local_estimates sd ms)"
  by (simp_all add: local_estimates_def take_map drop_map)

lemma local_estimates_nth:
  "\<forall>i \<in> set is. i < length ms \<Longrightarrow>
     local_estimates sd (map ((!) ms) is) = map ((!) (local_estimates sd ms)) is"
  by (simp add: local_estimates_def)

text \<open>The pieces of a record whose tail was kept whole.\<close>

lemma whole_record:
  fixes sd w p messages sources tools protected_tokens turn_id original
  defines "estimates \<equiv> local_estimates sd messages"
    and "a \<equiv> sat_sub (target_limit w protected_tokens) protected_tokens"
  defines "r \<equiv> compaction_record sd w turn_id p messages sources estimates tools protected_tokens original"
  assumes "retained_tail sd (drop p messages) (drop p estimates)
      (tail_budget sd messages sources estimates p a) = (drop k (drop p messages), toks)"
    and "toks = sum_estimates (drop k (drop p estimates))"
    and "toks \<le> tail_budget sd messages sources estimates p a"
    and "protected_tokens = protected_size sd p messages tools"
    and "protected_tokens < cwm_budget_limit w"
  obtains kept where
    "ccr_replacement_messages r = take p messages
       @ (if ccr_summary r \<noteq> [] then [summary_message (ccr_summary r)] else [])
       @ map ((!) messages) kept @ drop k (drop p messages)"
    and "ccr_replacement_estimated_tokens r =
       sat_add (sum_estimates (local_estimates sd (ccr_replacement_messages r))) tools"
    and "\<And>m. m \<le> summary_reserve sd a \<Longrightarrow>
       unat (sum_estimates (local_estimates sd (take p messages))) + unat m
         + sum_list (map unat (local_estimates sd (map ((!) messages) kept)))
         + unat (sum_estimates (local_estimates sd (drop k (drop p messages)))) + unat tools
       \<le> unat (target_limit w protected_tokens)"
    and "ccr_summary_token_budget r =
       sat_sub (summary_reserve sd a) (estimate_message_tokens sd [summary_message []])"
    and "ccr_summary r \<noteq> [] \<Longrightarrow>
       estimate_message_token sd (summary_message (ccr_summary r)) \<le> summary_reserve sd a"
    and "ccr_summary r \<noteq> [] \<Longrightarrow> ccr_summary_token_budget r \<noteq> 0"
proof -
  define kept where "kept = filter (\<lambda>i. i < length messages - length (drop k (drop p messages)))
    (instruction_indices sd messages sources p a)"
  note parts = compaction_record_parts [OF a_def [THEN meta_eq_to_obj_eq] assms(4)
      r_def [THEN meta_eq_to_obj_eq] kept_def refl]
  have kept_lt: "\<forall>i \<in> set kept. i < length messages"
    by (auto simp: kept_def instruction_indices_def dest: retained_user_instructions_sound)
  then have kept_tokens: "map unat (local_estimates sd (map ((!) messages) kept)) =
      map (\<lambda>i. unat (estimates ! i)) kept"
    by (simp add: estimates_def local_estimates_nth)
  obtain dropped rng digest n where summary: "ccr_summary r = compaction_summary_envelope sd
      (fallback_compaction_summary sd dropped
         (take (length (drop p messages) - length (drop k (drop p messages))) (drop p sources))
         (ccr_summary_token_budget r)) rng n digest (ccr_summary_token_budget r)"
    using parts(7) by blast
  show thesis
  proof (rule that [of kept])
    show "ccr_replacement_estimated_tokens r =
        sat_add (sum_estimates (local_estimates sd (ccr_replacement_messages r))) tools"
      unfolding parts(1) parts(3) using kept_lt
      by (simp add: local_estimates_nth estimates_def [symmetric] assms(5) sat_add_assoc
          del: drop_drop split: if_split)
    show "unat (sum_estimates (local_estimates sd (take p messages))) + unat m
        + sum_list (map unat (local_estimates sd (map ((!) messages) kept)))
        + unat (sum_estimates (local_estimates sd (drop k (drop p messages)))) + unat tools
      \<le> unat (target_limit w protected_tokens)" if "m \<le> summary_reserve sd a" for m
      unfolding kept_tokens local_estimates_simps(5,6) estimates_def [symmetric] assms(5) [symmetric]
      by (rule parts_within_target [OF _ _ assms(8) a_def [THEN meta_eq_to_obj_eq] kept_def assms(6) that])
        (simp_all add: estimates_def assms(7) protected_size_def, simp add: local_estimates_def)
    show "estimate_message_token sd (summary_message (ccr_summary r)) \<le> summary_reserve sd a"
      if "ccr_summary r \<noteq> []" by (rule stored_summary_fits [OF summary parts(5) that])
    show "ccr_summary_token_budget r \<noteq> 0" if "ccr_summary r \<noteq> []"
      using that summary by auto
  qed (fact parts(1), fact parts(5))
qed

text \<open>The sizes hold for the exact sums, so also after a model summary has replaced the local one.\<close>

lemma replaced_summary_size:
  assumes "ms = xs @ summary_message s # ys @ zs"
    and "unat (sum_estimates (local_estimates sd xs)) < 2 ^ 64 - 1"
    and "unat (sum_estimates (local_estimates sd zs)) < 2 ^ 64 - 1"
    and "unat (sum_estimates (local_estimates sd xs))
      + unat (estimate_message_token sd (summary_message rendered))
      + sum_list (map unat (local_estimates sd ys)) + unat (sum_estimates (local_estimates sd zs)) + unat tools
      \<le> unat target"
  shows "sat_add (estimate_message_tokens sd
      (ms[length xs := (ms ! length xs)\<lparr>pm_content := COMPACTION_SUMMARY_PREFIX @ rendered\<rparr>])) tools \<le> target"
proof -
  let ?ms = "xs @ summary_message rendered # ys @ zs"
  let ?n = "sum_list (map unat (local_estimates sd ?ms))"
  have ms: "ms[length xs := (ms ! length xs)\<lparr>pm_content := COMPACTION_SUMMARY_PREFIX @ rendered\<rparr>] = ?ms"
    unfolding assms(1) by (simp add: summary_message_def)
  have n: "?n + unat tools \<le> unat target"
    using assms(4) sum_estimates_exact [OF assms(2)] sum_estimates_exact [OF assms(3)] by simp
  then have "?n < 2 ^ 64" using unat_u64 [of target] by linarith
  then have "unat (estimate_message_tokens sd ?ms) = ?n"
    using unat_sum_list [of "local_estimates sd ?ms"]
    by (simp only: estimate_message_tokens_def local_estimates_def)
  with n show ?thesis unfolding ms word_le_nat_alt by (simp add: unat_sat_add)
qed

lemma apply_model_summary_changed:
  assumes "apply_model_summary sd text r = (r', True)"
  obtains rendered previous where
    "parse_compaction_summary_envelope sd (ccr_summary r) = Some previous"
    and "complete_compaction_summary_envelope sd text (cse_source_range previous)
           (ctc_source (cse_token_counts previous)) (cse_checksum previous)
           (ccr_summary_token_budget r) = Some rendered"
    and "ccr_replacement_estimated_tokens r' = sat_add (estimate_message_tokens sd
           ((ccr_replacement_messages r)[ccr_protected_prefix_len r :=
             (ccr_replacement_messages r ! ccr_protected_prefix_len r)
               \<lparr>pm_content := COMPACTION_SUMMARY_PREFIX @ rendered\<rparr>])) (ccr_planned_tool_tokens r)"
  using assms by (auto simp: apply_model_summary_def Let_def split: option.split_asm if_split_asm)

lemma apply_model_summary_unchanged: "\<not> snd (apply_model_summary sd text r) \<Longrightarrow> fst (apply_model_summary sd text r) = r"
  by (auto simp: apply_model_summary_def Let_def split: option.split_asm if_split_asm)

lemma compaction_record_fields:
  fixes sd w turn_id p messages sources estimates tools protected_tokens original
  defines "r \<equiv> compaction_record sd w turn_id p messages sources estimates tools protected_tokens original"
  shows "ccr_protected_prefix_len r = p" and "ccr_planned_tool_tokens r = tools"
    and "ccr_target_input_tokens r = target_limit w protected_tokens"
    and "ccr_budget_limit r = cwm_budget_limit w"
  unfolding r_def compaction_record_def by (simp_all add: Let_def split: prod.split)

lemma parse_nothing: "envelope_parse sd [] = None \<Longrightarrow> parse_compaction_summary_envelope sd [] = None"
  by (simp add: parse_compaction_summary_envelope_def)

lemma compact_if_needed_local:
  fixes sd w turn_id prefix_len messages message_sources tools
  defines "p \<equiv> min prefix_len (length messages)"
  defines "r \<equiv> compaction_record sd w turn_id p messages (normalized_message_sources messages message_sources)
             (local_estimates sd messages) tools (protected_size sd p messages tools)
             (sat_add (sum_estimates (local_estimates sd messages)) tools)"
  assumes "required_compaction_limit sd w prefix_len messages tools = Some limit"
    and "protected_size sd p messages tools < limit"
  shows "cwm_budget_limit w = limit"
    and "limit < sat_add (sum_estimates (local_estimates sd messages)) tools"
    and "compact_if_needed sd w turn_id prefix_len messages message_sources tools =
      (if limit < ccr_replacement_estimated_tokens r
       then Inl (CompactionImpossible (ccr_replacement_estimated_tokens r) limit) else Inr (Some r))"
proof -
  let ?es = "local_estimates sd messages"
  have tokens: "context_tokens_with_observed_prefix sd messages ?es tools None = sat_add (sum_estimates ?es) tools"
    by (simp add: context_tokens_with_observed_prefix_def matching_estimates_def
        context_tokens_with_observed_prefix_and_total_def applicable_prefix_def)
  have matching: "matching_estimates sd messages ?es = ?es"
    by (simp add: matching_estimates_def)
  have protected: "protected_context_tokens p ?es tools None = protected_size sd p messages tools"
    by (simp add: protected_context_tokens_def p_def applicable_prefix_def protected_size_def)
  have limit: "cwm_budget_limit w = limit" "limit \<noteq> 0" "limit < sat_add (sum_estimates ?es) tools"
    using assms(3) by (auto simp: required_compaction_limit_def required_compaction_limit_with_estimates_def
        required_compaction_limit_with_observed_prefix_def local_estimates_def [symmetric] matching tokens
        split: if_split_asm)
  then show "cwm_budget_limit w = limit" "limit < sat_add (sum_estimates ?es) tools" by simp_all
  show "compact_if_needed sd w turn_id prefix_len messages message_sources tools =
      (if limit < ccr_replacement_estimated_tokens r
       then Inl (CompactionImpossible (ccr_replacement_estimated_tokens r) limit) else Inr (Some r))"
    using limit assms(4)
    by (simp only: compact_if_needed_def compact_if_needed_with_estimates_def
        local_estimates_def [symmetric] compact_if_needed_with_observed_prefix_def Let_def matching tokens
        p_def [symmetric] protected r_def not_le [symmetric] simp_thms if_False refl if_True)
qed

lemma unat_sat_add_le: "unat (sat_add a b) \<le> unat a + unat (b :: u64)"
  by (simp add: unat_sat_add)

lemma parts_size:
  assumes "m \<le> reserve" and "xs \<noteq> [] \<Longrightarrow> xs = [s] \<and> estimate_message_token sd s = m"
    and "\<And>m. m \<le> reserve \<Longrightarrow>
       unat (sum_estimates (local_estimates sd pre)) + unat m
         + sum_list (map unat (local_estimates sd ys))
         + unat (sum_estimates (local_estimates sd zs)) + unat tools \<le> unat target"
  shows "sat_add (sum_estimates (local_estimates sd (pre @ xs @ ys @ zs))) tools \<le> target"
proof -
  let ?e = "\<lambda>ms. sum_estimates (local_estimates sd ms)"
  have "unat (?e xs) \<le> unat m" using assms(2) by (cases xs) auto
  moreover have "unat (?e ys) \<le> sum_list (map unat (local_estimates sd ys))"
    by (rule unat_sum_estimates_le)
  moreover have "unat (sat_add (?e (pre @ xs @ ys @ zs)) tools)
      \<le> unat (?e pre) + unat (?e xs) + unat (?e ys) + unat (?e zs) + unat tools"
    using unat_sat_add_le [of "sat_add (?e pre) (sat_add (?e xs) (sat_add (?e ys) (?e zs)))" tools]
      unat_sat_add_le [of "?e pre" "sat_add (?e xs) (sat_add (?e ys) (?e zs))"]
      unat_sat_add_le [of "?e xs" "sat_add (?e ys) (?e zs)"] unat_sat_add_le [of "?e ys" "?e zs"]
    unfolding local_estimates_simps(4) sum_estimates_append by linarith
  ultimately show ?thesis using assms(3) [OF assms(1)] unfolding word_le_nat_alt by linarith
qed

text \<open>The parts of a compaction that leaves room for the newest group.\<close>

lemma roomy_compaction:
  assumes "required_compaction_limit sd w prefix_len messages tools = Some limit"
    and "protected_size sd p messages tools < limit"
    and "sum_estimates (local_estimates sd (newest_group (drop p messages)))
           \<le> tail_room sd w p messages message_sources tools"
    and p: "p = min prefix_len (length messages)"
  obtains r k kept reserve target where
    "compact_if_needed sd w turn_id prefix_len messages message_sources tools =
      (if limit < ccr_replacement_estimated_tokens r
       then Inl (CompactionImpossible (ccr_replacement_estimated_tokens r) limit) else Inr (Some r))"
    and "ccr_replacement_messages r = take p messages
       @ (if ccr_summary r \<noteq> [] then [summary_message (ccr_summary r)] else [])
       @ map ((!) messages) kept @ drop k (drop p messages)"
    and "suffix (newest_group (drop p messages)) (drop k (drop p messages))"
    and "ccr_protected_prefix_len r = p" and "ccr_planned_tool_tokens r = tools"
    and "ccr_target_input_tokens r = target" and "target \<le> limit" and "unat limit < 2 ^ 64 - 1"
    and "ccr_replacement_estimated_tokens r =
       sat_add (sum_estimates (local_estimates sd (ccr_replacement_messages r))) tools"
    and "\<And>m. m \<le> reserve \<Longrightarrow>
       unat (sum_estimates (local_estimates sd (take p messages))) + unat m
         + sum_list (map unat (local_estimates sd (map ((!) messages) kept)))
         + unat (sum_estimates (local_estimates sd (drop k (drop p messages)))) + unat tools \<le> unat target"
    and "ccr_summary_token_budget r = sat_sub reserve (estimate_message_tokens sd [summary_message []])"
    and "ccr_summary r \<noteq> [] \<Longrightarrow> estimate_message_token sd (summary_message (ccr_summary r)) \<le> reserve"
    and "ccr_summary r \<noteq> [] \<Longrightarrow> ccr_summary_token_budget r \<noteq> 0"
proof -
  define estimates where "estimates = local_estimates sd messages"
  define sources where "sources = normalized_message_sources messages message_sources"
  define prot where "prot = protected_size sd p messages tools"
  define a where "a = sat_sub (target_limit w prot) prot"
  define r where "r = compaction_record sd w turn_id p messages sources estimates tools prot
    (sat_add (sum_estimates estimates) tools)"
  let ?tail = "drop p messages" and ?b = "tail_budget sd messages sources estimates p a"
  note local = compact_if_needed_local [OF assms(1,2) [unfolded p], folded p]
  have compact: "cwm_budget_limit w = limit" "limit < sat_add (sum_estimates estimates) tools"
    "compact_if_needed sd w turn_id prefix_len messages message_sources tools =
      (if limit < ccr_replacement_estimated_tokens r
       then Inl (CompactionImpossible (ccr_replacement_estimated_tokens r) limit) else Inr (Some r))"
    unfolding r_def estimates_def sources_def prot_def by (fact local)+
  have prot: "prot < limit" "prot < cwm_budget_limit w" using assms(2) compact(1) by (simp_all add: prot_def)
  have small: "unat x < 2 ^ 64 - 1" if "x \<le> limit" for x
    using that compact(2) unat_u64 [of "sat_add (sum_estimates estimates) tools"]
    by (simp add: word_le_nat_alt word_less_nat_alt)
  have target: "prot \<le> target_limit w prot" "target_limit w prot \<le> limit"
    using target_limit_bounds [OF prot(2)] compact(1) by simp_all
  have "?tail \<noteq> []"
  proof
    assume "?tail = []"
    then have "prot = sat_add (sum_estimates estimates) tools"
      by (simp add: prot_def protected_size_def estimates_def p)
    with compact(2) prot(1) show False by simp
  qed
  obtain retained toks where rt: "retained_tail sd ?tail (drop p estimates) ?b = (retained, toks)"
    by fastforce
  have newest: "sum_estimates (range_of (last (message_groups ?tail)) (drop p estimates)) \<le> ?b"
    using assms(3) by (simp add: newest_group_def tail_room_def Let_def a_def prot_def estimates_def
        sources_def local_estimates_def drop_map range_of_map)
  have "length (drop p estimates) = length ?tail" by (simp add: estimates_def)
  from rt this obtain k where k: "retained = drop k ?tail" "toks = sum_estimates (drop k (drop p estimates))"
    "toks \<le> ?b" "k \<le> fst (last (message_groups ?tail))"
    by (cases rule: retained_tail_cases) (use newest \<open>?tail \<noteq> []\<close> in \<open>auto simp del: drop_drop\<close>)
  have group: "suffix (newest_group ?tail) (drop k ?tail)"
    by (rule newest_group_suffix [OF \<open>?tail \<noteq> []\<close> k(4)])
  have limit: "unat limit < 2 ^ 64 - 1" by (rule small) simp
  note fields = compaction_record_fields [of sd w turn_id p messages sources estimates tools prot
      "sat_add (sum_estimates estimates) tools", folded r_def]
  show thesis
    by (rule whole_record [OF rt [unfolded k(1) a_def estimates_def] k(2) [unfolded estimates_def]
          k(3) [unfolded a_def estimates_def] prot_def prot(2), folded a_def estimates_def,
          where turn_id = turn_id and original = "sat_add (sum_estimates estimates) tools", folded r_def])
      (rule that [OF compact(3) _ group fields(1-3) target(2) limit])
qed

lemma model_summary_size:
  assumes "envelope_parse sd [] = None" and "ccr_replacement_estimated_tokens r \<le> target"
    and "ccr_replacement_messages r = pre
       @ (if ccr_summary r \<noteq> [] then [summary_message (ccr_summary r)] else []) @ ys @ zs"
    and "ccr_summary_token_budget r = sat_sub reserve (estimate_message_tokens sd [summary_message []])"
    and "ccr_summary r \<noteq> [] \<Longrightarrow> ccr_summary_token_budget r \<noteq> 0"
    and "ccr_protected_prefix_len r = length pre" and "unat target < 2 ^ 64 - 1"
    and "\<And>m. m \<le> reserve \<Longrightarrow>
       unat (sum_estimates (local_estimates sd pre)) + unat m
         + sum_list (map unat (local_estimates sd ys))
         + unat (sum_estimates (local_estimates sd zs)) + unat tools \<le> unat target"
    and "ccr_planned_tool_tokens r = tools"
  shows "ccr_replacement_estimated_tokens (fst (apply_model_summary sd text r)) \<le> target"
proof (cases "snd (apply_model_summary sd text r)")
  case True
  then obtain r' where r': "apply_model_summary sd text r = (r', True)"
    by (metis surjective_pairing)
  obtain rendered previous where previous: "parse_compaction_summary_envelope sd (ccr_summary r) = Some previous"
    and rendered: "complete_compaction_summary_envelope sd text (cse_source_range previous)
           (ctc_source (cse_token_counts previous)) (cse_checksum previous)
           (ccr_summary_token_budget r) = Some rendered"
    and tokens: "ccr_replacement_estimated_tokens r' = sat_add (estimate_message_tokens sd
           ((ccr_replacement_messages r)[ccr_protected_prefix_len r :=
             (ccr_replacement_messages r ! ccr_protected_prefix_len r)
               \<lparr>pm_content := COMPACTION_SUMMARY_PREFIX @ rendered\<rparr>])) (ccr_planned_tool_tokens r)"
    by (rule apply_model_summary_changed [OF r'])
  have some: "ccr_summary r \<noteq> []" using previous parse_nothing [OF assms(1)] by force
  with assms(3) have ms: "ccr_replacement_messages r =
      pre @ summary_message (ccr_summary r) # ys @ zs" by simp
  have "estimate_message_token sd (summary_message rendered) \<le> reserve"
    by (rule model_summary_fits [OF rendered assms(4) assms(5) [OF some]])
  from assms(8) [OF this] show ?thesis
    unfolding r' fst_conv tokens assms(6,9)
    by (intro replaced_summary_size [OF ms]) (use assms(7) in linarith)+
next
  case False
  with assms(2) show ?thesis by (simp add: apply_model_summary_unchanged)
qed

text \<open>
  Property C6. A compaction whose protected prefix leaves room for the newest group of messages
  succeeds. It keeps that group unchanged at the end of the list, the recorded size is the estimate
  of the replacement list, and this size is at most the target, which is at most the budget. A
  summary of a model that is put in later does not exceed the target either, although the size is
  not checked again.
\<close>

theorem compaction_reaches_target:
  fixes prefix_len messages
  defines "p \<equiv> min prefix_len (length messages)"
  assumes "required_compaction_limit sd w prefix_len messages tools = Some limit"
    and "protected_size sd p messages tools < limit"
    and "sum_estimates (local_estimates sd (newest_group (drop p messages)))
           \<le> tail_room sd w p messages message_sources tools"
    and "envelope_parse sd [] = None"
  shows "\<exists>r. compact_if_needed sd w turn_id prefix_len messages message_sources tools = Inr (Some r)
     \<and> suffix (newest_group (drop p messages)) (ccr_replacement_messages r)
     \<and> ccr_replacement_estimated_tokens r =
         sat_add (sum_estimates (local_estimates sd (ccr_replacement_messages r))) tools
     \<and> ccr_replacement_estimated_tokens r \<le> ccr_target_input_tokens r
     \<and> ccr_target_input_tokens r \<le> limit
     \<and> ccr_replacement_estimated_tokens (fst (apply_model_summary sd text r)) \<le> ccr_target_input_tokens r"
proof -
  obtain r k kept reserve target where
    compact: "compact_if_needed sd w turn_id prefix_len messages message_sources tools =
      (if limit < ccr_replacement_estimated_tokens r
       then Inl (CompactionImpossible (ccr_replacement_estimated_tokens r) limit) else Inr (Some r))"
    and ms: "ccr_replacement_messages r = take p messages
       @ (if ccr_summary r \<noteq> [] then [summary_message (ccr_summary r)] else [])
       @ map ((!) messages) kept @ drop k (drop p messages)"
    and group: "suffix (newest_group (drop p messages)) (drop k (drop p messages))"
    and fields: "ccr_protected_prefix_len r = p" "ccr_planned_tool_tokens r = tools"
      "ccr_target_input_tokens r = target" "target \<le> limit" "unat limit < 2 ^ 64 - 1"
    and size: "ccr_replacement_estimated_tokens r =
       sat_add (sum_estimates (local_estimates sd (ccr_replacement_messages r))) tools"
    and parts: "\<And>m. m \<le> reserve \<Longrightarrow>
       unat (sum_estimates (local_estimates sd (take p messages))) + unat m
         + sum_list (map unat (local_estimates sd (map ((!) messages) kept)))
         + unat (sum_estimates (local_estimates sd (drop k (drop p messages)))) + unat tools \<le> unat target"
    and budget: "ccr_summary_token_budget r = sat_sub reserve (estimate_message_tokens sd [summary_message []])"
    and summary: "ccr_summary r \<noteq> [] \<Longrightarrow> estimate_message_token sd (summary_message (ccr_summary r)) \<le> reserve"
      "ccr_summary r \<noteq> [] \<Longrightarrow> ccr_summary_token_budget r \<noteq> 0"
    by (rule roomy_compaction [OF assms(2-4) p_def [THEN meta_eq_to_obj_eq], where turn_id = turn_id])
      (rule that)
  have within: "ccr_replacement_estimated_tokens r \<le> target"
    unfolding size ms by (rule parts_size [OF _ _ parts, where s = "summary_message (ccr_summary r)"
      and m = "if ccr_summary r \<noteq> [] then estimate_message_token sd (summary_message (ccr_summary r)) else 0"]) (use summary(1) in \<open>simp_all split: if_split_asm\<close>)
  moreover have "ccr_replacement_estimated_tokens (fst (apply_model_summary sd text r)) \<le> target"
    by (rule model_summary_size [OF assms(5) within ms budget summary(2) _ _ parts])
      (use fields in \<open>simp_all add: p_def word_le_nat_alt\<close>)
  moreover have "compact_if_needed sd w turn_id prefix_len messages message_sources tools = Inr (Some r)"
    using compact within fields(4) by (simp add: not_less order_trans)
  moreover have "suffix (newest_group (drop p messages)) (ccr_replacement_messages r)"
    using group unfolding ms by (simp add: suffix_appendI)
  ultimately show ?thesis using size fields by blast
qed

theorem compaction_reaches_target_witness:
  "\<exists>r. compact_if_needed plain_serde (new_window 43) 7 1 sample_messages sample_sources 0 = Inr (Some r)
     \<and> suffix (drop 2 sample_messages) (ccr_replacement_messages r)
     \<and> ccr_replacement_estimated_tokens r =
         sat_add (sum_estimates (local_estimates plain_serde (ccr_replacement_messages r))) 0
     \<and> ccr_replacement_estimated_tokens r \<le> ccr_target_input_tokens r
     \<and> ccr_target_input_tokens r \<le> 43
     \<and> ccr_replacement_estimated_tokens (fst (apply_model_summary plain_serde ''done'' r))
         \<le> ccr_target_input_tokens r"
proof -
  have p: "min 1 (length sample_messages) = 1" by code_simp
  have group: "newest_group (drop 1 sample_messages) = drop 2 sample_messages" by code_simp
  have "required_compaction_limit plain_serde (new_window 43) 1 sample_messages 0 = Some 43"
    by code_simp
  moreover have "protected_size plain_serde 1 sample_messages 0 < 43" by code_simp
  moreover have "sum_estimates (local_estimates plain_serde (drop 2 sample_messages))
      \<le> tail_room plain_serde (new_window 43) 1 sample_messages sample_sources 0"
    by code_simp
  moreover have "envelope_parse plain_serde [] = None" by (simp add: plain_serde_def)
  ultimately show ?thesis
    using compaction_reaches_target [of plain_serde "new_window 43" 1 sample_messages 0 43
        sample_sources 7 "''done''"] unfolding p group by blast
qed

section \<open>Disclosure\<close>

lemma length_normalized_message_sources [simp]:
  "length (normalized_message_sources messages message_sources) = length messages"
  by (simp add: normalized_message_sources_def)

lemma summary_source_visible:
  "is_model_visible (cms_visibility (summary_source srcs)) \<longleftrightarrow>
     list_all (\<lambda>s. is_model_visible (cms_visibility s)) srcs"
  by (auto simp: summary_source_def list_all_iff find_None_iff find_Some_iff is_model_visible_def
      split: option.split)

text \<open>A message of the new list and its source come from one original message, as it is or cut.\<close>

definition from_original ::
  "Serde \<Rightarrow> ProviderMessage list \<Rightarrow> ContextMessageSource list \<Rightarrow> ProviderMessage \<Rightarrow> ContextMessageSource \<Rightarrow> bool" where
  "from_original sd messages sources m s \<longleftrightarrow>
     (\<exists>i < length messages. s = sources ! i \<and>
        (m = messages ! i \<or> (\<exists>budget. m = compact_message sd budget (messages ! i))))"

lemma from_original_nth:
  "i < length messages \<Longrightarrow> from_original sd messages sources (messages ! i) (sources ! i)"
  by (auto simp: from_original_def)

lemma from_original_drop:
  assumes "length sources = length messages" and "f = (\<lambda>m. m) \<or> (\<exists>c. f = compact_message sd c)"
  shows "list_all2 (from_original sd messages sources) (map f (drop k messages)) (drop k sources)"
proof (rule list_all2_all_nthI)
  fix i
  assume "i < length (map f (drop k messages))"
  then show "from_original sd messages sources (map f (drop k messages) ! i) (drop k sources ! i)"
    using assms unfolding from_original_def by (intro exI [of _ "k + i"]) auto
qed (use assms in simp)

lemma from_original_take:
  "length sources = length messages \<Longrightarrow>
     list_all2 (from_original sd messages sources) (take p messages) (take p sources)"
  by (rule list_all2_all_nthI) (auto intro: from_original_nth)

lemma from_original_kept:
  "\<forall>i \<in> set is. i < length messages \<Longrightarrow>
     list_all2 (from_original sd messages sources) (map ((!) messages) is) (map ((!) sources) is)"
  by (induction "is") (auto intro: from_original_nth)

lemma from_original_retained:
  assumes "retained_tail sd (drop p messages) estimates b = (retained, toks)"
    and "length estimates = length (drop p messages)" and "length sources = length messages"
    and "p \<le> length messages"
  shows "list_all2 (from_original sd messages sources) retained
    (drop (length messages - length retained) sources)"
  using assms(1,2)
proof (cases rule: retained_tail_cases)
  case (whole k)
  then have "length messages - length retained = k + p" using assms(4) by simp
  with whole show ?thesis using from_original_drop [OF assms(3), of "\<lambda>m. m" sd "k + p"] by simp
next
  case (cut k c)
  then have "length messages - length retained = k + p" using assms(4) by simp
  with cut show ?thesis using from_original_drop [OF assms(3), of "compact_message sd c" sd "k + p"] by auto
qed

text \<open>
  Property C7. A compaction discloses nothing. The sources stay aligned with the messages, and each
  message of the replacement is an original message with its own source, perhaps cut, or the
  summary. The summary counts as visible to a model only when every message it stands for does.
\<close>

theorem compaction_discloses_nothing:
  assumes "compact_if_needed_with_observed_prefix sd w turn_id prefix_len messages message_sources
     message_estimates planned_tool_tokens observed_prefix = Inr (Some r)"
  shows "list_all2 (\<lambda>m s.
       from_original sd messages (normalized_message_sources messages message_sources) m s \<or>
       m = summary_message (ccr_summary r) \<and>
         (is_model_visible (cms_visibility s) \<longleftrightarrow>
            list_all (\<lambda>d. is_model_visible (cms_visibility d)) (ccr_summary_source_sources r)))
     (ccr_replacement_messages r) (ccr_replacement_sources r)"
    (is "list_all2 ?R _ _")
proof -
  let ?p = "min prefix_len (length messages)"
  let ?srcs = "normalized_message_sources messages message_sources"
  let ?es = "matching_estimates sd messages message_estimates"
  obtain original protected_tokens where r: "r = compaction_record sd w turn_id ?p messages ?srcs ?es
      planned_tool_tokens protected_tokens original"
    by (rule compact_SomeE [OF assms])
  define a where "a = sat_sub (target_limit w protected_tokens) protected_tokens"
  obtain retained toks where rt: "retained_tail sd (drop ?p messages) (drop ?p ?es)
      (tail_budget sd messages ?srcs ?es ?p a) = (retained, toks)" by fastforce
  note parts = compaction_record_parts [OF a_def rt r refl refl]
  have len: "length ?srcs = length messages" "length (drop ?p ?es) = length (drop ?p messages)"
    by (simp_all add: matching_estimates_def)
  let ?kept = "filter (\<lambda>i. i < length messages - length retained) (instruction_indices sd messages ?srcs ?p a)"
  have "\<forall>i \<in> set ?kept. i < length messages"
    by (auto simp: instruction_indices_def dest: retained_user_instructions_sound)
  note pieces = from_original_take [OF len(1), of sd ?p] from_original_kept [OF this, of sd ?srcs]
    from_original_retained [OF rt len(2) len(1) min.cobounded2]
  have weaken: "list_all2 (from_original sd messages ?srcs) xs ys \<Longrightarrow> list_all2 ?R xs ys" for xs ys
    by (erule list_all2_mono) simp
  have summary: "list_all2 ?R (if ccr_summary r \<noteq> [] then [summary_message (ccr_summary r)] else [])
      (if ccr_summary r \<noteq> [] then [summary_source (ccr_summary_source_sources r)] else [])"
    by (simp add: summary_source_visible)
  show ?thesis
    unfolding parts(1,2) parts(4) [symmetric]
    by (intro list_all2_appendI weaken [OF pieces(1)] summary weaken [OF pieces(2)] weaken [OF pieces(3)])
qed

theorem compaction_discloses_nothing_witness:
  "\<exists>r. compact_if_needed_with_observed_prefix plain_serde (new_window 43) 7 1 sample_messages
       sample_sources [] 0 None = Inr (Some r) \<and>
     list_all2 (\<lambda>m s.
       from_original plain_serde sample_messages
         (normalized_message_sources sample_messages sample_sources) m s \<or>
       m = summary_message (ccr_summary r) \<and>
         (is_model_visible (cms_visibility s) \<longleftrightarrow>
            list_all (\<lambda>d. is_model_visible (cms_visibility d)) (ccr_summary_source_sources r)))
     (ccr_replacement_messages r) (ccr_replacement_sources r)"
proof -
  obtain r where r: "compact_if_needed_with_observed_prefix plain_serde (new_window 43) 7 1
      sample_messages sample_sources [] 0 None = Inr (Some r)"
    using sample_compacted by blast
  from compaction_discloses_nothing [OF r] r show ?thesis by blast
qed

section \<open>Attribution of reported tokens\<close>

definition bump :: "u64 list \<Rightarrow> nat list \<Rightarrow> u64 list" where
  "bump shares is = fold (\<lambda>i ss. ss[i := sat_add (ss ! i) 1]) is shares"

lemma fold_bump: "fold (\<lambda>(i, _) ss. ss[i := sat_add (ss ! i) 1]) ps shares = bump shares (map fst ps)"
  by (induction ps arbitrary: shares) (auto simp: bump_def)

text \<open>Raising distinct shares by one, when no sum can overflow.\<close>

lemma unat_bump:
  "distinct is \<Longrightarrow> \<forall>i \<in> set is. i < length shares \<Longrightarrow>
     sum_list (map unat shares) + length is < 2 ^ 64 \<Longrightarrow>
     map unat (bump shares is) =
       map (\<lambda>i. unat (shares ! i) + (if i \<in> set is then 1 else 0)) [0..<length shares] \<and>
     sum_list (map unat (bump shares is)) = sum_list (map unat shares) + length is"
proof (induction "is" arbitrary: shares)
  case Nil
  have "map unat shares = map (\<lambda>i. unat (shares ! i)) [0..<length shares]"
    by (rule nth_equalityI) simp_all
  then show ?case by (simp add: bump_def)
next
  case (Cons i "is")
  let ?ss = "shares[i := sat_add (shares ! i) 1]"
  have i: "i < length shares" "i \<notin> set is" using Cons.prems by simp_all
  have "unat (shares ! i) \<le> sum_list (map unat shares)" using i by (intro member_le_sum_list) simp_all
  then have one: "unat (sat_add (shares ! i) 1) = unat (shares ! i) + 1"
    using Cons.prems(3) by (simp add: unat_sat_add)
  then have total: "sum_list (map unat ?ss) = sum_list (map unat shares) + 1"
    using i \<open>unat (shares ! i) \<le> _\<close> by (simp add: map_update sum_list_update)
  have IH: "map unat (bump ?ss is) =
       map (\<lambda>k. unat (?ss ! k) + (if k \<in> set is then 1 else 0)) [0..<length shares]"
      "sum_list (map unat (bump ?ss is)) = sum_list (map unat ?ss) + length is"
  proof -
    have "distinct is" "\<forall>i \<in> set is. i < length ?ss" "sum_list (map unat ?ss) + length is < 2 ^ 64"
      using Cons.prems total by simp_all
    note IH = Cons.IH [OF this, unfolded length_list_update]
    show "map unat (bump ?ss is) =
       map (\<lambda>k. unat (?ss ! k) + (if k \<in> set is then 1 else 0)) [0..<length shares]"
      by (fact IH [THEN conjunct1])
    show "sum_list (map unat (bump ?ss is)) = sum_list (map unat ?ss) + length is"
      by (fact IH [THEN conjunct2])
  qed
  moreover have "bump shares (i # is) = bump ?ss is" by (simp add: bump_def)
  moreover have "map (\<lambda>k. unat (?ss ! k) + (if k \<in> set is then 1 else 0)) [0..<length shares] =
      map (\<lambda>k. unat (shares ! k) + (if k \<in> set (i # is) then 1 else 0)) [0..<length shares]"
    using i one by (intro map_cong) (auto simp: nth_list_update)
  ultimately show ?case using total by simp
qed

lemma mset_remainder_order: "mset (remainder_order xs) = mset xs"
  by (simp add: remainder_order_def)

lemma remainder_indices:
  assumes "length xs = n"
  shows "distinct (map fst (take k (remainder_order (zip [0..<n] xs))))"
    and "\<forall>i \<in> set (map fst (take k (remainder_order (zip [0..<n] xs)))). i < n"
    and "k \<le> n \<Longrightarrow> length (map fst (take k (remainder_order (zip [0..<n] xs)))) = k"
proof -
  let ?ps = "zip [0..<n] xs"
  have "mset (map fst (remainder_order ?ps)) = mset (map fst ?ps)"
    by (simp only: mset_map mset_remainder_order)
  moreover have "map fst ?ps = [0..<n]" using assms by simp
  ultimately have "mset (map fst (remainder_order ?ps)) = mset [0..<n]" by (simp only:)
  then have "distinct (map fst (remainder_order ?ps))" and set: "set (map fst (remainder_order ?ps)) = {0..<n}"
    and len: "length (map fst (remainder_order ?ps)) = n"
    by (metis distinct_upt mset_eq_imp_distinct_iff, metis mset_eq_setD set_upt, metis length_upt minus_nat.diff_0 size_mset)
  then show "distinct (map fst (take k (remainder_order ?ps)))" by (simp add: distinct_take flip: take_map)
  show "\<forall>i \<in> set (map fst (take k (remainder_order ?ps))). i < n"
    using set by (metis atLeastLessThan_iff in_set_takeD take_map)
  show "k \<le> n \<Longrightarrow> length (map fst (take k (remainder_order ?ps))) = k" using len by simp
qed

text \<open>The floors leave less than one token per weight.\<close>

lemma floors_remainder:
  fixes a :: nat
  assumes "weight = sum_list ws" and "0 < weight"
  shows "sum_list (map (\<lambda>w. a * w div weight) ws) \<le> a"
    and "a - sum_list (map (\<lambda>w. a * w div weight) ws) \<le> length ws"
proof -
  have "sum_list (map (\<lambda>w. a * w) ws) = a * weight" 
    unfolding assms(1) by (induction ws) (simp_all add: algebra_simps)
  moreover have "sum_list (map (\<lambda>w. a * w) ws) =
      weight * sum_list (map (\<lambda>w. a * w div weight) ws) + sum_list (map (\<lambda>w. a * w mod weight) ws)"
    by (simp add: sum_list_const_mult [symmetric] flip: sum_list_addf)
  ultimately have eq: "a * weight =
      weight * sum_list (map (\<lambda>w. a * w div weight) ws) + sum_list (map (\<lambda>w. a * w mod weight) ws)" by simp
  have "sum_list (map (\<lambda>w. a * w mod weight) ws) \<le> sum_list (map (\<lambda>_. weight) ws)"
    using assms(2) by (intro sum_list_mono) simp
  then have le: "sum_list (map (\<lambda>w. a * w mod weight) ws) \<le> weight * length ws" by (simp add: sum_list_triv mult.commute)
  from eq have "weight * sum_list (map (\<lambda>w. a * w div weight) ws) \<le> weight * a" by (simp add: mult.commute)
  with assms(2) show "sum_list (map (\<lambda>w. a * w div weight) ws) \<le> a" by simp
  from eq le have "weight * a \<le> weight * (sum_list (map (\<lambda>w. a * w div weight) ws) + length ws)"
    by (simp add: algebra_simps)
  with assms(2) have "a \<le> sum_list (map (\<lambda>w. a * w div weight) ws) + length ws" by simp
  then show "a - sum_list (map (\<lambda>w. a * w div weight) ws) \<le> length ws" by simp
qed

lemma attribution_bumps:
  assumes "weight = sum_list (map unat weights)"
    and "floors = map (\<lambda>w. unat actual * unat w div weight) weights"
    and "shares = map of_nat floors" and "map unat shares = floors" and "sum_list floors \<le> unat actual"
    and "0 < weight"
    and "js = map fst (take (unat actual - sum_list floors) (remainder_order
      (zip [0..<length weights] (map (\<lambda>w. unat actual * unat w mod weight) weights))))"
  shows "proportional_token_attribution actual weights = bump shares js"
proof -
  have "unat actual * unat w < 2 ^ 128" for w :: u64
    using mult_strict_mono [OF unat_u64 [of actual] unat_u64 [of w]] by simp
  then have numerators: "min (unat actual * unat w) (2 ^ 128 - 1) = unat actual * unat w" for w :: u64
    by (metis Suc_pred' less_Suc_eq_le min.absorb1 zero_less_numeral zero_less_power)
  have small: "unat actual * unat w div weight < 2 ^ 64" if "w \<in> set weights" for w
  proof -
    have "unat actual * unat w div weight \<le> sum_list floors"
      unfolding assms(2) by (rule member_le_sum_list) (use that in auto)
    with assms(5) unat_u64 [of actual] show ?thesis by linarith
  qed
  then have shares: "map (\<lambda>w. if unat actual * unat w div weight < 2 ^ 64
      then of_nat (unat actual * unat w div weight) else - 1) weights = shares"
    unfolding assms(2,3) by simp
  have "unat (sum_estimates shares) = sum_list floors"
    unfolding unat_sum_estimates_min assms(4) using assms(5) unat_u64 [of actual] by linarith
  then have "unat (sat_sub actual (sum_estimates shares)) = unat actual - sum_list floors"
    by (simp add: unat_sat_sub)
  with assms(6) show ?thesis
    unfolding assms(7) proportional_token_attribution_def Let_def fold_bump assms(1) [symmetric] map_map comp_def
      numerators shares by simp
qed

text \<open>
  Property C21. When some weight is positive, the tokens attributed to the messages add up exactly to
  the reported number, and each message gets its proportional share rounded down or one token more.
\<close>

theorem attribution_is_exact:
  fixes actual :: u64 and weights :: "u64 list"
  assumes "0 < sum_list (map unat weights)"
  shows "sum_list (map unat (proportional_token_attribution actual weights)) = unat actual \<and>
     length (proportional_token_attribution actual weights) = length weights \<and>
     (\<forall>i < length weights.
        unat actual * unat (weights ! i) div sum_list (map unat weights)
          \<le> unat (proportional_token_attribution actual weights ! i) \<and>
        unat (proportional_token_attribution actual weights ! i)
          \<le> unat actual * unat (weights ! i) div sum_list (map unat weights) + 1)"
proof -
  define weight where "weight = sum_list (map unat weights)"
  define floors where "floors = map (\<lambda>w. unat actual * unat w div weight) weights"
  have "floors = map (\<lambda>w. unat actual * w div weight) (map unat weights)"
    by (simp add: floors_def comp_def)
  with floors_remainder [OF weight_def, of "unat actual"] assms
  have rest: "sum_list floors \<le> unat actual" "unat actual - sum_list floors \<le> length weights"
    by (simp_all add: weight_def)
  define shares :: "u64 list" where "shares = map of_nat floors"
  have unat_shares: "map unat shares = floors"
  proof -
    have "f < 2 ^ 64" if "f \<in> set floors" for f
      using member_le_sum_list [OF that] rest(1) unat_u64 [of actual] by linarith
    then show ?thesis by (auto simp: shares_def unat_of_nat comp_def intro!: map_idI)
  qed
  define js where "js = map fst (take (unat actual - sum_list floors) (remainder_order
    (zip [0..<length weights] (map (\<lambda>w. unat actual * unat w mod weight) weights))))"
  have result: "proportional_token_attribution actual weights = bump shares js"
    by (rule attribution_bumps [OF weight_def floors_def shares_def unat_shares rest(1) _ js_def])
      (use assms weight_def in simp)
  have len: "length shares = length weights" by (simp add: shares_def floors_def)
  have js: "distinct js" "\<forall>j \<in> set js. j < length weights"
    unfolding js_def by (rule remainder_indices(1), simp) (rule remainder_indices(2), simp)
  have "length js = unat actual - sum_list floors"
    unfolding js_def by (rule remainder_indices(3)) (use rest(2) in simp_all)
  note js = js(1) js(2) [folded len] this
  have "sum_list (map unat shares) + length js < 2 ^ 64"
    using js(3) rest(1) unat_u64 [of actual] unat_shares by simp
  note bump = unat_bump [OF js(1,2) this]
  then have nth: "map unat (bump shares js) =
      map (\<lambda>i. unat (shares ! i) + (if i \<in> set js then 1 else 0)) [0..<length shares]" ..
  have total: "sum_list (map unat (bump shares js)) = unat actual"
    using bump [THEN conjunct2] js(3) rest(1) unat_shares by simp
  have "length (bump shares js) = length weights" using arg_cong [OF nth, of length] len by simp
  moreover have "unat (bump shares js ! i) =
      unat actual * unat (weights ! i) div weight + (if i \<in> set js then 1 else 0)"
    if "i < length weights" for i
  proof -
    have "unat (shares ! i) = floors ! i" using unat_shares that len by (metis nth_map)
    with that arg_cong [OF nth, of "\<lambda>xs. xs ! i"] len calculation show ?thesis by (simp add: floors_def)
  qed
  ultimately show ?thesis using total by (simp add: result weight_def)
qed

theorem attribution_is_exact_witness:
  "sum_list (map unat (proportional_token_attribution 10 [1, 2, 4])) = 10 \<and>
     5 \<le> unat (proportional_token_attribution 10 [1, 2, 4] ! 2) \<and>
     unat (proportional_token_attribution 10 [1, 2, 4] ! 2) \<le> 6"
proof -
  note exact = attribution_is_exact [of "[1, 2, 4]" 10]
  then have "sum_list (map unat (proportional_token_attribution 10 [1, 2, 4])) = 10" by simp
  moreover have "5 \<le> unat (proportional_token_attribution 10 [1, 2, 4] ! 2) \<and>
     unat (proportional_token_attribution 10 [1, 2, 4] ! 2) \<le> 6"
    using exact [THEN conjunct2, THEN conjunct2, rule_format, of 2] by simp
  ultimately show ?thesis by simp
qed

end
