(* ===== verification/Spec2Isabelle.thy ===== *)
theory Spec2Isabelle
  imports Projection Step_Machine Governor Response_Control Model_Patch_Parser Path_Policy
    Completion_Gate Context_Window
begin

text \<open>
  A verification library for the golutra agent runtime, the Rust workspace under
  \<^verbatim>\<open>src/crates\<close>. The runtime lets a language model work on a code base: a client submits a task with
  an explicit contract, a lane of the session runs its turns one at a time, every turn alternates
  provider calls and tool calls under a policy and a governor, and a verifier decides what was
  achieved. Everything that happens is an event; projections are reduced from the events.

  The development models the deterministic core of that program: the code that takes decisions,
  transforms data or keeps invariants. Names follow the sources; fields of records carry a short
  prefix because field names are global in a theory.

  \<^bold>\<open>Conventions\<close> (\<^verbatim>\<open>Prelude\<close>, \<^verbatim>\<open>Text\<close>, \<^verbatim>\<open>Paths\<close>, \<^verbatim>\<open>Machines\<close>).
  \<^item> Strings are UTF-8 byte strings; counting or cutting characters goes through
    \<^verbatim>\<open>utf8_chars\<close>. Identifiers are numbers and fresh ones are arguments.
  \<^item> \<^verbatim>\<open>u8\<close>, \<^verbatim>\<open>u32\<close> and \<^verbatim>\<open>u64\<close> are words; saturating operations are defined on them, and plain sums
    wrap as they do in a release build. Where the code computes in \<^verbatim>\<open>usize\<close> on lengths, natural
    numbers are used.
  \<^item> A fallible function returns a sum, the error on the left; error variants are kept, message
    texts only where code reads them. A slice that would panic is an error value of its own.
  \<^item> Stateful code is state passing. \<^verbatim>\<open>Machines\<close> has the locales of the interfaces the stateful
    components share: predicates that operations keep, invariants, read models built from
    outputs, simulation by an abstract machine and guarded outputs. Each is interpreted on the
    operations of a component: the lanes, the projection, the step machine, the failure ledger and
    the completion cycle.

  \<^bold>\<open>Sessions and lanes.\<close> \<^verbatim>\<open>Core_Types\<close> has the data of \<^verbatim>\<open>golutra-agent-core\<close> (statuses, policies,
  verification records, loop decisions, turn phases). \<^verbatim>\<open>Question\<close> is \<^verbatim>\<open>core/question.rs\<close>:
  both validators accept exactly the well-formed requests and resolutions. \<^verbatim>\<open>Protocol_Event\<close> is
  \<^verbatim>\<open>protocol/event.rs\<close> with a decoded view of the payload. \<^verbatim>\<open>Lane\<close> is \<^verbatim>\<open>runtime/lane.rs\<close>, every
  operation of the manager over a map from sessions to lanes: a session has one active task, a
  prepared queued turn commits, a finished lane is final for guarded operations, under any
  interleaving. \<^verbatim>\<open>Projection\<close> is the reducer of \<^verbatim>\<open>store/projection.rs\<close>: reducing the events the lane
  manager emits gives the lane fields it holds, so the read model refines the manager.

  \<^bold>\<open>Turns.\<close> \<^verbatim>\<open>Provider_Session\<close> is \<^verbatim>\<open>runtime/provider_retry.rs\<close>, \<^verbatim>\<open>provider_recovery.rs\<close> and
  \<^verbatim>\<open>provider_session.rs\<close>: error classes, delays, the retry loops of both transports and the
  fallback provider. The loops recurse over the list of results the attempts have; a run that
  needs more results than the list holds is \<open>None\<close>, and one answer more than the retry budget,
  beyond the attempts that failed to connect, is enough for a result.
  \<^verbatim>\<open>Response_Control\<close> is \<^verbatim>\<open>runtime/response_control.rs\<close> and
  \<^verbatim>\<open>failure_guard.rs\<close>: only complete tool calls are accepted, silent continuations are bounded, and the
  ledger counts failures since the last change. \<^verbatim>\<open>Step_Machine\<close> is \<^verbatim>\<open>runtime/step_machine.rs\<close>: its
  saturating counters refine a monitor with unbounded ones. \<^verbatim>\<open>Governor\<close> is the governor crate: it
  permits exactly what is inside every budget and permitted by policy.

  \<^bold>\<open>Context.\<close> \<^verbatim>\<open>Compaction_Summary\<close> and \<^verbatim>\<open>Context_Window\<close> are the compaction of
  \<^verbatim>\<open>context/lib.rs\<close>: token estimates, message groups, kept user instructions, the summary envelope
  and its binary search, and the attribution of reported tokens. Compaction keeps every tool call
  with its answers, reaches its target where the newest group fits, never widens the visibility of a
  message, and a stored summary reads back. The binary search terminates by the distance of its ends.

  \<^bold>\<open>Verification and completion.\<close> \<^verbatim>\<open>Task_Contract\<close> and \<^verbatim>\<open>Task_Outcome\<close> are the contract and the outcome of
  \<^verbatim>\<open>golutra-agent-core\<close>. \<^verbatim>\<open>Verification\<close> is the verifier crate: the plan of assertions, their status and
  the verdict. \<^verbatim>\<open>Runtime_Verification\<close> is the gate of \<^verbatim>\<open>runtime/verification.rs\<close>: a governed pass meets
  the contract and rests on policy evidence. \<^verbatim>\<open>Tool_Failure\<close> is the failure family of
  \<^verbatim>\<open>core/tool.rs\<close>, which repeats nothing of a command but package names. \<^verbatim>\<open>Completion_Gate\<close> is the end of
  the completion cycle of the agent loop (\<^verbatim>\<open>runtime/lib.rs\<close>, \<^verbatim>\<open>completion.rs\<close>,
  \<^verbatim>\<open>correction_progress.rs\<close>, \<^verbatim>\<open>correction_feedback.rs\<close>): it composes the verifier, the governor's
  decision, the turn phases and the step machine. Success is reported only when it is earned, the
  message matches the decision, and corrections end, by their budget or for lack of progress.

  \<^bold>\<open>Tools and policy.\<close> \<^verbatim>\<open>Model_Patch\<close> and \<^verbatim>\<open>Model_Patch_Parser\<close> are \<^verbatim>\<open>tools/model_patch.rs\<close>: a hunk is
  placed exactly where its place is unique, a parsed patch names every file once, a rendered patch
  respects the originals, and the inputs on which the code panics are characterised.
  \<^verbatim>\<open>Shell_Words\<close>, \<^verbatim>\<open>Shell_Policy\<close> and \<^verbatim>\<open>Path_Policy\<close> are the policy crate: wrappers hide no command,
  a guarded shell allows only inert commands, an allowed path stays inside the workspace. Nested
  scripts take fuel, and the length of the command is enough: each nested script is shorter than
  the command that holds it. The loops over words and hunks recurse on what remains of a list.

  \<^bold>\<open>Parameters.\<close> Code of other packages is an argument: the bash grammar and the word splitter of
  the shell policy, the file system of the path policy, the unified diff of rendered patches, the
  Unicode tables of the governor, JSON printing and parsing with SHA-256 (\<^verbatim>\<open>Serde\<close>,
  \<^verbatim>\<open>Completion_Fns\<close>). Properties that rely on such code state what they use as hypotheses, and their
  witnesses give a concrete instance.

  \<^bold>\<open>Simplifications.\<close> The causal context of an event and the metadata of serialisation are left out.
  Paths are those of a Unix host and are compared by components, so a trailing slash is not
  distinguished. Traces of the completion cycle are left out; the observation it passes to the
  governor is represented by the decision, and the text of a correction with its redacted
  diagnostics is a parameter, over which the properties quantify.

  \<^bold>\<open>Not modelled.\<close> The provider and tool parts of the agent loop, the client, the servers and
  transports are asynchronous code over channels, cancellation and I/O. Tool execution, the
  sandbox and the supervisor act on processes and files. The stores are SQL and file formats. The
  model adapters and credentials talk to the network. The readers of tool reports in the runtime
  (objective evidence, freshness, checkpoints) are textual heuristics; their results are the input
  of the modelled verification. The context builder assembles records. User interfaces, project
  indexes, the memory store, evaluation, evolution and release tooling render, rank or drive external
  programs. The manifest lists each of them with its reason.
\<close>

end
